(* ===== verification/Prelude.thy ===== *)
theory Prelude
  imports Main "HOL-Library.Word"
begin

section \<open>Shared types, statements and interfaces\<close>

text \<open>
  What every component of the development uses: the machine integers, the laws that make an
  enumeration or a set of flags of C well-behaved (two locales, interpreted in the theories that
  declare the enumerations), and a small language of statements.  A statement maps a state to the
  next state, to the error with which the process exits, or to \<^const>\<open>None\<close> when it never ends (a
  busy-wait loop that nobody releases).  A member function of the program is a \<open>block\<close>, the list
  of its statements in the order of the source.
\<close>

type_synonym u8 = "8 word"
type_synonym u16 = "16 word"
type_synonym u32 = "32 word"
type_synonym u64 = "64 word"

text \<open>Addresses of a 64-bit process; NULL is 0.\<close>

type_synonym ptr = "64 word"

named_theorems stmt_simps \<open>equations that run statements\<close>
named_theorems triple_rules \<open>rules that derive a triple of a statement\<close>


subsection \<open>Flags: sets of bits in a word\<close>

text \<open>\<open>flag k\<close> is C's \<open>1 << k\<close>; \<open>flags_or bit fs\<close> is the bitwise or of the flags \<open>fs\<close>.\<close>

definition flag :: "nat \<Rightarrow> 'a::len word" where
  "flag k = push_bit k 1"

primrec flags_or :: "('f \<Rightarrow> nat) \<Rightarrow> 'f list \<Rightarrow> 'a::len word" where
  "flags_or bt [] = 0"
| "flags_or bt (f # fs) = or (flag (bt f)) (flags_or bt fs)"

text \<open>C's test \<open>w & (1 << k)\<close> as a condition.\<close>

definition has_flag :: "nat \<Rightarrow> 'a::len word \<Rightarrow> bool" where
  "has_flag k w \<longleftrightarrow> and w (flag k) \<noteq> 0"

lemma bit_flag [simp]: "bit (flag k :: 'a::len word) n \<longleftrightarrow> n = k \<and> k < LENGTH('a)"
  by (auto simp: flag_def bit_exp_iff)

lemma has_flag_iff_bit: "k < LENGTH('a) \<Longrightarrow> has_flag k (w :: 'a::len word) \<longleftrightarrow> bit w k"
  by (auto simp: has_flag_def bit_and_iff intro!: bit_word_eqI dest: arg_cong [of _ 0 "\<lambda>v. bit v k"])

lemma bit_flags_or:
  "bit (flags_or bt fs :: 'a::len word) n \<longleftrightarrow> n < LENGTH('a) \<and> n \<in> bt ` set fs"
  by (induction fs) (auto simp: bit_or_iff)

text \<open>
  The contract of an enumeration of flags: every flag has a bit of its own that fits a 32-bit
  word.  What the client of such an enumeration relies on is that testing one flag of an or of
  flags answers whether the flag is one of them.
\<close>

locale c_flags =
  fixes bt :: "'f \<Rightarrow> nat"
  assumes bt_inj: "bt f = bt g \<Longrightarrow> f = g"
    and bt_less: "bt f < 32"
begin

lemma test_flags_or: "has_flag (bt f) (flags_or bt fs :: u32) \<longleftrightarrow> f \<in> set fs"
  using bt_less [of f] by (auto simp: has_flag_iff_bit bit_flags_or dest: bt_inj)

lemma flags_or_eq_iff: "(flags_or bt fs :: u32) = flags_or bt gs \<longleftrightarrow> set fs = set gs"
proof
  assume eq: "(flags_or bt fs :: u32) = flags_or bt gs"
  have "f \<in> set fs \<longleftrightarrow> f \<in> set gs" for f
    using test_flags_or [of f fs] test_flags_or [of f gs] eq by simp
  then show "set fs = set gs" by blast
next
  assume "set fs = set gs"
  then show "(flags_or bt fs :: u32) = flags_or bt gs"
    by (auto intro: bit_word_eqI simp: bit_flags_or)
qed

lemma test_clear: "has_flag (bt g) (and w (not (flag (bt f))) :: u32) \<longleftrightarrow> g \<noteq> f \<and> has_flag (bt g) w"
  using bt_less [of f] bt_less [of g]
  by (auto simp: has_flag_iff_bit bit_and_iff bit_not_iff dest: bt_inj)

end


subsection \<open>Enumerations of codes\<close>

text \<open>
  The contract of an enumeration: \<open>enums\<close> lists its enumerators and their integers are distinct.
  Then an integer read from the library decodes to at most one enumerator.
\<close>

definition enum_of :: "('e \<Rightarrow> int) \<Rightarrow> 'e list \<Rightarrow> int \<Rightarrow> 'e option" where
  "enum_of val enums n = find (\<lambda>e. val e = n) enums"

locale c_enum =
  fixes val :: "'e \<Rightarrow> int"
    and enums :: "'e list"
  assumes enums_all: "e \<in> set enums"
    and val_distinct: "distinct (map val enums)"
begin

lemma val_eq_iff: "val e = val f \<longleftrightarrow> e = f"
  using val_distinct enums_all by (auto simp: distinct_map inj_on_def)

lemma decode_val: "enum_of val enums (val e) = Some e"
proof -
  have "find (\<lambda>f. val f = val e) enums \<noteq> None"
    using enums_all by (auto simp: find_None_iff)
  then obtain f where f: "find (\<lambda>f. val f = val e) enums = Some f" by blast
  then have "val f = val e" by (auto simp: find_Some_iff)
  with f show ?thesis by (simp add: enum_of_def val_eq_iff)
qed

lemma decode_iff: "enum_of val enums n = Some e \<longleftrightarrow> val e = n"
proof
  assume "enum_of val enums n = Some e"
  then show "val e = n" by (auto simp: enum_of_def find_Some_iff)
qed (use decode_val in auto)

end


subsection \<open>Statements\<close>

type_synonym ('s, 'e) stmt = "'s \<Rightarrow> ('e + 's) option"

definition skip :: "('s, 'e) stmt" where
  "skip s = Some (Inr s)"

definition assign :: "('s \<Rightarrow> 's) \<Rightarrow> ('s, 'e) stmt" where
  "assign f s = Some (Inr (f s))"

text \<open>\<open>exit_if b e\<close> is \<open>if (b) exit(1)\<close>; the error \<open>e\<close> names the message the source prints.\<close>

definition exit_if :: "('s \<Rightarrow> bool) \<Rightarrow> 'e \<Rightarrow> ('s, 'e) stmt" where
  "exit_if b e s = (if b s then Some (Inl e) else Some (Inr s))"

definition seq :: "('s, 'e) stmt \<Rightarrow> ('s, 'e) stmt \<Rightarrow> ('s, 'e) stmt" where
  "seq c d s = (case c s of None \<Rightarrow> None | Some (Inl e) \<Rightarrow> Some (Inl e) | Some (Inr t) \<Rightarrow> d t)"

primrec block :: "('s, 'e) stmt list \<Rightarrow> ('s, 'e) stmt" where
  "block [] = skip"
| "block (c # cs) = seq c (block cs)"

definition cond :: "('s \<Rightarrow> bool) \<Rightarrow> ('s, 'e) stmt \<Rightarrow> ('s, 'e) stmt \<Rightarrow> ('s, 'e) stmt" where
  "cond b c d s = (if b s then c s else d s)"

text \<open>\<open>for_each xs body\<close> runs the body for each element, in order.\<close>

definition for_each :: "'i list \<Rightarrow> ('i \<Rightarrow> ('s, 'e) stmt) \<Rightarrow> ('s, 'e) stmt" where
  "for_each xs body = block (map body xs)"

text \<open>
  A call into a library.  The library acts on a part of the state that \<open>get\<close> reads and \<open>put\<close>
  replaces, and returns a value; \<open>call\<close> stores the value, \<open>check\<close> exits when the value is bad.
\<close>

definition call :: "('s \<Rightarrow> 'm) \<Rightarrow> ('m \<Rightarrow> 's \<Rightarrow> 's) \<Rightarrow> ('s \<Rightarrow> 'm \<Rightarrow> 'r \<times> 'm) \<Rightarrow> ('r \<Rightarrow> 's \<Rightarrow> 's)
    \<Rightarrow> ('s, 'e) stmt" where
  "call get put f store s = (case f s (get s) of (r, m) \<Rightarrow> Some (Inr (store r (put m s))))"

definition check :: "('s \<Rightarrow> 'm) \<Rightarrow> ('m \<Rightarrow> 's \<Rightarrow> 's) \<Rightarrow> ('s \<Rightarrow> 'm \<Rightarrow> 'r \<times> 'm) \<Rightarrow> ('r \<Rightarrow> bool) \<Rightarrow> 'e
    \<Rightarrow> ('s, 'e) stmt" where
  "check get put f bad e s =
     (case f s (get s) of (r, m) \<Rightarrow> if bad r then Some (Inl e) else Some (Inr (put m s)))"

text \<open>
  A busy-wait loop \<open>while (!p) {}\<close>.  The loop itself changes nothing: between two tests the
  other threads of the process and the device run, which \<open>others\<close> stands for; \<open>others\<close> may also end
  the process (another thread calls \<open>exit\<close>).  The result is \<^const>\<open>None\<close> when \<open>p\<close> never becomes true.
\<close>

partial_function (option) await :: "('s \<Rightarrow> 'e + 's) \<Rightarrow> ('s \<Rightarrow> bool) \<Rightarrow> 's \<Rightarrow> ('e + 's) option" where
  "await others p s =
     (if p s then Some (Inr s)
      else (case others s of Inl e \<Rightarrow> Some (Inl e) | Inr t \<Rightarrow> await others p t))"

text \<open>A point where the other threads may take any number of steps before the next statement.\<close>

definition interleave :: "('s \<Rightarrow> 'e + 's) \<Rightarrow> ('s, 'e) stmt" where
  "interleave yield s = Some (yield s)"

lemma skip_run [stmt_simps]: "skip s = Some (Inr s)"
  by (simp add: skip_def)

lemma assign_run [stmt_simps]: "assign f s = Some (Inr (f s))"
  by (simp add: assign_def)

lemma block_Nil [stmt_simps]: "block [] s = Some (Inr s)"
  by (simp add: skip_def)

lemma block_Cons [stmt_simps]: "block (c # cs) s = seq c (block cs) s"
  by simp

declare block.simps [simp del]
declare seq_def [stmt_simps] exit_if_def [stmt_simps] cond_def [stmt_simps] for_each_def [stmt_simps]
declare call_def [stmt_simps] check_def [stmt_simps] interleave_def [stmt_simps]

lemma seq_assoc: "seq (seq a b) c = seq a (seq b c)"
  by (rule ext) (simp add: seq_def split: option.splits sum.splits)

lemma seq_skip [simp]: "seq skip c = c" "seq c skip = c"
  by (rule ext, simp add: seq_def skip_def split: option.splits sum.splits)+

lemma block_append: "block (cs @ ds) = seq (block cs) (block ds)"
  by (induction cs) (simp_all add: block.simps seq_assoc)


subsection \<open>Triples\<close>

text \<open>
  \<open>triple p c q\<close>: whenever \<open>c\<close> runs to its end from a state with \<open>p\<close>, the final state has \<open>q\<close>.
  The rules follow the statements; the rule of \<open>await\<close> needs an invariant of the other threads.
\<close>

definition triple :: "('s \<Rightarrow> bool) \<Rightarrow> ('s, 'e) stmt \<Rightarrow> ('s \<Rightarrow> bool) \<Rightarrow> bool" where
  "triple p c q \<longleftrightarrow> (\<forall>s t. p s \<longrightarrow> c s = Some (Inr t) \<longrightarrow> q t)"

lemma tripleD: "triple p c q \<Longrightarrow> p s \<Longrightarrow> c s = Some (Inr t) \<Longrightarrow> q t"
  by (auto simp: triple_def)

lemma triple_weaken:
  "triple p c q \<Longrightarrow> (\<And>s. p' s \<Longrightarrow> p s) \<Longrightarrow> (\<And>s. q s \<Longrightarrow> q' s) \<Longrightarrow> triple p' c q'"
  by (auto simp: triple_def)

lemma triple_skip [triple_rules]: "triple p skip p"
  by (simp add: triple_def skip_def)

lemma triple_assign [triple_rules]: "(\<And>s. p s \<Longrightarrow> q (f s)) \<Longrightarrow> triple p (assign f) q"
  by (simp add: triple_def assign_def)

lemma triple_exit_if [triple_rules]:
  "(\<And>s. p s \<Longrightarrow> \<not> b s \<Longrightarrow> q s) \<Longrightarrow> triple p (exit_if b e) q"
  by (simp add: triple_def exit_if_def split: if_splits)

lemma triple_seq: "triple p c r \<Longrightarrow> triple r d q \<Longrightarrow> triple p (seq c d) q"
  by (auto simp: triple_def seq_def split: option.splits sum.splits)

lemma triple_block_Nil [triple_rules]: "(\<And>s. p s \<Longrightarrow> q s) \<Longrightarrow> triple p (block []) q"
  by (simp add: triple_def block.simps skip_def)

lemma triple_block_Cons: "triple p c r \<Longrightarrow> triple r (block cs) q \<Longrightarrow> triple p (block (c # cs)) q"
  unfolding block.simps by (rule triple_seq)

lemma triple_cond [triple_rules]:
  "triple (\<lambda>s. p s \<and> b s) c q \<Longrightarrow> triple (\<lambda>s. p s \<and> \<not> b s) d q \<Longrightarrow> triple p (cond b c d) q"
  by (auto simp: triple_def cond_def split: if_splits)

lemma triple_call [triple_rules]:
  "(\<And>s r m. p s \<Longrightarrow> f s (get s) = (r, m) \<Longrightarrow> q (store r (put m s))) \<Longrightarrow>
   triple p (call get put f store) q"
  by (auto simp: triple_def call_def split: prod.splits)

lemma triple_check [triple_rules]:
  "(\<And>s r m. p s \<Longrightarrow> f s (get s) = (r, m) \<Longrightarrow> \<not> bad r \<Longrightarrow> q (put m s)) \<Longrightarrow>
   triple p (check get put f bad e) q"
  by (auto simp: triple_def check_def split: prod.splits if_splits)

lemma triple_interleave [triple_rules]:
  "(\<And>s t. p s \<Longrightarrow> yield s = Inr t \<Longrightarrow> q t) \<Longrightarrow> triple p (interleave yield) q"
  by (auto simp: triple_def interleave_def)

lemma await_invariant:
  fixes others :: "'s \<Rightarrow> 'e + 's"
  assumes ret: "await others p s = Some (Inr t)"
    and inv: "\<And>s s'. i s \<Longrightarrow> \<not> p s \<Longrightarrow> others s = Inr s' \<Longrightarrow> i s'"
    and start: "i s"
  shows "i t \<and> p t"
proof -
  have "others = others \<longrightarrow> p = p \<longrightarrow> (\<forall>u. (Inr t :: 'e + 's) = Inr u \<longrightarrow> i s \<longrightarrow> i u \<and> p u)"
  proof (rule await.raw_induct [where P = "\<lambda>oth q s r. oth = others \<longrightarrow> q = p \<longrightarrow>
      (\<forall>u. r = Inr u \<longrightarrow> i s \<longrightarrow> i u \<and> p u)", OF _ ret], intro allI impI)
    fix aw oth q s' r u
    assume IH: "\<And>oth q s r. aw oth q s = Some r \<Longrightarrow> oth = others \<longrightarrow> q = p \<longrightarrow>
        (\<forall>u. r = Inr u \<longrightarrow> i s \<longrightarrow> i u \<and> p u)"
      and eq: "(if q s' then Some (Inr s')
        else case oth s' of Inl e \<Rightarrow> Some (Inl e) | Inr t \<Rightarrow> aw oth q t) = Some r"
      and more: "oth = others" "q = p" "r = Inr u" "i s'"
    show "i u \<and> p u"
    proof (cases "p s'")
      case True
      with eq more show ?thesis by simp
    next
      case False
      with eq more obtain s'' where "others s' = Inr s''" "aw others p s'' = Some (Inr u)"
        by (auto split: sum.splits)
      with IH [of others p s'' "Inr u"] inv [OF more(4) False] show ?thesis by simp
    qed
  qed
  with start show ?thesis by simp
qed

lemma triple_await:
  assumes "\<And>s t. p s \<Longrightarrow> \<not> b s \<Longrightarrow> others s = Inr t \<Longrightarrow> p t"
    and "\<And>s. p s \<Longrightarrow> b s \<Longrightarrow> q s"
  shows "triple p (await others b) q"
  unfolding triple_def
proof (intro allI impI)
  fix s t
  assume p: "p s" and a: "await others b s = Some (Inr t)"
  have "p t \<and> b t" by (rule await_invariant [where i = p, OF a assms(1) p])
  with assms(2) show "q t" by blast
qed

lemma triple_for_each:
  assumes "\<And>i. i \<in> set xs \<Longrightarrow> triple p (body i) p"
  shows "triple p (for_each xs body) p"
  using assms
  by (induction xs)
    (auto simp: for_each_def intro!: triple_block_Nil triple_block_Cons)

text \<open>
  A busy-wait loop ends as soon as the other threads make its condition true: liveness of every
  wait of the program is reduced to what the others do.
\<close>

lemma await_now [stmt_simps]: "p s \<Longrightarrow> await others p s = Some (Inr s)"
  by (simp add: await.simps)

lemma await_step: "\<not> p s \<Longrightarrow> others s = Inr t \<Longrightarrow> await others p s = await others p t"
  by (simp add: await.simps [of others p s])

primrec run_others :: "('s \<Rightarrow> 'e + 's) \<Rightarrow> nat \<Rightarrow> 's \<Rightarrow> 'e + 's" where
  "run_others others 0 s = Inr s"
| "run_others others (Suc n) s = (case others s of Inl e \<Rightarrow> Inl e | Inr t \<Rightarrow> run_others others n t)"

lemma await_returns:
  assumes "run_others others n s = Inr t" and "p t"
  shows "\<exists>k u. k \<le> n \<and> run_others others k s = Inr u \<and> p u \<and> await others p s = Some (Inr u)"
  using assms
proof (induction n arbitrary: s)
  case 0
  then have "run_others others 0 s = Inr s \<and> p s \<and> await others p s = Some (Inr s)"
    by (simp add: await_now)
  then show ?case by (metis order_refl)
next
  case (Suc n)
  show ?case
  proof (cases "p s")
    case True
    then have "run_others others 0 s = Inr s \<and> p s \<and> await others p s = Some (Inr s)"
      by (simp add: await_now)
    then show ?thesis by (metis le0)
  next
    case False
    from Suc.prems(1) obtain s' where s': "others s = Inr s'" "run_others others n s' = Inr t"
      by (auto split: sum.splits)
    from Suc.IH [OF s'(2) Suc.prems(2)] obtain k u
      where "k \<le> n" "run_others others k s' = Inr u" "p u" "await others p s' = Some (Inr u)"
      by blast
    with s' False have "Suc k \<le> Suc n \<and> run_others others (Suc k) s = Inr u \<and> p u
        \<and> await others p s = Some (Inr u)"
      by (simp add: await_step)
    then show ?thesis by blast
  qed
qed

end
