(* ===== verification/Memory.thy ===== *)
theory Memory
  imports Prelude
begin

section \<open>Bytes, byte order and memory\<close>

text \<open>
  Process memory is a function from addresses to bytes.  A little-endian host stores a word with
  its least significant byte first (\<open>le_bytes\<close>); \<open>htobe16/32/64\<close> and \<open>be16/32/64toh\<close> of
  \<open><endian.h>\<close> reverse the bytes of a word on such a host.  The locale \<open>byte_store\<close> is the contract
  that the components rely on when they write a buffer and read it back (or hand it to the
  device); the functions below interpret it.
\<close>

subsection \<open>Words as bytes\<close>

lemma unat_of_nat_small: "k < 2 ^ LENGTH('a) \<Longrightarrow> unat (of_nat k :: 'a::len word) = k"
  by (simp add: unat_of_nat)

definition le_bytes :: "nat \<Rightarrow> 'a::len word \<Rightarrow> u8 list" where
  "le_bytes n x = map (\<lambda>i. ucast (drop_bit (8 * i) x)) [0..<n]"

primrec le_word :: "u8 list \<Rightarrow> 'a::len word" where
  "le_word [] = 0"
| "le_word (b # bs) = or (ucast b) (push_bit 8 (le_word bs))"

lemma length_le_bytes [simp]: "length (le_bytes n x) = n"
  by (simp add: le_bytes_def)

lemma bit_le_word:
  "bit (le_word bs :: 'a::len word) k \<longleftrightarrow>
     k < LENGTH('a) \<and> k div 8 < length bs \<and> bit (bs ! (k div 8)) (k mod 8)"
proof (induction bs arbitrary: k)
  case Nil
  then show ?case by simp
next
  case (Cons b bs)
  show ?case
  proof (cases "k < 8")
    case True
    then show ?thesis by (auto simp: bit_or_iff bit_ucast_iff bit_push_bit_iff)
  next
    case False
    then have "k div 8 = Suc ((k - 8) div 8)" "k mod 8 = (k - 8) mod 8"
      by (auto simp: le_div_geq le_mod_geq)
    moreover have "\<not> bit b k" using False by (auto dest: bit_imp_le_length)
    ultimately show ?thesis using False Cons[of "k - 8"]
      by (auto simp: bit_or_iff bit_ucast_iff bit_push_bit_iff)
  qed
qed

lemma le_word_le_bytes:
  assumes "LENGTH('a) \<le> 8 * n"
  shows "le_word (le_bytes n (x :: 'a::len word)) = x"
proof (rule bit_word_eqI)
  fix k assume "k < LENGTH('a)"
  then show "bit (le_word (le_bytes n x) :: 'a word) k = bit x k"
    using assms by (auto simp: bit_le_word le_bytes_def bit_ucast_iff bit_drop_bit_eq)
qed

lemma le_bytes_le_word:
  assumes "8 * length bs \<le> LENGTH('a)"
  shows "le_bytes (length bs) (le_word bs :: 'a::len word) = bs"
proof (rule nth_equalityI)
  show "length (le_bytes (length bs) (le_word bs :: 'a word)) = length bs" by simp
  fix i assume "i < length (le_bytes (length bs) (le_word bs :: 'a word))"
  then have i: "i < length bs" by simp
  show "le_bytes (length bs) (le_word bs :: 'a word) ! i = bs ! i"
  proof (rule bit_word_eqI)
    fix k assume k: "k < LENGTH(8)"
    have "(8 * i + k) div 8 = i" "(8 * i + k) mod 8 = k" using k by auto
    then show "bit (le_bytes (length bs) (le_word bs :: 'a word) ! i) k = bit (bs ! i) k"
      using i k assms by (auto simp: le_bytes_def bit_ucast_iff bit_drop_bit_eq bit_le_word)
  qed
qed

text \<open>Reversing the bytes of a word: what \<open>htobe*\<close> and \<open>be*toh\<close> do on a little-endian host.\<close>

definition bswap :: "'a::len word \<Rightarrow> 'a word" where
  "bswap x = le_word (rev (le_bytes (LENGTH('a) div 8) x))"

definition htobe16 :: "u16 \<Rightarrow> u16" where "htobe16 = bswap"

definition htobe32 :: "u32 \<Rightarrow> u32" where "htobe32 = bswap"

definition htobe64 :: "u64 \<Rightarrow> u64" where "htobe64 = bswap"

definition be32toh :: "u32 \<Rightarrow> u32" where "be32toh = bswap"

definition be64toh :: "u64 \<Rightarrow> u64" where "be64toh = bswap"

lemma le_bytes_bswap:
  "8 * (LENGTH('a) div 8) = LENGTH('a) \<Longrightarrow>
   le_bytes (LENGTH('a) div 8) (bswap x) = rev (le_bytes (LENGTH('a) div 8) (x :: 'a::len word))"
  using le_bytes_le_word [of "rev (le_bytes (LENGTH('a) div 8) x)", where 'a = 'a]
  by (simp add: bswap_def)

lemma bswap_bswap: "8 * (LENGTH('a) div 8) = LENGTH('a) \<Longrightarrow> bswap (bswap x) = (x :: 'a::len word)"
  using le_bytes_bswap [of x] le_word_le_bytes [of "LENGTH('a) div 8" x]
  by (subst bswap_def) (simp add: rev_swap)

lemma be32toh_htobe32 [simp]: "be32toh (htobe32 x) = x"
  by (simp add: be32toh_def htobe32_def bswap_bswap)

lemma be64toh_htobe64 [simp]: "be64toh (htobe64 x) = x"
  by (simp add: be64toh_def htobe64_def bswap_bswap)

lemma htobe32_be32toh [simp]: "htobe32 (be32toh x) = x"
  by (simp add: be32toh_def htobe32_def bswap_bswap)

lemma htobe32_eq_iff [simp]: "htobe32 x = htobe32 y \<longleftrightarrow> x = y"
  by (metis be32toh_htobe32)

lemma le_bytes_htobe16: "le_bytes 2 (htobe16 x) = rev (le_bytes 2 x)"
  using le_bytes_bswap [of x] by (simp add: htobe16_def)

lemma le_bytes_htobe32: "le_bytes 4 (htobe32 x) = rev (le_bytes 4 x)"
  using le_bytes_bswap [of x] by (simp add: htobe32_def)

lemma le_bytes_htobe64: "le_bytes 8 (htobe64 x) = rev (le_bytes 8 x)"
  using le_bytes_bswap [of x] by (simp add: htobe64_def)


subsection \<open>The contract of a byte store\<close>

text \<open>
  \<open>inside p n q k\<close>: the \<open>k\<close> bytes at \<open>q\<close> lie in the \<open>n\<close> bytes at \<open>p\<close>; \<open>apart\<close>: no byte of the one
  range is a byte of the other.  Ranges may wrap around the address space.
\<close>

definition apart :: "ptr \<Rightarrow> nat \<Rightarrow> ptr \<Rightarrow> nat \<Rightarrow> bool" where
  "apart p n q k \<longleftrightarrow> (\<forall>i < k. n \<le> unat (q + of_nat i - p))"

locale byte_store =
  fixes rd :: "'m \<Rightarrow> ptr \<Rightarrow> nat \<Rightarrow> u8 list"
    and wr :: "'m \<Rightarrow> ptr \<Rightarrow> u8 list \<Rightarrow> 'm"
  assumes length_rd: "length (rd m p n) = n"
    and rd_wr: "length bs \<le> 2 ^ 64 \<Longrightarrow> rd (wr m p bs) p (length bs) = bs"
    and rd_wr_apart: "apart p (length bs) q k \<Longrightarrow> rd (wr m p bs) q k = rd m q k"
    and rd_append: "rd m p (n + k) = rd m p n @ rd m (p + of_nat n) k"
begin

lemma rd_part: "i + k \<le> n \<Longrightarrow> rd m (p + of_nat i) k = take k (drop i (rd m p n))"
proof -
  assume le: "i + k \<le> n"
  have "rd m p n = rd m p i @ rd m (p + of_nat i) (n - i)"
    using rd_append [of m p i "n - i"] le by simp
  moreover have "rd m (p + of_nat i) (n - i) =
      rd m (p + of_nat i) k @ rd m (p + of_nat i + of_nat k) (n - i - k)"
    using rd_append [of m "p + of_nat i" k "n - i - k"] le by simp
  ultimately show ?thesis by (simp add: length_rd)
qed

lemma rd_wr_part:
  assumes "length bs \<le> 2 ^ 64" and "i + k \<le> length bs"
  shows "rd (wr m p bs) (p + of_nat i) k = take k (drop i bs)"
  using rd_part [OF assms(2), of "wr m p bs" p] rd_wr [OF assms(1)] by simp

end


subsection \<open>Process memory\<close>

type_synonym memory = "ptr \<Rightarrow> u8"

definition read_bytes :: "memory \<Rightarrow> ptr \<Rightarrow> nat \<Rightarrow> u8 list" where
  "read_bytes m p n = map (\<lambda>i. m (p + of_nat i)) [0..<n]"

definition write_bytes :: "memory \<Rightarrow> ptr \<Rightarrow> u8 list \<Rightarrow> memory" where
  "write_bytes m p bs =
     (\<lambda>a. if unat (a - p) < length bs then bs ! unat (a - p) else m a)"

text \<open>\<open>memcpy\<close> of the C library.\<close>

definition memcpy :: "memory \<Rightarrow> ptr \<Rightarrow> ptr \<Rightarrow> nat \<Rightarrow> memory" where
  "memcpy m dst src n = write_bytes m dst (read_bytes m src n)"

lemma length_read_bytes [simp]: "length (read_bytes m p n) = n"
  by (simp add: read_bytes_def)

lemma read_write_bytes:
  assumes "length bs \<le> 2 ^ 64"
  shows "read_bytes (write_bytes m p bs) p (length bs) = bs"
proof (rule nth_equalityI)
  fix i assume "i < length (read_bytes (write_bytes m p bs) p (length bs))"
  then have i: "i < length bs" by simp
  then have "unat (of_nat i :: ptr) = i"
    using assms by (intro unat_of_nat_small) simp
  with i show "read_bytes (write_bytes m p bs) p (length bs) ! i = bs ! i"
    by (simp add: read_bytes_def write_bytes_def)
qed simp

lemma read_write_apart:
  "apart p (length bs) q k \<Longrightarrow> read_bytes (write_bytes m p bs) q k = read_bytes m q k"
  by (auto simp: read_bytes_def write_bytes_def apart_def not_less[symmetric])

lemma read_bytes_append: "read_bytes m p (n + k) = read_bytes m p n @ read_bytes m (p + of_nat n) k"
proof -
  have "[0..<n + k] = [0..<n] @ map (\<lambda>i. n + i) [0..<k]"
    using upt_add_eq_append [of 0 n k] map_add_upt [of n k] by (simp add: add.commute)
  then show ?thesis by (simp add: read_bytes_def add.assoc)
qed

interpretation pm: byte_store read_bytes write_bytes
  by unfold_locales (simp_all add: read_write_bytes read_write_apart read_bytes_append)

text \<open>Loads and stores of words, little-endian.\<close>

definition load_word :: "memory \<Rightarrow> ptr \<Rightarrow> 'a::len word" where
  "load_word m p = le_word (read_bytes m p (LENGTH('a) div 8))"

definition store_word :: "memory \<Rightarrow> ptr \<Rightarrow> 'a::len word \<Rightarrow> memory" where
  "store_word m p x = write_bytes m p (le_bytes (LENGTH('a) div 8) x)"

lemma load_store32 [simp]: "load_word (store_word m p (x :: u32)) p = x"
  using pm.rd_wr [of "le_bytes 4 x" m p] le_word_le_bytes [of 4 x]
  by (simp add: load_word_def store_word_def)

lemma load_store64 [simp]: "load_word (store_word m p (x :: u64)) p = x"
  using pm.rd_wr [of "le_bytes 8 x" m p] le_word_le_bytes [of 8 x]
  by (simp add: load_word_def store_word_def)

text \<open>
  Two ranges of a block at small offsets are apart: the addresses \<open>p + i\<close> and \<open>p + j\<close> of a block
  are as far apart as their offsets.
\<close>

lemma apart_offsets:
  assumes "i + n \<le> j \<or> j + k \<le> i" and "i + n < 2 ^ 63" and "j + k < 2 ^ 63"
  shows "apart (p + of_nat i) n (p + of_nat j) k"
  unfolding apart_def
proof (intro allI impI)
  fix l assume l: "l < k"
  show "n \<le> unat (p + of_nat j + of_nat l - (p + of_nat i))"
  proof (cases "i \<le> j + l")
    case True
    have "p + of_nat j + of_nat l - (p + of_nat i) = of_nat (j + l - i)"
      using True by (simp add: of_nat_diff)
    moreover have "unat (of_nat (j + l - i) :: ptr) = j + l - i"
      using assms(3) l by (intro unat_of_nat_small) simp
    ultimately have "unat (p + of_nat j + of_nat l - (p + of_nat i)) = j + l - i" by simp
    then show ?thesis using assms(1) True l by (auto simp del: of_nat_add)
  next
    case False
    then have "p + of_nat j + of_nat l - (p + of_nat i) = - of_nat (i - (j + l))"
      by (simp add: of_nat_diff)
    moreover have "- of_nat (i - (j + l)) = (of_nat (2 ^ 64 - (i - (j + l))) :: ptr)"
      using assms(2) by (subst of_nat_diff) simp_all
    moreover have "unat (of_nat (2 ^ 64 - (i - (j + l))) :: ptr) = 2 ^ 64 - (i - (j + l))"
      using False by (intro unat_of_nat_small) simp
    ultimately show ?thesis using assms(2) by simp
  qed
qed

end
