(* ===== verification/Common_Tools.thy ===== *)
theory Common_Tools
  imports Memory
begin

section \<open>The tools of common.c\<close>

text \<open>
  The helpers of common.c and include/common.h: formatting of sizes and counts, the running byte
  pattern of \<open>format_buf\<close> and \<open>verify_buf\<close> (\<open>Common_Cm\<close> has the rest of the file).  The functions on \<open>long long\<close> are over \<^typ>\<open>int\<close>: every intermediate value
  of theirs is bounded by the argument.
\<close>

subsection \<open>Sizes and counts as text\<close>

text \<open>The decimal digits that \<open>printf\<close> writes for \<open>%lld\<close>.\<close>

definition digit_char :: "nat \<Rightarrow> char" where
  "digit_char d = char_of (48 + d)"

fun show_nat :: "nat \<Rightarrow> string" where
  "show_nat n = (if n < 10 then [digit_char n] else show_nat (n div 10) @ [digit_char (n mod 10)])"

declare show_nat.simps [simp del]

definition show_int :: "int \<Rightarrow> string" where
  "show_int i = (if i < 0 then CHR ''-'' # show_nat (nat (- i)) else show_nat (nat i))"

text \<open>
  \<open>snprintf (str, ssize, ...)\<close> writes at most \<open>ssize - 1\<close> characters of the text and a NUL, nothing
  when \<open>ssize\<close> is 0.  The result is the characters written.
\<close>

definition snprintf :: "nat \<Rightarrow> string \<Rightarrow> string" where
  "snprintf ssize txt = (if ssize = 0 then [] else take (ssize - 1) txt @ [CHR 0x00])"

text \<open>C's \<open>/\<close> and \<open>%\<close> round towards zero.\<close>

definition cdiv :: "int \<Rightarrow> int \<Rightarrow> int" where
  "cdiv a b = sgn a * sgn b * (\<bar>a\<bar> div \<bar>b\<bar>)"

definition cmod :: "int \<Rightarrow> int \<Rightarrow> int" where
  "cmod a b = a - cdiv a b * b"

text \<open>The unit that \<open>size_str\<close> picks: its size and its letter, NUL for plain bytes.\<close>

definition size_unit :: "int \<Rightarrow> int \<times> char" where
  "size_unit sz =
     (if sz \<ge> 2 ^ 30 then (2 ^ 30, CHR ''g'')
      else if sz \<ge> 2 ^ 20 then (2 ^ 20, CHR ''m'')
      else if sz \<ge> 2 ^ 10 then (2 ^ 10, CHR ''k'')
      else (1, CHR 0x00))"

definition size_fraction :: "int \<Rightarrow> int \<Rightarrow> int" where
  "size_fraction sz base =
     (if cdiv sz base < 10 then cdiv (cmod sz base * 10) base else 0)"

definition size_str :: "nat \<Rightarrow> int \<Rightarrow> string" where
  "size_str ssize sz =
     (case size_unit sz of (base, mag) \<Rightarrow>
        let fraction = size_fraction sz base in
        if fraction \<noteq> 0
        then snprintf ssize (show_int (cdiv sz base) @ ''.'' @ show_int fraction @ [mag])
        else snprintf ssize (show_int (cdiv sz base) @ [mag]))"

definition cnt_str :: "nat \<Rightarrow> int \<Rightarrow> string" where
  "cnt_str ssize cnt =
     (if cnt \<ge> 1000000000 then snprintf ssize (show_int (cdiv cnt 1000000000) @ ''b'')
      else if cnt \<ge> 1000000 then snprintf ssize (show_int (cdiv cnt 1000000) @ ''m'')
      else if cnt \<ge> 1000 then snprintf ssize (show_int (cdiv cnt 1000) @ ''k'')
      else snprintf ssize (show_int cnt))"

definition size_to_count :: "int \<Rightarrow> int" where
  "size_to_count sz =
     (if sz \<ge> 2 ^ 20 then 100
      else if sz \<ge> 2 ^ 16 then 1000
      else if sz \<ge> 2 ^ 10 then 10000
      else 100000)"

lemma cdiv_nonneg: "0 \<le> a \<Longrightarrow> 0 < b \<Longrightarrow> cdiv a b = a div b"
  by (cases "a = 0") (simp_all add: cdiv_def)

lemma cmod_nonneg: "0 \<le> a \<Longrightarrow> 0 < b \<Longrightarrow> cmod a b = a mod b"
  by (simp add: cmod_def cdiv_nonneg minus_div_mult_eq_mod)

lemma length_snprintf: "length (snprintf ssize txt) \<le> ssize"
  by (auto simp: snprintf_def)

lemma size_unit_cases:
  obtains (plain) "sz < 2 ^ 10" "size_unit sz = (1, CHR 0x00)"
  | (unit) base mag where "size_unit sz = (base, mag)" "base \<in> {2 ^ 10, 2 ^ 20, 2 ^ 30}"
      "base \<le> sz" "mag \<in> {CHR ''k'', CHR ''m'', CHR ''g''}"
proof -
  have "sz < 2 ^ 10 \<or> 2 ^ 10 \<le> sz" by linarith
  then show ?thesis
    using that by (cases "2 ^ 30 \<le> sz"; cases "2 ^ 20 \<le> sz"; cases "2 ^ 10 \<le> sz")
      (auto simp: size_unit_def)
qed

lemma size_unit_base: "size_unit sz = (base, mag) \<Longrightarrow> base \<in> {1, 2 ^ 10, 2 ^ 20, 2 ^ 30}"
  by (auto simp: size_unit_def split: if_splits)

lemma size_fraction_digit:
  assumes "size_unit sz = (base, mag)"
  shows "0 \<le> size_fraction sz base \<and> size_fraction sz base < 10"
proof (cases rule: size_unit_cases [of sz])
  case plain
  then have b: "base = 1" using assms by simp
  have "cmod sz 1 = 0" by (simp add: cmod_def cdiv_def abs_mult_sgn mult.commute)
  with b show ?thesis by (simp add: size_fraction_def cdiv_def)
next
  case (unit base' mag')
  with assms have b: "base \<in> {2 ^ 10, 2 ^ 20, 2 ^ 30}" "base \<le> sz" by simp_all
  then have pos: "0 < base" "0 \<le> sz" by auto
  then have m: "0 \<le> sz mod base" "sz mod base < base" by simp_all
  then have "sz mod base * 10 div base < 10"
    using b by auto
  with pos m show ?thesis
    by (simp add: size_fraction_def cmod_nonneg cdiv_nonneg pos_imp_zdiv_nonneg_iff)
qed

text \<open>The digits of \<open>printf\<close> determine the number.\<close>

definition read_nat :: "string \<Rightarrow> nat" where
  "read_nat cs = foldl (\<lambda>n c. 10 * n + (of_char c - 48)) 0 cs"

lemma read_show_nat: "read_nat (show_nat n) = n"
proof (induction n rule: show_nat.induct)
  case (1 n)
  have d: "of_char (digit_char k) = 48 + k" if "k < 10" for k :: nat
    using that by (simp add: digit_char_def)
  show ?case
  proof (cases "n < 10")
    case True
    then show ?thesis by (subst show_nat.simps) (simp add: read_nat_def d)
  next
    case False
    with 1 have "foldl (\<lambda>n c. 10 * n + (of_char c - 48)) 0 (show_nat (n div 10)) = n div 10"
      by (simp add: read_nat_def)
    with False show ?thesis by (subst show_nat.simps) (simp add: read_nat_def d)
  qed
qed

lemma length_show_nat: "n < 10 ^ k \<Longrightarrow> 0 < k \<Longrightarrow> length (show_nat n) \<le> k"
proof (induction n arbitrary: k rule: show_nat.induct)
  case (1 n)
  show ?case
  proof (cases "n < 10")
    case True
    with 1 show ?thesis by (subst show_nat.simps) simp
  next
    case False
    with "1.prems" obtain j where k: "k = Suc j" "0 < j"
      by (cases k; cases "k - 1") auto
    with "1.prems" have "n div 10 < 10 ^ j" by (simp add: div_less_iff_less_mult mult.commute)
    with False "1.IH" k have "length (show_nat (n div 10)) \<le> j" by simp
    with False k show ?thesis by (subst show_nat.simps) simp
  qed
qed

lemma length_show_int: "\<bar>i\<bar> < 10 ^ k \<Longrightarrow> 0 < k \<Longrightarrow> length (show_int i) \<le> Suc k"
proof -
  assume b: "\<bar>i\<bar> < 10 ^ k" and k: "0 < k"
  have "nat \<bar>i\<bar> < 10 ^ k" using b by (simp add: nat_less_iff)
  then have "length (show_nat (nat \<bar>i\<bar>)) \<le> k" using k by (rule length_show_nat)
  then show ?thesis by (auto simp: show_int_def)
qed

text \<open>
  The number shown rounds down: the integer part is \<open>size div base\<close> and, below ten units, the
  digit after the point is the number of whole tenths that remain.
\<close>

lemma size_fraction_tenths:
  assumes "size_unit sz = (base, mag)" and "0 \<le> sz" and "sz div base < 10"
  shows "(10 * (sz div base) + size_fraction sz base) * base \<le> 10 * sz"
    and "10 * sz < (10 * (sz div base) + size_fraction sz base + 1) * base"
proof -
  have pos: "0 < base" using size_unit_base [OF assms(1)] by auto
  have f: "size_fraction sz base = sz mod base * 10 div base"
    using assms pos by (simp add: size_fraction_def cmod_nonneg cdiv_nonneg)
  have s: "sz * 10 = base * (sz div base) * 10 + sz mod base * 10"
    by (metis distrib_right mult_div_mod_eq)
  have lo: "sz mod base * 10 div base * base \<le> sz mod base * 10"
    using pos by (simp add: minus_mod_eq_div_mult [symmetric])
  have hi: "sz mod base * 10 < (sz mod base * 10 div base + 1) * base"
    using pos by (metis add.commute add_left_cancel div_mult_mod_eq distrib_right mult_1
        pos_mod_bound add_less_cancel_left)
  show "(10 * (sz div base) + size_fraction sz base) * base \<le> 10 * sz"
    using lo s f by (simp add: algebra_simps)
  show "10 * sz < (10 * (sz div base) + size_fraction sz base + 1) * base"
    using hi s f by (simp add: algebra_simps)
qed


subsection \<open>The running byte pattern\<close>

text \<open>
  \<open>format_buf\<close> and \<open>verify_buf\<close> each keep a counter in a static variable, which the definitions
  take and return: \<open>format_buf\<close> stores successive counter values, \<open>verify_buf\<close> compares them.
  \<open>data++\<close> happens with the comparison, also when it fails; \<open>total_bytes++\<close> only after success.
\<close>

fun format_loop :: "nat \<Rightarrow> ptr \<Rightarrow> u8 \<Rightarrow> memory \<Rightarrow> u8 \<times> memory" where
  "format_loop 0 p data m = (data, m)"
| "format_loop (Suc n) p data m = format_loop n (p + 1) (data + 1) (m(p := data))"

definition format_buf :: "u8 \<Rightarrow> memory \<Rightarrow> ptr \<Rightarrow> int \<Rightarrow> u8 \<times> memory" where
  "format_buf data m buf sz = format_loop (nat sz) buf data m"

record verify_state =
  total_bytes :: int
  verify_data :: u8

fun verify_loop :: "nat \<Rightarrow> ptr \<Rightarrow> verify_state \<Rightarrow> memory \<Rightarrow> verify_state \<times> int" where
  "verify_loop 0 p v m = (v, 0)"
| "verify_loop (Suc n) p v m =
     (if m p \<noteq> verify_data v then (v\<lparr>verify_data := verify_data v + 1\<rparr>, -1)
      else verify_loop n (p + 1)
        \<lparr>total_bytes = total_bytes v + 1, verify_data = verify_data v + 1\<rparr> m)"

definition verify_buf :: "verify_state \<Rightarrow> memory \<Rightarrow> ptr \<Rightarrow> int \<Rightarrow> verify_state \<times> int" where
  "verify_buf v m buf sz = verify_loop (nat sz) buf v m"

text \<open>The specification: the pattern that starts with a counter value.\<close>

definition pattern :: "u8 \<Rightarrow> nat \<Rightarrow> u8 list" where
  "pattern d n = map (\<lambda>i. d + of_nat i) [0..<n]"

lemma pattern_Suc: "pattern d (Suc n) = d # pattern (d + 1) n"
proof -
  have "[0..<Suc n] = 0 # map Suc [0..<n]" by (simp add: upt_conv_Cons map_Suc_upt del: upt_Suc)
  then show ?thesis by (simp add: pattern_def add.assoc del: upt_Suc)
qed

lemma length_pattern [simp]: "length (pattern d n) = n"
  by (simp add: pattern_def)

lemma pattern_add: "pattern d (n + k) = pattern d n @ pattern (d + of_nat n) k"
  by (induction n arbitrary: d) (simp_all add: pattern_Suc add.assoc, simp add: pattern_def)

lemma read_bytes_Suc: "read_bytes m p (Suc n) = m p # read_bytes m (p + 1) n"
  using pm.rd_append [of m p 1 n] by (simp add: read_bytes_def)

lemma format_loop_counter: "fst (format_loop n p d m) = d + of_nat n"
  by (induction n p d m rule: format_loop.induct) (simp_all add: add.assoc fun_upd_def)

lemma format_loop_frame:
  "(\<And>i. i < n \<Longrightarrow> q \<noteq> p + of_nat i) \<Longrightarrow> snd (format_loop n p d m) q = m q"
proof (induction n p d m rule: format_loop.induct)
  case (2 n p d m)
  have "q \<noteq> p" using "2.prems" [of 0] by simp
  moreover have "q \<noteq> p + 1 + of_nat i" if "i < n" for i
    using "2.prems" [of "Suc i"] that by (simp add: add.assoc)
  ultimately show ?case using "2.IH" by (simp add: fun_upd_def)
qed simp

lemma format_loop_bytes:
  "n < 2 ^ 64 \<Longrightarrow> read_bytes (snd (format_loop n p d m)) p n = pattern d n"
proof (induction n p d m rule: format_loop.induct)
  case (2 n p d m)
  have "p \<noteq> p + 1 + of_nat i" if "i < n" for i
  proof
    assume "p = p + 1 + of_nat i"
    then have "(of_nat (Suc i) :: ptr) = 0" by (simp add: add.assoc)
    then show False using "2.prems" that unat_of_nat_small [of "Suc i", where 'a = 64] by simp
  qed
  then have "snd (format_loop n (p + 1) (d + 1) (m(p := d))) p = d"
    by (subst format_loop_frame) auto
  with 2 show ?case by (simp add: read_bytes_Suc pattern_Suc fun_upd_def)
qed (simp add: read_bytes_def pattern_def)

lemma verify_loop_ok:
  "read_bytes m p n = pattern (verify_data v) n \<Longrightarrow>
   verify_loop n p v m =
     (\<lparr>total_bytes = total_bytes v + int n, verify_data = verify_data v + of_nat n\<rparr>, 0)"
  by (induction n p v m rule: verify_loop.induct)
    (auto simp: read_bytes_Suc pattern_Suc add.assoc)

lemma verify_loop_bad:
  assumes "k < n" and "read_bytes m p k = pattern (verify_data v) k"
    and "m (p + of_nat k) \<noteq> verify_data v + of_nat k"
  shows "verify_loop n p v m =
     (\<lparr>total_bytes = total_bytes v + int k, verify_data = verify_data v + of_nat k + 1\<rparr>, -1)"
  using assms
proof (induction n p v m arbitrary: k rule: verify_loop.induct)
  case (2 n p v m)
  show ?case
  proof (cases k)
    case 0
    with "2.prems" show ?thesis by simp
  next
    case (Suc j)
    with "2.prems" have "m p = verify_data v" and
      "read_bytes m (p + 1) j = pattern (verify_data v + 1) j"
      by (simp_all add: read_bytes_Suc pattern_Suc)
    moreover have "m (p + 1 + of_nat j) \<noteq> verify_data v + 1 + of_nat j"
      using "2.prems"(3) Suc by (simp add: add.assoc)
    ultimately show ?thesis
      using "2.IH" [of j] "2.prems"(1) Suc by (simp add: add.assoc)
  qed
qed simp

lemma first_mismatch:
  "length xs = length ys \<Longrightarrow> xs \<noteq> ys \<Longrightarrow>
   \<exists>k < length xs. take k xs = take k ys \<and> xs ! k \<noteq> ys ! k"
proof (induction xs ys rule: list_induct2)
  case (Cons x xs y ys)
  show ?case
  proof (cases "x = y")
    case True
    with Cons obtain k where "k < length xs" "take k xs = take k ys" "xs ! k \<noteq> ys ! k" by auto
    with True have "Suc k < length (x # xs) \<and> take (Suc k) (x # xs) = take (Suc k) (y # ys)
        \<and> (x # xs) ! Suc k \<noteq> (y # ys) ! Suc k" by simp
    then show ?thesis by blast
  next
    case False
    then have "0 < length (x # xs) \<and> take 0 (x # xs) = take 0 (y # ys) \<and> (x # xs) ! 0 \<noteq> (y # ys) ! 0"
      by simp
    then show ?thesis by blast
  qed
qed simp

lemma take_pattern: "k \<le> n \<Longrightarrow> take k (pattern d n) = pattern d k"
  using pattern_add [of d k "n - k"] by simp

lemma take_read_bytes: "k \<le> n \<Longrightarrow> take k (read_bytes m p n) = read_bytes m p k"
  using pm.rd_append [of m p k "n - k"] by simp

subsection \<open>What the tools guarantee\<close>

lemma verify_loop_iff:
  "snd (verify_loop n p v m) = 0 \<longleftrightarrow> read_bytes m p n = pattern (verify_data v) n"
proof
  assume ok: "snd (verify_loop n p v m) = 0"
  show "read_bytes m p n = pattern (verify_data v) n"
  proof (rule ccontr)
    assume ne: "read_bytes m p n \<noteq> pattern (verify_data v) n"
    then obtain k where k: "k < n" "take k (read_bytes m p n) = take k (pattern (verify_data v) n)"
      "read_bytes m p n ! k \<noteq> pattern (verify_data v) n ! k"
      using first_mismatch [of "read_bytes m p n" "pattern (verify_data v) n"] by auto
    have "read_bytes m p k = pattern (verify_data v) k"
      using k(1,2) by (simp add: take_read_bytes take_pattern)
    moreover have "m (p + of_nat k) \<noteq> verify_data v + of_nat k"
      using k(1,3) by (simp add: read_bytes_def pattern_def)
    ultimately have "snd (verify_loop n p v m) = -1" using verify_loop_bad [OF k(1)] by simp
    with ok show False by simp
  qed
qed (simp add: verify_loop_ok)

text \<open>
  C32: \<open>verify_buf\<close> is the inverse of \<open>format_buf\<close>: with equal counters it accepts a buffer of the
  size that \<open>format_buf\<close> filled exactly when the buffer still holds the bytes that were stored,
  and then both counters agree again, so that the next buffer can be checked, and the size is added
  to the number of bytes verified.
\<close>

theorem format_verify:
  assumes "format_buf d m buf sz = (d', m')" and "verify_data v = d" and "0 \<le> sz" and "sz < 2 ^ 31"
  shows "(snd (verify_buf v m2 buf2 sz) = 0 \<longleftrightarrow>
       read_bytes m2 buf2 (nat sz) = read_bytes m' buf (nat sz)) \<and>
    (read_bytes m2 buf2 (nat sz) = read_bytes m' buf (nat sz) \<longrightarrow>
       fst (verify_buf v m2 buf2 sz) = \<lparr>total_bytes = total_bytes v + sz, verify_data = d'\<rparr>)"
proof -
  have n: "nat sz < 2 ^ 64" using assms(4) by simp
  have bytes: "read_bytes m' buf (nat sz) = pattern d (nat sz)"
    using assms(1) format_loop_bytes [OF n, of buf d m] by (simp add: format_buf_def)
  have d': "d' = d + of_nat (nat sz)"
    using assms(1) format_loop_counter [of "nat sz" buf d m] by (simp add: format_buf_def)
  show ?thesis
    unfolding bytes verify_buf_def verify_loop_iff assms(2)
    using verify_loop_ok [of m2 buf2 "nat sz" v] assms(2,3) d' by auto
qed

lemma format_verify_witness:
  "snd (verify_buf \<lparr>total_bytes = 7, verify_data = 254\<rparr> (snd (format_buf 254 (\<lambda>_. 9) 100 4)) 100 4) = 0"
proof -
  obtain d' m' where f: "format_buf 254 (\<lambda>_. 9) 100 4 = (d', m')" by fastforce
  show ?thesis
    using format_verify [OF f, of "\<lparr>total_bytes = 7, verify_data = 254\<rparr>" m' 100] f by simp
qed

text \<open>
  C33: A size that \<open>size_str\<close> prints in a buffer of at least 26 bytes is printed whole: the units
  rounded down, one digit of tenths of a unit, also rounded down, exactly when there are fewer than
  ten units and that digit is not 0, the letter of the unit (NUL for bytes) and the final NUL.
\<close>

theorem size_str_rounds_down:
  assumes "size_unit sz = (base, mag)" and "0 \<le> sz" and "sz < 2 ^ 63" and "26 \<le> ssize"
  shows "\<exists>q f. size_str ssize sz =
      show_int q @ (if f = 0 then [] else ''.'' @ show_int f) @ [mag, CHR 0x00] \<and>
    0 \<le> f \<and> f < 10 \<and> q * base \<le> sz \<and> sz < (q + 1) * base \<and>
    (if q < 10 then (10 * q + f) * base \<le> 10 * sz \<and> 10 * sz < (10 * q + f + 1) * base else f = 0)"
proof -
  let ?q = "sz div base" and ?f = "size_fraction sz base"
  have pos: "0 < base" using size_unit_base [OF assms(1)] by auto
  have q: "cdiv sz base = ?q" using assms(2) pos by (simp add: cdiv_nonneg)
  have "0 \<le> ?q" using assms(2) pos by (simp add: pos_imp_zdiv_nonneg_iff)
  moreover have "?q \<le> sz" using assms(2) pos int_div_less_self [of sz base]
    by (cases "sz = 0"; cases "base = 1") auto
  ultimately have "\<bar>?q\<bar> < 10 ^ 19" using assms(3) by simp
  then have lq: "length (show_int ?q) \<le> 20" using length_show_int [of ?q 19] by simp
  have f: "0 \<le> ?f" "?f < 10" using size_fraction_digit [OF assms(1)] by simp_all
  then have lf: "length (show_int ?f) \<le> 2" using length_show_int [of ?f 1] by simp
  have shown: "size_str ssize sz =
      show_int ?q @ (if ?f = 0 then [] else ''.'' @ show_int ?f) @ [mag, CHR 0x00]"
    using lq lf assms(1,4) by (simp add: size_str_def Let_def q snprintf_def)
  have "?q * base \<le> sz" "sz < (?q + 1) * base"
    using pos by (simp_all add: minus_mod_eq_div_mult [symmetric] distrib_right)
  moreover have "\<not> ?q < 10 \<Longrightarrow> ?f = 0" by (simp add: size_fraction_def q)
  ultimately show ?thesis
    using shown f size_fraction_tenths [OF assms(1,2)] by (intro exI [of _ ?q] exI [of _ ?f]) auto
qed

lemma size_str_rounds_down_witness:
  "\<exists>q f. size_str 32 1536 =
      show_int q @ (if f = 0 then [] else ''.'' @ show_int f) @ [CHR ''k'', CHR 0x00] \<and>
    0 \<le> f \<and> f < 10 \<and> q * 1024 \<le> 1536 \<and> 1536 < (q + 1) * 1024 \<and>
    (if q < 10 then (10 * q + f) * 1024 \<le> 10 * 1536 \<and> 10 * 1536 < (10 * q + f + 1) * 1024 else f = 0)"
  by (rule size_str_rounds_down) (simp_all add: size_unit_def)

end
