(* ===== verification/Verbs_Base.thy ===== *)
theory Verbs_Base
  imports Prelude
begin

section \<open>Addresses, rates of transfer and flags that several parts of include/verbs.h share\<close>

text \<open>
  One datatype for each C enumeration, with the source's enumerators in the source's order.
  An enumeration of codes comes with \<open><enum>_val\<close>, the integer of each enumerator; an enumeration
  of flags (every enumerator is \<open>1 << k\<close>) comes with \<open><enum>_bit\<close>, the bit \<open>k\<close> of each enumerator.
  One record for each C structure, its fields in the source's order and prefixed with the
  structure's name (without \<open>ibv_\<close>).  Pointers are addresses (\<open>ptr\<close>), function pointers are code
  addresses (also \<open>ptr\<close>, NULL is 0), fixed-size byte arrays are lists of bytes, opaque library
  types are the bytes that hold them.
\<close>

type_synonym opaque = "u8 list"

text \<open>The structure \<open>timespec\<close> of the C library.\<close>

record timespec =
  ts_tv_sec :: int
  ts_tv_nsec :: int

text \<open>
  The union \<open>ibv_gid\<close> is its sixteen raw bytes; the view \<open>global\<close> reads the same bytes as two
  big-endian 64-bit values.
\<close>

record ibv_gid =
  gid_raw :: "u8 list"

definition gid_global_subnet_prefix :: "ibv_gid \<Rightarrow> u8 list" where
  "gid_global_subnet_prefix g = take 8 (gid_raw g)"

definition gid_global_interface_id :: "ibv_gid \<Rightarrow> u8 list" where
  "gid_global_interface_id g = take 8 (drop 8 (gid_raw g))"

datatype (plugins only: code) ibv_mtu =
    IBV_MTU_256
  | IBV_MTU_512
  | IBV_MTU_1024
  | IBV_MTU_2048
  | IBV_MTU_4096

primrec ibv_mtu_val :: "ibv_mtu \<Rightarrow> int" where
  "ibv_mtu_val IBV_MTU_256 = 1"
| "ibv_mtu_val IBV_MTU_512 = 2"
| "ibv_mtu_val IBV_MTU_1024 = 3"
| "ibv_mtu_val IBV_MTU_2048 = 4"
| "ibv_mtu_val IBV_MTU_4096 = 5"

end
