(* ===== verification/Verbs_Device.thy ===== *)
theory Verbs_Device
  imports Verbs_Base
begin

section \<open>The devices and ports of include/verbs.h\<close>

text \<open>
  The conventions are those of \<open>Verbs_Base\<close>.
\<close>

datatype (plugins only: code) ibv_gid_type =
    IBV_GID_TYPE_IB
  | IBV_GID_TYPE_ROCE_V1
  | IBV_GID_TYPE_ROCE_V2

primrec ibv_gid_type_val :: "ibv_gid_type \<Rightarrow> int" where
  "ibv_gid_type_val IBV_GID_TYPE_IB = 0"
| "ibv_gid_type_val IBV_GID_TYPE_ROCE_V1 = 1"
| "ibv_gid_type_val IBV_GID_TYPE_ROCE_V2 = 2"

record ibv_gid_entry =
  gid_entry_gid :: ibv_gid
  gid_entry_gid_index :: u32
  gid_entry_port_num :: u32
  gid_entry_gid_type :: u32
  gid_entry_ndev_ifindex :: u32

datatype (plugins only: code) ibv_node_type =
    IBV_NODE_UNKNOWN
  | IBV_NODE_CA
  | IBV_NODE_SWITCH
  | IBV_NODE_ROUTER
  | IBV_NODE_RNIC
  | IBV_NODE_USNIC
  | IBV_NODE_USNIC_UDP
  | IBV_NODE_UNSPECIFIED

primrec ibv_node_type_val :: "ibv_node_type \<Rightarrow> int" where
  "ibv_node_type_val IBV_NODE_UNKNOWN = - 1"
| "ibv_node_type_val IBV_NODE_CA = 1"
| "ibv_node_type_val IBV_NODE_SWITCH = 2"
| "ibv_node_type_val IBV_NODE_ROUTER = 3"
| "ibv_node_type_val IBV_NODE_RNIC = 4"
| "ibv_node_type_val IBV_NODE_USNIC = 5"
| "ibv_node_type_val IBV_NODE_USNIC_UDP = 6"
| "ibv_node_type_val IBV_NODE_UNSPECIFIED = 7"

datatype (plugins only: code) ibv_transport_type =
    IBV_TRANSPORT_UNKNOWN
  | IBV_TRANSPORT_IB
  | IBV_TRANSPORT_IWARP
  | IBV_TRANSPORT_USNIC
  | IBV_TRANSPORT_USNIC_UDP
  | IBV_TRANSPORT_UNSPECIFIED

primrec ibv_transport_type_val :: "ibv_transport_type \<Rightarrow> int" where
  "ibv_transport_type_val IBV_TRANSPORT_UNKNOWN = - 1"
| "ibv_transport_type_val IBV_TRANSPORT_IB = 0"
| "ibv_transport_type_val IBV_TRANSPORT_IWARP = 1"
| "ibv_transport_type_val IBV_TRANSPORT_USNIC = 2"
| "ibv_transport_type_val IBV_TRANSPORT_USNIC_UDP = 3"
| "ibv_transport_type_val IBV_TRANSPORT_UNSPECIFIED = 4"

datatype (plugins only: code) ibv_device_cap_flags =
    IBV_DEVICE_RESIZE_MAX_WR
  | IBV_DEVICE_BAD_PKEY_CNTR
  | IBV_DEVICE_BAD_QKEY_CNTR
  | IBV_DEVICE_RAW_MULTI
  | IBV_DEVICE_AUTO_PATH_MIG
  | IBV_DEVICE_CHANGE_PHY_PORT
  | IBV_DEVICE_UD_AV_PORT_ENFORCE
  | IBV_DEVICE_CURR_QP_STATE_MOD
  | IBV_DEVICE_SHUTDOWN_PORT
  | IBV_DEVICE_INIT_TYPE
  | IBV_DEVICE_PORT_ACTIVE_EVENT
  | IBV_DEVICE_SYS_IMAGE_GUID
  | IBV_DEVICE_RC_RNR_NAK_GEN
  | IBV_DEVICE_SRQ_RESIZE
  | IBV_DEVICE_N_NOTIFY_CQ
  | IBV_DEVICE_MEM_WINDOW
  | IBV_DEVICE_UD_IP_CSUM
  | IBV_DEVICE_XRC
  | IBV_DEVICE_MEM_MGT_EXTENSIONS
  | IBV_DEVICE_MEM_WINDOW_TYPE_2A
  | IBV_DEVICE_MEM_WINDOW_TYPE_2B
  | IBV_DEVICE_RC_IP_CSUM
  | IBV_DEVICE_RAW_IP_CSUM
  | IBV_DEVICE_MANAGED_FLOW_STEERING

primrec ibv_device_cap_flags_val :: "ibv_device_cap_flags \<Rightarrow> int" where
  "ibv_device_cap_flags_val IBV_DEVICE_RESIZE_MAX_WR = 1"
| "ibv_device_cap_flags_val IBV_DEVICE_BAD_PKEY_CNTR = push_bit 1 1"
| "ibv_device_cap_flags_val IBV_DEVICE_BAD_QKEY_CNTR = push_bit 2 1"
| "ibv_device_cap_flags_val IBV_DEVICE_RAW_MULTI = push_bit 3 1"
| "ibv_device_cap_flags_val IBV_DEVICE_AUTO_PATH_MIG = push_bit 4 1"
| "ibv_device_cap_flags_val IBV_DEVICE_CHANGE_PHY_PORT = push_bit 5 1"
| "ibv_device_cap_flags_val IBV_DEVICE_UD_AV_PORT_ENFORCE = push_bit 6 1"
| "ibv_device_cap_flags_val IBV_DEVICE_CURR_QP_STATE_MOD = push_bit 7 1"
| "ibv_device_cap_flags_val IBV_DEVICE_SHUTDOWN_PORT = push_bit 8 1"
| "ibv_device_cap_flags_val IBV_DEVICE_INIT_TYPE = push_bit 9 1"
| "ibv_device_cap_flags_val IBV_DEVICE_PORT_ACTIVE_EVENT = push_bit 10 1"
| "ibv_device_cap_flags_val IBV_DEVICE_SYS_IMAGE_GUID = push_bit 11 1"
| "ibv_device_cap_flags_val IBV_DEVICE_RC_RNR_NAK_GEN = push_bit 12 1"
| "ibv_device_cap_flags_val IBV_DEVICE_SRQ_RESIZE = push_bit 13 1"
| "ibv_device_cap_flags_val IBV_DEVICE_N_NOTIFY_CQ = push_bit 14 1"
| "ibv_device_cap_flags_val IBV_DEVICE_MEM_WINDOW = push_bit 17 1"
| "ibv_device_cap_flags_val IBV_DEVICE_UD_IP_CSUM = push_bit 18 1"
| "ibv_device_cap_flags_val IBV_DEVICE_XRC = push_bit 20 1"
| "ibv_device_cap_flags_val IBV_DEVICE_MEM_MGT_EXTENSIONS = push_bit 21 1"
| "ibv_device_cap_flags_val IBV_DEVICE_MEM_WINDOW_TYPE_2A = push_bit 23 1"
| "ibv_device_cap_flags_val IBV_DEVICE_MEM_WINDOW_TYPE_2B = push_bit 24 1"
| "ibv_device_cap_flags_val IBV_DEVICE_RC_IP_CSUM = push_bit 25 1"
| "ibv_device_cap_flags_val IBV_DEVICE_RAW_IP_CSUM = push_bit 26 1"
| "ibv_device_cap_flags_val IBV_DEVICE_MANAGED_FLOW_STEERING = push_bit 29 1"

datatype (plugins only: code) ibv_fork_status =
    IBV_FORK_DISABLED
  | IBV_FORK_ENABLED
  | IBV_FORK_UNNEEDED

primrec ibv_fork_status_val :: "ibv_fork_status \<Rightarrow> int" where
  "ibv_fork_status_val IBV_FORK_DISABLED = 0"
| "ibv_fork_status_val IBV_FORK_ENABLED = 1"
| "ibv_fork_status_val IBV_FORK_UNNEEDED = 2"

datatype (plugins only: code) ibv_atomic_cap =
    IBV_ATOMIC_NONE
  | IBV_ATOMIC_HCA
  | IBV_ATOMIC_GLOB

primrec ibv_atomic_cap_val :: "ibv_atomic_cap \<Rightarrow> int" where
  "ibv_atomic_cap_val IBV_ATOMIC_NONE = 0"
| "ibv_atomic_cap_val IBV_ATOMIC_HCA = 1"
| "ibv_atomic_cap_val IBV_ATOMIC_GLOB = 2"

record ibv_alloc_dm_attr =
  alloc_dm_attr_length :: u64
  alloc_dm_attr_log_align_req :: u32
  alloc_dm_attr_comp_mask :: u32

datatype (plugins only: code) ibv_dm_mask =
    IBV_DM_MASK_HANDLE

primrec ibv_dm_mask_bit :: "ibv_dm_mask \<Rightarrow> nat" where
  "ibv_dm_mask_bit IBV_DM_MASK_HANDLE = 0"

record ibv_dm =
  dm_context :: ptr
  dm_memcpy_to_dm :: ptr
  dm_memcpy_from_dm :: ptr
  dm_comp_mask :: u32
  dm_handle :: u32

record ibv_device_attr =
  device_attr_fw_ver :: string
  device_attr_node_guid :: u64
  device_attr_sys_image_guid :: u64
  device_attr_max_mr_size :: u64
  device_attr_page_size_cap :: u64
  device_attr_vendor_id :: u32
  device_attr_vendor_part_id :: u32
  device_attr_hw_ver :: u32
  device_attr_max_qp :: int
  device_attr_max_qp_wr :: int
  device_attr_device_cap_flags :: u32
  device_attr_max_sge :: int
  device_attr_max_sge_rd :: int
  device_attr_max_cq :: int
  device_attr_max_cqe :: int
  device_attr_max_mr :: int
  device_attr_max_pd :: int
  device_attr_max_qp_rd_atom :: int
  device_attr_max_ee_rd_atom :: int
  device_attr_max_res_rd_atom :: int
  device_attr_max_qp_init_rd_atom :: int
  device_attr_max_ee_init_rd_atom :: int
  device_attr_atomic_cap :: ibv_atomic_cap
  device_attr_max_ee :: int
  device_attr_max_rdd :: int
  device_attr_max_mw :: int
  device_attr_max_raw_ipv6_qp :: int
  device_attr_max_raw_ethy_qp :: int
  device_attr_max_mcast_grp :: int
  device_attr_max_mcast_qp_attach :: int
  device_attr_max_total_mcast_qp_attach :: int
  device_attr_max_ah :: int
  device_attr_max_fmr :: int
  device_attr_max_map_per_fmr :: int
  device_attr_max_srq :: int
  device_attr_max_srq_wr :: int
  device_attr_max_srq_sge :: int
  device_attr_max_pkeys :: u16
  device_attr_local_ca_ack_delay :: u8
  device_attr_phys_port_cnt :: u8

record ibv_query_device_ex_input =
  query_device_ex_input_comp_mask :: u32

datatype (plugins only: code) ibv_odp_transport_cap_bits =
    IBV_ODP_SUPPORT_SEND
  | IBV_ODP_SUPPORT_RECV
  | IBV_ODP_SUPPORT_WRITE
  | IBV_ODP_SUPPORT_READ
  | IBV_ODP_SUPPORT_ATOMIC
  | IBV_ODP_SUPPORT_SRQ_RECV

primrec ibv_odp_transport_cap_bits_bit :: "ibv_odp_transport_cap_bits \<Rightarrow> nat" where
  "ibv_odp_transport_cap_bits_bit IBV_ODP_SUPPORT_SEND = 0"
| "ibv_odp_transport_cap_bits_bit IBV_ODP_SUPPORT_RECV = 1"
| "ibv_odp_transport_cap_bits_bit IBV_ODP_SUPPORT_WRITE = 2"
| "ibv_odp_transport_cap_bits_bit IBV_ODP_SUPPORT_READ = 3"
| "ibv_odp_transport_cap_bits_bit IBV_ODP_SUPPORT_ATOMIC = 4"
| "ibv_odp_transport_cap_bits_bit IBV_ODP_SUPPORT_SRQ_RECV = 5"

record ibv_odp_per_transport_caps =
  odp_rc_odp_caps :: u32
  odp_uc_odp_caps :: u32
  odp_ud_odp_caps :: u32

record ibv_odp_caps =
  odp_caps_general_caps :: u64
  odp_caps_per_transport_caps :: ibv_odp_per_transport_caps

datatype (plugins only: code) ibv_odp_general_caps =
    IBV_ODP_SUPPORT
  | IBV_ODP_SUPPORT_IMPLICIT

primrec ibv_odp_general_caps_bit :: "ibv_odp_general_caps \<Rightarrow> nat" where
  "ibv_odp_general_caps_bit IBV_ODP_SUPPORT = 0"
| "ibv_odp_general_caps_bit IBV_ODP_SUPPORT_IMPLICIT = 1"

record ibv_tso_caps =
  tso_caps_max_tso :: u32
  tso_caps_supported_qpts :: u32

datatype (plugins only: code) ibv_rx_hash_function_flags =
    IBV_RX_HASH_FUNC_TOEPLITZ

primrec ibv_rx_hash_function_flags_bit :: "ibv_rx_hash_function_flags \<Rightarrow> nat" where
  "ibv_rx_hash_function_flags_bit IBV_RX_HASH_FUNC_TOEPLITZ = 0"

datatype (plugins only: code) ibv_rx_hash_fields =
    IBV_RX_HASH_SRC_IPV4
  | IBV_RX_HASH_DST_IPV4
  | IBV_RX_HASH_SRC_IPV6
  | IBV_RX_HASH_DST_IPV6
  | IBV_RX_HASH_SRC_PORT_TCP
  | IBV_RX_HASH_DST_PORT_TCP
  | IBV_RX_HASH_SRC_PORT_UDP
  | IBV_RX_HASH_DST_PORT_UDP
  | IBV_RX_HASH_IPSEC_SPI
  | IBV_RX_HASH_INNER

primrec ibv_rx_hash_fields_bit :: "ibv_rx_hash_fields \<Rightarrow> nat" where
  "ibv_rx_hash_fields_bit IBV_RX_HASH_SRC_IPV4 = 0"
| "ibv_rx_hash_fields_bit IBV_RX_HASH_DST_IPV4 = 1"
| "ibv_rx_hash_fields_bit IBV_RX_HASH_SRC_IPV6 = 2"
| "ibv_rx_hash_fields_bit IBV_RX_HASH_DST_IPV6 = 3"
| "ibv_rx_hash_fields_bit IBV_RX_HASH_SRC_PORT_TCP = 4"
| "ibv_rx_hash_fields_bit IBV_RX_HASH_DST_PORT_TCP = 5"
| "ibv_rx_hash_fields_bit IBV_RX_HASH_SRC_PORT_UDP = 6"
| "ibv_rx_hash_fields_bit IBV_RX_HASH_DST_PORT_UDP = 7"
| "ibv_rx_hash_fields_bit IBV_RX_HASH_IPSEC_SPI = 8"
| "ibv_rx_hash_fields_bit IBV_RX_HASH_INNER = 31"

record ibv_rss_caps =
  rss_caps_supported_qpts :: u32
  rss_caps_max_rwq_indirection_tables :: u32
  rss_caps_max_rwq_indirection_table_size :: u32
  rss_caps_rx_hash_fields_mask :: u64
  rss_caps_rx_hash_function :: u8

record ibv_packet_pacing_caps =
  packet_pacing_caps_qp_rate_limit_min :: u32
  packet_pacing_caps_qp_rate_limit_max :: u32
  packet_pacing_caps_supported_qpts :: u32

datatype (plugins only: code) ibv_raw_packet_caps =
    IBV_RAW_PACKET_CAP_CVLAN_STRIPPING
  | IBV_RAW_PACKET_CAP_SCATTER_FCS
  | IBV_RAW_PACKET_CAP_IP_CSUM
  | IBV_RAW_PACKET_CAP_DELAY_DROP

primrec ibv_raw_packet_caps_bit :: "ibv_raw_packet_caps \<Rightarrow> nat" where
  "ibv_raw_packet_caps_bit IBV_RAW_PACKET_CAP_CVLAN_STRIPPING = 0"
| "ibv_raw_packet_caps_bit IBV_RAW_PACKET_CAP_SCATTER_FCS = 1"
| "ibv_raw_packet_caps_bit IBV_RAW_PACKET_CAP_IP_CSUM = 2"
| "ibv_raw_packet_caps_bit IBV_RAW_PACKET_CAP_DELAY_DROP = 3"

datatype (plugins only: code) ibv_tm_cap_flags =
    IBV_TM_CAP_RC

primrec ibv_tm_cap_flags_bit :: "ibv_tm_cap_flags \<Rightarrow> nat" where
  "ibv_tm_cap_flags_bit IBV_TM_CAP_RC = 0"

record ibv_tm_caps =
  tm_caps_max_rndv_hdr_size :: u32
  tm_caps_max_num_tags :: u32
  tm_caps_flags :: u32
  tm_caps_max_ops :: u32
  tm_caps_max_sge :: u32

record ibv_cq_moderation_caps =
  cq_moderation_caps_max_cq_count :: u16
  cq_moderation_caps_max_cq_period :: u16

datatype (plugins only: code) ibv_pci_atomic_op_size =
    IBV_PCI_ATOMIC_OPERATION_4_BYTE_SIZE_SUP
  | IBV_PCI_ATOMIC_OPERATION_8_BYTE_SIZE_SUP
  | IBV_PCI_ATOMIC_OPERATION_16_BYTE_SIZE_SUP

primrec ibv_pci_atomic_op_size_bit :: "ibv_pci_atomic_op_size \<Rightarrow> nat" where
  "ibv_pci_atomic_op_size_bit IBV_PCI_ATOMIC_OPERATION_4_BYTE_SIZE_SUP = 0"
| "ibv_pci_atomic_op_size_bit IBV_PCI_ATOMIC_OPERATION_8_BYTE_SIZE_SUP = 1"
| "ibv_pci_atomic_op_size_bit IBV_PCI_ATOMIC_OPERATION_16_BYTE_SIZE_SUP = 2"

record ibv_pci_atomic_caps =
  pci_atomic_caps_fetch_add :: u16
  pci_atomic_caps_swap :: u16
  pci_atomic_caps_compare_swap :: u16

record ibv_device_attr_ex =
  device_attr_ex_orig_attr :: ibv_device_attr
  device_attr_ex_comp_mask :: u32
  device_attr_ex_odp_caps :: ibv_odp_caps
  device_attr_ex_completion_timestamp_mask :: u64
  device_attr_ex_hca_core_clock :: u64
  device_attr_ex_device_cap_flags_ex :: u64
  device_attr_ex_tso_caps :: ibv_tso_caps
  device_attr_ex_rss_caps :: ibv_rss_caps
  device_attr_ex_max_wq_type_rq :: u32
  device_attr_ex_packet_pacing_caps :: ibv_packet_pacing_caps
  device_attr_ex_raw_packet_caps :: u32
  device_attr_ex_tm_caps :: ibv_tm_caps
  device_attr_ex_cq_mod_caps :: ibv_cq_moderation_caps
  device_attr_ex_max_dm_size :: u64
  device_attr_ex_pci_atomic_caps :: ibv_pci_atomic_caps
  device_attr_ex_xrc_odp_caps :: u32
  device_attr_ex_phys_port_cnt_ex :: u32

datatype (plugins only: code) ibv_port_state =
    IBV_PORT_NOP
  | IBV_PORT_DOWN
  | IBV_PORT_INIT
  | IBV_PORT_ARMED
  | IBV_PORT_ACTIVE
  | IBV_PORT_ACTIVE_DEFER

primrec ibv_port_state_val :: "ibv_port_state \<Rightarrow> int" where
  "ibv_port_state_val IBV_PORT_NOP = 0"
| "ibv_port_state_val IBV_PORT_DOWN = 1"
| "ibv_port_state_val IBV_PORT_INIT = 2"
| "ibv_port_state_val IBV_PORT_ARMED = 3"
| "ibv_port_state_val IBV_PORT_ACTIVE = 4"
| "ibv_port_state_val IBV_PORT_ACTIVE_DEFER = 5"

text \<open>The unnamed enumeration of link layers.\<close>

definition IBV_LINK_LAYER_UNSPECIFIED :: u8 where "IBV_LINK_LAYER_UNSPECIFIED = 0"

definition IBV_LINK_LAYER_INFINIBAND :: u8 where "IBV_LINK_LAYER_INFINIBAND = 1"

definition IBV_LINK_LAYER_ETHERNET :: u8 where "IBV_LINK_LAYER_ETHERNET = 2"

datatype (plugins only: code) ibv_port_cap_flags =
    IBV_PORT_SM
  | IBV_PORT_NOTICE_SUP
  | IBV_PORT_TRAP_SUP
  | IBV_PORT_OPT_IPD_SUP
  | IBV_PORT_AUTO_MIGR_SUP
  | IBV_PORT_SL_MAP_SUP
  | IBV_PORT_MKEY_NVRAM
  | IBV_PORT_PKEY_NVRAM
  | IBV_PORT_LED_INFO_SUP
  | IBV_PORT_SYS_IMAGE_GUID_SUP
  | IBV_PORT_PKEY_SW_EXT_PORT_TRAP_SUP
  | IBV_PORT_EXTENDED_SPEEDS_SUP
  | IBV_PORT_CAP_MASK2_SUP
  | IBV_PORT_CM_SUP
  | IBV_PORT_SNMP_TUNNEL_SUP
  | IBV_PORT_REINIT_SUP
  | IBV_PORT_DEVICE_MGMT_SUP
  | IBV_PORT_VENDOR_CLASS_SUP
  | IBV_PORT_DR_NOTICE_SUP
  | IBV_PORT_CAP_MASK_NOTICE_SUP
  | IBV_PORT_BOOT_MGMT_SUP
  | IBV_PORT_LINK_LATENCY_SUP
  | IBV_PORT_CLIENT_REG_SUP
  | IBV_PORT_IP_BASED_GIDS

primrec ibv_port_cap_flags_bit :: "ibv_port_cap_flags \<Rightarrow> nat" where
  "ibv_port_cap_flags_bit IBV_PORT_SM = 1"
| "ibv_port_cap_flags_bit IBV_PORT_NOTICE_SUP = 2"
| "ibv_port_cap_flags_bit IBV_PORT_TRAP_SUP = 3"
| "ibv_port_cap_flags_bit IBV_PORT_OPT_IPD_SUP = 4"
| "ibv_port_cap_flags_bit IBV_PORT_AUTO_MIGR_SUP = 5"
| "ibv_port_cap_flags_bit IBV_PORT_SL_MAP_SUP = 6"
| "ibv_port_cap_flags_bit IBV_PORT_MKEY_NVRAM = 7"
| "ibv_port_cap_flags_bit IBV_PORT_PKEY_NVRAM = 8"
| "ibv_port_cap_flags_bit IBV_PORT_LED_INFO_SUP = 9"
| "ibv_port_cap_flags_bit IBV_PORT_SYS_IMAGE_GUID_SUP = 11"
| "ibv_port_cap_flags_bit IBV_PORT_PKEY_SW_EXT_PORT_TRAP_SUP = 12"
| "ibv_port_cap_flags_bit IBV_PORT_EXTENDED_SPEEDS_SUP = 14"
| "ibv_port_cap_flags_bit IBV_PORT_CAP_MASK2_SUP = 15"
| "ibv_port_cap_flags_bit IBV_PORT_CM_SUP = 16"
| "ibv_port_cap_flags_bit IBV_PORT_SNMP_TUNNEL_SUP = 17"
| "ibv_port_cap_flags_bit IBV_PORT_REINIT_SUP = 18"
| "ibv_port_cap_flags_bit IBV_PORT_DEVICE_MGMT_SUP = 19"
| "ibv_port_cap_flags_bit IBV_PORT_VENDOR_CLASS_SUP = 20"
| "ibv_port_cap_flags_bit IBV_PORT_DR_NOTICE_SUP = 21"
| "ibv_port_cap_flags_bit IBV_PORT_CAP_MASK_NOTICE_SUP = 22"
| "ibv_port_cap_flags_bit IBV_PORT_BOOT_MGMT_SUP = 23"
| "ibv_port_cap_flags_bit IBV_PORT_LINK_LATENCY_SUP = 24"
| "ibv_port_cap_flags_bit IBV_PORT_CLIENT_REG_SUP = 25"
| "ibv_port_cap_flags_bit IBV_PORT_IP_BASED_GIDS = 26"

datatype (plugins only: code) ibv_port_cap_flags2 =
    IBV_PORT_SET_NODE_DESC_SUP
  | IBV_PORT_INFO_EXT_SUP
  | IBV_PORT_VIRT_SUP
  | IBV_PORT_SWITCH_PORT_STATE_TABLE_SUP
  | IBV_PORT_LINK_WIDTH_2X_SUP
  | IBV_PORT_LINK_SPEED_HDR_SUP
  | IBV_PORT_LINK_SPEED_NDR_SUP
  | IBV_PORT_LINK_SPEED_XDR_SUP

primrec ibv_port_cap_flags2_bit :: "ibv_port_cap_flags2 \<Rightarrow> nat" where
  "ibv_port_cap_flags2_bit IBV_PORT_SET_NODE_DESC_SUP = 0"
| "ibv_port_cap_flags2_bit IBV_PORT_INFO_EXT_SUP = 1"
| "ibv_port_cap_flags2_bit IBV_PORT_VIRT_SUP = 2"
| "ibv_port_cap_flags2_bit IBV_PORT_SWITCH_PORT_STATE_TABLE_SUP = 3"
| "ibv_port_cap_flags2_bit IBV_PORT_LINK_WIDTH_2X_SUP = 4"
| "ibv_port_cap_flags2_bit IBV_PORT_LINK_SPEED_HDR_SUP = 5"
| "ibv_port_cap_flags2_bit IBV_PORT_LINK_SPEED_NDR_SUP = 10"
| "ibv_port_cap_flags2_bit IBV_PORT_LINK_SPEED_XDR_SUP = 12"

record ibv_port_attr =
  port_attr_state :: ibv_port_state
  port_attr_max_mtu :: ibv_mtu
  port_attr_active_mtu :: ibv_mtu
  port_attr_gid_tbl_len :: int
  port_attr_port_cap_flags :: u32
  port_attr_max_msg_sz :: u32
  port_attr_bad_pkey_cntr :: u32
  port_attr_qkey_viol_cntr :: u32
  port_attr_pkey_tbl_len :: u16
  port_attr_lid :: u16
  port_attr_sm_lid :: u16
  port_attr_lmc :: u8
  port_attr_max_vl_num :: u8
  port_attr_sm_sl :: u8
  port_attr_subnet_timeout :: u8
  port_attr_init_type_reply :: u8
  port_attr_active_width :: u8
  port_attr_active_speed :: u8
  port_attr_phys_state :: u8
  port_attr_link_layer :: u8
  port_attr_flags :: u8
  port_attr_port_cap_flags2 :: u16
  port_attr_active_speed_ex :: u32

datatype (plugins only: code) ibv_event_type =
    IBV_EVENT_CQ_ERR
  | IBV_EVENT_QP_FATAL
  | IBV_EVENT_QP_REQ_ERR
  | IBV_EVENT_QP_ACCESS_ERR
  | IBV_EVENT_COMM_EST
  | IBV_EVENT_SQ_DRAINED
  | IBV_EVENT_PATH_MIG
  | IBV_EVENT_PATH_MIG_ERR
  | IBV_EVENT_DEVICE_FATAL
  | IBV_EVENT_PORT_ACTIVE
  | IBV_EVENT_PORT_ERR
  | IBV_EVENT_LID_CHANGE
  | IBV_EVENT_PKEY_CHANGE
  | IBV_EVENT_SM_CHANGE
  | IBV_EVENT_SRQ_ERR
  | IBV_EVENT_SRQ_LIMIT_REACHED
  | IBV_EVENT_QP_LAST_WQE_REACHED
  | IBV_EVENT_CLIENT_REREGISTER
  | IBV_EVENT_GID_CHANGE
  | IBV_EVENT_WQ_FATAL

primrec ibv_event_type_val :: "ibv_event_type \<Rightarrow> int" where
  "ibv_event_type_val IBV_EVENT_CQ_ERR = 0"
| "ibv_event_type_val IBV_EVENT_QP_FATAL = 1"
| "ibv_event_type_val IBV_EVENT_QP_REQ_ERR = 2"
| "ibv_event_type_val IBV_EVENT_QP_ACCESS_ERR = 3"
| "ibv_event_type_val IBV_EVENT_COMM_EST = 4"
| "ibv_event_type_val IBV_EVENT_SQ_DRAINED = 5"
| "ibv_event_type_val IBV_EVENT_PATH_MIG = 6"
| "ibv_event_type_val IBV_EVENT_PATH_MIG_ERR = 7"
| "ibv_event_type_val IBV_EVENT_DEVICE_FATAL = 8"
| "ibv_event_type_val IBV_EVENT_PORT_ACTIVE = 9"
| "ibv_event_type_val IBV_EVENT_PORT_ERR = 10"
| "ibv_event_type_val IBV_EVENT_LID_CHANGE = 11"
| "ibv_event_type_val IBV_EVENT_PKEY_CHANGE = 12"
| "ibv_event_type_val IBV_EVENT_SM_CHANGE = 13"
| "ibv_event_type_val IBV_EVENT_SRQ_ERR = 14"
| "ibv_event_type_val IBV_EVENT_SRQ_LIMIT_REACHED = 15"
| "ibv_event_type_val IBV_EVENT_QP_LAST_WQE_REACHED = 16"
| "ibv_event_type_val IBV_EVENT_CLIENT_REREGISTER = 17"
| "ibv_event_type_val IBV_EVENT_GID_CHANGE = 18"
| "ibv_event_type_val IBV_EVENT_WQ_FATAL = 19"

text \<open>The union \<open>element\<close> holds one of four object pointers or a port number.\<close>

datatype (plugins only: code) ibv_async_element =
    Async_cq ptr
  | Async_qp ptr
  | Async_srq ptr
  | Async_wq ptr
  | Async_port_num int

record ibv_async_event =
  async_event_element :: ibv_async_element
  async_event_event_type :: ibv_event_type

end
