(* ===== verification/Verbs_Context.thy ===== *)
theory Verbs_Context
  imports Verbs_Device
begin

section \<open>Devices, contexts and their tables of operations in include/verbs.h\<close>

text \<open>
  The conventions are those of \<open>Verbs_Base\<close>.
\<close>

record ibv_device_ops =
  ibv_device_ops_dummy1 :: ptr
  ibv_device_ops_dummy2 :: ptr

definition IBV_SYSFS_NAME_MAX :: nat where "IBV_SYSFS_NAME_MAX = 64"

definition IBV_SYSFS_PATH_MAX :: nat where "IBV_SYSFS_PATH_MAX = 256"

record ibv_device =
  device_ops :: ibv_device_ops
  device_node_type :: ibv_node_type
  device_transport_type :: ibv_transport_type
  device_name :: string
  device_dev_name :: string
  device_dev_path :: string
  device_ibdev_path :: string

record ibv_context_ops =
  ops_compat_query_device :: ptr
  ops_compat_query_port :: ptr
  ops_compat_alloc_pd :: ptr
  ops_compat_dealloc_pd :: ptr
  ops_compat_reg_mr :: ptr
  ops_compat_rereg_mr :: ptr
  ops_compat_dereg_mr :: ptr
  ops_alloc_mw :: ptr
  ops_bind_mw :: ptr
  ops_dealloc_mw :: ptr
  ops_compat_create_cq :: ptr
  ops_poll_cq :: ptr
  ops_req_notify_cq :: ptr
  ops_compat_cq_event :: ptr
  ops_compat_resize_cq :: ptr
  ops_compat_destroy_cq :: ptr
  ops_compat_create_srq :: ptr
  ops_compat_modify_srq :: ptr
  ops_compat_query_srq :: ptr
  ops_compat_destroy_srq :: ptr
  ops_post_srq_recv :: ptr
  ops_compat_create_qp :: ptr
  ops_compat_query_qp :: ptr
  ops_compat_modify_qp :: ptr
  ops_compat_destroy_qp :: ptr
  ops_post_send :: ptr
  ops_post_recv :: ptr
  ops_compat_create_ah :: ptr
  ops_compat_destroy_ah :: ptr
  ops_compat_attach_mcast :: ptr
  ops_compat_detach_mcast :: ptr
  ops_compat_async_event :: ptr

record ibv_context =
  ctx_device :: ptr
  ctx_ops :: ibv_context_ops
  ctx_cmd_fd :: int
  ctx_async_fd :: int
  ctx_num_comp_vectors :: int
  ctx_mutex :: opaque
  ctx_abi_compat :: ptr

datatype (plugins only: code) ibv_cq_init_attr_mask =
    IBV_CQ_INIT_ATTR_MASK_FLAGS
  | IBV_CQ_INIT_ATTR_MASK_PD

primrec ibv_cq_init_attr_mask_bit :: "ibv_cq_init_attr_mask \<Rightarrow> nat" where
  "ibv_cq_init_attr_mask_bit IBV_CQ_INIT_ATTR_MASK_FLAGS = 0"
| "ibv_cq_init_attr_mask_bit IBV_CQ_INIT_ATTR_MASK_PD = 1"

datatype (plugins only: code) ibv_create_cq_attr_flags =
    IBV_CREATE_CQ_ATTR_SINGLE_THREADED
  | IBV_CREATE_CQ_ATTR_IGNORE_OVERRUN

primrec ibv_create_cq_attr_flags_bit :: "ibv_create_cq_attr_flags \<Rightarrow> nat" where
  "ibv_create_cq_attr_flags_bit IBV_CREATE_CQ_ATTR_SINGLE_THREADED = 0"
| "ibv_create_cq_attr_flags_bit IBV_CREATE_CQ_ATTR_IGNORE_OVERRUN = 1"

record ibv_cq_init_attr_ex =
  cq_init_attr_ex_cqe :: u32
  cq_init_attr_ex_cq_context :: ptr
  cq_init_attr_ex_channel :: ptr
  cq_init_attr_ex_comp_vector :: u32
  cq_init_attr_ex_wc_flags :: u64
  cq_init_attr_ex_comp_mask :: u32
  cq_init_attr_ex_flags :: u32
  cq_init_attr_ex_parent_domain :: ptr

datatype (plugins only: code) ibv_parent_domain_init_attr_mask =
    IBV_PARENT_DOMAIN_INIT_ATTR_ALLOCATORS
  | IBV_PARENT_DOMAIN_INIT_ATTR_PD_CONTEXT

primrec ibv_parent_domain_init_attr_mask_bit :: "ibv_parent_domain_init_attr_mask \<Rightarrow> nat" where
  "ibv_parent_domain_init_attr_mask_bit IBV_PARENT_DOMAIN_INIT_ATTR_ALLOCATORS = 0"
| "ibv_parent_domain_init_attr_mask_bit IBV_PARENT_DOMAIN_INIT_ATTR_PD_CONTEXT = 1"

record ibv_parent_domain_init_attr =
  parent_domain_init_attr_pd :: ptr
  parent_domain_init_attr_td :: ptr
  parent_domain_init_attr_comp_mask :: u32
  parent_domain_init_attr_alloc :: ptr
  parent_domain_init_attr_free :: ptr
  parent_domain_init_attr_pd_context :: ptr

record ibv_counters_init_attr =
  counters_init_attr_comp_mask :: u32

record ibv_counters =
  counters_context :: ptr

datatype (plugins only: code) ibv_counter_description =
    IBV_COUNTER_PACKETS
  | IBV_COUNTER_BYTES

primrec ibv_counter_description_val :: "ibv_counter_description \<Rightarrow> int" where
  "ibv_counter_description_val IBV_COUNTER_PACKETS = 0"
| "ibv_counter_description_val IBV_COUNTER_BYTES = 1"

record ibv_counter_attach_attr =
  counter_attach_attr_counter_desc :: ibv_counter_description
  counter_attach_attr_index :: u32
  counter_attach_attr_comp_mask :: u32

datatype (plugins only: code) ibv_read_counters_flags =
    IBV_READ_COUNTERS_ATTR_PREFER_CACHED

primrec ibv_read_counters_flags_bit :: "ibv_read_counters_flags \<Rightarrow> nat" where
  "ibv_read_counters_flags_bit IBV_READ_COUNTERS_ATTR_PREFER_CACHED = 0"

datatype (plugins only: code) ibv_values_mask =
    IBV_VALUES_MASK_RAW_CLOCK
  | IBV_VALUES_MASK_RESERVED

primrec ibv_values_mask_bit :: "ibv_values_mask \<Rightarrow> nat" where
  "ibv_values_mask_bit IBV_VALUES_MASK_RAW_CLOCK = 0"
| "ibv_values_mask_bit IBV_VALUES_MASK_RESERVED = 1"

record ibv_values_ex =
  values_ex_comp_mask :: u32
  values_ex_raw_clock :: timespec

record verbs_context =
  vctx_query_port :: ptr
  vctx_advise_mr :: ptr
  vctx_alloc_null_mr :: ptr
  vctx_read_counters :: ptr
  vctx_attach_counters_point_flow :: ptr
  vctx_create_counters :: ptr
  vctx_destroy_counters :: ptr
  vctx_reg_dm_mr :: ptr
  vctx_alloc_dm :: ptr
  vctx_free_dm :: ptr
  vctx_modify_flow_action_esp :: ptr
  vctx_destroy_flow_action :: ptr
  vctx_create_flow_action_esp :: ptr
  vctx_modify_qp_rate_limit :: ptr
  vctx_alloc_parent_domain :: ptr
  vctx_dealloc_td :: ptr
  vctx_alloc_td :: ptr
  vctx_modify_cq :: ptr
  vctx_post_srq_ops :: ptr
  vctx_destroy_rwq_ind_table :: ptr
  vctx_create_rwq_ind_table :: ptr
  vctx_destroy_wq :: ptr
  vctx_modify_wq :: ptr
  vctx_create_wq :: ptr
  vctx_query_rt_values :: ptr
  vctx_create_cq_ex :: ptr
  vctx_priv :: ptr
  vctx_query_device_ex :: ptr
  vctx_ibv_destroy_flow :: ptr
  vctx_ABI_placeholder2 :: ptr
  vctx_ibv_create_flow :: ptr
  vctx_ABI_placeholder1 :: ptr
  vctx_open_qp :: ptr
  vctx_create_qp_ex :: ptr
  vctx_get_srq_num :: ptr
  vctx_create_srq_ex :: ptr
  vctx_open_xrcd :: ptr
  vctx_close_xrcd :: ptr
  vctx_ABI_placeholder3 :: u64
  vctx_sz :: u64
  vctx_context :: ibv_context

end
