(* ===== verification/Verbs_Flow.thy ===== *)
theory Verbs_Flow
  imports Prelude
begin

section \<open>Flow steering of include/verbs.h\<close>

text \<open>
  The conventions are those of \<open>Verbs_Base\<close>.
\<close>

datatype (plugins only: code) ibv_flow_flags =
    IBV_FLOW_ATTR_FLAGS_DONT_TRAP
  | IBV_FLOW_ATTR_FLAGS_EGRESS

primrec ibv_flow_flags_bit :: "ibv_flow_flags \<Rightarrow> nat" where
  "ibv_flow_flags_bit IBV_FLOW_ATTR_FLAGS_DONT_TRAP = 1"
| "ibv_flow_flags_bit IBV_FLOW_ATTR_FLAGS_EGRESS = 2"

datatype (plugins only: code) ibv_flow_attr_type =
    IBV_FLOW_ATTR_NORMAL
  | IBV_FLOW_ATTR_ALL_DEFAULT
  | IBV_FLOW_ATTR_MC_DEFAULT
  | IBV_FLOW_ATTR_SNIFFER

primrec ibv_flow_attr_type_val :: "ibv_flow_attr_type \<Rightarrow> int" where
  "ibv_flow_attr_type_val IBV_FLOW_ATTR_NORMAL = 0"
| "ibv_flow_attr_type_val IBV_FLOW_ATTR_ALL_DEFAULT = 1"
| "ibv_flow_attr_type_val IBV_FLOW_ATTR_MC_DEFAULT = 2"
| "ibv_flow_attr_type_val IBV_FLOW_ATTR_SNIFFER = 3"

datatype (plugins only: code) ibv_flow_spec_type =
    IBV_FLOW_SPEC_ETH
  | IBV_FLOW_SPEC_IPV4
  | IBV_FLOW_SPEC_IPV6
  | IBV_FLOW_SPEC_IPV4_EXT
  | IBV_FLOW_SPEC_ESP
  | IBV_FLOW_SPEC_TCP
  | IBV_FLOW_SPEC_UDP
  | IBV_FLOW_SPEC_VXLAN_TUNNEL
  | IBV_FLOW_SPEC_GRE
  | IBV_FLOW_SPEC_MPLS
  | IBV_FLOW_SPEC_INNER
  | IBV_FLOW_SPEC_ACTION_TAG
  | IBV_FLOW_SPEC_ACTION_DROP
  | IBV_FLOW_SPEC_ACTION_HANDLE
  | IBV_FLOW_SPEC_ACTION_COUNT

primrec ibv_flow_spec_type_val :: "ibv_flow_spec_type \<Rightarrow> int" where
  "ibv_flow_spec_type_val IBV_FLOW_SPEC_ETH = 32"
| "ibv_flow_spec_type_val IBV_FLOW_SPEC_IPV4 = 48"
| "ibv_flow_spec_type_val IBV_FLOW_SPEC_IPV6 = 49"
| "ibv_flow_spec_type_val IBV_FLOW_SPEC_IPV4_EXT = 50"
| "ibv_flow_spec_type_val IBV_FLOW_SPEC_ESP = 52"
| "ibv_flow_spec_type_val IBV_FLOW_SPEC_TCP = 64"
| "ibv_flow_spec_type_val IBV_FLOW_SPEC_UDP = 65"
| "ibv_flow_spec_type_val IBV_FLOW_SPEC_VXLAN_TUNNEL = 80"
| "ibv_flow_spec_type_val IBV_FLOW_SPEC_GRE = 81"
| "ibv_flow_spec_type_val IBV_FLOW_SPEC_MPLS = 96"
| "ibv_flow_spec_type_val IBV_FLOW_SPEC_INNER = 256"
| "ibv_flow_spec_type_val IBV_FLOW_SPEC_ACTION_TAG = 4096"
| "ibv_flow_spec_type_val IBV_FLOW_SPEC_ACTION_DROP = 4097"
| "ibv_flow_spec_type_val IBV_FLOW_SPEC_ACTION_HANDLE = 4098"
| "ibv_flow_spec_type_val IBV_FLOW_SPEC_ACTION_COUNT = 4099"

record ibv_flow_eth_filter =
  flow_eth_filter_dst_mac :: "u8 list"
  flow_eth_filter_src_mac :: "u8 list"
  flow_eth_filter_ether_type :: u16
  flow_eth_filter_vlan_tag :: u16

record ibv_flow_spec_eth =
  flow_spec_eth_type :: ibv_flow_spec_type
  flow_spec_eth_size :: u16
  flow_spec_eth_val :: ibv_flow_eth_filter
  flow_spec_eth_mask :: ibv_flow_eth_filter

record ibv_flow_ipv4_filter =
  flow_ipv4_filter_src_ip :: u32
  flow_ipv4_filter_dst_ip :: u32

record ibv_flow_spec_ipv4 =
  flow_spec_ipv4_type :: ibv_flow_spec_type
  flow_spec_ipv4_size :: u16
  flow_spec_ipv4_val :: ibv_flow_ipv4_filter
  flow_spec_ipv4_mask :: ibv_flow_ipv4_filter

record ibv_flow_ipv4_ext_filter =
  flow_ipv4_ext_filter_src_ip :: u32
  flow_ipv4_ext_filter_dst_ip :: u32
  flow_ipv4_ext_filter_proto :: u8
  flow_ipv4_ext_filter_tos :: u8
  flow_ipv4_ext_filter_ttl :: u8
  flow_ipv4_ext_filter_flags :: u8

record ibv_flow_spec_ipv4_ext =
  flow_spec_ipv4_ext_type :: ibv_flow_spec_type
  flow_spec_ipv4_ext_size :: u16
  flow_spec_ipv4_ext_val :: ibv_flow_ipv4_ext_filter
  flow_spec_ipv4_ext_mask :: ibv_flow_ipv4_ext_filter

record ibv_flow_ipv6_filter =
  flow_ipv6_filter_src_ip :: "u8 list"
  flow_ipv6_filter_dst_ip :: "u8 list"
  flow_ipv6_filter_flow_label :: u32
  flow_ipv6_filter_next_hdr :: u8
  flow_ipv6_filter_traffic_class :: u8
  flow_ipv6_filter_hop_limit :: u8

record ibv_flow_spec_ipv6 =
  flow_spec_ipv6_type :: ibv_flow_spec_type
  flow_spec_ipv6_size :: u16
  flow_spec_ipv6_val :: ibv_flow_ipv6_filter
  flow_spec_ipv6_mask :: ibv_flow_ipv6_filter

record ibv_flow_esp_filter =
  flow_esp_filter_spi :: u32
  flow_esp_filter_seq :: u32

record ibv_flow_spec_esp =
  flow_spec_esp_type :: ibv_flow_spec_type
  flow_spec_esp_size :: u16
  flow_spec_esp_val :: ibv_flow_esp_filter
  flow_spec_esp_mask :: ibv_flow_esp_filter

record ibv_flow_tcp_udp_filter =
  flow_tcp_udp_filter_dst_port :: u16
  flow_tcp_udp_filter_src_port :: u16

record ibv_flow_spec_tcp_udp =
  flow_spec_tcp_udp_type :: ibv_flow_spec_type
  flow_spec_tcp_udp_size :: u16
  flow_spec_tcp_udp_val :: ibv_flow_tcp_udp_filter
  flow_spec_tcp_udp_mask :: ibv_flow_tcp_udp_filter

record ibv_flow_gre_filter =
  flow_gre_filter_c_ks_res0_ver :: u16
  flow_gre_filter_protocol :: u16
  flow_gre_filter_key :: u32

record ibv_flow_spec_gre =
  flow_spec_gre_type :: ibv_flow_spec_type
  flow_spec_gre_size :: u16
  flow_spec_gre_val :: ibv_flow_gre_filter
  flow_spec_gre_mask :: ibv_flow_gre_filter

record ibv_flow_mpls_filter =
  flow_mpls_filter_label :: u32

record ibv_flow_spec_mpls =
  flow_spec_mpls_type :: ibv_flow_spec_type
  flow_spec_mpls_size :: u16
  flow_spec_mpls_val :: ibv_flow_mpls_filter
  flow_spec_mpls_mask :: ibv_flow_mpls_filter

record ibv_flow_tunnel_filter =
  flow_tunnel_filter_tunnel_id :: u32

record ibv_flow_spec_tunnel =
  flow_spec_tunnel_type :: ibv_flow_spec_type
  flow_spec_tunnel_size :: u16
  flow_spec_tunnel_val :: ibv_flow_tunnel_filter
  flow_spec_tunnel_mask :: ibv_flow_tunnel_filter

record ibv_flow_spec_action_tag =
  flow_spec_action_tag_type :: ibv_flow_spec_type
  flow_spec_action_tag_size :: u16
  flow_spec_action_tag_tag_id :: u32

record ibv_flow_spec_action_drop =
  flow_spec_action_drop_type :: ibv_flow_spec_type
  flow_spec_action_drop_size :: u16

record ibv_flow_spec_action_handle =
  flow_spec_action_handle_type :: ibv_flow_spec_type
  flow_spec_action_handle_size :: u16
  flow_spec_action_handle_action :: ptr

record ibv_flow_spec_counter_action =
  flow_spec_counter_action_type :: ibv_flow_spec_type
  flow_spec_counter_action_size :: u16
  flow_spec_counter_action_counters :: ptr

text \<open>The union of all flow specifications, one constructor for each member.\<close>

datatype (plugins only: code) ibv_flow_spec =
    Spec_hdr ibv_flow_spec_type u16
  | Spec_eth ibv_flow_spec_eth
  | Spec_ipv4 ibv_flow_spec_ipv4
  | Spec_tcp_udp ibv_flow_spec_tcp_udp
  | Spec_ipv4_ext ibv_flow_spec_ipv4_ext
  | Spec_ipv6 ibv_flow_spec_ipv6
  | Spec_esp ibv_flow_spec_esp
  | Spec_tunnel ibv_flow_spec_tunnel
  | Spec_gre ibv_flow_spec_gre
  | Spec_mpls ibv_flow_spec_mpls
  | Spec_flow_tag ibv_flow_spec_action_tag
  | Spec_drop ibv_flow_spec_action_drop
  | Spec_handle ibv_flow_spec_action_handle
  | Spec_flow_count ibv_flow_spec_counter_action

record ibv_flow_attr =
  flow_attr_comp_mask :: u32
  flow_attr_type :: ibv_flow_attr_type
  flow_attr_size :: u16
  flow_attr_priority :: u16
  flow_attr_num_of_specs :: u8
  flow_attr_port :: u8
  flow_attr_flags :: u32

record ibv_flow =
  flow_comp_mask :: u32
  flow_context :: ptr
  flow_handle :: u32

record ibv_flow_action =
  flow_action_context :: ptr

datatype (plugins only: code) ibv_flow_action_esp_mask =
    IBV_FLOW_ACTION_ESP_MASK_ESN

primrec ibv_flow_action_esp_mask_bit :: "ibv_flow_action_esp_mask \<Rightarrow> nat" where
  "ibv_flow_action_esp_mask_bit IBV_FLOW_ACTION_ESP_MASK_ESN = 0"

record ibv_flow_action_esp_attr =
  flow_action_esp_attr_esp_attr :: ptr
  flow_action_esp_attr_keymat_proto :: int
  flow_action_esp_attr_keymat_len :: u16
  flow_action_esp_attr_keymat_ptr :: ptr
  flow_action_esp_attr_replay_proto :: int
  flow_action_esp_attr_replay_len :: u16
  flow_action_esp_attr_replay_ptr :: ptr
  flow_action_esp_attr_esp_encap :: ptr
  flow_action_esp_attr_comp_mask :: u32
  flow_action_esp_attr_esn :: u32

end
