(* ===== verification/Verbs_Memory.thy ===== *)
theory Verbs_Memory
  imports Verbs_Base
begin

section \<open>Protection domains, memory regions, address handles, shared receive queues and work queues of include/verbs.h\<close>

text \<open>
  The conventions are those of \<open>Verbs_Base\<close>.
\<close>

datatype (plugins only: code) ibv_access_flags =
    IBV_ACCESS_LOCAL_WRITE
  | IBV_ACCESS_REMOTE_WRITE
  | IBV_ACCESS_REMOTE_READ
  | IBV_ACCESS_REMOTE_ATOMIC
  | IBV_ACCESS_MW_BIND
  | IBV_ACCESS_ZERO_BASED
  | IBV_ACCESS_ON_DEMAND
  | IBV_ACCESS_HUGETLB
  | IBV_ACCESS_FLUSH_GLOBAL
  | IBV_ACCESS_FLUSH_PERSISTENT
  | IBV_ACCESS_RELAXED_ORDERING

primrec ibv_access_flags_bit :: "nat \<Rightarrow> ibv_access_flags \<Rightarrow> nat" where
  "ibv_access_flags_bit opt IBV_ACCESS_LOCAL_WRITE = 0"
| "ibv_access_flags_bit opt IBV_ACCESS_REMOTE_WRITE = 1"
| "ibv_access_flags_bit opt IBV_ACCESS_REMOTE_READ = 2"
| "ibv_access_flags_bit opt IBV_ACCESS_REMOTE_ATOMIC = 3"
| "ibv_access_flags_bit opt IBV_ACCESS_MW_BIND = 4"
| "ibv_access_flags_bit opt IBV_ACCESS_ZERO_BASED = 5"
| "ibv_access_flags_bit opt IBV_ACCESS_ON_DEMAND = 6"
| "ibv_access_flags_bit opt IBV_ACCESS_HUGETLB = 7"
| "ibv_access_flags_bit opt IBV_ACCESS_FLUSH_GLOBAL = 8"
| "ibv_access_flags_bit opt IBV_ACCESS_FLUSH_PERSISTENT = 9"
| "ibv_access_flags_bit opt IBV_ACCESS_RELAXED_ORDERING = opt"

record ibv_mw_bind_info =
  mw_bind_info_mr :: ptr
  mw_bind_info_addr :: u64
  mw_bind_info_length :: u64
  mw_bind_info_mw_access_flags :: u32

record ibv_pd =
  pd_context :: ptr
  pd_handle :: u32

record ibv_td_init_attr =
  td_init_attr_comp_mask :: u32

record ibv_td =
  td_context :: ptr

datatype (plugins only: code) ibv_xrcd_init_attr_mask =
    IBV_XRCD_INIT_ATTR_FD
  | IBV_XRCD_INIT_ATTR_OFLAGS
  | IBV_XRCD_INIT_ATTR_RESERVED

primrec ibv_xrcd_init_attr_mask_bit :: "ibv_xrcd_init_attr_mask \<Rightarrow> nat" where
  "ibv_xrcd_init_attr_mask_bit IBV_XRCD_INIT_ATTR_FD = 0"
| "ibv_xrcd_init_attr_mask_bit IBV_XRCD_INIT_ATTR_OFLAGS = 1"
| "ibv_xrcd_init_attr_mask_bit IBV_XRCD_INIT_ATTR_RESERVED = 2"

record ibv_xrcd_init_attr =
  xrcd_init_attr_comp_mask :: u32
  xrcd_init_attr_fd :: int
  xrcd_init_attr_oflags :: int

record ibv_xrcd =
  xrcd_context :: ptr

datatype (plugins only: code) ibv_rereg_mr_flags =
    IBV_REREG_MR_CHANGE_TRANSLATION
  | IBV_REREG_MR_CHANGE_PD
  | IBV_REREG_MR_CHANGE_ACCESS
  | IBV_REREG_MR_FLAGS_SUPPORTED

primrec ibv_rereg_mr_flags_val :: "ibv_rereg_mr_flags \<Rightarrow> int" where
  "ibv_rereg_mr_flags_val IBV_REREG_MR_CHANGE_TRANSLATION = push_bit 0 1"
| "ibv_rereg_mr_flags_val IBV_REREG_MR_CHANGE_PD = push_bit 1 1"
| "ibv_rereg_mr_flags_val IBV_REREG_MR_CHANGE_ACCESS = push_bit 2 1"
| "ibv_rereg_mr_flags_val IBV_REREG_MR_FLAGS_SUPPORTED = 7"

record ibv_mr =
  mr_context :: ptr
  mr_pd :: ptr
  mr_addr :: ptr
  mr_length :: u64
  mr_handle :: u32
  mr_lkey :: u32
  mr_rkey :: u32

datatype (plugins only: code) ibv_mw_type =
    IBV_MW_TYPE_1
  | IBV_MW_TYPE_2

primrec ibv_mw_type_val :: "ibv_mw_type \<Rightarrow> int" where
  "ibv_mw_type_val IBV_MW_TYPE_1 = 1"
| "ibv_mw_type_val IBV_MW_TYPE_2 = 2"

record ibv_mw =
  mw_context :: ptr
  mw_pd :: ptr
  mw_rkey :: u32
  mw_handle :: u32
  mw_type :: ibv_mw_type

record ibv_global_route =
  global_route_dgid :: ibv_gid
  global_route_flow_label :: u32
  global_route_sgid_index :: u8
  global_route_hop_limit :: u8
  global_route_traffic_class :: u8

record ibv_grh =
  grh_version_tclass_flow :: u32
  grh_paylen :: u16
  grh_next_hdr :: u8
  grh_hop_limit :: u8
  grh_sgid :: ibv_gid
  grh_dgid :: ibv_gid

datatype (plugins only: code) ibv_rate =
    IBV_RATE_MAX
  | IBV_RATE_2_5_GBPS
  | IBV_RATE_5_GBPS
  | IBV_RATE_10_GBPS
  | IBV_RATE_20_GBPS
  | IBV_RATE_30_GBPS
  | IBV_RATE_40_GBPS
  | IBV_RATE_60_GBPS
  | IBV_RATE_80_GBPS
  | IBV_RATE_120_GBPS
  | IBV_RATE_14_GBPS
  | IBV_RATE_56_GBPS
  | IBV_RATE_112_GBPS
  | IBV_RATE_168_GBPS
  | IBV_RATE_25_GBPS
  | IBV_RATE_100_GBPS
  | IBV_RATE_200_GBPS
  | IBV_RATE_300_GBPS
  | IBV_RATE_28_GBPS
  | IBV_RATE_50_GBPS
  | IBV_RATE_400_GBPS
  | IBV_RATE_600_GBPS
  | IBV_RATE_800_GBPS
  | IBV_RATE_1200_GBPS

primrec ibv_rate_val :: "ibv_rate \<Rightarrow> int" where
  "ibv_rate_val IBV_RATE_MAX = 0"
| "ibv_rate_val IBV_RATE_2_5_GBPS = 2"
| "ibv_rate_val IBV_RATE_5_GBPS = 5"
| "ibv_rate_val IBV_RATE_10_GBPS = 3"
| "ibv_rate_val IBV_RATE_20_GBPS = 6"
| "ibv_rate_val IBV_RATE_30_GBPS = 4"
| "ibv_rate_val IBV_RATE_40_GBPS = 7"
| "ibv_rate_val IBV_RATE_60_GBPS = 8"
| "ibv_rate_val IBV_RATE_80_GBPS = 9"
| "ibv_rate_val IBV_RATE_120_GBPS = 10"
| "ibv_rate_val IBV_RATE_14_GBPS = 11"
| "ibv_rate_val IBV_RATE_56_GBPS = 12"
| "ibv_rate_val IBV_RATE_112_GBPS = 13"
| "ibv_rate_val IBV_RATE_168_GBPS = 14"
| "ibv_rate_val IBV_RATE_25_GBPS = 15"
| "ibv_rate_val IBV_RATE_100_GBPS = 16"
| "ibv_rate_val IBV_RATE_200_GBPS = 17"
| "ibv_rate_val IBV_RATE_300_GBPS = 18"
| "ibv_rate_val IBV_RATE_28_GBPS = 19"
| "ibv_rate_val IBV_RATE_50_GBPS = 20"
| "ibv_rate_val IBV_RATE_400_GBPS = 21"
| "ibv_rate_val IBV_RATE_600_GBPS = 22"
| "ibv_rate_val IBV_RATE_800_GBPS = 23"
| "ibv_rate_val IBV_RATE_1200_GBPS = 24"

record ibv_ah_attr =
  ah_attr_grh :: ibv_global_route
  ah_attr_dlid :: u16
  ah_attr_sl :: u8
  ah_attr_src_path_bits :: u8
  ah_attr_static_rate :: u8
  ah_attr_is_global :: u8
  ah_attr_port_num :: u8

datatype (plugins only: code) ibv_srq_attr_mask =
    IBV_SRQ_MAX_WR
  | IBV_SRQ_LIMIT

primrec ibv_srq_attr_mask_bit :: "ibv_srq_attr_mask \<Rightarrow> nat" where
  "ibv_srq_attr_mask_bit IBV_SRQ_MAX_WR = 0"
| "ibv_srq_attr_mask_bit IBV_SRQ_LIMIT = 1"

record ibv_srq_attr =
  srq_attr_max_wr :: u32
  srq_attr_max_sge :: u32
  srq_attr_srq_limit :: u32

record ibv_srq_init_attr =
  srq_init_attr_srq_context :: ptr
  srq_init_attr_attr :: ibv_srq_attr

datatype (plugins only: code) ibv_srq_type =
    IBV_SRQT_BASIC
  | IBV_SRQT_XRC
  | IBV_SRQT_TM

primrec ibv_srq_type_val :: "ibv_srq_type \<Rightarrow> int" where
  "ibv_srq_type_val IBV_SRQT_BASIC = 0"
| "ibv_srq_type_val IBV_SRQT_XRC = 1"
| "ibv_srq_type_val IBV_SRQT_TM = 2"

datatype (plugins only: code) ibv_srq_init_attr_mask =
    IBV_SRQ_INIT_ATTR_TYPE
  | IBV_SRQ_INIT_ATTR_PD
  | IBV_SRQ_INIT_ATTR_XRCD
  | IBV_SRQ_INIT_ATTR_CQ
  | IBV_SRQ_INIT_ATTR_TM
  | IBV_SRQ_INIT_ATTR_RESERVED

primrec ibv_srq_init_attr_mask_bit :: "ibv_srq_init_attr_mask \<Rightarrow> nat" where
  "ibv_srq_init_attr_mask_bit IBV_SRQ_INIT_ATTR_TYPE = 0"
| "ibv_srq_init_attr_mask_bit IBV_SRQ_INIT_ATTR_PD = 1"
| "ibv_srq_init_attr_mask_bit IBV_SRQ_INIT_ATTR_XRCD = 2"
| "ibv_srq_init_attr_mask_bit IBV_SRQ_INIT_ATTR_CQ = 3"
| "ibv_srq_init_attr_mask_bit IBV_SRQ_INIT_ATTR_TM = 4"
| "ibv_srq_init_attr_mask_bit IBV_SRQ_INIT_ATTR_RESERVED = 5"

record ibv_tm_cap =
  tm_cap_max_num_tags :: u32
  tm_cap_max_ops :: u32

record ibv_srq_init_attr_ex =
  srq_init_attr_ex_srq_context :: ptr
  srq_init_attr_ex_attr :: ibv_srq_attr
  srq_init_attr_ex_comp_mask :: u32
  srq_init_attr_ex_srq_type :: ibv_srq_type
  srq_init_attr_ex_pd :: ptr
  srq_init_attr_ex_xrcd :: ptr
  srq_init_attr_ex_cq :: ptr
  srq_init_attr_ex_tm_cap :: ibv_tm_cap

datatype (plugins only: code) ibv_wq_type =
    IBV_WQT_RQ

primrec ibv_wq_type_val :: "ibv_wq_type \<Rightarrow> int" where
  "ibv_wq_type_val IBV_WQT_RQ = 0"

datatype (plugins only: code) ibv_wq_init_attr_mask =
    IBV_WQ_INIT_ATTR_FLAGS
  | IBV_WQ_INIT_ATTR_RESERVED

primrec ibv_wq_init_attr_mask_bit :: "ibv_wq_init_attr_mask \<Rightarrow> nat" where
  "ibv_wq_init_attr_mask_bit IBV_WQ_INIT_ATTR_FLAGS = 0"
| "ibv_wq_init_attr_mask_bit IBV_WQ_INIT_ATTR_RESERVED = 1"

datatype (plugins only: code) ibv_wq_flags =
    IBV_WQ_FLAGS_CVLAN_STRIPPING
  | IBV_WQ_FLAGS_SCATTER_FCS
  | IBV_WQ_FLAGS_DELAY_DROP
  | IBV_WQ_FLAGS_PCI_WRITE_END_PADDING
  | IBV_WQ_FLAGS_RESERVED

primrec ibv_wq_flags_bit :: "ibv_wq_flags \<Rightarrow> nat" where
  "ibv_wq_flags_bit IBV_WQ_FLAGS_CVLAN_STRIPPING = 0"
| "ibv_wq_flags_bit IBV_WQ_FLAGS_SCATTER_FCS = 1"
| "ibv_wq_flags_bit IBV_WQ_FLAGS_DELAY_DROP = 2"
| "ibv_wq_flags_bit IBV_WQ_FLAGS_PCI_WRITE_END_PADDING = 3"
| "ibv_wq_flags_bit IBV_WQ_FLAGS_RESERVED = 4"

record ibv_wq_init_attr =
  wq_init_attr_wq_context :: ptr
  wq_init_attr_wq_type :: ibv_wq_type
  wq_init_attr_max_wr :: u32
  wq_init_attr_max_sge :: u32
  wq_init_attr_pd :: ptr
  wq_init_attr_cq :: ptr
  wq_init_attr_comp_mask :: u32
  wq_init_attr_create_flags :: u32

datatype (plugins only: code) ibv_wq_state =
    IBV_WQS_RESET
  | IBV_WQS_RDY
  | IBV_WQS_ERR
  | IBV_WQS_UNKNOWN

primrec ibv_wq_state_val :: "ibv_wq_state \<Rightarrow> int" where
  "ibv_wq_state_val IBV_WQS_RESET = 0"
| "ibv_wq_state_val IBV_WQS_RDY = 1"
| "ibv_wq_state_val IBV_WQS_ERR = 2"
| "ibv_wq_state_val IBV_WQS_UNKNOWN = 3"

datatype (plugins only: code) ibv_wq_attr_mask =
    IBV_WQ_ATTR_STATE
  | IBV_WQ_ATTR_CURR_STATE
  | IBV_WQ_ATTR_FLAGS
  | IBV_WQ_ATTR_RESERVED

primrec ibv_wq_attr_mask_bit :: "ibv_wq_attr_mask \<Rightarrow> nat" where
  "ibv_wq_attr_mask_bit IBV_WQ_ATTR_STATE = 0"
| "ibv_wq_attr_mask_bit IBV_WQ_ATTR_CURR_STATE = 1"
| "ibv_wq_attr_mask_bit IBV_WQ_ATTR_FLAGS = 2"
| "ibv_wq_attr_mask_bit IBV_WQ_ATTR_RESERVED = 3"

record ibv_wq_attr =
  wq_attr_attr_mask :: u32
  wq_attr_wq_state :: ibv_wq_state
  wq_attr_curr_wq_state :: ibv_wq_state
  wq_attr_flags :: u32
  wq_attr_flags_mask :: u32

record ibv_rwq_ind_table =
  rwq_ind_table_context :: ptr
  rwq_ind_table_ind_tbl_handle :: int
  rwq_ind_table_ind_tbl_num :: int
  rwq_ind_table_comp_mask :: u32

datatype (plugins only: code) ibv_ind_table_init_attr_mask =
    IBV_CREATE_IND_TABLE_RESERVED

primrec ibv_ind_table_init_attr_mask_bit :: "ibv_ind_table_init_attr_mask \<Rightarrow> nat" where
  "ibv_ind_table_init_attr_mask_bit IBV_CREATE_IND_TABLE_RESERVED = 0"

record ibv_rwq_ind_table_init_attr =
  rwq_ind_table_init_attr_log_ind_tbl_size :: u32
  rwq_ind_table_init_attr_ind_tbl :: ptr
  rwq_ind_table_init_attr_comp_mask :: u32

record ibv_srq =
  srq_context :: ptr
  srq_srq_context :: ptr
  srq_pd :: ptr
  srq_handle :: u32
  srq_mutex :: opaque
  srq_cond :: opaque
  srq_events_completed :: u32

record ibv_wq =
  wq_context :: ptr
  wq_wq_context :: ptr
  wq_pd :: ptr
  wq_cq :: ptr
  wq_wq_num :: u32
  wq_handle :: u32
  wq_state :: ibv_wq_state
  wq_wq_type :: ibv_wq_type
  wq_post_recv :: ptr
  wq_mutex :: opaque
  wq_cond :: opaque
  wq_events_completed :: u32
  wq_comp_mask :: u32

record ibv_ah =
  ah_context :: ptr
  ah_pd :: ptr
  ah_handle :: u32

datatype (plugins only: code) ibv_rereg_mr_err_code =
    IBV_REREG_MR_ERR_INPUT
  | IBV_REREG_MR_ERR_DONT_FORK_NEW
  | IBV_REREG_MR_ERR_DO_FORK_OLD
  | IBV_REREG_MR_ERR_CMD
  | IBV_REREG_MR_ERR_CMD_AND_DO_FORK_NEW

primrec ibv_rereg_mr_err_code_val :: "ibv_rereg_mr_err_code \<Rightarrow> int" where
  "ibv_rereg_mr_err_code_val IBV_REREG_MR_ERR_INPUT = - 1"
| "ibv_rereg_mr_err_code_val IBV_REREG_MR_ERR_DONT_FORK_NEW = - 2"
| "ibv_rereg_mr_err_code_val IBV_REREG_MR_ERR_DO_FORK_OLD = - 3"
| "ibv_rereg_mr_err_code_val IBV_REREG_MR_ERR_CMD = - 4"
| "ibv_rereg_mr_err_code_val IBV_REREG_MR_ERR_CMD_AND_DO_FORK_NEW = - 5"

end
