(* ===== verification/Verbs_Queue.thy ===== *)
theory Verbs_Queue
  imports Verbs_Memory
begin

section \<open>Completions, queue pairs, work requests and completion queues of include/verbs.h\<close>

text \<open>
  The conventions are those of \<open>Verbs_Base\<close>.
\<close>

datatype (plugins only: code) ibv_wc_status =
    IBV_WC_SUCCESS
  | IBV_WC_LOC_LEN_ERR
  | IBV_WC_LOC_QP_OP_ERR
  | IBV_WC_LOC_EEC_OP_ERR
  | IBV_WC_LOC_PROT_ERR
  | IBV_WC_WR_FLUSH_ERR
  | IBV_WC_MW_BIND_ERR
  | IBV_WC_BAD_RESP_ERR
  | IBV_WC_LOC_ACCESS_ERR
  | IBV_WC_REM_INV_REQ_ERR
  | IBV_WC_REM_ACCESS_ERR
  | IBV_WC_REM_OP_ERR
  | IBV_WC_RETRY_EXC_ERR
  | IBV_WC_RNR_RETRY_EXC_ERR
  | IBV_WC_LOC_RDD_VIOL_ERR
  | IBV_WC_REM_INV_RD_REQ_ERR
  | IBV_WC_REM_ABORT_ERR
  | IBV_WC_INV_EECN_ERR
  | IBV_WC_INV_EEC_STATE_ERR
  | IBV_WC_FATAL_ERR
  | IBV_WC_RESP_TIMEOUT_ERR
  | IBV_WC_GENERAL_ERR
  | IBV_WC_TM_ERR
  | IBV_WC_TM_RNDV_INCOMPLETE

primrec ibv_wc_status_val :: "ibv_wc_status \<Rightarrow> int" where
  "ibv_wc_status_val IBV_WC_SUCCESS = 0"
| "ibv_wc_status_val IBV_WC_LOC_LEN_ERR = 1"
| "ibv_wc_status_val IBV_WC_LOC_QP_OP_ERR = 2"
| "ibv_wc_status_val IBV_WC_LOC_EEC_OP_ERR = 3"
| "ibv_wc_status_val IBV_WC_LOC_PROT_ERR = 4"
| "ibv_wc_status_val IBV_WC_WR_FLUSH_ERR = 5"
| "ibv_wc_status_val IBV_WC_MW_BIND_ERR = 6"
| "ibv_wc_status_val IBV_WC_BAD_RESP_ERR = 7"
| "ibv_wc_status_val IBV_WC_LOC_ACCESS_ERR = 8"
| "ibv_wc_status_val IBV_WC_REM_INV_REQ_ERR = 9"
| "ibv_wc_status_val IBV_WC_REM_ACCESS_ERR = 10"
| "ibv_wc_status_val IBV_WC_REM_OP_ERR = 11"
| "ibv_wc_status_val IBV_WC_RETRY_EXC_ERR = 12"
| "ibv_wc_status_val IBV_WC_RNR_RETRY_EXC_ERR = 13"
| "ibv_wc_status_val IBV_WC_LOC_RDD_VIOL_ERR = 14"
| "ibv_wc_status_val IBV_WC_REM_INV_RD_REQ_ERR = 15"
| "ibv_wc_status_val IBV_WC_REM_ABORT_ERR = 16"
| "ibv_wc_status_val IBV_WC_INV_EECN_ERR = 17"
| "ibv_wc_status_val IBV_WC_INV_EEC_STATE_ERR = 18"
| "ibv_wc_status_val IBV_WC_FATAL_ERR = 19"
| "ibv_wc_status_val IBV_WC_RESP_TIMEOUT_ERR = 20"
| "ibv_wc_status_val IBV_WC_GENERAL_ERR = 21"
| "ibv_wc_status_val IBV_WC_TM_ERR = 22"
| "ibv_wc_status_val IBV_WC_TM_RNDV_INCOMPLETE = 23"

datatype (plugins only: code) ibv_wc_opcode =
    IBV_WC_SEND
  | IBV_WC_RDMA_WRITE
  | IBV_WC_RDMA_READ
  | IBV_WC_COMP_SWAP
  | IBV_WC_FETCH_ADD
  | IBV_WC_BIND_MW
  | IBV_WC_LOCAL_INV
  | IBV_WC_TSO
  | IBV_WC_FLUSH
  | IBV_WC_ATOMIC_WRITE
  | IBV_WC_RECV
  | IBV_WC_RECV_RDMA_WITH_IMM
  | IBV_WC_TM_ADD
  | IBV_WC_TM_DEL
  | IBV_WC_TM_SYNC
  | IBV_WC_TM_RECV
  | IBV_WC_TM_NO_TAG
  | IBV_WC_DRIVER1
  | IBV_WC_DRIVER2
  | IBV_WC_DRIVER3

primrec ibv_wc_opcode_val :: "ibv_wc_opcode \<Rightarrow> int" where
  "ibv_wc_opcode_val IBV_WC_SEND = 0"
| "ibv_wc_opcode_val IBV_WC_RDMA_WRITE = 1"
| "ibv_wc_opcode_val IBV_WC_RDMA_READ = 2"
| "ibv_wc_opcode_val IBV_WC_COMP_SWAP = 3"
| "ibv_wc_opcode_val IBV_WC_FETCH_ADD = 4"
| "ibv_wc_opcode_val IBV_WC_BIND_MW = 5"
| "ibv_wc_opcode_val IBV_WC_LOCAL_INV = 6"
| "ibv_wc_opcode_val IBV_WC_TSO = 7"
| "ibv_wc_opcode_val IBV_WC_FLUSH = 8"
| "ibv_wc_opcode_val IBV_WC_ATOMIC_WRITE = 9"
| "ibv_wc_opcode_val IBV_WC_RECV = push_bit 7 1"
| "ibv_wc_opcode_val IBV_WC_RECV_RDMA_WITH_IMM = 129"
| "ibv_wc_opcode_val IBV_WC_TM_ADD = 130"
| "ibv_wc_opcode_val IBV_WC_TM_DEL = 131"
| "ibv_wc_opcode_val IBV_WC_TM_SYNC = 132"
| "ibv_wc_opcode_val IBV_WC_TM_RECV = 133"
| "ibv_wc_opcode_val IBV_WC_TM_NO_TAG = 134"
| "ibv_wc_opcode_val IBV_WC_DRIVER1 = 135"
| "ibv_wc_opcode_val IBV_WC_DRIVER2 = 136"
| "ibv_wc_opcode_val IBV_WC_DRIVER3 = 137"

definition IBV_WC_IP_CSUM_OK_SHIFT :: nat where "IBV_WC_IP_CSUM_OK_SHIFT = 2"

datatype (plugins only: code) ibv_create_cq_wc_flags =
    IBV_WC_EX_WITH_BYTE_LEN
  | IBV_WC_EX_WITH_IMM
  | IBV_WC_EX_WITH_QP_NUM
  | IBV_WC_EX_WITH_SRC_QP
  | IBV_WC_EX_WITH_SLID
  | IBV_WC_EX_WITH_SL
  | IBV_WC_EX_WITH_DLID_PATH_BITS
  | IBV_WC_EX_WITH_COMPLETION_TIMESTAMP
  | IBV_WC_EX_WITH_CVLAN
  | IBV_WC_EX_WITH_FLOW_TAG
  | IBV_WC_EX_WITH_TM_INFO
  | IBV_WC_EX_WITH_COMPLETION_TIMESTAMP_WALLCLOCK

primrec ibv_create_cq_wc_flags_bit :: "ibv_create_cq_wc_flags \<Rightarrow> nat" where
  "ibv_create_cq_wc_flags_bit IBV_WC_EX_WITH_BYTE_LEN = 0"
| "ibv_create_cq_wc_flags_bit IBV_WC_EX_WITH_IMM = 1"
| "ibv_create_cq_wc_flags_bit IBV_WC_EX_WITH_QP_NUM = 2"
| "ibv_create_cq_wc_flags_bit IBV_WC_EX_WITH_SRC_QP = 3"
| "ibv_create_cq_wc_flags_bit IBV_WC_EX_WITH_SLID = 4"
| "ibv_create_cq_wc_flags_bit IBV_WC_EX_WITH_SL = 5"
| "ibv_create_cq_wc_flags_bit IBV_WC_EX_WITH_DLID_PATH_BITS = 6"
| "ibv_create_cq_wc_flags_bit IBV_WC_EX_WITH_COMPLETION_TIMESTAMP = 7"
| "ibv_create_cq_wc_flags_bit IBV_WC_EX_WITH_CVLAN = 8"
| "ibv_create_cq_wc_flags_bit IBV_WC_EX_WITH_FLOW_TAG = 9"
| "ibv_create_cq_wc_flags_bit IBV_WC_EX_WITH_TM_INFO = 10"
| "ibv_create_cq_wc_flags_bit IBV_WC_EX_WITH_COMPLETION_TIMESTAMP_WALLCLOCK = 11"

definition IBV_WC_STANDARD_FLAGS :: u64 where
  "IBV_WC_STANDARD_FLAGS =
     flags_or ibv_create_cq_wc_flags_bit
       [IBV_WC_EX_WITH_BYTE_LEN, IBV_WC_EX_WITH_IMM, IBV_WC_EX_WITH_QP_NUM, IBV_WC_EX_WITH_SRC_QP,
        IBV_WC_EX_WITH_SLID, IBV_WC_EX_WITH_SL, IBV_WC_EX_WITH_DLID_PATH_BITS]"

definition IBV_CREATE_CQ_SUP_WC_FLAGS :: u64 where
  "IBV_CREATE_CQ_SUP_WC_FLAGS =
     or IBV_WC_STANDARD_FLAGS
       (flags_or ibv_create_cq_wc_flags_bit
         [IBV_WC_EX_WITH_COMPLETION_TIMESTAMP, IBV_WC_EX_WITH_CVLAN, IBV_WC_EX_WITH_FLOW_TAG,
          IBV_WC_EX_WITH_TM_INFO, IBV_WC_EX_WITH_COMPLETION_TIMESTAMP_WALLCLOCK])"

datatype (plugins only: code) ibv_wc_flags =
    IBV_WC_GRH
  | IBV_WC_WITH_IMM
  | IBV_WC_IP_CSUM_OK
  | IBV_WC_WITH_INV
  | IBV_WC_TM_SYNC_REQ
  | IBV_WC_TM_MATCH
  | IBV_WC_TM_DATA_VALID

primrec ibv_wc_flags_bit :: "ibv_wc_flags \<Rightarrow> nat" where
  "ibv_wc_flags_bit IBV_WC_GRH = 0"
| "ibv_wc_flags_bit IBV_WC_WITH_IMM = 1"
| "ibv_wc_flags_bit IBV_WC_IP_CSUM_OK = IBV_WC_IP_CSUM_OK_SHIFT"
| "ibv_wc_flags_bit IBV_WC_WITH_INV = 3"
| "ibv_wc_flags_bit IBV_WC_TM_SYNC_REQ = 4"
| "ibv_wc_flags_bit IBV_WC_TM_MATCH = 5"
| "ibv_wc_flags_bit IBV_WC_TM_DATA_VALID = 6"

text \<open>
  \<open>wc_imm_data\<close> is the 32-bit anonymous union of the source: the immediate data in network byte
  order, or the invalidated rkey.
\<close>

record ibv_wc =
  wc_wr_id :: u64
  wc_status :: ibv_wc_status
  wc_opcode :: ibv_wc_opcode
  wc_vendor_err :: u32
  wc_byte_len :: u32
  wc_imm_data :: u32
  wc_qp_num :: u32
  wc_src_qp :: u32
  wc_wc_flags :: u32
  wc_pkey_index :: u16
  wc_slid :: u16
  wc_sl :: u8
  wc_dlid_path_bits :: u8

datatype (plugins only: code) ibv_qp_type =
    IBV_QPT_RC
  | IBV_QPT_UC
  | IBV_QPT_UD
  | IBV_QPT_RAW_PACKET
  | IBV_QPT_XRC_SEND
  | IBV_QPT_XRC_RECV
  | IBV_QPT_DRIVER

primrec ibv_qp_type_val :: "ibv_qp_type \<Rightarrow> int" where
  "ibv_qp_type_val IBV_QPT_RC = 2"
| "ibv_qp_type_val IBV_QPT_UC = 3"
| "ibv_qp_type_val IBV_QPT_UD = 4"
| "ibv_qp_type_val IBV_QPT_RAW_PACKET = 8"
| "ibv_qp_type_val IBV_QPT_XRC_SEND = 9"
| "ibv_qp_type_val IBV_QPT_XRC_RECV = 10"
| "ibv_qp_type_val IBV_QPT_DRIVER = 255"

record ibv_qp_cap =
  qp_cap_max_send_wr :: u32
  qp_cap_max_recv_wr :: u32
  qp_cap_max_send_sge :: u32
  qp_cap_max_recv_sge :: u32
  qp_cap_max_inline_data :: u32

record ibv_qp_init_attr =
  qp_init_attr_qp_context :: ptr
  qp_init_attr_send_cq :: ptr
  qp_init_attr_recv_cq :: ptr
  qp_init_attr_srq :: ptr
  qp_init_attr_cap :: ibv_qp_cap
  qp_init_attr_qp_type :: ibv_qp_type
  qp_init_attr_sq_sig_all :: int

datatype (plugins only: code) ibv_qp_init_attr_mask =
    IBV_QP_INIT_ATTR_PD
  | IBV_QP_INIT_ATTR_XRCD
  | IBV_QP_INIT_ATTR_CREATE_FLAGS
  | IBV_QP_INIT_ATTR_MAX_TSO_HEADER
  | IBV_QP_INIT_ATTR_IND_TABLE
  | IBV_QP_INIT_ATTR_RX_HASH
  | IBV_QP_INIT_ATTR_SEND_OPS_FLAGS

primrec ibv_qp_init_attr_mask_bit :: "ibv_qp_init_attr_mask \<Rightarrow> nat" where
  "ibv_qp_init_attr_mask_bit IBV_QP_INIT_ATTR_PD = 0"
| "ibv_qp_init_attr_mask_bit IBV_QP_INIT_ATTR_XRCD = 1"
| "ibv_qp_init_attr_mask_bit IBV_QP_INIT_ATTR_CREATE_FLAGS = 2"
| "ibv_qp_init_attr_mask_bit IBV_QP_INIT_ATTR_MAX_TSO_HEADER = 3"
| "ibv_qp_init_attr_mask_bit IBV_QP_INIT_ATTR_IND_TABLE = 4"
| "ibv_qp_init_attr_mask_bit IBV_QP_INIT_ATTR_RX_HASH = 5"
| "ibv_qp_init_attr_mask_bit IBV_QP_INIT_ATTR_SEND_OPS_FLAGS = 6"

datatype (plugins only: code) ibv_qp_create_flags =
    IBV_QP_CREATE_BLOCK_SELF_MCAST_LB
  | IBV_QP_CREATE_SCATTER_FCS
  | IBV_QP_CREATE_CVLAN_STRIPPING
  | IBV_QP_CREATE_SOURCE_QPN
  | IBV_QP_CREATE_PCI_WRITE_END_PADDING

primrec ibv_qp_create_flags_bit :: "ibv_qp_create_flags \<Rightarrow> nat" where
  "ibv_qp_create_flags_bit IBV_QP_CREATE_BLOCK_SELF_MCAST_LB = 1"
| "ibv_qp_create_flags_bit IBV_QP_CREATE_SCATTER_FCS = 8"
| "ibv_qp_create_flags_bit IBV_QP_CREATE_CVLAN_STRIPPING = 9"
| "ibv_qp_create_flags_bit IBV_QP_CREATE_SOURCE_QPN = 10"
| "ibv_qp_create_flags_bit IBV_QP_CREATE_PCI_WRITE_END_PADDING = 11"

datatype (plugins only: code) ibv_qp_create_send_ops_flags =
    IBV_QP_EX_WITH_RDMA_WRITE
  | IBV_QP_EX_WITH_RDMA_WRITE_WITH_IMM
  | IBV_QP_EX_WITH_SEND
  | IBV_QP_EX_WITH_SEND_WITH_IMM
  | IBV_QP_EX_WITH_RDMA_READ
  | IBV_QP_EX_WITH_ATOMIC_CMP_AND_SWP
  | IBV_QP_EX_WITH_ATOMIC_FETCH_AND_ADD
  | IBV_QP_EX_WITH_LOCAL_INV
  | IBV_QP_EX_WITH_BIND_MW
  | IBV_QP_EX_WITH_SEND_WITH_INV
  | IBV_QP_EX_WITH_TSO
  | IBV_QP_EX_WITH_FLUSH
  | IBV_QP_EX_WITH_ATOMIC_WRITE

primrec ibv_qp_create_send_ops_flags_bit :: "ibv_qp_create_send_ops_flags \<Rightarrow> nat" where
  "ibv_qp_create_send_ops_flags_bit IBV_QP_EX_WITH_RDMA_WRITE = 0"
| "ibv_qp_create_send_ops_flags_bit IBV_QP_EX_WITH_RDMA_WRITE_WITH_IMM = 1"
| "ibv_qp_create_send_ops_flags_bit IBV_QP_EX_WITH_SEND = 2"
| "ibv_qp_create_send_ops_flags_bit IBV_QP_EX_WITH_SEND_WITH_IMM = 3"
| "ibv_qp_create_send_ops_flags_bit IBV_QP_EX_WITH_RDMA_READ = 4"
| "ibv_qp_create_send_ops_flags_bit IBV_QP_EX_WITH_ATOMIC_CMP_AND_SWP = 5"
| "ibv_qp_create_send_ops_flags_bit IBV_QP_EX_WITH_ATOMIC_FETCH_AND_ADD = 6"
| "ibv_qp_create_send_ops_flags_bit IBV_QP_EX_WITH_LOCAL_INV = 7"
| "ibv_qp_create_send_ops_flags_bit IBV_QP_EX_WITH_BIND_MW = 8"
| "ibv_qp_create_send_ops_flags_bit IBV_QP_EX_WITH_SEND_WITH_INV = 9"
| "ibv_qp_create_send_ops_flags_bit IBV_QP_EX_WITH_TSO = 10"
| "ibv_qp_create_send_ops_flags_bit IBV_QP_EX_WITH_FLUSH = 11"
| "ibv_qp_create_send_ops_flags_bit IBV_QP_EX_WITH_ATOMIC_WRITE = 12"

record ibv_rx_hash_conf =
  rx_hash_conf_rx_hash_function :: u8
  rx_hash_conf_rx_hash_key_len :: u8
  rx_hash_conf_rx_hash_key :: ptr
  rx_hash_conf_rx_hash_fields_mask :: u64

record ibv_qp_init_attr_ex =
  qp_init_attr_ex_qp_context :: ptr
  qp_init_attr_ex_send_cq :: ptr
  qp_init_attr_ex_recv_cq :: ptr
  qp_init_attr_ex_srq :: ptr
  qp_init_attr_ex_cap :: ibv_qp_cap
  qp_init_attr_ex_qp_type :: ibv_qp_type
  qp_init_attr_ex_sq_sig_all :: int
  qp_init_attr_ex_comp_mask :: u32
  qp_init_attr_ex_pd :: ptr
  qp_init_attr_ex_xrcd :: ptr
  qp_init_attr_ex_create_flags :: u32
  qp_init_attr_ex_max_tso_header :: u16
  qp_init_attr_ex_rwq_ind_tbl :: ptr
  qp_init_attr_ex_rx_hash_conf :: ibv_rx_hash_conf
  qp_init_attr_ex_source_qpn :: u32
  qp_init_attr_ex_send_ops_flags :: u64

datatype (plugins only: code) ibv_qp_open_attr_mask =
    IBV_QP_OPEN_ATTR_NUM
  | IBV_QP_OPEN_ATTR_XRCD
  | IBV_QP_OPEN_ATTR_CONTEXT
  | IBV_QP_OPEN_ATTR_TYPE
  | IBV_QP_OPEN_ATTR_RESERVED

primrec ibv_qp_open_attr_mask_bit :: "ibv_qp_open_attr_mask \<Rightarrow> nat" where
  "ibv_qp_open_attr_mask_bit IBV_QP_OPEN_ATTR_NUM = 0"
| "ibv_qp_open_attr_mask_bit IBV_QP_OPEN_ATTR_XRCD = 1"
| "ibv_qp_open_attr_mask_bit IBV_QP_OPEN_ATTR_CONTEXT = 2"
| "ibv_qp_open_attr_mask_bit IBV_QP_OPEN_ATTR_TYPE = 3"
| "ibv_qp_open_attr_mask_bit IBV_QP_OPEN_ATTR_RESERVED = 4"

record ibv_qp_open_attr =
  qp_open_attr_comp_mask :: u32
  qp_open_attr_qp_num :: u32
  qp_open_attr_xrcd :: ptr
  qp_open_attr_qp_context :: ptr
  qp_open_attr_qp_type :: ibv_qp_type

datatype (plugins only: code) ibv_qp_attr_mask =
    IBV_QP_STATE
  | IBV_QP_CUR_STATE
  | IBV_QP_EN_SQD_ASYNC_NOTIFY
  | IBV_QP_ACCESS_FLAGS
  | IBV_QP_PKEY_INDEX
  | IBV_QP_PORT
  | IBV_QP_QKEY
  | IBV_QP_AV
  | IBV_QP_PATH_MTU
  | IBV_QP_TIMEOUT
  | IBV_QP_RETRY_CNT
  | IBV_QP_RNR_RETRY
  | IBV_QP_RQ_PSN
  | IBV_QP_MAX_QP_RD_ATOMIC
  | IBV_QP_ALT_PATH
  | IBV_QP_MIN_RNR_TIMER
  | IBV_QP_SQ_PSN
  | IBV_QP_MAX_DEST_RD_ATOMIC
  | IBV_QP_PATH_MIG_STATE
  | IBV_QP_CAP
  | IBV_QP_DEST_QPN
  | IBV_QP_RATE_LIMIT

primrec ibv_qp_attr_mask_bit :: "ibv_qp_attr_mask \<Rightarrow> nat" where
  "ibv_qp_attr_mask_bit IBV_QP_STATE = 0"
| "ibv_qp_attr_mask_bit IBV_QP_CUR_STATE = 1"
| "ibv_qp_attr_mask_bit IBV_QP_EN_SQD_ASYNC_NOTIFY = 2"
| "ibv_qp_attr_mask_bit IBV_QP_ACCESS_FLAGS = 3"
| "ibv_qp_attr_mask_bit IBV_QP_PKEY_INDEX = 4"
| "ibv_qp_attr_mask_bit IBV_QP_PORT = 5"
| "ibv_qp_attr_mask_bit IBV_QP_QKEY = 6"
| "ibv_qp_attr_mask_bit IBV_QP_AV = 7"
| "ibv_qp_attr_mask_bit IBV_QP_PATH_MTU = 8"
| "ibv_qp_attr_mask_bit IBV_QP_TIMEOUT = 9"
| "ibv_qp_attr_mask_bit IBV_QP_RETRY_CNT = 10"
| "ibv_qp_attr_mask_bit IBV_QP_RNR_RETRY = 11"
| "ibv_qp_attr_mask_bit IBV_QP_RQ_PSN = 12"
| "ibv_qp_attr_mask_bit IBV_QP_MAX_QP_RD_ATOMIC = 13"
| "ibv_qp_attr_mask_bit IBV_QP_ALT_PATH = 14"
| "ibv_qp_attr_mask_bit IBV_QP_MIN_RNR_TIMER = 15"
| "ibv_qp_attr_mask_bit IBV_QP_SQ_PSN = 16"
| "ibv_qp_attr_mask_bit IBV_QP_MAX_DEST_RD_ATOMIC = 17"
| "ibv_qp_attr_mask_bit IBV_QP_PATH_MIG_STATE = 18"
| "ibv_qp_attr_mask_bit IBV_QP_CAP = 19"
| "ibv_qp_attr_mask_bit IBV_QP_DEST_QPN = 20"
| "ibv_qp_attr_mask_bit IBV_QP_RATE_LIMIT = 25"

datatype (plugins only: code) ibv_query_qp_data_in_order_flags =
    IBV_QUERY_QP_DATA_IN_ORDER_RETURN_CAPS

primrec ibv_query_qp_data_in_order_flags_bit :: "ibv_query_qp_data_in_order_flags \<Rightarrow> nat" where
  "ibv_query_qp_data_in_order_flags_bit IBV_QUERY_QP_DATA_IN_ORDER_RETURN_CAPS = 0"

datatype (plugins only: code) ibv_query_qp_data_in_order_caps =
    IBV_QUERY_QP_DATA_IN_ORDER_WHOLE_MSG
  | IBV_QUERY_QP_DATA_IN_ORDER_ALIGNED_128_BYTES

primrec ibv_query_qp_data_in_order_caps_bit :: "ibv_query_qp_data_in_order_caps \<Rightarrow> nat" where
  "ibv_query_qp_data_in_order_caps_bit IBV_QUERY_QP_DATA_IN_ORDER_WHOLE_MSG = 0"
| "ibv_query_qp_data_in_order_caps_bit IBV_QUERY_QP_DATA_IN_ORDER_ALIGNED_128_BYTES = 1"

datatype (plugins only: code) ibv_qp_state =
    IBV_QPS_RESET
  | IBV_QPS_INIT
  | IBV_QPS_RTR
  | IBV_QPS_RTS
  | IBV_QPS_SQD
  | IBV_QPS_SQE
  | IBV_QPS_ERR
  | IBV_QPS_UNKNOWN

primrec ibv_qp_state_val :: "ibv_qp_state \<Rightarrow> int" where
  "ibv_qp_state_val IBV_QPS_RESET = 0"
| "ibv_qp_state_val IBV_QPS_INIT = 1"
| "ibv_qp_state_val IBV_QPS_RTR = 2"
| "ibv_qp_state_val IBV_QPS_RTS = 3"
| "ibv_qp_state_val IBV_QPS_SQD = 4"
| "ibv_qp_state_val IBV_QPS_SQE = 5"
| "ibv_qp_state_val IBV_QPS_ERR = 6"
| "ibv_qp_state_val IBV_QPS_UNKNOWN = 7"

datatype (plugins only: code) ibv_mig_state =
    IBV_MIG_MIGRATED
  | IBV_MIG_REARM
  | IBV_MIG_ARMED

primrec ibv_mig_state_val :: "ibv_mig_state \<Rightarrow> int" where
  "ibv_mig_state_val IBV_MIG_MIGRATED = 0"
| "ibv_mig_state_val IBV_MIG_REARM = 1"
| "ibv_mig_state_val IBV_MIG_ARMED = 2"

record ibv_qp_attr =
  qp_attr_qp_state :: ibv_qp_state
  qp_attr_cur_qp_state :: ibv_qp_state
  qp_attr_path_mtu :: ibv_mtu
  qp_attr_path_mig_state :: ibv_mig_state
  qp_attr_qkey :: u32
  qp_attr_rq_psn :: u32
  qp_attr_sq_psn :: u32
  qp_attr_dest_qp_num :: u32
  qp_attr_qp_access_flags :: u32
  qp_attr_cap :: ibv_qp_cap
  qp_attr_ah_attr :: ibv_ah_attr
  qp_attr_alt_ah_attr :: ibv_ah_attr
  qp_attr_pkey_index :: u16
  qp_attr_alt_pkey_index :: u16
  qp_attr_en_sqd_async_notify :: u8
  qp_attr_sq_draining :: u8
  qp_attr_max_rd_atomic :: u8
  qp_attr_max_dest_rd_atomic :: u8
  qp_attr_min_rnr_timer :: u8
  qp_attr_port_num :: u8
  qp_attr_timeout :: u8
  qp_attr_retry_cnt :: u8
  qp_attr_rnr_retry :: u8
  qp_attr_alt_port_num :: u8
  qp_attr_alt_timeout :: u8
  qp_attr_rate_limit :: u32

record ibv_qp_rate_limit_attr =
  qp_rate_limit_attr_rate_limit :: u32
  qp_rate_limit_attr_max_burst_sz :: u32
  qp_rate_limit_attr_typical_pkt_sz :: u16
  qp_rate_limit_attr_comp_mask :: u32

datatype (plugins only: code) ibv_wr_opcode =
    IBV_WR_RDMA_WRITE
  | IBV_WR_RDMA_WRITE_WITH_IMM
  | IBV_WR_SEND
  | IBV_WR_SEND_WITH_IMM
  | IBV_WR_RDMA_READ
  | IBV_WR_ATOMIC_CMP_AND_SWP
  | IBV_WR_ATOMIC_FETCH_AND_ADD
  | IBV_WR_LOCAL_INV
  | IBV_WR_BIND_MW
  | IBV_WR_SEND_WITH_INV
  | IBV_WR_TSO
  | IBV_WR_DRIVER1
  | IBV_WR_FLUSH
  | IBV_WR_ATOMIC_WRITE

primrec ibv_wr_opcode_val :: "ibv_wr_opcode \<Rightarrow> int" where
  "ibv_wr_opcode_val IBV_WR_RDMA_WRITE = 0"
| "ibv_wr_opcode_val IBV_WR_RDMA_WRITE_WITH_IMM = 1"
| "ibv_wr_opcode_val IBV_WR_SEND = 2"
| "ibv_wr_opcode_val IBV_WR_SEND_WITH_IMM = 3"
| "ibv_wr_opcode_val IBV_WR_RDMA_READ = 4"
| "ibv_wr_opcode_val IBV_WR_ATOMIC_CMP_AND_SWP = 5"
| "ibv_wr_opcode_val IBV_WR_ATOMIC_FETCH_AND_ADD = 6"
| "ibv_wr_opcode_val IBV_WR_LOCAL_INV = 7"
| "ibv_wr_opcode_val IBV_WR_BIND_MW = 8"
| "ibv_wr_opcode_val IBV_WR_SEND_WITH_INV = 9"
| "ibv_wr_opcode_val IBV_WR_TSO = 10"
| "ibv_wr_opcode_val IBV_WR_DRIVER1 = 11"
| "ibv_wr_opcode_val IBV_WR_FLUSH = 14"
| "ibv_wr_opcode_val IBV_WR_ATOMIC_WRITE = 15"

datatype (plugins only: code) ibv_send_flags =
    IBV_SEND_FENCE
  | IBV_SEND_SIGNALED
  | IBV_SEND_SOLICITED
  | IBV_SEND_INLINE
  | IBV_SEND_IP_CSUM

primrec ibv_send_flags_bit :: "ibv_send_flags \<Rightarrow> nat" where
  "ibv_send_flags_bit IBV_SEND_FENCE = 0"
| "ibv_send_flags_bit IBV_SEND_SIGNALED = 1"
| "ibv_send_flags_bit IBV_SEND_SOLICITED = 2"
| "ibv_send_flags_bit IBV_SEND_INLINE = 3"
| "ibv_send_flags_bit IBV_SEND_IP_CSUM = 4"

datatype (plugins only: code) ibv_placement_type =
    IBV_FLUSH_GLOBAL
  | IBV_FLUSH_PERSISTENT

primrec ibv_placement_type_bit :: "ibv_placement_type \<Rightarrow> nat" where
  "ibv_placement_type_bit IBV_FLUSH_GLOBAL = 0"
| "ibv_placement_type_bit IBV_FLUSH_PERSISTENT = 1"

datatype (plugins only: code) ibv_selectivity_level =
    IBV_FLUSH_RANGE
  | IBV_FLUSH_MR

primrec ibv_selectivity_level_val :: "ibv_selectivity_level \<Rightarrow> int" where
  "ibv_selectivity_level_val IBV_FLUSH_RANGE = 0"
| "ibv_selectivity_level_val IBV_FLUSH_MR = 1"

record ibv_data_buf =
  data_buf_addr :: ptr
  data_buf_length :: u64

record ibv_sge =
  sge_addr :: u64
  sge_length :: u32
  sge_lkey :: u32

text \<open>
  The anonymous 32-bit union is \<open>send_wr_imm_data\<close>; the union \<open>wr\<close> is a datatype with one
  constructor for each member; \<open>bind_mw\<close> and \<open>tso\<close> likewise.
\<close>

datatype (plugins only: code) ibv_send_wr_wr =
    Wr_rdma (wr_rdma_remote_addr: u64) (wr_rdma_rkey: u32)
  | Wr_atomic (wr_atomic_remote_addr: u64) (wr_atomic_compare_add: u64) (wr_atomic_swap: u64) (wr_atomic_rkey: u32)
  | Wr_ud (wr_ud_ah: ptr) (wr_ud_remote_qpn: u32) (wr_ud_remote_qkey: u32)

datatype (plugins only: code) ibv_send_wr_tail =
    Wr_bind_mw (wr_bind_mw_mw: ptr) (wr_bind_mw_rkey: u32) (wr_bind_mw_bind_info: ibv_mw_bind_info)
  | Wr_tso (wr_tso_hdr: ptr) (wr_tso_hdr_sz: u16) (wr_tso_mss: u16)

record ibv_send_wr =
  send_wr_wr_id :: u64
  send_wr_next :: ptr
  send_wr_sg_list :: ptr
  send_wr_num_sge :: int
  send_wr_opcode :: ibv_wr_opcode
  send_wr_send_flags :: u32
  send_wr_imm_data :: u32
  send_wr_wr :: ibv_send_wr_wr
  send_wr_xrc_remote_srqn :: u32
  send_wr_tail :: ibv_send_wr_tail

record ibv_recv_wr =
  recv_wr_wr_id :: u64
  recv_wr_next :: ptr
  recv_wr_sg_list :: ptr
  recv_wr_num_sge :: int

datatype (plugins only: code) ibv_ops_wr_opcode =
    IBV_WR_TAG_ADD
  | IBV_WR_TAG_DEL
  | IBV_WR_TAG_SYNC

primrec ibv_ops_wr_opcode_val :: "ibv_ops_wr_opcode \<Rightarrow> int" where
  "ibv_ops_wr_opcode_val IBV_WR_TAG_ADD = 0"
| "ibv_ops_wr_opcode_val IBV_WR_TAG_DEL = 1"
| "ibv_ops_wr_opcode_val IBV_WR_TAG_SYNC = 2"

datatype (plugins only: code) ibv_ops_flags =
    IBV_OPS_SIGNALED
  | IBV_OPS_TM_SYNC

primrec ibv_ops_flags_bit :: "ibv_ops_flags \<Rightarrow> nat" where
  "ibv_ops_flags_bit IBV_OPS_SIGNALED = 0"
| "ibv_ops_flags_bit IBV_OPS_TM_SYNC = 1"

record ibv_ops_wr_add =
  ops_add_recv_wr_id :: u64
  ops_add_sg_list :: ptr
  ops_add_num_sge :: int
  ops_add_tag :: u64
  ops_add_mask :: u64

record ibv_ops_wr_tm =
  ops_tm_unexpected_cnt :: u32
  ops_tm_handle :: u32
  ops_tm_add :: ibv_ops_wr_add

record ibv_ops_wr =
  ops_wr_wr_id :: u64
  ops_wr_next :: ptr
  ops_wr_opcode :: ibv_ops_wr_opcode
  ops_wr_flags :: int
  ops_wr_tm :: ibv_ops_wr_tm

record ibv_mw_bind =
  mw_bind_wr_id :: u64
  mw_bind_send_flags :: u32
  mw_bind_bind_info :: ibv_mw_bind_info

record ibv_qp =
  qp_context :: ptr
  qp_qp_context :: ptr
  qp_pd :: ptr
  qp_send_cq :: ptr
  qp_recv_cq :: ptr
  qp_srq :: ptr
  qp_handle :: u32
  qp_qp_num :: u32
  qp_state :: ibv_qp_state
  qp_qp_type :: ibv_qp_type
  qp_mutex :: opaque
  qp_cond :: opaque
  qp_events_completed :: u32

record ibv_qp_ex =
  qp_ex_qp_base :: ibv_qp
  qp_ex_comp_mask :: u64
  qp_ex_wr_id :: u64
  qp_ex_wr_flags :: u32
  qp_ex_wr_atomic_cmp_swp :: ptr
  qp_ex_wr_atomic_fetch_add :: ptr
  qp_ex_wr_bind_mw :: ptr
  qp_ex_wr_local_inv :: ptr
  qp_ex_wr_rdma_read :: ptr
  qp_ex_wr_rdma_write :: ptr
  qp_ex_wr_rdma_write_imm :: ptr
  qp_ex_wr_send :: ptr
  qp_ex_wr_send_imm :: ptr
  qp_ex_wr_send_inv :: ptr
  qp_ex_wr_send_tso :: ptr
  qp_ex_wr_set_ud_addr :: ptr
  qp_ex_wr_set_xrc_srqn :: ptr
  qp_ex_wr_set_inline_data :: ptr
  qp_ex_wr_set_inline_data_list :: ptr
  qp_ex_wr_set_sge :: ptr
  qp_ex_wr_set_sge_list :: ptr
  qp_ex_wr_start :: ptr
  qp_ex_wr_complete :: ptr
  qp_ex_wr_abort :: ptr
  qp_ex_wr_atomic_write :: ptr
  qp_ex_wr_flush :: ptr

record ibv_ece =
  ece_vendor_id :: u32
  ece_options :: u32
  ece_comp_mask :: u32

record ibv_comp_channel =
  comp_channel_context :: ptr
  comp_channel_fd :: int
  comp_channel_refcnt :: int

record ibv_cq =
  cq_context :: ptr
  cq_channel :: ptr
  cq_cq_context :: ptr
  cq_handle :: u32
  cq_cqe :: int
  cq_mutex :: opaque
  cq_cond :: opaque
  cq_comp_events_completed :: u32
  cq_async_events_completed :: u32

record ibv_poll_cq_attr =
  poll_cq_attr_comp_mask :: u32

record ibv_wc_tm_info =
  wc_tm_info_tag :: u64
  wc_tm_info_priv :: u32

record ibv_cq_ex =
  cq_ex_context :: ptr
  cq_ex_channel :: ptr
  cq_ex_cq_context :: ptr
  cq_ex_handle :: u32
  cq_ex_cqe :: int
  cq_ex_mutex :: opaque
  cq_ex_cond :: opaque
  cq_ex_comp_events_completed :: u32
  cq_ex_async_events_completed :: u32
  cq_ex_comp_mask :: u32
  cq_ex_status :: ibv_wc_status
  cq_ex_wr_id :: u64
  cq_ex_start_poll :: ptr
  cq_ex_next_poll :: ptr
  cq_ex_end_poll :: ptr
  cq_ex_read_opcode :: ptr
  cq_ex_read_vendor_err :: ptr
  cq_ex_read_byte_len :: ptr
  cq_ex_read_imm_data :: ptr
  cq_ex_read_qp_num :: ptr
  cq_ex_read_src_qp :: ptr
  cq_ex_read_wc_flags :: ptr
  cq_ex_read_slid :: ptr
  cq_ex_read_sl :: ptr
  cq_ex_read_dlid_path_bits :: ptr
  cq_ex_read_completion_ts :: ptr
  cq_ex_read_cvlan :: ptr
  cq_ex_read_flow_tag :: ptr
  cq_ex_read_tm_info :: ptr
  cq_ex_read_completion_wallclock_ns :: ptr

datatype (plugins only: code) ibv_cq_attr_mask =
    IBV_CQ_ATTR_MODERATE
  | IBV_CQ_ATTR_RESERVED

primrec ibv_cq_attr_mask_bit :: "ibv_cq_attr_mask \<Rightarrow> nat" where
  "ibv_cq_attr_mask_bit IBV_CQ_ATTR_MODERATE = 0"
| "ibv_cq_attr_mask_bit IBV_CQ_ATTR_RESERVED = 1"

record ibv_moderate_cq =
  moderate_cq_cq_count :: u16
  moderate_cq_cq_period :: u16

record ibv_modify_cq_attr =
  modify_cq_attr_attr_mask :: u32
  modify_cq_attr_moderate :: ibv_moderate_cq

end
