(* ===== verification/Rdma_Cma.thy ===== *)
theory Rdma_Cma
  imports Verbs_Queue
begin

section \<open>The connection manager's types: include/rdma_cma.h\<close>

text \<open>
  The events, identifiers and parameters of the RDMA connection manager, with the conventions of
  \<open>Verbs_Base\<close>.  The functions of librdmacm are declared in this header and defined elsewhere;
  \<open>Platform\<close> holds them as parameters.
\<close>

datatype (plugins only: code) rdma_cm_event_type =
    RDMA_CM_EVENT_ADDR_RESOLVED
  | RDMA_CM_EVENT_ADDR_ERROR
  | RDMA_CM_EVENT_ROUTE_RESOLVED
  | RDMA_CM_EVENT_ROUTE_ERROR
  | RDMA_CM_EVENT_CONNECT_REQUEST
  | RDMA_CM_EVENT_CONNECT_RESPONSE
  | RDMA_CM_EVENT_CONNECT_ERROR
  | RDMA_CM_EVENT_UNREACHABLE
  | RDMA_CM_EVENT_REJECTED
  | RDMA_CM_EVENT_ESTABLISHED
  | RDMA_CM_EVENT_DISCONNECTED
  | RDMA_CM_EVENT_DEVICE_REMOVAL
  | RDMA_CM_EVENT_MULTICAST_JOIN
  | RDMA_CM_EVENT_MULTICAST_ERROR
  | RDMA_CM_EVENT_ADDR_CHANGE
  | RDMA_CM_EVENT_TIMEWAIT_EXIT

primrec rdma_cm_event_type_val :: "rdma_cm_event_type \<Rightarrow> int" where
  "rdma_cm_event_type_val RDMA_CM_EVENT_ADDR_RESOLVED = 0"
| "rdma_cm_event_type_val RDMA_CM_EVENT_ADDR_ERROR = 1"
| "rdma_cm_event_type_val RDMA_CM_EVENT_ROUTE_RESOLVED = 2"
| "rdma_cm_event_type_val RDMA_CM_EVENT_ROUTE_ERROR = 3"
| "rdma_cm_event_type_val RDMA_CM_EVENT_CONNECT_REQUEST = 4"
| "rdma_cm_event_type_val RDMA_CM_EVENT_CONNECT_RESPONSE = 5"
| "rdma_cm_event_type_val RDMA_CM_EVENT_CONNECT_ERROR = 6"
| "rdma_cm_event_type_val RDMA_CM_EVENT_UNREACHABLE = 7"
| "rdma_cm_event_type_val RDMA_CM_EVENT_REJECTED = 8"
| "rdma_cm_event_type_val RDMA_CM_EVENT_ESTABLISHED = 9"
| "rdma_cm_event_type_val RDMA_CM_EVENT_DISCONNECTED = 10"
| "rdma_cm_event_type_val RDMA_CM_EVENT_DEVICE_REMOVAL = 11"
| "rdma_cm_event_type_val RDMA_CM_EVENT_MULTICAST_JOIN = 12"
| "rdma_cm_event_type_val RDMA_CM_EVENT_MULTICAST_ERROR = 13"
| "rdma_cm_event_type_val RDMA_CM_EVENT_ADDR_CHANGE = 14"
| "rdma_cm_event_type_val RDMA_CM_EVENT_TIMEWAIT_EXIT = 15"

datatype (plugins only: code) rdma_port_space =
    RDMA_PS_IPOIB
  | RDMA_PS_TCP
  | RDMA_PS_UDP
  | RDMA_PS_IB

primrec rdma_port_space_val :: "rdma_port_space \<Rightarrow> int" where
  "rdma_port_space_val RDMA_PS_IPOIB = 2"
| "rdma_port_space_val RDMA_PS_TCP = 262"
| "rdma_port_space_val RDMA_PS_UDP = 273"
| "rdma_port_space_val RDMA_PS_IB = 319"

record rdma_ib_addr =
  ib_addr_sgid :: ibv_gid
  ib_addr_dgid :: ibv_gid
  ib_addr_pkey :: u16

text \<open>
  The unions of socket addresses are the bytes of their largest member, \<open>sockaddr_storage\<close>.
\<close>

record rdma_addr =
  addr_src_storage :: "u8 list"
  addr_dst_storage :: "u8 list"
  addr_addr_ibaddr :: rdma_ib_addr

record rdma_route =
  route_addr :: rdma_addr
  route_path_rec :: ptr
  route_num_paths :: int

record rdma_event_channel =
  event_channel_fd :: int

record rdma_cm_id =
  cm_id_verbs :: ptr
  cm_id_channel :: ptr
  cm_id_context :: ptr
  cm_id_qp :: ptr
  cm_id_route :: rdma_route
  cm_id_ps :: rdma_port_space
  cm_id_port_num :: u8
  cm_id_event :: ptr
  cm_id_send_cq_channel :: ptr
  cm_id_send_cq :: ptr
  cm_id_recv_cq_channel :: ptr
  cm_id_recv_cq :: ptr
  cm_id_srq :: ptr
  cm_id_pd :: ptr
  cm_id_qp_type :: ibv_qp_type

definition RDMA_MAX_RESP_RES :: int where "RDMA_MAX_RESP_RES = 255"

definition RDMA_MAX_INIT_DEPTH :: int where "RDMA_MAX_INIT_DEPTH = 255"

record rdma_conn_param =
  conn_param_private_data :: ptr
  conn_param_private_data_len :: u8
  conn_param_responder_resources :: u8
  conn_param_initiator_depth :: u8
  conn_param_flow_control :: u8
  conn_param_retry_count :: u8
  conn_param_rnr_retry_count :: u8
  conn_param_srq :: u8
  conn_param_qp_num :: u32

record rdma_ud_param =
  ud_param_private_data :: ptr
  ud_param_private_data_len :: u8
  ud_param_ah_attr :: ibv_ah_attr
  ud_param_qp_num :: u32
  ud_param_qkey :: u32

datatype (plugins only: code) rdma_cm_event_param =
    Event_conn rdma_conn_param
  | Event_ud rdma_ud_param

record rdma_cm_event =
  cm_event_id :: ptr
  cm_event_listen_id :: ptr
  cm_event_event :: rdma_cm_event_type
  cm_event_status :: int
  cm_event_param :: rdma_cm_event_param

text \<open>The flags of \<open>rdma_addrinfo\<close>.\<close>

definition RAI_PASSIVE :: u32 where "RAI_PASSIVE = 1"

definition RAI_NUMERICHOST :: u32 where "RAI_NUMERICHOST = 2"

definition RAI_NOROUTE :: u32 where "RAI_NOROUTE = 4"

definition RAI_FAMILY :: u32 where "RAI_FAMILY = 8"

record rdma_addrinfo =
  ai_flags :: u32
  ai_family :: int
  ai_qp_type :: int
  ai_port_space :: int
  ai_src_len :: u32
  ai_dst_len :: u32
  ai_src_addr :: ptr
  ai_dst_addr :: ptr
  ai_src_canonname :: ptr
  ai_dst_canonname :: ptr
  ai_route_len :: u64
  ai_route :: ptr
  ai_connect_len :: u64
  ai_connect :: ptr
  ai_next :: ptr

datatype (plugins only: code) rdma_cm_join_mc_attr_mask =
    RDMA_CM_JOIN_MC_ATTR_ADDRESS
  | RDMA_CM_JOIN_MC_ATTR_JOIN_FLAGS
  | RDMA_CM_JOIN_MC_ATTR_RESERVED

primrec rdma_cm_join_mc_attr_mask_bit :: "rdma_cm_join_mc_attr_mask \<Rightarrow> nat" where
  "rdma_cm_join_mc_attr_mask_bit RDMA_CM_JOIN_MC_ATTR_ADDRESS = 0"
| "rdma_cm_join_mc_attr_mask_bit RDMA_CM_JOIN_MC_ATTR_JOIN_FLAGS = 1"
| "rdma_cm_join_mc_attr_mask_bit RDMA_CM_JOIN_MC_ATTR_RESERVED = 2"

datatype (plugins only: code) rdma_cm_mc_join_flags =
    RDMA_MC_JOIN_FLAG_FULLMEMBER
  | RDMA_MC_JOIN_FLAG_SENDONLY_FULLMEMBER
  | RDMA_MC_JOIN_FLAG_RESERVED

primrec rdma_cm_mc_join_flags_val :: "rdma_cm_mc_join_flags \<Rightarrow> int" where
  "rdma_cm_mc_join_flags_val RDMA_MC_JOIN_FLAG_FULLMEMBER = 0"
| "rdma_cm_mc_join_flags_val RDMA_MC_JOIN_FLAG_SENDONLY_FULLMEMBER = 1"
| "rdma_cm_mc_join_flags_val RDMA_MC_JOIN_FLAG_RESERVED = 2"

record rdma_cm_join_mc_attr_ex =
  cm_join_mc_attr_ex_comp_mask :: u32
  cm_join_mc_attr_ex_join_flags :: u32
  cm_join_mc_attr_ex_addr :: ptr

definition RDMA_OPTION_ID :: int where "RDMA_OPTION_ID = 0"

definition RDMA_OPTION_IB :: int where "RDMA_OPTION_IB = 1"

definition RDMA_OPTION_ID_TOS :: int where "RDMA_OPTION_ID_TOS = 0"

definition RDMA_OPTION_ID_REUSEADDR :: int where "RDMA_OPTION_ID_REUSEADDR = 1"

definition RDMA_OPTION_ID_AFONLY :: int where "RDMA_OPTION_ID_AFONLY = 2"

definition RDMA_OPTION_ID_ACK_TIMEOUT :: int where "RDMA_OPTION_ID_ACK_TIMEOUT = 3"

definition RDMA_OPTION_IB_PATH :: int where "RDMA_OPTION_IB_PATH = 1"

subsection \<open>Addresses of an identifier\<close>

text \<open>
  \<open>rdma_get_local_addr\<close> and \<open>rdma_get_peer_addr\<close> return pointers into the identifier; the
  definitions return the bytes they point to.
\<close>

definition rdma_get_local_addr :: "rdma_cm_id \<Rightarrow> u8 list" where
  "rdma_get_local_addr cid = addr_src_storage (route_addr (cm_id_route cid))"

definition rdma_get_peer_addr :: "rdma_cm_id \<Rightarrow> u8 list" where
  "rdma_get_peer_addr cid = addr_dst_storage (route_addr (cm_id_route cid))"

end
