(* ===== verification/Machine.thy ===== *)
theory Machine
  imports Memory Verbs_Context Verbs_Flow Rdma_Cma
begin

section \<open>The machine a process runs on and the libraries it calls\<close>

text \<open>
  A process owns its memory (bytes) and typed heaps: \<open>qp_at m p\<close> is the structure that a pointer
  \<open>p\<close> of type \<open>struct ibv_qp *\<close> points to, and so on.  \<open>world\<close> is the state of everything that is
  not under the process's control: kernel, device, network, schedule.  A function pointer is a code
  address; \<open>code\<close> of the platform maps it to the function, with arguments and result in 64-bit
  registers.  The functions of libibverbs, librdmacm and the C library that the program calls are
  the other fields of the platform: parameters of the model, each a function of its arguments and
  the machine.
\<close>

record 'w machine =
  mem :: memory
  errno :: int
  world :: 'w
  context_at :: "ptr \<Rightarrow> ibv_context"
  vctx_at :: "ptr \<Rightarrow> verbs_context"
  pd_at :: "ptr \<Rightarrow> ibv_pd"
  td_at :: "ptr \<Rightarrow> ibv_td"
  xrcd_at :: "ptr \<Rightarrow> ibv_xrcd"
  mr_at :: "ptr \<Rightarrow> ibv_mr"
  mw_at :: "ptr \<Rightarrow> ibv_mw"
  mw_bind_at :: "ptr \<Rightarrow> ibv_mw_bind"
  dm_at :: "ptr \<Rightarrow> ibv_dm"
  srq_at :: "ptr \<Rightarrow> ibv_srq"
  wq_at :: "ptr \<Rightarrow> ibv_wq"
  ind_table_at :: "ptr \<Rightarrow> ibv_rwq_ind_table"
  counters_at :: "ptr \<Rightarrow> ibv_counters"
  flow_at :: "ptr \<Rightarrow> ibv_flow"
  flow_action_at :: "ptr \<Rightarrow> ibv_flow_action"
  cq_at :: "ptr \<Rightarrow> ibv_cq"
  cq_ex_at :: "ptr \<Rightarrow> ibv_cq_ex"
  qp_at :: "ptr \<Rightarrow> ibv_qp"
  qp_ex_at :: "ptr \<Rightarrow> ibv_qp_ex"
  sge_at :: "ptr \<Rightarrow> ibv_sge"
  send_wr_at :: "ptr \<Rightarrow> ibv_send_wr"
  recv_wr_at :: "ptr \<Rightarrow> ibv_recv_wr"
  wc_at :: "ptr \<Rightarrow> ibv_wc"
  srq_init_attr_ex_at :: "ptr \<Rightarrow> ibv_srq_init_attr_ex"
  qp_init_attr_ex_at :: "ptr \<Rightarrow> ibv_qp_init_attr_ex"
  wq_init_attr_at :: "ptr \<Rightarrow> ibv_wq_init_attr"
  device_at :: "ptr \<Rightarrow> ibv_device"
  device_attr_at :: "ptr \<Rightarrow> ibv_device_attr"
  query_input_at :: "ptr \<Rightarrow> ibv_query_device_ex_input"
  word_at :: "ptr \<Rightarrow> ptr"
  cm_id_at :: "ptr \<Rightarrow> rdma_cm_id"
  cm_event_at :: "ptr \<Rightarrow> rdma_cm_event"
  rai_at :: "ptr \<Rightarrow> rdma_addrinfo"
  addrinfo_at :: "ptr \<Rightarrow> int \<times> ptr"

text \<open>
  \<open>addrinfo_at\<close> gives the fields of a \<open>struct addrinfo\<close> that the program reads, \<open>ai_family\<close> and
  \<open>ai_addr\<close>; \<open>word_at\<close> the pointer that a pointer to a pointer refers to.
\<close>

type_synonym 'w code = "ptr \<Rightarrow> u64 list \<Rightarrow> 'w machine \<Rightarrow> u64 \<times> 'w machine"

type_synonym ('w, 'r) lib = "'w machine \<Rightarrow> 'r \<times> 'w machine"

text \<open>An \<open>int\<close> result in a register, and an \<open>int\<close> argument.\<close>

definition c_int :: "u64 \<Rightarrow> int" where
  "c_int r = sint (ucast r :: u32)"

definition int_arg :: "int \<Rightarrow> u64" where
  "int_arg i = word_of_int i"

lemma c_int_int_arg:
  assumes "- (2 ^ 31) \<le> i" and "i < 2 ^ 31"
  shows "c_int (int_arg i) = i"
proof -
  have "c_int (int_arg i) = signed_take_bit 31 (take_bit 64 i)"
    by (simp add: c_int_def int_arg_def unsigned_of_int sint_sbintrunc')
  also have "\<dots> = signed_take_bit 31 i"
    by (rule bit_eqI) (auto simp: bit_signed_take_bit_iff bit_take_bit_iff min_def)
  also have "\<dots> = i" using assms by (simp add: signed_take_bit_int_eq_self)
  finally show ?thesis .
qed

record 'w platform =
  code :: "'w code"
  access_optional_range :: u32
  lib_malloc :: "nat \<Rightarrow> ('w, ptr) lib"
  lib_getaddrinfo :: "string \<Rightarrow> ('w, int \<times> ptr) lib"
  lib_alloc_pd :: "ptr \<Rightarrow> ('w, ptr) lib"
  lib_create_comp_channel :: "ptr \<Rightarrow> ('w, ptr) lib"
  lib_create_cq :: "ptr \<Rightarrow> int \<Rightarrow> ptr \<Rightarrow> ptr \<Rightarrow> int \<Rightarrow> ('w, ptr) lib"
  lib_reg_mr :: "ptr \<Rightarrow> ptr \<Rightarrow> u64 \<Rightarrow> int \<Rightarrow> ('w, ptr) lib"
  lib_reg_mr_iova :: "ptr \<Rightarrow> ptr \<Rightarrow> u64 \<Rightarrow> u64 \<Rightarrow> int \<Rightarrow> ('w, ptr) lib"
  lib_reg_mr_iova2 :: "ptr \<Rightarrow> ptr \<Rightarrow> u64 \<Rightarrow> u64 \<Rightarrow> u32 \<Rightarrow> ('w, ptr) lib"
  lib_get_cq_event :: "ptr \<Rightarrow> ('w, int \<times> ptr \<times> ptr) lib"
  lib_ack_cq_events :: "ptr \<Rightarrow> u32 \<Rightarrow> ('w, unit) lib"
  lib_query_device :: "ptr \<Rightarrow> ptr \<Rightarrow> ('w, int) lib"
  lib_query_port_compat :: "ptr \<Rightarrow> u8 \<Rightarrow> ptr \<Rightarrow> ('w, int) lib"
  lib_create_srq :: "ptr \<Rightarrow> ptr \<Rightarrow> ('w, ptr) lib"
  lib_create_qp :: "ptr \<Rightarrow> ptr \<Rightarrow> ('w, ptr) lib"
  lib_query_gid_ex :: "ptr \<Rightarrow> u32 \<Rightarrow> u32 \<Rightarrow> ptr \<Rightarrow> u32 \<Rightarrow> u64 \<Rightarrow> ('w, int) lib"
  lib_query_gid_table :: "ptr \<Rightarrow> ptr \<Rightarrow> u64 \<Rightarrow> u32 \<Rightarrow> u64 \<Rightarrow> ('w, int) lib"
  lib_create_event_channel :: "('w, ptr) lib"
  lib_destroy_event_channel :: "ptr \<Rightarrow> ('w, unit) lib"
  lib_create_id :: "ptr \<Rightarrow> ptr \<Rightarrow> rdma_port_space \<Rightarrow> ('w, int \<times> ptr) lib"
  lib_destroy_id :: "ptr \<Rightarrow> ('w, int) lib"
  lib_resolve_addr :: "ptr \<Rightarrow> ptr \<Rightarrow> ptr \<Rightarrow> int \<Rightarrow> ('w, int) lib"
  lib_resolve_route :: "ptr \<Rightarrow> int \<Rightarrow> ('w, int) lib"
  lib_bind_addr :: "ptr \<Rightarrow> ptr \<Rightarrow> ('w, int) lib"
  lib_listen :: "ptr \<Rightarrow> int \<Rightarrow> ('w, int) lib"
  lib_rdma_create_qp :: "ptr \<Rightarrow> ptr \<Rightarrow> ibv_qp_init_attr \<Rightarrow> ('w, int) lib"
  lib_connect :: "ptr \<Rightarrow> rdma_conn_param \<Rightarrow> ('w, int) lib"
  lib_accept :: "ptr \<Rightarrow> rdma_conn_param option \<Rightarrow> ('w, int) lib"
  lib_get_cm_event :: "ptr \<Rightarrow> ('w, int \<times> ptr) lib"
  lib_ack_cm_event :: "ptr \<Rightarrow> ('w, int) lib"
  lib_rdma_getaddrinfo ::
    "string option \<Rightarrow> string option \<Rightarrow> rdma_addrinfo \<Rightarrow> ('w, int \<times> ptr) lib"
  lib_rdma_freeaddrinfo :: "ptr \<Rightarrow> ('w, unit) lib"

end
