(* ===== verification/Verbs_Ops.thy ===== *)
theory Verbs_Ops
  imports Machine
begin

section \<open>The inline functions of include/verbs.h\<close>

text \<open>
  Every verb that is an inline function of the header calls through a function pointer: the
  classic verbs through \<open>context->ops\<close>, the extended ones through the \<open>verbs_context\<close> that
  surrounds an extended context, after \<open>verbs_get_ctx_op\<close> has checked that the provider's structure
  is long enough to have the entry and that the entry is set.  An absent entry is EOPNOTSUPP for
  verbs that return \<open>int\<close>, and NULL with \<open>errno\<close> set for verbs that return a pointer.
\<close>

subsection \<open>Error numbers (Linux)\<close>

definition EPERM :: int where "EPERM = 1"

definition ENODEV :: int where "ENODEV = 19"

definition EINVAL :: int where "EINVAL = 22"

definition ENOSYS :: int where "ENOSYS = 38"

definition EOPNOTSUPP :: int where "EOPNOTSUPP = 95"

subsection \<open>Calls through function pointers\<close>

definition call_int :: "'w platform \<Rightarrow> ptr \<Rightarrow> u64 list \<Rightarrow> ('w, int) lib" where
  "call_int P f args m = (case code P f args m of (r, m') \<Rightarrow> (c_int r, m'))"

definition call_ptr :: "'w platform \<Rightarrow> ptr \<Rightarrow> u64 list \<Rightarrow> ('w, ptr) lib" where
  "call_ptr P f args m = code P f args m"

definition call_void :: "'w platform \<Rightarrow> ptr \<Rightarrow> u64 list \<Rightarrow> 'w machine \<Rightarrow> 'w machine" where
  "call_void P f args m = snd (code P f args m)"

definition call_word :: "'w platform \<Rightarrow> ptr \<Rightarrow> u64 list \<Rightarrow> ('w, 'a::len word) lib" where
  "call_word P f args m = (case code P f args m of (r, m') \<Rightarrow> (ucast r, m'))"

subsection \<open>The extended operations\<close>

text \<open>The entries of \<open>struct verbs_context\<close> that an inline function uses.\<close>

datatype (plugins only: code) vctx_op =
    Op_query_port
  | Op_advise_mr
  | Op_alloc_null_mr
  | Op_read_counters
  | Op_attach_counters_point_flow
  | Op_create_counters
  | Op_destroy_counters
  | Op_reg_dm_mr
  | Op_alloc_dm
  | Op_free_dm
  | Op_modify_flow_action_esp
  | Op_destroy_flow_action
  | Op_create_flow_action_esp
  | Op_modify_qp_rate_limit
  | Op_alloc_parent_domain
  | Op_dealloc_td
  | Op_alloc_td
  | Op_modify_cq
  | Op_post_srq_ops
  | Op_destroy_rwq_ind_table
  | Op_create_rwq_ind_table
  | Op_destroy_wq
  | Op_modify_wq
  | Op_create_wq
  | Op_query_rt_values
  | Op_create_cq_ex
  | Op_query_device_ex
  | Op_ibv_destroy_flow
  | Op_ibv_create_flow
  | Op_open_qp
  | Op_create_qp_ex
  | Op_get_srq_num
  | Op_create_srq_ex
  | Op_open_xrcd
  | Op_close_xrcd

primrec vctx_op_fn :: "vctx_op \<Rightarrow> verbs_context \<Rightarrow> ptr" where
  "vctx_op_fn Op_query_port v = vctx_query_port v"
| "vctx_op_fn Op_advise_mr v = vctx_advise_mr v"
| "vctx_op_fn Op_alloc_null_mr v = vctx_alloc_null_mr v"
| "vctx_op_fn Op_read_counters v = vctx_read_counters v"
| "vctx_op_fn Op_attach_counters_point_flow v = vctx_attach_counters_point_flow v"
| "vctx_op_fn Op_create_counters v = vctx_create_counters v"
| "vctx_op_fn Op_destroy_counters v = vctx_destroy_counters v"
| "vctx_op_fn Op_reg_dm_mr v = vctx_reg_dm_mr v"
| "vctx_op_fn Op_alloc_dm v = vctx_alloc_dm v"
| "vctx_op_fn Op_free_dm v = vctx_free_dm v"
| "vctx_op_fn Op_modify_flow_action_esp v = vctx_modify_flow_action_esp v"
| "vctx_op_fn Op_destroy_flow_action v = vctx_destroy_flow_action v"
| "vctx_op_fn Op_create_flow_action_esp v = vctx_create_flow_action_esp v"
| "vctx_op_fn Op_modify_qp_rate_limit v = vctx_modify_qp_rate_limit v"
| "vctx_op_fn Op_alloc_parent_domain v = vctx_alloc_parent_domain v"
| "vctx_op_fn Op_dealloc_td v = vctx_dealloc_td v"
| "vctx_op_fn Op_alloc_td v = vctx_alloc_td v"
| "vctx_op_fn Op_modify_cq v = vctx_modify_cq v"
| "vctx_op_fn Op_post_srq_ops v = vctx_post_srq_ops v"
| "vctx_op_fn Op_destroy_rwq_ind_table v = vctx_destroy_rwq_ind_table v"
| "vctx_op_fn Op_create_rwq_ind_table v = vctx_create_rwq_ind_table v"
| "vctx_op_fn Op_destroy_wq v = vctx_destroy_wq v"
| "vctx_op_fn Op_modify_wq v = vctx_modify_wq v"
| "vctx_op_fn Op_create_wq v = vctx_create_wq v"
| "vctx_op_fn Op_query_rt_values v = vctx_query_rt_values v"
| "vctx_op_fn Op_create_cq_ex v = vctx_create_cq_ex v"
| "vctx_op_fn Op_query_device_ex v = vctx_query_device_ex v"
| "vctx_op_fn Op_ibv_destroy_flow v = vctx_ibv_destroy_flow v"
| "vctx_op_fn Op_ibv_create_flow v = vctx_ibv_create_flow v"
| "vctx_op_fn Op_open_qp v = vctx_open_qp v"
| "vctx_op_fn Op_create_qp_ex v = vctx_create_qp_ex v"
| "vctx_op_fn Op_get_srq_num v = vctx_get_srq_num v"
| "vctx_op_fn Op_create_srq_ex v = vctx_create_srq_ex v"
| "vctx_op_fn Op_open_xrcd v = vctx_open_xrcd v"
| "vctx_op_fn Op_close_xrcd v = vctx_close_xrcd v"

text \<open>The position of an entry; every field before \<open>context\<close> takes eight bytes.\<close>

primrec vctx_op_index :: "vctx_op \<Rightarrow> nat" where
  "vctx_op_index Op_query_port = 0"
| "vctx_op_index Op_advise_mr = 1"
| "vctx_op_index Op_alloc_null_mr = 2"
| "vctx_op_index Op_read_counters = 3"
| "vctx_op_index Op_attach_counters_point_flow = 4"
| "vctx_op_index Op_create_counters = 5"
| "vctx_op_index Op_destroy_counters = 6"
| "vctx_op_index Op_reg_dm_mr = 7"
| "vctx_op_index Op_alloc_dm = 8"
| "vctx_op_index Op_free_dm = 9"
| "vctx_op_index Op_modify_flow_action_esp = 10"
| "vctx_op_index Op_destroy_flow_action = 11"
| "vctx_op_index Op_create_flow_action_esp = 12"
| "vctx_op_index Op_modify_qp_rate_limit = 13"
| "vctx_op_index Op_alloc_parent_domain = 14"
| "vctx_op_index Op_dealloc_td = 15"
| "vctx_op_index Op_alloc_td = 16"
| "vctx_op_index Op_modify_cq = 17"
| "vctx_op_index Op_post_srq_ops = 18"
| "vctx_op_index Op_destroy_rwq_ind_table = 19"
| "vctx_op_index Op_create_rwq_ind_table = 20"
| "vctx_op_index Op_destroy_wq = 21"
| "vctx_op_index Op_modify_wq = 22"
| "vctx_op_index Op_create_wq = 23"
| "vctx_op_index Op_query_rt_values = 24"
| "vctx_op_index Op_create_cq_ex = 25"
| "vctx_op_index Op_query_device_ex = 27"
| "vctx_op_index Op_ibv_destroy_flow = 28"
| "vctx_op_index Op_ibv_create_flow = 30"
| "vctx_op_index Op_open_qp = 32"
| "vctx_op_index Op_create_qp_ex = 33"
| "vctx_op_index Op_get_srq_num = 34"
| "vctx_op_index Op_create_srq_ex = 35"
| "vctx_op_index Op_open_xrcd = 36"
| "vctx_op_index Op_close_xrcd = 37"

definition vctx_offset :: "vctx_op \<Rightarrow> nat" where
  "vctx_offset op = 8 * vctx_op_index op"

text \<open>
  The fields before \<open>context\<close> are forty; \<open>struct ibv_context\<close> has a pointer, the 32 entries of
  \<open>ops\<close>, three ints with padding, a pthread mutex (40 bytes) and a pointer.
\<close>

definition vctx_context_offset :: nat where
  "vctx_context_offset = 8 * 40"

definition sizeof_ibv_context :: nat where
  "sizeof_ibv_context = 8 + 8 * 32 + 16 + 40 + 8"

definition sizeof_verbs_context :: nat where
  "sizeof_verbs_context = vctx_context_offset + sizeof_ibv_context"

definition VERBS_ABI_IS_EXTENDED :: ptr where
  "VERBS_ABI_IS_EXTENDED = - 1"

definition verbs_get_ctx :: "'w machine \<Rightarrow> ptr \<Rightarrow> ptr option" where
  "verbs_get_ctx m ctx =
     (if ctx_abi_compat (context_at m ctx) \<noteq> VERBS_ABI_IS_EXTENDED then None
      else Some (ctx - of_nat vctx_context_offset))"

definition verbs_get_ctx_op :: "'w machine \<Rightarrow> ptr \<Rightarrow> vctx_op \<Rightarrow> ptr option" where
  "verbs_get_ctx_op m ctx op =
     (case verbs_get_ctx m ctx of
        None \<Rightarrow> None
      | Some v \<Rightarrow>
          if vctx_sz (vctx_at m v) < of_nat (sizeof_verbs_context - vctx_offset op)
             \<or> vctx_op_fn op (vctx_at m v) = 0
          then None else Some v)"

text \<open>The common shapes of the extended verbs.\<close>

definition ext_int :: "'w platform \<Rightarrow> vctx_op \<Rightarrow> ptr \<Rightarrow> u64 list \<Rightarrow> ('w, int) lib" where
  "ext_int P op ctx args m =
     (case verbs_get_ctx_op m ctx op of
        None \<Rightarrow> (EOPNOTSUPP, m)
      | Some v \<Rightarrow> call_int P (vctx_op_fn op (vctx_at m v)) args m)"

definition ext_ptr :: "'w platform \<Rightarrow> vctx_op \<Rightarrow> ptr \<Rightarrow> u64 list \<Rightarrow> ('w, ptr) lib" where
  "ext_ptr P op ctx args m =
     (case verbs_get_ctx_op m ctx op of
        None \<Rightarrow> (0, m\<lparr>errno := EOPNOTSUPP\<rparr>)
      | Some v \<Rightarrow> call_ptr P (vctx_op_fn op (vctx_at m v)) args m)"

subsection \<open>Extended verbs\<close>

definition ibv_destroy_flow :: "'w platform \<Rightarrow> ptr \<Rightarrow> ('w, int) lib" where
  "ibv_destroy_flow P flow m =
     ext_int P Op_ibv_destroy_flow (flow_context (flow_at m flow)) [flow] m"

definition ibv_modify_flow_action_esp :: "'w platform \<Rightarrow> ptr \<Rightarrow> ptr \<Rightarrow> ('w, int) lib" where
  "ibv_modify_flow_action_esp P action esp m =
     ext_int P Op_modify_flow_action_esp (flow_action_context (flow_action_at m action)) [action, esp] m"

definition ibv_destroy_flow_action :: "'w platform \<Rightarrow> ptr \<Rightarrow> ('w, int) lib" where
  "ibv_destroy_flow_action P action m =
     ext_int P Op_destroy_flow_action (flow_action_context (flow_action_at m action)) [action] m"

definition ibv_advise_mr :: "'w platform \<Rightarrow> ptr \<Rightarrow> int \<Rightarrow> u32 \<Rightarrow> ptr \<Rightarrow> u32 \<Rightarrow> ('w, int) lib" where
  "ibv_advise_mr P pd advice flags sg_list num_sge m =
     ext_int P Op_advise_mr (pd_context (pd_at m pd)) [pd, int_arg advice, ucast flags, sg_list, ucast num_sge] m"

definition ibv_free_dm :: "'w platform \<Rightarrow> ptr \<Rightarrow> ('w, int) lib" where
  "ibv_free_dm P dm m =
     ext_int P Op_free_dm (dm_context (dm_at m dm)) [dm] m"

definition ibv_modify_cq :: "'w platform \<Rightarrow> ptr \<Rightarrow> ptr \<Rightarrow> ('w, int) lib" where
  "ibv_modify_cq P cq attr m =
     ext_int P Op_modify_cq (cq_context (cq_at m cq)) [cq, attr] m"

definition ibv_get_srq_num :: "'w platform \<Rightarrow> ptr \<Rightarrow> ptr \<Rightarrow> ('w, int) lib" where
  "ibv_get_srq_num P srq srq_num m =
     ext_int P Op_get_srq_num (srq_context (srq_at m srq)) [srq, srq_num] m"

definition ibv_dealloc_td :: "'w platform \<Rightarrow> ptr \<Rightarrow> ('w, int) lib" where
  "ibv_dealloc_td P td m =
     ext_int P Op_dealloc_td (td_context (td_at m td)) [td] m"

definition ibv_query_rt_values_ex :: "'w platform \<Rightarrow> ptr \<Rightarrow> ptr \<Rightarrow> ('w, int) lib" where
  "ibv_query_rt_values_ex P ctx values m =
     ext_int P Op_query_rt_values ctx [ctx, values] m"

definition ibv_modify_qp_rate_limit :: "'w platform \<Rightarrow> ptr \<Rightarrow> ptr \<Rightarrow> ('w, int) lib" where
  "ibv_modify_qp_rate_limit P qp attr m =
     ext_int P Op_modify_qp_rate_limit (qp_context (qp_at m qp)) [qp, attr] m"

definition ibv_modify_wq :: "'w platform \<Rightarrow> ptr \<Rightarrow> ptr \<Rightarrow> ('w, int) lib" where
  "ibv_modify_wq P wq wq_attr m =
     ext_int P Op_modify_wq (wq_context (wq_at m wq)) [wq, wq_attr] m"

definition ibv_destroy_wq :: "'w platform \<Rightarrow> ptr \<Rightarrow> ('w, int) lib" where
  "ibv_destroy_wq P wq m =
     ext_int P Op_destroy_wq (wq_context (wq_at m wq)) [wq] m"

definition ibv_destroy_rwq_ind_table :: "'w platform \<Rightarrow> ptr \<Rightarrow> ('w, int) lib" where
  "ibv_destroy_rwq_ind_table P table m =
     ext_int P Op_destroy_rwq_ind_table (rwq_ind_table_context (ind_table_at m table)) [table] m"

definition ibv_destroy_counters :: "'w platform \<Rightarrow> ptr \<Rightarrow> ('w, int) lib" where
  "ibv_destroy_counters P counters m =
     ext_int P Op_destroy_counters (counters_context (counters_at m counters)) [counters] m"

definition ibv_attach_counters_point_flow :: "'w platform \<Rightarrow> ptr \<Rightarrow> ptr \<Rightarrow> ptr \<Rightarrow> ('w, int) lib" where
  "ibv_attach_counters_point_flow P counters attr flow m =
     ext_int P Op_attach_counters_point_flow (counters_context (counters_at m counters)) [counters, attr, flow] m"

definition ibv_read_counters :: "'w platform \<Rightarrow> ptr \<Rightarrow> ptr \<Rightarrow> u32 \<Rightarrow> u32 \<Rightarrow> ('w, int) lib" where
  "ibv_read_counters P counters vals ncounters flags m =
     ext_int P Op_read_counters (counters_context (counters_at m counters)) [counters, vals, ucast ncounters, ucast flags] m"

definition ibv_create_flow :: "'w platform \<Rightarrow> ptr \<Rightarrow> ptr \<Rightarrow> ('w, ptr) lib" where
  "ibv_create_flow P qp flow m =
     ext_ptr P Op_ibv_create_flow (qp_context (qp_at m qp)) [qp, flow] m"

definition ibv_create_flow_action_esp :: "'w platform \<Rightarrow> ptr \<Rightarrow> ptr \<Rightarrow> ('w, ptr) lib" where
  "ibv_create_flow_action_esp P ctx esp m =
     ext_ptr P Op_create_flow_action_esp ctx [ctx, esp] m"

definition ibv_open_xrcd :: "'w platform \<Rightarrow> ptr \<Rightarrow> ptr \<Rightarrow> ('w, ptr) lib" where
  "ibv_open_xrcd P ctx attr m =
     ext_ptr P Op_open_xrcd ctx [ctx, attr] m"

definition ibv_alloc_dm :: "'w platform \<Rightarrow> ptr \<Rightarrow> ptr \<Rightarrow> ('w, ptr) lib" where
  "ibv_alloc_dm P ctx attr m =
     ext_ptr P Op_alloc_dm ctx [ctx, attr] m"

definition ibv_alloc_null_mr :: "'w platform \<Rightarrow> ptr \<Rightarrow> ('w, ptr) lib" where
  "ibv_alloc_null_mr P pd m =
     ext_ptr P Op_alloc_null_mr (pd_context (pd_at m pd)) [pd] m"

definition ibv_reg_dm_mr :: "'w platform \<Rightarrow> ptr \<Rightarrow> ptr \<Rightarrow> u64 \<Rightarrow> u64 \<Rightarrow> u32 \<Rightarrow> ('w, ptr) lib" where
  "ibv_reg_dm_mr P pd dm dm_offset len access m =
     ext_ptr P Op_reg_dm_mr (pd_context (pd_at m pd)) [pd, dm, dm_offset, len, ucast access] m"

definition ibv_create_cq_ex :: "'w platform \<Rightarrow> ptr \<Rightarrow> ptr \<Rightarrow> ('w, ptr) lib" where
  "ibv_create_cq_ex P ctx cq_attr m =
     ext_ptr P Op_create_cq_ex ctx [ctx, cq_attr] m"

definition ibv_alloc_td :: "'w platform \<Rightarrow> ptr \<Rightarrow> ptr \<Rightarrow> ('w, ptr) lib" where
  "ibv_alloc_td P ctx init_attr m =
     ext_ptr P Op_alloc_td ctx [ctx, init_attr] m"

definition ibv_alloc_parent_domain :: "'w platform \<Rightarrow> ptr \<Rightarrow> ptr \<Rightarrow> ('w, ptr) lib" where
  "ibv_alloc_parent_domain P ctx attr m =
     ext_ptr P Op_alloc_parent_domain ctx [ctx, attr] m"

definition ibv_open_qp :: "'w platform \<Rightarrow> ptr \<Rightarrow> ptr \<Rightarrow> ('w, ptr) lib" where
  "ibv_open_qp P ctx attr m =
     ext_ptr P Op_open_qp ctx [ctx, attr] m"

definition ibv_create_rwq_ind_table :: "'w platform \<Rightarrow> ptr \<Rightarrow> ptr \<Rightarrow> ('w, ptr) lib" where
  "ibv_create_rwq_ind_table P ctx init_attr m =
     ext_ptr P Op_create_rwq_ind_table ctx [ctx, init_attr] m"

definition ibv_create_counters :: "'w platform \<Rightarrow> ptr \<Rightarrow> ptr \<Rightarrow> ('w, ptr) lib" where
  "ibv_create_counters P ctx init_attr m =
     ext_ptr P Op_create_counters ctx [ctx, init_attr] m"

text \<open>
  \<open>ibv_close_xrcd\<close> does not check the result of \<open>verbs_get_ctx\<close>: on a context that is not extended
  it dereferences NULL, which is the result \<^const>\<open>None\<close>.
\<close>

definition ibv_close_xrcd :: "'w platform \<Rightarrow> ptr \<Rightarrow> 'w machine \<Rightarrow> (int \<times> 'w machine) option" where
  "ibv_close_xrcd P xrcd m =
     (case verbs_get_ctx m (xrcd_context (xrcd_at m xrcd)) of
        None \<Rightarrow> None
      | Some v \<Rightarrow> Some (call_int P (vctx_close_xrcd (vctx_at m v)) [xrcd] m))"

text \<open>\<open>bad_op\<close> is a pointer to a pointer: the store of \<open>op\<close> goes to \<open>word_at\<close>.\<close>

definition ibv_post_srq_ops :: "'w platform \<Rightarrow> ptr \<Rightarrow> ptr \<Rightarrow> ptr \<Rightarrow> ('w, int) lib" where
  "ibv_post_srq_ops P srq op bad_op m =
     (case verbs_get_ctx_op m (srq_context (srq_at m srq)) Op_post_srq_ops of
        None \<Rightarrow> (EOPNOTSUPP, m\<lparr>word_at := (word_at m)(bad_op := op)\<rparr>)
      | Some v \<Rightarrow> call_int P (vctx_post_srq_ops (vctx_at m v)) [srq, op, bad_op] m)"

text \<open>
  \<open>ibv_query_port\<close> and \<open>ibv_query_device_ex\<close> clear the caller's structure, as bytes, before a legacy
  call; an extended call receives its size.
\<close>

definition sizeof_ibv_port_attr :: nat where "sizeof_ibv_port_attr = 56"

definition sizeof_ibv_device_attr_ex :: nat where "sizeof_ibv_device_attr_ex = 400"

definition memset0 :: "ptr \<Rightarrow> nat \<Rightarrow> 'w machine \<Rightarrow> 'w machine" where
  "memset0 p n m = m\<lparr>mem := write_bytes (mem m) p (replicate n 0)\<rparr>"

definition ibv_query_port :: "'w platform \<Rightarrow> ptr \<Rightarrow> u8 \<Rightarrow> ptr \<Rightarrow> ('w, int) lib" where
  "ibv_query_port P ctx port_num port_attr m =
     (case verbs_get_ctx_op m ctx Op_query_port of
        None \<Rightarrow> lib_query_port_compat P ctx port_num port_attr
                 (memset0 port_attr sizeof_ibv_port_attr m)
      | Some v \<Rightarrow> call_int P (vctx_query_port (vctx_at m v))
                 [ctx, ucast port_num, port_attr, of_nat sizeof_ibv_port_attr] m)"

definition query_device_legacy :: "'w platform \<Rightarrow> ptr \<Rightarrow> ptr \<Rightarrow> ('w, int) lib" where
  "query_device_legacy P ctx attr m =
     lib_query_device P ctx attr (memset0 attr sizeof_ibv_device_attr_ex m)"

definition ibv_query_device_ex :: "'w platform \<Rightarrow> ptr \<Rightarrow> ptr \<Rightarrow> ptr \<Rightarrow> ('w, int) lib" where
  "ibv_query_device_ex P ctx input attr m =
     (if input \<noteq> 0 \<and> query_device_ex_input_comp_mask (query_input_at m input) \<noteq> 0 then (EINVAL, m)
      else case verbs_get_ctx_op m ctx Op_query_device_ex of
        None \<Rightarrow> query_device_legacy P ctx attr m
      | Some v \<Rightarrow>
          (case call_int P (vctx_query_device_ex (vctx_at m v))
                  [ctx, input, attr, of_nat sizeof_ibv_device_attr_ex] m of
             (ret, m') \<Rightarrow>
               if ret = EOPNOTSUPP \<or> ret = ENOSYS then query_device_legacy P ctx attr m'
               else (ret, m')))"

definition sizeof_ibv_gid_entry :: nat where "sizeof_ibv_gid_entry = 32"

definition ibv_query_gid_ex :: "'w platform \<Rightarrow> ptr \<Rightarrow> u32 \<Rightarrow> u32 \<Rightarrow> ptr \<Rightarrow> u32 \<Rightarrow> ('w, int) lib" where
  "ibv_query_gid_ex P ctx port_num gid_index entry flags m =
     lib_query_gid_ex P ctx port_num gid_index entry flags (of_nat sizeof_ibv_gid_entry) m"

definition ibv_query_gid_table :: "'w platform \<Rightarrow> ptr \<Rightarrow> ptr \<Rightarrow> u64 \<Rightarrow> u32 \<Rightarrow> ('w, int) lib" where
  "ibv_query_gid_table P ctx entries max_entries flags m =
     lib_query_gid_table P ctx entries max_entries flags (of_nat sizeof_ibv_gid_entry) m"

subsection \<open>Memory registration\<close>

text \<open>
  The macros \<open>ibv_reg_mr\<close> and \<open>ibv_reg_mr_iova\<close> pass whether the access flags are a compile-time
  constant.  The classic entry is used for constant flags without an optional flag.
\<close>

definition ibv_reg_mr :: "'w platform \<Rightarrow> bool \<Rightarrow> ptr \<Rightarrow> ptr \<Rightarrow> u64 \<Rightarrow> u32 \<Rightarrow> ('w, ptr) lib" where
  "ibv_reg_mr P is_access_const pd addr len access m =
     (if is_access_const \<and> and access (access_optional_range P) = 0
      then lib_reg_mr P pd addr len (sint access) m
      else lib_reg_mr_iova2 P pd addr len addr access m)"

definition ibv_reg_mr_iova ::
    "'w platform \<Rightarrow> bool \<Rightarrow> ptr \<Rightarrow> ptr \<Rightarrow> u64 \<Rightarrow> u64 \<Rightarrow> u32 \<Rightarrow> ('w, ptr) lib" where
  "ibv_reg_mr_iova P is_access_const pd addr len iova access m =
     (if is_access_const \<and> and access (access_optional_range P) = 0
      then lib_reg_mr_iova P pd addr len iova (sint access) m
      else lib_reg_mr_iova2 P pd addr len iova access m)"

subsection \<open>Verbs with a classic path\<close>

definition ibv_create_srq_ex :: "'w platform \<Rightarrow> ptr \<Rightarrow> ptr \<Rightarrow> ('w, ptr) lib" where
  "ibv_create_srq_ex P ctx attr_ex m =
     (let a = srq_init_attr_ex_at m attr_ex; mask = srq_init_attr_ex_comp_mask a in
      if and mask (not (flags_or ibv_srq_init_attr_mask_bit
                          [IBV_SRQ_INIT_ATTR_PD, IBV_SRQ_INIT_ATTR_TYPE])) = 0
         \<and> has_flag (ibv_srq_init_attr_mask_bit IBV_SRQ_INIT_ATTR_PD) mask
         \<and> (\<not> has_flag (ibv_srq_init_attr_mask_bit IBV_SRQ_INIT_ATTR_TYPE) mask
             \<or> srq_init_attr_ex_srq_type a = IBV_SRQT_BASIC)
      then lib_create_srq P (srq_init_attr_ex_pd a) attr_ex m
      else ext_ptr P Op_create_srq_ex ctx [ctx, attr_ex] m)"

definition ibv_create_qp_ex :: "'w platform \<Rightarrow> ptr \<Rightarrow> ptr \<Rightarrow> ('w, ptr) lib" where
  "ibv_create_qp_ex P ctx attr_ex m =
     (let a = qp_init_attr_ex_at m attr_ex in
      if qp_init_attr_ex_comp_mask a = flag (ibv_qp_init_attr_mask_bit IBV_QP_INIT_ATTR_PD)
      then lib_create_qp P (qp_init_attr_ex_pd a) attr_ex m
      else ext_ptr P Op_create_qp_ex ctx [ctx, attr_ex] m)"

text \<open>
  A new work queue gets its context, an event counter of 0 and initialised pthread objects (40 and
  48 zero bytes in glibc).
\<close>

definition ibv_create_wq :: "'w platform \<Rightarrow> ptr \<Rightarrow> ptr \<Rightarrow> ('w, ptr) lib" where
  "ibv_create_wq P ctx attr m =
     (case verbs_get_ctx_op m ctx Op_create_wq of
        None \<Rightarrow> (0, m\<lparr>errno := EOPNOTSUPP\<rparr>)
      | Some v \<Rightarrow>
          (case call_ptr P (vctx_create_wq (vctx_at m v)) [ctx, attr] m of
             (wq, m') \<Rightarrow>
               if wq \<noteq> 0
               then (wq, m'\<lparr>wq_at := (wq_at m')(wq := (wq_at m' wq)
                       \<lparr>wq_wq_context := wq_init_attr_wq_context (wq_init_attr_at m' attr),
                        wq_events_completed := 0,
                        wq_mutex := replicate 40 0,
                        wq_cond := replicate 48 0\<rparr>)\<rparr>)
               else (wq, m')))"

subsection \<open>Classic verbs: memory windows, queues, device memory\<close>

definition ibv_alloc_mw :: "'w platform \<Rightarrow> ptr \<Rightarrow> ibv_mw_type \<Rightarrow> ('w, ptr) lib" where
  "ibv_alloc_mw P pd typ m =
     (let f = ops_alloc_mw (ctx_ops (context_at m (pd_context (pd_at m pd)))) in
      if f = 0 then (0, m\<lparr>errno := EOPNOTSUPP\<rparr>)
      else call_ptr P f [pd, int_arg (ibv_mw_type_val typ)] m)"

definition ibv_dealloc_mw :: "'w platform \<Rightarrow> ptr \<Rightarrow> ('w, int) lib" where
  "ibv_dealloc_mw P mw m =
     call_int P (ops_dealloc_mw (ctx_ops (context_at m (mw_context (mw_at m mw))))) [mw] m"

definition ibv_bind_mw :: "'w platform \<Rightarrow> ptr \<Rightarrow> ptr \<Rightarrow> ptr \<Rightarrow> ('w, int) lib" where
  "ibv_bind_mw P qp mw mw_bind m =
     (let w = mw_at m mw; info = mw_bind_bind_info (mw_bind_at m mw_bind);
          mr = mw_bind_info_mr info in
      if mw_type w \<noteq> IBV_MW_TYPE_1 then (EINVAL, m)
      else if mr = 0 \<and> (mw_bind_info_addr info \<noteq> 0 \<or> mw_bind_info_length info \<noteq> 0) then (EINVAL, m)
      else if mr \<noteq> 0 \<and> mw_pd w \<noteq> mr_pd (mr_at m mr) then (EPERM, m)
      else call_int P (ops_bind_mw (ctx_ops (context_at m (mw_context w)))) [qp, mw, mw_bind] m)"

definition ibv_poll_cq :: "'w platform \<Rightarrow> ptr \<Rightarrow> int \<Rightarrow> ptr \<Rightarrow> ('w, int) lib" where
  "ibv_poll_cq P cq num_entries wc m =
     call_int P (ops_poll_cq (ctx_ops (context_at m (cq_context (cq_at m cq)))))
       [cq, int_arg num_entries, wc] m"

definition ibv_req_notify_cq :: "'w platform \<Rightarrow> ptr \<Rightarrow> int \<Rightarrow> ('w, int) lib" where
  "ibv_req_notify_cq P cq solicited_only m =
     call_int P (ops_req_notify_cq (ctx_ops (context_at m (cq_context (cq_at m cq)))))
       [cq, int_arg solicited_only] m"

definition ibv_post_srq_recv :: "'w platform \<Rightarrow> ptr \<Rightarrow> ptr \<Rightarrow> ptr \<Rightarrow> ('w, int) lib" where
  "ibv_post_srq_recv P srq recv_wr bad_recv_wr m =
     call_int P (ops_post_srq_recv (ctx_ops (context_at m (srq_context (srq_at m srq)))))
       [srq, recv_wr, bad_recv_wr] m"

definition ibv_post_send :: "'w platform \<Rightarrow> ptr \<Rightarrow> ptr \<Rightarrow> ptr \<Rightarrow> ('w, int) lib" where
  "ibv_post_send P qp wr bad_wr m =
     call_int P (ops_post_send (ctx_ops (context_at m (qp_context (qp_at m qp))))) [qp, wr, bad_wr] m"

definition ibv_post_recv :: "'w platform \<Rightarrow> ptr \<Rightarrow> ptr \<Rightarrow> ptr \<Rightarrow> ('w, int) lib" where
  "ibv_post_recv P qp wr bad_wr m =
     call_int P (ops_post_recv (ctx_ops (context_at m (qp_context (qp_at m qp))))) [qp, wr, bad_wr] m"

definition ibv_post_wq_recv :: "'w platform \<Rightarrow> ptr \<Rightarrow> ptr \<Rightarrow> ptr \<Rightarrow> ('w, int) lib" where
  "ibv_post_wq_recv P wq recv_wr bad_recv_wr m =
     call_int P (wq_post_recv (wq_at m wq)) [wq, recv_wr, bad_recv_wr] m"

definition ibv_memcpy_to_dm :: "'w platform \<Rightarrow> ptr \<Rightarrow> u64 \<Rightarrow> ptr \<Rightarrow> u64 \<Rightarrow> ('w, int) lib" where
  "ibv_memcpy_to_dm P dm dm_offset host_addr len m =
     call_int P (dm_memcpy_to_dm (dm_at m dm)) [dm, dm_offset, host_addr, len] m"

definition ibv_memcpy_from_dm :: "'w platform \<Rightarrow> ptr \<Rightarrow> ptr \<Rightarrow> u64 \<Rightarrow> u64 \<Rightarrow> ('w, int) lib" where
  "ibv_memcpy_from_dm P host_addr dm dm_offset len m =
     call_int P (dm_memcpy_from_dm (dm_at m dm)) [host_addr, dm, dm_offset, len] m"

text \<open>An extended completion queue starts with the fields of a classic one: the cast keeps the address.\<close>

definition ibv_cq_ex_to_cq :: "ptr \<Rightarrow> ptr" where
  "ibv_cq_ex_to_cq cq = cq"

subsection \<open>Arithmetic helpers\<close>

text \<open>\<open>1 << qpt\<close> is defined for shifts below 31; \<open>IBV_QPT_DRIVER\<close> (255) is beyond: \<^const>\<open>None\<close>.\<close>

definition ibv_is_qpt_supported :: "u32 \<Rightarrow> ibv_qp_type \<Rightarrow> int option" where
  "ibv_is_qpt_supported caps qpt =
     (let k = ibv_qp_type_val qpt in
      if k < 31 then Some (if has_flag (nat k) caps then 1 else 0) else None)"

definition ibv_inc_rkey :: "u32 \<Rightarrow> u32" where
  "ibv_inc_rkey rkey =
     (let mask = 0xff; newtag = (ucast (and (rkey + 1) mask) :: u8) in
      or (and rkey (not mask)) (ucast newtag))"

definition IB_ROCE_UDP_ENCAP_VALID_PORT_MIN :: u32 where
  "IB_ROCE_UDP_ENCAP_VALID_PORT_MIN = 0xC000"

definition ibv_flow_label_to_udp_sport :: "u32 \<Rightarrow> u16" where
  "ibv_flow_label_to_udp_sport fl =
     (let fl_low = and fl 0x03FFF; fl_high = and fl 0xFC000;
          fl_low = xor fl_low (drop_bit 14 fl_high) in
      ucast (or fl_low IB_ROCE_UDP_ENCAP_VALID_PORT_MIN))"

subsection \<open>Polling an extended completion queue\<close>

definition ibv_start_poll :: "'w platform \<Rightarrow> ptr \<Rightarrow> ptr \<Rightarrow> ('w, int) lib" where
  "ibv_start_poll P cq attr m =
     call_int P (cq_ex_start_poll (cq_ex_at m cq)) [cq, attr] m"

definition ibv_next_poll :: "'w platform \<Rightarrow> ptr \<Rightarrow> ('w, int) lib" where
  "ibv_next_poll P cq m =
     call_int P (cq_ex_next_poll (cq_ex_at m cq)) [cq] m"

definition ibv_end_poll :: "'w platform \<Rightarrow> ptr \<Rightarrow> 'w machine \<Rightarrow> 'w machine" where
  "ibv_end_poll P cq m =
     call_void P (cq_ex_end_poll (cq_ex_at m cq)) [cq] m"

definition ibv_wc_read_opcode :: "'w platform \<Rightarrow> ptr \<Rightarrow> ('w, int) lib" where
  "ibv_wc_read_opcode P cq m =
     call_int P (cq_ex_read_opcode (cq_ex_at m cq)) [cq] m"

definition ibv_wc_read_vendor_err :: "'w platform \<Rightarrow> ptr \<Rightarrow> ('w, u32) lib" where
  "ibv_wc_read_vendor_err P cq m =
     call_word P (cq_ex_read_vendor_err (cq_ex_at m cq)) [cq] m"

definition ibv_wc_read_byte_len :: "'w platform \<Rightarrow> ptr \<Rightarrow> ('w, u32) lib" where
  "ibv_wc_read_byte_len P cq m =
     call_word P (cq_ex_read_byte_len (cq_ex_at m cq)) [cq] m"

definition ibv_wc_read_imm_data :: "'w platform \<Rightarrow> ptr \<Rightarrow> ('w, u32) lib" where
  "ibv_wc_read_imm_data P cq m =
     call_word P (cq_ex_read_imm_data (cq_ex_at m cq)) [cq] m"

definition ibv_wc_read_invalidated_rkey :: "'w platform \<Rightarrow> ptr \<Rightarrow> ('w, u32) lib" where
  "ibv_wc_read_invalidated_rkey P cq m =
     call_word P (cq_ex_read_imm_data (cq_ex_at m cq)) [cq] m"

definition ibv_wc_read_qp_num :: "'w platform \<Rightarrow> ptr \<Rightarrow> ('w, u32) lib" where
  "ibv_wc_read_qp_num P cq m =
     call_word P (cq_ex_read_qp_num (cq_ex_at m cq)) [cq] m"

definition ibv_wc_read_src_qp :: "'w platform \<Rightarrow> ptr \<Rightarrow> ('w, u32) lib" where
  "ibv_wc_read_src_qp P cq m =
     call_word P (cq_ex_read_src_qp (cq_ex_at m cq)) [cq] m"

definition ibv_wc_read_wc_flags :: "'w platform \<Rightarrow> ptr \<Rightarrow> ('w, u32) lib" where
  "ibv_wc_read_wc_flags P cq m =
     call_word P (cq_ex_read_wc_flags (cq_ex_at m cq)) [cq] m"

definition ibv_wc_read_slid :: "'w platform \<Rightarrow> ptr \<Rightarrow> ('w, u32) lib" where
  "ibv_wc_read_slid P cq m =
     call_word P (cq_ex_read_slid (cq_ex_at m cq)) [cq] m"

definition ibv_wc_read_sl :: "'w platform \<Rightarrow> ptr \<Rightarrow> ('w, u8) lib" where
  "ibv_wc_read_sl P cq m =
     call_word P (cq_ex_read_sl (cq_ex_at m cq)) [cq] m"

definition ibv_wc_read_dlid_path_bits :: "'w platform \<Rightarrow> ptr \<Rightarrow> ('w, u8) lib" where
  "ibv_wc_read_dlid_path_bits P cq m =
     call_word P (cq_ex_read_dlid_path_bits (cq_ex_at m cq)) [cq] m"

definition ibv_wc_read_completion_ts :: "'w platform \<Rightarrow> ptr \<Rightarrow> ('w, u64) lib" where
  "ibv_wc_read_completion_ts P cq m =
     call_word P (cq_ex_read_completion_ts (cq_ex_at m cq)) [cq] m"

definition ibv_wc_read_completion_wallclock_ns :: "'w platform \<Rightarrow> ptr \<Rightarrow> ('w, u64) lib" where
  "ibv_wc_read_completion_wallclock_ns P cq m =
     call_word P (cq_ex_read_completion_wallclock_ns (cq_ex_at m cq)) [cq] m"

definition ibv_wc_read_cvlan :: "'w platform \<Rightarrow> ptr \<Rightarrow> ('w, u16) lib" where
  "ibv_wc_read_cvlan P cq m =
     call_word P (cq_ex_read_cvlan (cq_ex_at m cq)) [cq] m"

definition ibv_wc_read_flow_tag :: "'w platform \<Rightarrow> ptr \<Rightarrow> ('w, u32) lib" where
  "ibv_wc_read_flow_tag P cq m =
     call_word P (cq_ex_read_flow_tag (cq_ex_at m cq)) [cq] m"

definition ibv_wc_read_tm_info :: "'w platform \<Rightarrow> ptr \<Rightarrow> ptr \<Rightarrow> 'w machine \<Rightarrow> 'w machine" where
  "ibv_wc_read_tm_info P cq tm_info m =
     call_void P (cq_ex_read_tm_info (cq_ex_at m cq)) [cq, tm_info] m"

subsection \<open>Building work requests on an extended queue pair\<close>

definition ibv_wr_atomic_cmp_swp :: "'w platform \<Rightarrow> ptr \<Rightarrow> u32 \<Rightarrow> u64 \<Rightarrow> u64 \<Rightarrow> u64 \<Rightarrow> 'w machine \<Rightarrow> 'w machine" where
  "ibv_wr_atomic_cmp_swp P qp rkey remote_addr compare swap m =
     call_void P (qp_ex_wr_atomic_cmp_swp (qp_ex_at m qp)) [qp, ucast rkey, remote_addr, compare, swap] m"

definition ibv_wr_atomic_fetch_add :: "'w platform \<Rightarrow> ptr \<Rightarrow> u32 \<Rightarrow> u64 \<Rightarrow> u64 \<Rightarrow> 'w machine \<Rightarrow> 'w machine" where
  "ibv_wr_atomic_fetch_add P qp rkey remote_addr addv m =
     call_void P (qp_ex_wr_atomic_fetch_add (qp_ex_at m qp)) [qp, ucast rkey, remote_addr, addv] m"

definition ibv_wr_bind_mw :: "'w platform \<Rightarrow> ptr \<Rightarrow> ptr \<Rightarrow> u32 \<Rightarrow> ptr \<Rightarrow> 'w machine \<Rightarrow> 'w machine" where
  "ibv_wr_bind_mw P qp mw rkey bind_info m =
     call_void P (qp_ex_wr_bind_mw (qp_ex_at m qp)) [qp, mw, ucast rkey, bind_info] m"

definition ibv_wr_local_inv :: "'w platform \<Rightarrow> ptr \<Rightarrow> u32 \<Rightarrow> 'w machine \<Rightarrow> 'w machine" where
  "ibv_wr_local_inv P qp invalidate_rkey m =
     call_void P (qp_ex_wr_local_inv (qp_ex_at m qp)) [qp, ucast invalidate_rkey] m"

definition ibv_wr_rdma_read :: "'w platform \<Rightarrow> ptr \<Rightarrow> u32 \<Rightarrow> u64 \<Rightarrow> 'w machine \<Rightarrow> 'w machine" where
  "ibv_wr_rdma_read P qp rkey remote_addr m =
     call_void P (qp_ex_wr_rdma_read (qp_ex_at m qp)) [qp, ucast rkey, remote_addr] m"

definition ibv_wr_rdma_write :: "'w platform \<Rightarrow> ptr \<Rightarrow> u32 \<Rightarrow> u64 \<Rightarrow> 'w machine \<Rightarrow> 'w machine" where
  "ibv_wr_rdma_write P qp rkey remote_addr m =
     call_void P (qp_ex_wr_rdma_write (qp_ex_at m qp)) [qp, ucast rkey, remote_addr] m"

definition ibv_wr_flush :: "'w platform \<Rightarrow> ptr \<Rightarrow> u32 \<Rightarrow> u64 \<Rightarrow> u64 \<Rightarrow> u8 \<Rightarrow> u8 \<Rightarrow> 'w machine \<Rightarrow> 'w machine" where
  "ibv_wr_flush P qp rkey remote_addr len typ level m =
     call_void P (qp_ex_wr_flush (qp_ex_at m qp)) [qp, ucast rkey, remote_addr, len, ucast typ, ucast level] m"

definition ibv_wr_rdma_write_imm :: "'w platform \<Rightarrow> ptr \<Rightarrow> u32 \<Rightarrow> u64 \<Rightarrow> u32 \<Rightarrow> 'w machine \<Rightarrow> 'w machine" where
  "ibv_wr_rdma_write_imm P qp rkey remote_addr imm_data m =
     call_void P (qp_ex_wr_rdma_write_imm (qp_ex_at m qp)) [qp, ucast rkey, remote_addr, ucast imm_data] m"

definition ibv_wr_send :: "'w platform \<Rightarrow> ptr \<Rightarrow> 'w machine \<Rightarrow> 'w machine" where
  "ibv_wr_send P qp m =
     call_void P (qp_ex_wr_send (qp_ex_at m qp)) [qp] m"

definition ibv_wr_send_imm :: "'w platform \<Rightarrow> ptr \<Rightarrow> u32 \<Rightarrow> 'w machine \<Rightarrow> 'w machine" where
  "ibv_wr_send_imm P qp imm_data m =
     call_void P (qp_ex_wr_send_imm (qp_ex_at m qp)) [qp, ucast imm_data] m"

definition ibv_wr_send_inv :: "'w platform \<Rightarrow> ptr \<Rightarrow> u32 \<Rightarrow> 'w machine \<Rightarrow> 'w machine" where
  "ibv_wr_send_inv P qp invalidate_rkey m =
     call_void P (qp_ex_wr_send_inv (qp_ex_at m qp)) [qp, ucast invalidate_rkey] m"

definition ibv_wr_send_tso :: "'w platform \<Rightarrow> ptr \<Rightarrow> ptr \<Rightarrow> u16 \<Rightarrow> u16 \<Rightarrow> 'w machine \<Rightarrow> 'w machine" where
  "ibv_wr_send_tso P qp hdr hdr_sz mss m =
     call_void P (qp_ex_wr_send_tso (qp_ex_at m qp)) [qp, hdr, ucast hdr_sz, ucast mss] m"

definition ibv_wr_set_ud_addr :: "'w platform \<Rightarrow> ptr \<Rightarrow> ptr \<Rightarrow> u32 \<Rightarrow> u32 \<Rightarrow> 'w machine \<Rightarrow> 'w machine" where
  "ibv_wr_set_ud_addr P qp ah remote_qpn remote_qkey m =
     call_void P (qp_ex_wr_set_ud_addr (qp_ex_at m qp)) [qp, ah, ucast remote_qpn, ucast remote_qkey] m"

definition ibv_wr_set_xrc_srqn :: "'w platform \<Rightarrow> ptr \<Rightarrow> u32 \<Rightarrow> 'w machine \<Rightarrow> 'w machine" where
  "ibv_wr_set_xrc_srqn P qp remote_srqn m =
     call_void P (qp_ex_wr_set_xrc_srqn (qp_ex_at m qp)) [qp, ucast remote_srqn] m"

definition ibv_wr_set_inline_data :: "'w platform \<Rightarrow> ptr \<Rightarrow> ptr \<Rightarrow> u64 \<Rightarrow> 'w machine \<Rightarrow> 'w machine" where
  "ibv_wr_set_inline_data P qp addr len m =
     call_void P (qp_ex_wr_set_inline_data (qp_ex_at m qp)) [qp, addr, len] m"

definition ibv_wr_set_inline_data_list :: "'w platform \<Rightarrow> ptr \<Rightarrow> u64 \<Rightarrow> ptr \<Rightarrow> 'w machine \<Rightarrow> 'w machine" where
  "ibv_wr_set_inline_data_list P qp num_buf buf_list m =
     call_void P (qp_ex_wr_set_inline_data_list (qp_ex_at m qp)) [qp, num_buf, buf_list] m"

definition ibv_wr_set_sge :: "'w platform \<Rightarrow> ptr \<Rightarrow> u32 \<Rightarrow> u64 \<Rightarrow> u32 \<Rightarrow> 'w machine \<Rightarrow> 'w machine" where
  "ibv_wr_set_sge P qp lkey addr len m =
     call_void P (qp_ex_wr_set_sge (qp_ex_at m qp)) [qp, ucast lkey, addr, ucast len] m"

definition ibv_wr_set_sge_list :: "'w platform \<Rightarrow> ptr \<Rightarrow> u64 \<Rightarrow> ptr \<Rightarrow> 'w machine \<Rightarrow> 'w machine" where
  "ibv_wr_set_sge_list P qp num_sge sg_list m =
     call_void P (qp_ex_wr_set_sge_list (qp_ex_at m qp)) [qp, num_sge, sg_list] m"

definition ibv_wr_start :: "'w platform \<Rightarrow> ptr \<Rightarrow> 'w machine \<Rightarrow> 'w machine" where
  "ibv_wr_start P qp m =
     call_void P (qp_ex_wr_start (qp_ex_at m qp)) [qp] m"

definition ibv_wr_complete :: "'w platform \<Rightarrow> ptr \<Rightarrow> ('w, int) lib" where
  "ibv_wr_complete P qp m =
     call_int P (qp_ex_wr_complete (qp_ex_at m qp)) [qp] m"

definition ibv_wr_abort :: "'w platform \<Rightarrow> ptr \<Rightarrow> 'w machine \<Rightarrow> 'w machine" where
  "ibv_wr_abort P qp m =
     call_void P (qp_ex_wr_abort (qp_ex_at m qp)) [qp] m"

definition ibv_wr_atomic_write :: "'w platform \<Rightarrow> ptr \<Rightarrow> u32 \<Rightarrow> u64 \<Rightarrow> ptr \<Rightarrow> 'w machine \<Rightarrow> 'w machine" where
  "ibv_wr_atomic_write P qp rkey remote_addr atomic_wr m =
     call_void P (qp_ex_wr_atomic_write (qp_ex_at m qp)) [qp, ucast rkey, remote_addr, atomic_wr] m"


end
