(* ===== verification/Platform_Example.thy ===== *)
theory Platform_Example
  imports Machine
begin

section \<open>A quiet platform\<close>

text \<open>
  A concrete platform on which every library call succeeds and changes nothing, for applying the
  properties to concrete inputs; a property that needs a particular behaviour of a library function
  replaces that function.
\<close>

definition quiet_platform :: "'w platform" where
  "quiet_platform =
     \<lparr>code = (\<lambda>f args m. (0, m)),
      access_optional_range = 0x3FF00000,
      lib_malloc = (\<lambda>n m. (4096, m)),
      lib_getaddrinfo = (\<lambda>ip m. ((0, 8192), m)),
      lib_alloc_pd = (\<lambda>ctx m. (1, m)),
      lib_create_comp_channel = (\<lambda>ctx m. (2, m)),
      lib_create_cq = (\<lambda>ctx n c ch v m. (3, m)),
      lib_reg_mr = (\<lambda>pd addr len acc m. (4, m)),
      lib_reg_mr_iova = (\<lambda>pd addr len iova acc m. (4, m)),
      lib_reg_mr_iova2 = (\<lambda>pd addr len iova acc m. (4, m)),
      lib_get_cq_event = (\<lambda>ch m. ((0, 3, 0), m)),
      lib_ack_cq_events = (\<lambda>cq n m. ((), m)),
      lib_query_device = (\<lambda>ctx attr m. (0, m)),
      lib_query_port_compat = (\<lambda>ctx port attr m. (0, m)),
      lib_create_srq = (\<lambda>pd attr m. (5, m)),
      lib_create_qp = (\<lambda>pd attr m. (6, m)),
      lib_query_gid_ex = (\<lambda>ctx port idx entry fl sz m. (0, m)),
      lib_query_gid_table = (\<lambda>ctx entries n fl sz m. (0, m)),
      lib_create_event_channel = (\<lambda>m. (7, m)),
      lib_destroy_event_channel = (\<lambda>ch m. ((), m)),
      lib_create_id = (\<lambda>ch ctx ps m. ((0, 8), m)),
      lib_destroy_id = (\<lambda>i m. (0, m)),
      lib_resolve_addr = (\<lambda>i src dst t m. (0, m)),
      lib_resolve_route = (\<lambda>i t m. (0, m)),
      lib_bind_addr = (\<lambda>i a m. (0, m)),
      lib_listen = (\<lambda>i n m. (0, m)),
      lib_rdma_create_qp = (\<lambda>i pd attr m. (0, m)),
      lib_connect = (\<lambda>i par m. (0, m)),
      lib_accept = (\<lambda>i par m. (0, m)),
      lib_get_cm_event = (\<lambda>ch m. ((0, 9), m)),
      lib_ack_cm_event = (\<lambda>e m. (0, m)),
      lib_rdma_getaddrinfo = (\<lambda>node service hints m. ((0, 16384), m)),
      lib_rdma_freeaddrinfo = (\<lambda>res m. ((), m))\<rparr>"

lemma quiet_platform_simps [simp]:
  "lib_malloc quiet_platform n m = (4096, m)"
  "lib_rdma_getaddrinfo quiet_platform node service hints m = ((0, 16384), m)"
  "lib_rdma_freeaddrinfo quiet_platform res m = ((), m)"
  "lib_reg_mr quiet_platform p addr len acc m = (4, m)"
  "access_optional_range quiet_platform = 0x3FF00000"
  "code quiet_platform f args m = (0, m)"
  by (simp_all add: quiet_platform_def)

end
