(* ===== verification/Verbs_Laws.thy ===== *)
theory Verbs_Laws
  imports Verbs_Ops Platform_Example
begin

section \<open>Laws of the verbs header\<close>

text \<open>
  The enumerations of the header that the program tests are well-behaved (interpretations of
  \<open>c_flags\<close> and \<open>c_enum\<close>), an inline verb never jumps through an entry that the provider does not
  have, and the arithmetic helpers compute what their comments promise.
\<close>

subsection \<open>Flags and codes\<close>

interpretation acc: c_flags "ibv_access_flags_bit 20"
proof
  fix f g
  show "ibv_access_flags_bit 20 f = ibv_access_flags_bit 20 g \<Longrightarrow> f = g"
    by (cases f; cases g) simp_all
  show "ibv_access_flags_bit 20 f < 32" by (cases f) simp_all
qed

interpretation wcf: c_flags ibv_wc_flags_bit
proof
  fix f g
  show "ibv_wc_flags_bit f = ibv_wc_flags_bit g \<Longrightarrow> f = g" by (cases f; cases g) (simp_all add: IBV_WC_IP_CSUM_OK_SHIFT_def)
  show "ibv_wc_flags_bit f < 32" by (cases f) (simp_all add: IBV_WC_IP_CSUM_OK_SHIFT_def)
qed

interpretation sendf: c_flags ibv_send_flags_bit
proof
  fix f g
  show "ibv_send_flags_bit f = ibv_send_flags_bit g \<Longrightarrow> f = g" by (cases f; cases g) simp_all
  show "ibv_send_flags_bit f < 32" by (cases f) simp_all
qed

interpretation qpattr: c_flags ibv_qp_attr_mask_bit
proof
  fix f g
  show "ibv_qp_attr_mask_bit f = ibv_qp_attr_mask_bit g \<Longrightarrow> f = g" by (cases f; cases g) simp_all
  show "ibv_qp_attr_mask_bit f < 32" by (cases f) simp_all
qed

definition cm_event_types :: "rdma_cm_event_type list" where
  "cm_event_types =
     [RDMA_CM_EVENT_ADDR_RESOLVED, RDMA_CM_EVENT_ADDR_ERROR, RDMA_CM_EVENT_ROUTE_RESOLVED,
      RDMA_CM_EVENT_ROUTE_ERROR, RDMA_CM_EVENT_CONNECT_REQUEST, RDMA_CM_EVENT_CONNECT_RESPONSE,
      RDMA_CM_EVENT_CONNECT_ERROR, RDMA_CM_EVENT_UNREACHABLE, RDMA_CM_EVENT_REJECTED,
      RDMA_CM_EVENT_ESTABLISHED, RDMA_CM_EVENT_DISCONNECTED, RDMA_CM_EVENT_DEVICE_REMOVAL,
      RDMA_CM_EVENT_MULTICAST_JOIN, RDMA_CM_EVENT_MULTICAST_ERROR, RDMA_CM_EVENT_ADDR_CHANGE,
      RDMA_CM_EVENT_TIMEWAIT_EXIT]"

interpretation cmev: c_enum rdma_cm_event_type_val cm_event_types
proof
  fix e show "e \<in> set cm_event_types" by (cases e) (simp_all add: cm_event_types_def)
next
  show "distinct (map rdma_cm_event_type_val cm_event_types)" by (simp add: cm_event_types_def)
qed

subsection \<open>Availability of extended operations\<close>

lemma vctx_op_index_less: "vctx_op_index op < 40"
  by (cases op) simp_all

lemma verbs_get_ctx_op_iff:
  "verbs_get_ctx_op m ctx op = Some v \<longleftrightarrow>
     verbs_get_ctx m ctx = Some v \<and> 328 + 8 * (40 - vctx_op_index op) \<le> unat (vctx_sz (vctx_at m v))
     \<and> vctx_op_fn op (vctx_at m v) \<noteq> 0"
proof -
  let ?n = "sizeof_verbs_context - vctx_offset op"
  have n: "?n = 328 + 8 * (40 - vctx_op_index op)"
    using vctx_op_index_less [of op]
    by (simp add: sizeof_verbs_context_def vctx_context_offset_def sizeof_ibv_context_def
        vctx_offset_def)
  then have "unat (of_nat ?n :: u64) = ?n" by (intro unat_of_nat_small) simp
  then have "vctx_sz (vctx_at m w) < of_nat ?n \<longleftrightarrow> \<not> ?n \<le> unat (vctx_sz (vctx_at m w))" for w
    by (simp only: word_less_nat_alt) auto
  then show ?thesis by (auto simp: verbs_get_ctx_op_def n split: option.splits)
qed

text \<open>
  C34: The extended operations grow downwards from \<open>context\<close>: a provider whose structure is long
  enough to have one entry has every entry that lies closer to \<open>context\<close>, so such an entry is used
  exactly when it is set.
\<close>

theorem ctx_op_monotone:
  assumes "verbs_get_ctx_op m ctx op = Some v" and "vctx_op_index op \<le> vctx_op_index op'"
  shows "verbs_get_ctx_op m ctx op' = (if vctx_op_fn op' (vctx_at m v) = 0 then None else Some v)"
proof -
  have "verbs_get_ctx_op m ctx op' = Some w \<longleftrightarrow> w = v \<and> vctx_op_fn op' (vctx_at m v) \<noteq> 0" for w
    using assms by (auto simp: verbs_get_ctx_op_iff)
  then show ?thesis by (cases "verbs_get_ctx_op m ctx op'") auto
qed

definition long_provider :: "unit machine" where
  "long_provider = undefined
     \<lparr>context_at := \<lambda>_. undefined\<lparr>ctx_abi_compat := - 1\<rparr>,
      vctx_at := \<lambda>_. undefined\<lparr>vctx_sz := 648, vctx_create_cq_ex := 8, vctx_open_xrcd := 9\<rparr>\<rparr>"

lemma ctx_op_monotone_witness:
  "verbs_get_ctx_op long_provider 4096 Op_open_xrcd = Some (4096 - 320)"
proof -
  have "verbs_get_ctx_op long_provider 4096 Op_create_cq_ex = Some (4096 - 320)"
    by (simp add: verbs_get_ctx_op_iff verbs_get_ctx_def VERBS_ABI_IS_EXTENDED_def
        vctx_context_offset_def long_provider_def)
  from ctx_op_monotone [OF this, of Op_open_xrcd] show ?thesis by (simp add: long_provider_def)
qed



subsection \<open>Attributes of an old provider\<close>

text \<open>\<open>ibv_query_device\<close> writes the 232 bytes of its \<open>ibv_device_attr\<close> and no others.\<close>

definition writes_device_attr :: "'w platform \<Rightarrow> bool" where
  "writes_device_attr P \<longleftrightarrow> (\<forall>ctx attr m r m' a. lib_query_device P ctx attr m = (r, m') \<longrightarrow>
     232 \<le> unat (a - attr) \<longrightarrow> mem m' a = mem m a)"

text \<open>A provider that has no \<open>query_device_ex\<close>, or whose entry answers that it is not supported.\<close>

definition no_query_ex :: "'w platform \<Rightarrow> ptr \<Rightarrow> ptr \<Rightarrow> ptr \<Rightarrow> 'w machine \<Rightarrow> bool" where
  "no_query_ex P ctx input attr m \<longleftrightarrow>
     (case verbs_get_ctx_op m ctx Op_query_device_ex of None \<Rightarrow> True
      | Some v \<Rightarrow> fst (call_int P (vctx_query_device_ex (vctx_at m v)) [ctx, input, attr, 400] m)
          \<in> {EOPNOTSUPP, ENOSYS})"

text \<open>
  C40: What an old provider cannot tell is 0: \<open>ibv_query_device_ex\<close> on a provider without the extended
  entry, or whose entry answers EOPNOTSUPP or ENOSYS (whatever it has written by then), leaves every
  byte of the caller's structure behind the classic attributes 0, and returns what the classic query
  returns.
\<close>

theorem query_device_ex_legacy:
  assumes "writes_device_attr P" and "no_query_ex P ctx input attr m"
    and "input = 0 \<or> query_device_ex_input_comp_mask (query_input_at m input) = 0"
    and "ibv_query_device_ex P ctx input attr m = (ret, m')" and "232 \<le> i" and "i < 400"
  shows "mem m' (attr + of_nat i) = 0 \<and> (\<exists>m1. lib_query_device P ctx attr m1 = (ret, m'))"
proof -
  obtain m0 where run: "query_device_legacy P ctx attr m0 = (ret, m')"
    using assms(2-4)
    by (auto simp: ibv_query_device_ex_def no_query_ex_def sizeof_ibv_device_attr_ex_def split: option.splits prod.splits
        if_splits)
  have i: "unat (attr + of_nat i - attr :: ptr) = i" using assms(6) by (simp add: unat_of_nat_small)
  have "mem m' (attr + of_nat i) = mem (memset0 attr 400 m0) (attr + of_nat i)"
    using run assms(1,5) i
    by (simp add: query_device_legacy_def writes_device_attr_def sizeof_ibv_device_attr_ex_def)
  also have "\<dots> = 0" using i assms(6) by (simp add: memset0_def write_bytes_def)
  finally show ?thesis using run by (auto simp: query_device_legacy_def)
qed

definition old_provider :: "unit machine" where
  "old_provider = undefined\<lparr>context_at := \<lambda>_. undefined\<lparr>ctx_abi_compat := 0\<rparr>, mem := \<lambda>_. 5\<rparr>"

lemma query_device_ex_legacy_witness:
  "mem (snd (ibv_query_device_ex quiet_platform 1 0 4096 old_provider)) 4400 = 0"
proof -
  have "writes_device_attr quiet_platform" by (simp add: writes_device_attr_def quiet_platform_def)
  moreover have "no_query_ex quiet_platform 1 0 4096 old_provider"
    by (simp add: no_query_ex_def verbs_get_ctx_op_def verbs_get_ctx_def VERBS_ABI_IS_EXTENDED_def old_provider_def)
  ultimately show ?thesis
    using query_device_ex_legacy [of quiet_platform 1 0 4096 old_provider _ _ 304]
    by (cases "ibv_query_device_ex quiet_platform 1 0 4096 old_provider") auto
qed

subsection \<open>Remote keys and flow labels\<close>

lemma inc_rkey_mask:
  "ibv_inc_rkey x = or (and x (not (mask 8))) (ucast (ucast (and (x + 1) (mask 8)) :: u8))"
  by (simp add: ibv_inc_rkey_def mask_eq_decr_exp)

lemma inc_rkey_high: "drop_bit 8 (ibv_inc_rkey x) = drop_bit 8 x"
  unfolding inc_rkey_mask
  by (rule bit_word_eqI)
    (auto simp: bit_drop_bit_eq bit_or_iff bit_and_iff bit_not_iff bit_ucast_iff bit_mask_iff
      dest: bit_imp_le_length)

lemma inc_rkey_low: "(ucast (ibv_inc_rkey x) :: u8) = ucast x + 1"
proof -
  have "(ucast (ibv_inc_rkey x) :: u8) = ucast (x + 1)"
    unfolding inc_rkey_mask
    by (rule bit_word_eqI)
      (auto simp: bit_or_iff bit_and_iff bit_not_iff bit_ucast_iff bit_mask_iff)
  also have "\<dots> = ucast x + 1"
    by (simp add: word_unat_eq_iff unsigned_ucast_eq unat_word_ariths take_bit_eq_mod mod_simps
        mod_mod_cancel)
  finally show ?thesis .
qed

lemma rkey_split: "x = y" if "drop_bit 8 x = drop_bit 8 (y :: u32)" "(ucast x :: u8) = ucast y"
proof (rule bit_word_eqI)
  fix n assume "n < LENGTH(32)"
  show "bit x n = bit y n"
  proof (cases "n < 8")
    case True
    then show ?thesis
      using arg_cong [OF that(2), of "\<lambda>w. bit w n"] by (simp add: bit_ucast_iff)
  next
    case False
    with arg_cong [OF that(1), of "\<lambda>w. bit w (n - 8)"] show ?thesis by (simp add: bit_drop_bit_eq)
  qed
qed

text \<open>
  C36: \<open>ibv_inc_rkey\<close> keeps the upper 24 bits of a key (the index of the memory window) and adds one,
  modulo 256, to the low byte (the tag); after 256 increments, and no fewer, the key is the first
  one again.
\<close>

theorem inc_rkey:
  "drop_bit 8 (ibv_inc_rkey rkey) = drop_bit 8 rkey \<and>
   (ucast (ibv_inc_rkey rkey) :: u8) = ucast rkey + 1 \<and>
   ((ibv_inc_rkey ^^ n) rkey = rkey \<longleftrightarrow> 256 dvd n)"
proof -
  have hi: "drop_bit 8 ((ibv_inc_rkey ^^ n) rkey) = drop_bit 8 rkey"
    by (induction n) (simp_all add: inc_rkey_high)
  have lo: "(ucast ((ibv_inc_rkey ^^ n) rkey) :: u8) = ucast rkey + of_nat n"
    by (induction n) (simp_all add: inc_rkey_low)
  have "(ibv_inc_rkey ^^ n) rkey = rkey \<longleftrightarrow> (of_nat n :: u8) = 0"
    using hi lo rkey_split [of "(ibv_inc_rkey ^^ n) rkey" rkey] by auto
  also have "\<dots> \<longleftrightarrow> 256 dvd n" by (simp add: word_of_nat_eq_0_iff)
  finally show ?thesis by (simp add: inc_rkey_high inc_rkey_low)
qed

lemma flow_label_mask:
  "ibv_flow_label_to_udp_sport fl =
     ucast (or (xor (and fl (mask 14)) (drop_bit 14 (and fl (push_bit 14 (mask 6)))))
       (push_bit 14 (mask 2)))"
  by (simp add: ibv_flow_label_to_udp_sport_def IB_ROCE_UDP_ENCAP_VALID_PORT_MIN_def
      mask_eq_decr_exp push_bit_eq_mult)

lemma bit_flow_label_port:
  "bit (ibv_flow_label_to_udp_sport fl) n \<longleftrightarrow>
     n < 16 \<and> (14 \<le> n \<or> bit fl n \<noteq> (n < 6 \<and> bit fl (14 + n)))"
  unfolding flow_label_mask
  by (auto simp: bit_ucast_iff bit_or_iff bit_xor_iff bit_and_iff bit_drop_bit_eq bit_mask_iff
      bit_push_bit_iff)

lemma top_two_bits: "(n :: nat) < 2 ^ 16 \<Longrightarrow> 0xC000 \<le> n \<longleftrightarrow> odd (n div 2 ^ 14) \<and> odd (n div 2 ^ 15)"
proof -
  assume "n < 2 ^ 16"
  then have x: "n div 2 ^ 14 < 4" by simp
  have "n div 2 ^ 15 = n div 2 ^ 14 div 2" by (simp add: div_mult2_eq [symmetric])
  moreover have "0xC000 \<le> n \<longleftrightarrow> 3 \<le> n div 2 ^ 14" by (simp add: less_eq_div_iff_mult_less_eq)
  moreover have "x < 4 \<Longrightarrow> 3 \<le> x \<longleftrightarrow> odd x \<and> odd (x div 2)" for x :: nat by presburger
  ultimately show ?thesis using x by simp
qed

lemma port_range_iff: "0xC000 \<le> (p :: u16) \<longleftrightarrow> bit p 14 \<and> bit p 15"
proof -
  have "0xC000 \<le> p \<longleftrightarrow> 0xC000 \<le> unat p" by (simp add: word_le_nat_alt)
  also have "\<dots> \<longleftrightarrow> bit (unat p) 14 \<and> bit (unat p) 15"
    using unsigned_less [of p] by (subst top_two_bits) (simp_all add: bit_iff_odd)
  finally show ?thesis by (simp add: bit_unsigned_iff)
qed

text \<open>
  C37: The UDP source port computed from a flow label is always a valid RoCE port (0xC000 to
  0xFFFF), every valid port is the port of some 20-bit flow label, and every one of the 20 bits
  counts: changing one bit changes the port.
\<close>

theorem flow_label_port:
  "0xC000 \<le> ibv_flow_label_to_udp_sport fl \<and>
   (0xC000 \<le> port \<longrightarrow> (\<exists>l < 2 ^ 20. ibv_flow_label_to_udp_sport l = port)) \<and>
   (k < 20 \<longrightarrow> ibv_flow_label_to_udp_sport (xor fl (flag k)) \<noteq> ibv_flow_label_to_udp_sport fl)"
proof (intro conjI impI)
  show "0xC000 \<le> ibv_flow_label_to_udp_sport fl"
    by (simp add: port_range_iff bit_flow_label_port)
next
  assume p: "0xC000 \<le> port"
  let ?l = "ucast (take_bit 14 port) :: u32"
  have "ibv_flow_label_to_udp_sport ?l = port"
    using p unfolding port_range_iff
    by (intro bit_word_eqI) (auto simp: bit_flow_label_port bit_ucast_iff bit_take_bit_iff
        not_le less_Suc_eq_le le_Suc_eq numeral_eq_Suc)
  moreover have "?l < 2 ^ 20"
  proof -
    have "unat ?l = take_bit 14 (unat port)" by (simp add: unsigned_ucast_eq unsigned_take_bit_eq)
    also have "\<dots> < 2 ^ 14" by (rule take_bit_nat_less_exp)
    finally show ?thesis by (simp add: word_less_nat_alt)
  qed
  ultimately show "\<exists>l < 2 ^ 20. ibv_flow_label_to_udp_sport l = port" by blast
next
  assume k: "k < 20"
  let ?n = "if k < 14 then k else k - 14"
  have "bit (ibv_flow_label_to_udp_sport (xor fl (flag k))) ?n
      \<noteq> bit (ibv_flow_label_to_udp_sport fl) ?n"
    using k by (auto simp: bit_flow_label_port bit_xor_iff)
  then show "ibv_flow_label_to_udp_sport (xor fl (flag k)) \<noteq> ibv_flow_label_to_udp_sport fl"
    by metis
qed

lemma flow_label_port_witness:
  "\<exists>l < 2 ^ 20. ibv_flow_label_to_udp_sport l = 0xC123"
  using flow_label_port [of 0 "0xC123" 0] by simp

subsection \<open>Registration of memory\<close>

text \<open>The kernel's range of optional access flags, bits 20 to 29.\<close>

definition optional_range :: u32 where
  "optional_range = push_bit 20 (mask 10)"

lemma optional_range_value: "optional_range = 0x3FF00000"
  by (simp add: optional_range_def mask_eq_decr_exp push_bit_eq_mult)

lemma optional_flag_iff:
  "20 \<le> ibv_access_flags_bit 20 f \<longleftrightarrow> f = IBV_ACCESS_RELAXED_ORDERING"
  by (cases f) simp_all

lemma and_optional_range:
  "and (flags_or (ibv_access_flags_bit 20) fs) optional_range = 0
     \<longleftrightarrow> IBV_ACCESS_RELAXED_ORDERING \<notin> set fs"
proof -
  have "ibv_access_flags_bit 20 f < 30" for f by (cases f) simp_all
  then have "bit (and (flags_or (ibv_access_flags_bit 20) fs) optional_range) n
      \<longleftrightarrow> n = 20 \<and> IBV_ACCESS_RELAXED_ORDERING \<in> set fs" for n
    unfolding optional_range_def bit_and_iff bit_flags_or bit_push_bit_iff bit_mask_iff
    using optional_flag_iff by force
  then show ?thesis
    by (metis bit_0_eq bot_apply bot_bool_def bit_word_eqI)
qed

text \<open>
  \<open>ibv_reg_mr\<close> on constant access flags uses the classic verb exactly when no optional flag
  (relaxed ordering) is asked for; then it passes the flags on unchanged and the region starts at
  its own address; flags that are not compile-time constants always take the extended verb.
\<close>

lemma reg_mr_path:
  assumes "access_optional_range P = optional_range"
  shows "ibv_reg_mr P const pd addr len (flags_or (ibv_access_flags_bit 20) fs) m =
    (if const \<and> IBV_ACCESS_RELAXED_ORDERING \<notin> set fs
     then lib_reg_mr P pd addr len (sint (flags_or (ibv_access_flags_bit 20) fs :: u32)) m
     else lib_reg_mr_iova2 P pd addr len addr (flags_or (ibv_access_flags_bit 20) fs) m)"
  by (simp add: ibv_reg_mr_def assms and_optional_range)

lemma reg_mr_path_witness:
  "ibv_reg_mr quiet_platform True 1 4096 100
      (flags_or (ibv_access_flags_bit 20) [IBV_ACCESS_LOCAL_WRITE, IBV_ACCESS_REMOTE_READ])
      (undefined :: unit machine) = (4, undefined)"
  using reg_mr_path [of quiet_platform True 1 4096 100 "[IBV_ACCESS_LOCAL_WRITE, IBV_ACCESS_REMOTE_READ]"
      "undefined :: unit machine"]
  by (simp add: optional_range_value)

end
