(* ===== verification/Common_Cm.thy ===== *)
theory Common_Cm
  imports Verbs_Ops Platform_Example
begin

section \<open>The connection helpers of common.c and include/common.h\<close>

text \<open>
  The rest of common.c: the choice between rsockets and sockets, the poll loop, address resolution
  with an optional source address, and the creation of the event channel.  They act on the
  \<open>machine\<close>; rsockets, sockets and librdmacm are parameters.
\<close>

subsection \<open>rsockets or sockets\<close>

text \<open>
  One of the two interfaces: the calls that the macros \<open>rs_*\<close> choose from, each with the arguments
  of the C function.  \<open>use_rs\<close> is the global of common.c; it is 1 unless a program changes it.
\<close>

record 'w socket_api =
  api_socket :: "int \<Rightarrow> int \<Rightarrow> int \<Rightarrow> ('w, int) lib"
  api_bind :: "int \<Rightarrow> ptr \<Rightarrow> u32 \<Rightarrow> ('w, int) lib"
  api_listen :: "int \<Rightarrow> int \<Rightarrow> ('w, int) lib"
  api_connect :: "int \<Rightarrow> ptr \<Rightarrow> u32 \<Rightarrow> ('w, int) lib"
  api_accept :: "int \<Rightarrow> ptr \<Rightarrow> ptr \<Rightarrow> ('w, int) lib"
  api_shutdown :: "int \<Rightarrow> int \<Rightarrow> ('w, int) lib"
  api_close :: "int \<Rightarrow> ('w, int) lib"
  api_recv :: "int \<Rightarrow> ptr \<Rightarrow> u64 \<Rightarrow> int \<Rightarrow> ('w, int) lib"
  api_send :: "int \<Rightarrow> ptr \<Rightarrow> u64 \<Rightarrow> int \<Rightarrow> ('w, int) lib"
  api_recvfrom :: "int \<Rightarrow> ptr \<Rightarrow> u64 \<Rightarrow> int \<Rightarrow> ptr \<Rightarrow> ptr \<Rightarrow> ('w, int) lib"
  api_sendto :: "int \<Rightarrow> ptr \<Rightarrow> u64 \<Rightarrow> int \<Rightarrow> ptr \<Rightarrow> u32 \<Rightarrow> ('w, int) lib"
  api_poll :: "ptr \<Rightarrow> u64 \<Rightarrow> int \<Rightarrow> ('w, int) lib"
  api_fcntl :: "int \<Rightarrow> int \<Rightarrow> int \<Rightarrow> ('w, int) lib"
  api_setsockopt :: "int \<Rightarrow> int \<Rightarrow> int \<Rightarrow> ptr \<Rightarrow> u32 \<Rightarrow> ('w, int) lib"
  api_getsockopt :: "int \<Rightarrow> int \<Rightarrow> int \<Rightarrow> ptr \<Rightarrow> ptr \<Rightarrow> ('w, int) lib"

definition use_rs :: int where "use_rs = 1"

text \<open>The macros expand to \<open>use_rs ? r... : ...\<close> on the current value of the global.\<close>

definition rs_api :: "int \<Rightarrow> 'w socket_api \<Rightarrow> 'w socket_api \<Rightarrow> 'w socket_api" where
  "rs_api use rsock sock = (if use \<noteq> 0 then rsock else sock)"

definition rs_socket :: "int \<Rightarrow> 'w socket_api \<Rightarrow> 'w socket_api \<Rightarrow> int \<Rightarrow> int \<Rightarrow> int \<Rightarrow> ('w, int) lib" where
  "rs_socket use rsock sock f t p m =
     (if use = 0 then api_socket sock f t p m else api_socket rsock f t p m)"

definition rs_poll :: "int \<Rightarrow> 'w socket_api \<Rightarrow> 'w socket_api \<Rightarrow> ptr \<Rightarrow> u64 \<Rightarrow> int \<Rightarrow> ('w, int) lib" where
  "rs_poll use rsock sock f n t = api_poll (rs_api use rsock sock) f n t"

text \<open>What the rsocket demos choose the interface for.\<close>

datatype rs_optimization = opt_mixed | opt_latency | opt_bandwidth

subsection \<open>Polling one descriptor\<close>

text \<open>
  \<open>struct pollfd\<close> has the fields \<open>fd\<close> (4 bytes), \<open>events\<close> and \<open>revents\<close> (2 bytes each).  The loop polls
  until \<open>poll\<close> returns something else than 0 (a timeout); it may run for ever.
\<close>

definition POLLERR :: u16 where "POLLERR = 0x8"

definition POLLHUP :: u16 where "POLLHUP = 0x10"

definition pollfd_revents :: "memory \<Rightarrow> ptr \<Rightarrow> u16" where
  "pollfd_revents mm fds = load_word mm (fds + 6)"

partial_function (option) do_poll_loop ::
    "('w machine \<Rightarrow> int \<times> 'w machine) \<Rightarrow> 'w machine \<Rightarrow> (int \<times> 'w machine) option" where
  "do_poll_loop poll m =
     (case poll m of (ret, m') \<Rightarrow> if ret = 0 then do_poll_loop poll m' else Some (ret, m'))"

definition do_poll ::
    "int \<Rightarrow> 'w socket_api \<Rightarrow> 'w socket_api \<Rightarrow> ptr \<Rightarrow> int \<Rightarrow> 'w machine \<Rightarrow> (int \<times> 'w machine) option"
  where
  "do_poll use rsock sock fds timeout m =
     (case do_poll_loop (rs_poll use rsock sock fds 1 timeout) m of
        None \<Rightarrow> None
      | Some (ret, m') \<Rightarrow>
          Some (if ret = 1 then sint (and (pollfd_revents (mem m') fds) (or POLLERR POLLHUP)) else ret,
                m'))"

text \<open>The polls that time out, one after the other.\<close>

primrec polls :: "('w machine \<Rightarrow> int \<times> 'w machine) \<Rightarrow> nat \<Rightarrow> 'w machine \<Rightarrow> 'w machine" where
  "polls poll 0 m = m"
| "polls poll (Suc n) m = polls poll n (snd (poll m))"

lemma do_poll_loop_steps:
  assumes "\<And>k. k < n \<Longrightarrow> fst (poll (polls poll k m)) = 0"
    and "poll (polls poll n m) = (ret, m')" and "ret \<noteq> 0"
  shows "do_poll_loop poll m = Some (ret, m')"
  using assms
proof (induction n arbitrary: m)
  case 0
  then show ?case by (simp add: do_poll_loop.simps)
next
  case (Suc n)
  obtain r m1 where p: "poll m = (r, m1)" by fastforce
  have "r = 0" using Suc.prems(1) [of 0] p by simp
  moreover have "do_poll_loop poll m1 = Some (ret, m')"
    using Suc.IH [of m1] Suc.prems(1) [of "Suc k" for k] Suc.prems(2,3) p by simp
  ultimately show ?case using p by (subst do_poll_loop.simps) simp
qed

lemma do_poll_loop_first:
  assumes "do_poll_loop poll m = Some r"
  shows "\<exists>n. (\<forall>k < n. fst (poll (polls poll k m)) = 0) \<and> poll (polls poll n m) = r \<and> fst r \<noteq> 0"
proof (rule do_poll_loop.raw_induct [of "\<lambda>poll m r. \<exists>n. (\<forall>k < n. fst (poll (polls poll k m)) = 0)
    \<and> poll (polls poll n m) = r \<and> fst r \<noteq> 0", OF _ assms])
  fix loop :: "('w machine \<Rightarrow> int \<times> 'w machine) \<Rightarrow> 'w machine \<Rightarrow> (int \<times> 'w machine) option"
  fix poll m r
  assume IH: "\<And>poll m r. loop poll m = Some r \<Longrightarrow> \<exists>n. (\<forall>k < n. fst (poll (polls poll k m)) = 0)
      \<and> poll (polls poll n m) = r \<and> fst r \<noteq> 0"
    and eq: "(case poll m of (ret, m') \<Rightarrow> if ret = 0 then loop poll m' else Some (ret, m')) = Some r"
  obtain ret m' where p: "poll m = (ret, m')" by fastforce
  show "\<exists>n. (\<forall>k < n. fst (poll (polls poll k m)) = 0) \<and> poll (polls poll n m) = r \<and> fst r \<noteq> 0"
  proof (cases "ret = 0")
    case True
    with eq p IH obtain n where n: "\<forall>k < n. fst (poll (polls poll k m')) = 0"
      "poll (polls poll n m') = r" "fst r \<noteq> 0" by fastforce
    have "\<forall>k < Suc n. fst (poll (polls poll k m)) = 0"
      using n(1) p True by (auto simp: less_Suc_eq_0_disj)
    with n p show ?thesis by (intro exI [of _ "Suc n"]) simp
  next
    case False
    with eq p show ?thesis by (intro exI [of _ 0]) auto
  qed
qed

text \<open>
  C30: \<open>do_poll\<close> returns exactly when some poll answers something else than a timeout, and then with
  the first such answer: an error or the number of descriptors as it is, and for the one
  descriptor that is ready its POLLERR and POLLHUP bits, so that 0 means ready without error.
\<close>

theorem do_poll_returns:
  "do_poll use rsock sock fds timeout m = Some (ret, m') \<longleftrightarrow>
    (\<exists>n r. (\<forall>k < n. fst (rs_poll use rsock sock fds 1 timeout (polls (rs_poll use rsock sock fds 1 timeout) k m)) = 0) \<and>
      rs_poll use rsock sock fds 1 timeout (polls (rs_poll use rsock sock fds 1 timeout) n m) = (r, m') \<and> r \<noteq> 0 \<and>
      ret = (if r = 1 then sint (and (pollfd_revents (mem m') fds) (or POLLERR POLLHUP)) else r))"
proof -
  let ?ask = "rs_poll use rsock sock fds 1 timeout"
  have ret: "do_poll use rsock sock fds timeout m = Some (ret, m') \<longleftrightarrow>
      (\<exists>r. do_poll_loop ?ask m = Some (r, m') \<and>
        ret = (if r = 1 then sint (and (pollfd_revents (mem m') fds) (or POLLERR POLLHUP)) else r))"
    by (auto simp: do_poll_def split: option.splits)
  have loop: "do_poll_loop ?ask m = Some (r, m') \<longleftrightarrow>
      (\<exists>n. (\<forall>k < n. fst (?ask (polls ?ask k m)) = 0) \<and> ?ask (polls ?ask n m) = (r, m') \<and> r \<noteq> 0)" for r
    using do_poll_loop_first [of ?ask m "(r, m')"] do_poll_loop_steps [of _ ?ask m r m'] by auto
  show ?thesis unfolding ret loop by blast
qed

text \<open>A socket whose descriptor is ready at the first poll.\<close>

definition ready_socket :: "'w socket_api" where
  "ready_socket = undefined\<lparr>api_poll := \<lambda>fds n t m. (1, m)\<rparr>"

lemma do_poll_returns_witness:
  "do_poll use_rs ready_socket undefined 64 (- 1) (undefined\<lparr>mem := \<lambda>a. if a = 70 then 0x11 else 0\<rparr> :: unit machine) =
     Some (0x10, undefined\<lparr>mem := \<lambda>a. if a = 70 then 0x11 else 0\<rparr>)"
proof -
  let ?m = "undefined\<lparr>mem := \<lambda>a. if a = 70 then 0x11 else 0\<rparr> :: unit machine"
  have "rs_poll use_rs ready_socket undefined 64 1 (- 1) ?m = (1, ?m)"
    by (simp add: rs_poll_def rs_api_def use_rs_def ready_socket_def)
  moreover have two: "[0..<2] = [0, 1 :: nat]" by code_simp
  moreover have "and (pollfd_revents (mem ?m) 64) (or POLLERR POLLHUP) = 0x10"
    by (simp add: pollfd_revents_def load_word_def read_bytes_def POLLERR_def POLLHUP_def
        two)
  ultimately show ?thesis
    by (subst do_poll_returns) (intro exI [of _ 0] exI [of _ 1], simp)
qed

subsection \<open>Resolving an address\<close>

text \<open>
  \<open>get_rdma_addr\<close>: a passive request is one lookup of the source.  An active one first resolves the
  source, when there is one, with the passive flag set in a copy of the hints, then the destination
  with that source address in the hints and the flag cleared.  The result is the code and what
  was stored through \<open>rai\<close>, \<^const>\<open>None\<close> when nothing was.
\<close>

definition get_rdma_addr ::
    "'w platform \<Rightarrow> string option \<Rightarrow> string option \<Rightarrow> string option \<Rightarrow> rdma_addrinfo
      \<Rightarrow> ('w, int \<times> ptr option) lib" where
  "get_rdma_addr P src dst port hints m =
     (if and (ai_flags hints) RAI_PASSIVE \<noteq> 0
      then (case lib_rdma_getaddrinfo P src port hints m of ((ret, rai), m1) \<Rightarrow> ((ret, Some rai), m1))
      else if src \<noteq> None
      then (let rai_hints = hints\<lparr>ai_flags := or (ai_flags hints) RAI_PASSIVE\<rparr> in
        case lib_rdma_getaddrinfo P src None rai_hints m of ((ret, res), m1) \<Rightarrow>
          if ret \<noteq> 0 then ((ret, None), m1)
          else (let rai_hints = rai_hints
                      \<lparr>ai_src_addr := ai_src_addr (rai_at m1 res),
                       ai_src_len := ai_src_len (rai_at m1 res),
                       ai_flags := and (ai_flags rai_hints) (not RAI_PASSIVE)\<rparr> in
            case lib_rdma_getaddrinfo P dst port rai_hints m1 of ((ret, rai), m2) \<Rightarrow>
            case lib_rdma_freeaddrinfo P res m2 of (_, m3) \<Rightarrow> ((ret, Some rai), m3)))
      else (case lib_rdma_getaddrinfo P dst port hints m of ((ret, rai), m1) \<Rightarrow> ((ret, Some rai), m1)))"

lemma passive_round_trip:
  "and w RAI_PASSIVE = 0 \<Longrightarrow> and (or w RAI_PASSIVE) (not RAI_PASSIVE) = w"
  unfolding RAI_PASSIVE_def
  by (rule bit_word_eqI, drule_tac f = "\<lambda>v. bit v n" in arg_cong)
    (auto simp: bit_and_iff bit_or_iff bit_not_iff bit_1_iff)

text \<open>
  C29: An active \<open>get_rdma_addr\<close> with a source address: when the lookup of the source fails, its error
  is the result and nothing is stored; otherwise the destination is looked up with exactly the
  caller's hints (the passive flag cleared again), extended by the source address that was found,
  the result of that lookup is returned whether it succeeds or not, and the source result is freed.
\<close>

theorem get_rdma_addr_active:
  assumes "and (ai_flags hints) RAI_PASSIVE = 0"
    and "lib_rdma_getaddrinfo P (Some src) None
           (hints\<lparr>ai_flags := or (ai_flags hints) RAI_PASSIVE\<rparr>) m = ((r1, res), m1)"
    and "lib_rdma_getaddrinfo P dst port
           (hints\<lparr>ai_src_addr := ai_src_addr (rai_at m1 res), ai_src_len := ai_src_len (rai_at m1 res)\<rparr>)
           m1 = ((r2, rai), m2)"
  shows "get_rdma_addr P (Some src) dst port hints m =
    (if r1 \<noteq> 0 then ((r1, None), m1) else ((r2, Some rai), snd (lib_rdma_freeaddrinfo P res m2)))"
proof -
  have "hints\<lparr>ai_flags := or (ai_flags hints) RAI_PASSIVE\<rparr>
      \<lparr>ai_src_addr := a, ai_src_len := l,
       ai_flags := and (or (ai_flags hints) RAI_PASSIVE) (not RAI_PASSIVE)\<rparr> =
      hints\<lparr>ai_src_addr := a, ai_src_len := l\<rparr>" for a l
    using passive_round_trip [OF assms(1)] by (cases hints) simp
  with assms show ?thesis
    by (simp add: get_rdma_addr_def Let_def split: prod.splits)
qed

lemma get_rdma_addr_active_witness:
  "get_rdma_addr quiet_platform (Some ''10.0.0.1'') (Some ''10.0.0.2'') None
      (undefined\<lparr>ai_flags := 2\<rparr>) (undefined :: unit machine) = ((0, Some 16384), undefined)"
  by (subst get_rdma_addr_active [where ?r1.0 = 0 and res = 16384 and ?m1.0 = undefined
        and ?r2.0 = 0 and rai = 16384 and ?m2.0 = undefined]) (simp_all add: RAI_PASSIVE_def)

subsection \<open>The event channel\<close>

datatype channel_message = No_devices_detected | Channel_failed

text \<open>The channel, NULL after a failure, and the message printed then.\<close>

definition create_first_event_channel ::
    "'w platform \<Rightarrow> ('w, ptr \<times> channel_message option) lib" where
  "create_first_event_channel P m =
     (case lib_create_event_channel P m of
        (ch, m') \<Rightarrow>
          ((ch, if ch \<noteq> 0 then None
                else Some (if errno m' = ENODEV then No_devices_detected else Channel_failed)), m'))"

end
