(* ===== verification/Data_Struct.thy ===== *)
theory Data_Struct
  imports Platform_Example
begin

section \<open>The transferred class: DataStruct.h and DataStruct.cpp\<close>

text \<open>
  An \<open>RdmaTest\<close> object takes 32 bytes on the 64-bit hosts of the program: three 32-bit members, four
  bytes of padding, the pointer to its array and a link.  The server sends the bytes of such an
  object and the client reads them back as an object, so the layout is part of the model: the object
  is in memory, and \<open>load_rdma_test\<close> reads its members.
\<close>

record rdma_test =
  rt_size :: u32
  rt_a :: u32
  rt_b :: u32
  rt_data_buf :: ptr
  rt_next :: ptr

definition sizeof_rdma_test :: nat where "sizeof_rdma_test = 32"

definition rdma_test_at :: "memory \<Rightarrow> ptr \<Rightarrow> rdma_test" where
  "rdma_test_at mm p =
     \<lparr>rt_size = load_word mm p, rt_a = load_word mm (p + 4), rt_b = load_word mm (p + 8),
      rt_data_buf = load_word mm (p + 16), rt_next = load_word mm (p + 24)\<rparr>"

text \<open>The same members of 32 bytes that arrived from elsewhere.\<close>

definition rdma_test_of :: "u8 list \<Rightarrow> rdma_test" where
  "rdma_test_of bs =
     \<lparr>rt_size = le_word (take 4 bs), rt_a = le_word (take 4 (drop 4 bs)),
      rt_b = le_word (take 4 (drop 8 bs)),
      rt_data_buf = le_word (take 8 (drop 16 bs)), rt_next = le_word (take 8 (drop 24 bs))\<rparr>"

text \<open>Loads after stores at other addresses.\<close>

lemma apart_by_distance:
  assumes "n \<le> unat (q - p)" and "unat (q - p) + k \<le> 2 ^ 64"
  shows "apart p n q k"
  unfolding apart_def
proof (intro allI impI)
  fix i assume i: "i < k"
  have "q + of_nat i - p = of_nat (unat (q - p) + i)" by simp
  then have "unat (q + of_nat i - p) = unat (of_nat (unat (q - p) + i) :: ptr)" by (rule arg_cong)
  also have "\<dots> = unat (q - p) + i"
    using i assms(2) by (intro unat_of_nat_small) simp
  finally have "unat (q + of_nat i - p) = unat (q - p) + i" .
  then show "n \<le> unat (q + of_nat i - p)" using assms(1) by simp
qed

lemma load_store32_far:
  "4 \<le> unat (q - p) \<Longrightarrow> unat (q - p) + LENGTH('b) div 8 \<le> 2 ^ 64 \<Longrightarrow>
   load_word (store_word mm p (x :: u32)) q = (load_word mm q :: 'b::len word)"
  unfolding load_word_def store_word_def
  by (subst read_write_apart) (simp_all add: apart_by_distance)

lemma load_store64_far:
  "8 \<le> unat (q - p) \<Longrightarrow> unat (q - p) + LENGTH('b) div 8 \<le> 2 ^ 64 \<Longrightarrow>
   load_word (store_word mm p (x :: u64)) q = (load_word mm q :: 'b::len word)"
  unfolding load_word_def store_word_def
  by (subst read_write_apart) (simp_all add: apart_by_distance)

lemmas load_store_offsets = load_store32_far load_store64_far

lemma rdma_test_of_read: "rdma_test_of (read_bytes mm p 32) = rdma_test_at mm p"
  using pm.rd_part [of 0 4 32 mm p] pm.rd_part [of 4 4 32 mm p] pm.rd_part [of 8 4 32 mm p]
    pm.rd_part [of 16 8 32 mm p] pm.rd_part [of 24 8 32 mm p]
  by (simp add: rdma_test_of_def rdma_test_at_def load_word_def)

text \<open>
  The loop \<open>data_buf[i] = i\<close> of the constructor and of the server's \<open>init_sketch_rdma\<close>: \<open>fill_from i n p\<close>
  stores the 32-bit numbers from \<open>i\<close> to \<open>n - 1\<close> into the array at \<open>p\<close>.
\<close>

function fill_from :: "nat \<Rightarrow> nat \<Rightarrow> ptr \<Rightarrow> memory \<Rightarrow> memory" where
  "fill_from i n p mm =
     (if i < n then fill_from (Suc i) n p (store_word mm (p + 4 * of_nat i) (of_nat i :: u32)) else mm)"
  by auto
termination by (relation "measure (\<lambda>(i, n, _). n - i)") auto

declare fill_from.simps [simp del]

text \<open>
  The constructor.  It leaves \<open>next\<close> as it finds it.  \<open>new\<close> is \<open>malloc\<close> of at least one byte that throws
  \<open>std::bad_alloc\<close>, which nobody catches, instead of returning NULL: the result \<^const>\<open>None\<close>.  The
  loop variable is an \<open>int\<close>: the model is for sizes up to \<open>2 ^ 31\<close>, beyond which the increment
  overflows.
\<close>

definition operator_new :: "'w platform \<Rightarrow> nat \<Rightarrow> ('w, ptr) lib" where
  "operator_new P n = lib_malloc P (max 1 n)"

definition RdmaTest_ctor ::
    "'w platform \<Rightarrow> ptr \<Rightarrow> u32 \<Rightarrow> u32 \<Rightarrow> u32 \<Rightarrow> 'w machine \<Rightarrow> 'w machine option" where
  "RdmaTest_ctor P this sz a b m =
     (let mm = store_word (store_word (store_word (mem m) this sz) (this + 4) a) (this + 8) b in
      case operator_new P (4 * unat sz) (m\<lparr>mem := mm\<rparr>) of
        (buf, m1) \<Rightarrow>
          if buf = 0 then None
          else Some (m1\<lparr>mem := fill_from 0 (unat sz) buf (store_word (mem m1) (this + 16) buf)\<rparr>))"

text \<open>The global objects of DataStruct.cpp; \<open>this\<close> is the address of the object.\<close>

definition global_a :: "'w platform \<Rightarrow> ptr \<Rightarrow> 'w machine \<Rightarrow> 'w machine option" where
  "global_a P this = RdmaTest_ctor P this 10 1 1"

definition global_b :: "'w platform \<Rightarrow> ptr \<Rightarrow> 'w machine \<Rightarrow> 'w machine option" where
  "global_b P this = RdmaTest_ctor P this 114541 1919 810"

subsection \<open>Arrays of 32-bit words\<close>

definition iota_bytes :: "nat \<Rightarrow> u8 list" where
  "iota_bytes n = concat (map (\<lambda>i. le_bytes 4 (of_nat i :: u32)) [0..<n])"

lemma iota_bytes_Suc: "iota_bytes (Suc n) = iota_bytes n @ le_bytes 4 (of_nat n :: u32)"
  by (simp add: iota_bytes_def)

lemma length_iota_bytes [simp]: "length (iota_bytes n) = 4 * n"
  by (induction n) (simp_all add: iota_bytes_def)

lemma write_write_bytes_append:
  assumes "length xs + length ys \<le> 2 ^ 64"
  shows "write_bytes (write_bytes mm p xs) (p + of_nat (length xs)) ys = write_bytes mm p (xs @ ys)"
proof (rule ext)
  fix a
  let ?d = "unat (a - p)" and ?e = "unat (a - (p + of_nat (length xs)))"
  have d: "?d < 2 ^ 64" using unsigned_less [of "a - p"] by simp
  show "write_bytes (write_bytes mm p xs) (p + of_nat (length xs)) ys a = write_bytes mm p (xs @ ys) a"
  proof (cases "length xs \<le> ?d")
    case True
    then have lx: "length xs < 2 ^ 64" using d by simp
    have "a - (p + of_nat (length xs)) = of_nat (?d - length xs)"
      using True by (simp add: of_nat_diff)
    then have "?e = ?d - length xs" using d by (simp add: unat_of_nat_small)
    with True show ?thesis by (auto simp: write_bytes_def nth_append)
  next
    case False
    have "a - (p + of_nat (length xs)) = - of_nat (length xs - ?d)"
      using False by (simp add: of_nat_diff)
    also have "\<dots> = of_nat (2 ^ 64 - (length xs - ?d))"
      using False assms by (subst of_nat_diff) simp_all
    finally have e: "a - (p + of_nat (length xs)) = of_nat (2 ^ 64 - (length xs - ?d))" .
    have "?e = 2 ^ 64 - (length xs - ?d)"
      unfolding e using False by (intro unat_of_nat_small) simp
    with False assms have "\<not> ?e < length ys" by simp
    with False show ?thesis by (auto simp: write_bytes_def nth_append)
  qed
qed

lemma fill_from_write:
  assumes "i \<le> n" and "4 * n \<le> 2 ^ 64"
  shows "fill_from i n p (write_bytes mm p (iota_bytes i)) = write_bytes mm p (iota_bytes n)"
  using assms
proof (induction "n - i" arbitrary: i)
  case 0
  then show ?case by (simp add: fill_from.simps)
next
  case (Suc k)
  then have lt: "i < n" by simp
  have "store_word (write_bytes mm p (iota_bytes i)) (p + 4 * of_nat i) (of_nat i :: u32) =
      write_bytes mm p (iota_bytes (Suc i))"
    using write_write_bytes_append [of "iota_bytes i" "le_bytes 4 (of_nat i :: u32)" mm p] lt Suc.prems
    by (simp add: store_word_def iota_bytes_Suc)
  then show ?case using lt Suc by (subst fill_from.simps) simp
qed

lemma fill_from_0: "4 * n \<le> 2 ^ 64 \<Longrightarrow> fill_from 0 n p mm = write_bytes mm p (iota_bytes n)"
  using fill_from_write [of 0 n p mm] by (simp add: iota_bytes_def write_bytes_def)

lemma iota_bytes_nth:
  assumes "i < n"
  shows "take 4 (drop (4 * i) (iota_bytes n)) = le_bytes 4 (of_nat i :: u32)"
proof -
  have "[0..<n] = [0..<i] @ i # [Suc i..<n]"
    using upt_add_eq_append [of 0 i "n - i"] upt_conv_Cons [OF assms] assms by simp
  then have "iota_bytes n = iota_bytes i @ le_bytes 4 (of_nat i :: u32)
      @ concat (map (\<lambda>i. le_bytes 4 (of_nat i :: u32)) [Suc i..<n])"
    by (simp add: iota_bytes_def)
  then show ?thesis by simp
qed

text \<open>An element of an array of 32-bit words.\<close>

definition word32_at :: "memory \<Rightarrow> ptr \<Rightarrow> nat \<Rightarrow> u32" where
  "word32_at mm p i = load_word mm (p + 4 * of_nat i)"

lemma word32_at_read:
  assumes "read_bytes mm p (4 * n) = bs" and "i < n"
  shows "word32_at mm p i = le_word (take 4 (drop (4 * i) bs))"
  using pm.rd_part [of "4 * i" 4 "4 * n" mm p] assms by (simp add: word32_at_def load_word_def)

subsection \<open>The constructor builds the object\<close>

text \<open>
  C20: When \<open>new\<close> gives an array that does not overlap the object and leaves memory as it was, the
  constructor ends with the three numbers and the array in the members, an array that holds
  0, 1, 2, ..., and the member \<open>next\<close> as it was before: it is never initialised.
\<close>

theorem RdmaTest_ctor_object:
  assumes "operator_new P (4 * unat sz)
      (m\<lparr>mem := store_word (store_word (store_word (mem m) this sz) (this + 4) a) (this + 8) b\<rparr>) =
      (buf, m1)"
    and "buf \<noteq> 0"
    and "mem m1 = store_word (store_word (store_word (mem m) this sz) (this + 4) a) (this + 8) b"
    and "apart buf (4 * unat sz) this 32"
  shows "\<exists>m'. RdmaTest_ctor P this sz a b m = Some m' \<and>
    rdma_test_at (mem m') this =
      \<lparr>rt_size = sz, rt_a = a, rt_b = b, rt_data_buf = buf,
       rt_next = rt_next (rdma_test_at (mem m) this)\<rparr> \<and>
    (\<forall>i < unat sz. word32_at (mem m') buf i = of_nat i)"
proof -
  let ?h = "store_word (store_word (store_word (mem m) this sz) (this + 4) a) (this + 8) b"
  let ?mm = "write_bytes (store_word ?h (this + 16) buf) buf (iota_bytes (unat sz))"
  have "unat sz < 2 ^ LENGTH(32)" by (rule unsigned_less)
  then have small: "4 * unat sz \<le> 2 ^ 64" by simp
  have ctor: "RdmaTest_ctor P this sz a b m = Some (m1\<lparr>mem := ?mm\<rparr>)"
    using assms(1-3) by (simp add: RdmaTest_ctor_def Let_def fill_from_0 [OF small])
  have keep: "read_bytes ?mm this 32 = read_bytes (store_word ?h (this + 16) buf) this 32"
    using assms(4) by (intro read_write_apart) simp
  have obj: "rdma_test_at ?mm this = rdma_test_at (store_word ?h (this + 16) buf) this"
    using keep rdma_test_of_read by metis
  have elem: "word32_at ?mm buf i = of_nat i" if "i < unat sz" for i
  proof -
    have "read_bytes ?mm buf (4 * unat sz) = iota_bytes (unat sz)"
      using read_write_bytes [of "iota_bytes (unat sz)"] small by simp
    then show ?thesis
      using that by (simp add: word32_at_read iota_bytes_nth le_word_le_bytes)
  qed
  show ?thesis
    using ctor elem obj by (simp add: rdma_test_at_def load_store_offsets)
qed

lemma RdmaTest_ctor_object_witness:
  "\<exists>m'. RdmaTest_ctor quiet_platform 64 2 7 9 (undefined\<lparr>mem := \<lambda>_. 0\<rparr> :: unit machine) = Some m' \<and>
    rdma_test_at (mem m') 64 =
      \<lparr>rt_size = 2, rt_a = 7, rt_b = 9, rt_data_buf = 4096,
       rt_next = rt_next (rdma_test_at (\<lambda>_. 0) 64)\<rparr> \<and>
    (\<forall>i < unat (2 :: u32). word32_at (mem m') 4096 i = of_nat i)"
  using RdmaTest_ctor_object [of quiet_platform 2 "undefined\<lparr>mem := \<lambda>_. 0\<rparr> :: unit machine" 64 7 9 4096]
  by (simp add: apart_by_distance operator_new_def)

end
