(* ===== verification/Rdma_Utils.thy ===== *)
theory Rdma_Utils
  imports Verbs_Laws Common_Cm Data_Struct
begin

section \<open>The shared types of the two processes: include/rdma-utils.h\<close>

text \<open>
  Both classes of the program, \<open>simple_client\<close> and \<open>simple_server\<close>, begin with the same members; the
  record \<open>endpoint\<close> holds them and the theories \<open>Client\<close> and \<open>Server\<close> extend it.  Members that the
  device reads or writes by address (the two buffers, the work requests and their scatter/gather
  entries) stay in the machine, and the record holds their addresses (\<open>recv_buf_addr\<close> is
  \<open>&this->recv_buf\<close>).  Members that the constructors do not initialise have whatever value the
  initial record has.
\<close>

subsection \<open>The advertisement on the wire\<close>

text \<open>
  \<open>struct rdma_info\<close>: 16 bytes, every member big-endian.  The record holds the members as they are
  stored, in network order.
\<close>

record rdma_info =
  info_buf :: u64
  info_rkey :: u32
  info_size :: u32

definition sizeof_rdma_info :: nat where "sizeof_rdma_info = 16"

definition rdma_info_at :: "memory \<Rightarrow> ptr \<Rightarrow> rdma_info" where
  "rdma_info_at mm p =
     \<lparr>info_buf = load_word mm p, info_rkey = load_word mm (p + 8), info_size = load_word mm (p + 12)\<rparr>"

text \<open>The three assignments that fill an advertisement, with their byte order conversions.\<close>

definition store_rdma_info :: "ptr \<Rightarrow> u64 \<Rightarrow> u32 \<Rightarrow> u32 \<Rightarrow> memory \<Rightarrow> memory" where
  "store_rdma_info p addr rkey sz mm =
     store_word (store_word (store_word mm p (htobe64 addr)) (p + 8) (htobe32 rkey))
       (p + 12) (htobe32 sz)"

text \<open>The 16 bytes of an advertisement: most significant byte first.\<close>

definition advert_bytes :: "u64 \<Rightarrow> u32 \<Rightarrow> u32 \<Rightarrow> u8 list" where
  "advert_bytes addr rkey sz = rev (le_bytes 8 addr) @ rev (le_bytes 4 rkey) @ rev (le_bytes 4 sz)"

lemma store_rdma_info_write: "store_rdma_info p addr rkey sz mm = write_bytes mm p (advert_bytes addr rkey sz)"
  using write_write_bytes_append [of "rev (le_bytes 8 addr)" "rev (le_bytes 4 rkey)" mm p]
    write_write_bytes_append [of "rev (le_bytes 8 addr) @ rev (le_bytes 4 rkey)" "rev (le_bytes 4 sz)" mm p]
  by (simp add: store_rdma_info_def store_word_def advert_bytes_def le_bytes_htobe64 le_bytes_htobe32)

lemma length_advert_bytes [simp]: "length (advert_bytes addr rkey sz) = 16"
  by (simp add: advert_bytes_def)

lemma store_rdma_info_bytes: "read_bytes (store_rdma_info p addr rkey sz mm) p 16 = advert_bytes addr rkey sz"
  using read_write_bytes [of "advert_bytes addr rkey sz" mm p] by (simp add: store_rdma_info_write)

lemma be_word_of_bytes:
  "be64toh (le_word (rev (le_bytes 8 x))) = (x :: u64)"
  "be32toh (le_word (rev (le_bytes 4 y))) = (y :: u32)"
  using le_word_le_bytes [of 8 "htobe64 x"] le_word_le_bytes [of 4 "htobe32 y"]
  by (simp_all add: le_bytes_htobe64 le_bytes_htobe32 flip: le_bytes_htobe64 le_bytes_htobe32)

lemma rdma_info_at_bytes:
  assumes "read_bytes mm p 16 = advert_bytes addr rkey sz"
  shows "be64toh (info_buf (rdma_info_at mm p)) = addr"
    and "be32toh (info_rkey (rdma_info_at mm p)) = rkey"
    and "be32toh (info_size (rdma_info_at mm p)) = sz"
proof -
  have part: "i + k \<le> 16 \<Longrightarrow> read_bytes mm (p + of_nat i) k = take k (drop i (advert_bytes addr rkey sz))" for i k
    using pm.rd_part [of i k 16 mm p] assms by simp
  show "be64toh (info_buf (rdma_info_at mm p)) = addr"
    "be32toh (info_rkey (rdma_info_at mm p)) = rkey"
    "be32toh (info_size (rdma_info_at mm p)) = sz"
    using part [of 0 8] part [of 8 4] part [of 12 4]
    by (simp_all add: rdma_info_at_def load_word_def advert_bytes_def be_word_of_bytes)
qed

subsection \<open>States\<close>

datatype (plugins only: code) ClientState = INIT | ROUTE_RESOLVED | ADDR_RESOLVED | CONNECTED

primrec ClientState_val :: "ClientState \<Rightarrow> int" where
  "ClientState_val INIT = 0"
| "ClientState_val ROUTE_RESOLVED = 1"
| "ClientState_val ADDR_RESOLVED = 2"
| "ClientState_val CONNECTED = 3"

datatype (plugins only: code) ServerState =
    SERVER_INIT | SERVER_BIND | REQUEST_GET | SERVER_CONNECTED | SERVER_READ_ADV | SERVER_WRITE_ADV
  | SERVER_WRITE_COMPLETE1 | SERVER_READ_COMPLETE1 | SERVER_RDMA_ADDR_SEND_COMPLETE
  | CLASS_ADDR_SEND_COMPLETE | SKETCH_ADDR_SEND_COMPLETE

primrec ServerState_val :: "ServerState \<Rightarrow> int" where
  "ServerState_val SERVER_INIT = 0"
| "ServerState_val SERVER_BIND = 1"
| "ServerState_val REQUEST_GET = 2"
| "ServerState_val SERVER_CONNECTED = 3"
| "ServerState_val SERVER_READ_ADV = 4"
| "ServerState_val SERVER_WRITE_ADV = 5"
| "ServerState_val SERVER_WRITE_COMPLETE1 = 6"
| "ServerState_val SERVER_READ_COMPLETE1 = 7"
| "ServerState_val SERVER_RDMA_ADDR_SEND_COMPLETE = 8"
| "ServerState_val CLASS_ADDR_SEND_COMPLETE = 9"
| "ServerState_val SKETCH_ADDR_SEND_COMPLETE = 10"

definition client_states :: "ClientState list" where
  "client_states = [INIT, ROUTE_RESOLVED, ADDR_RESOLVED, CONNECTED]"

definition server_states :: "ServerState list" where
  "server_states =
     [SERVER_INIT, SERVER_BIND, REQUEST_GET, SERVER_CONNECTED, SERVER_READ_ADV, SERVER_WRITE_ADV,
      SERVER_WRITE_COMPLETE1, SERVER_READ_COMPLETE1, SERVER_RDMA_ADDR_SEND_COMPLETE,
      CLASS_ADDR_SEND_COMPLETE, SKETCH_ADDR_SEND_COMPLETE]"

interpretation cst: c_enum ClientState_val client_states
proof
  fix e show "e \<in> set client_states" by (cases e) (simp_all add: client_states_def)
next
  show "distinct (map ClientState_val client_states)" by (simp add: client_states_def)
qed

interpretation sst: c_enum ServerState_val server_states
proof
  fix e show "e \<in> set server_states" by (cases e) (simp_all add: server_states_def)
next
  show "distinct (map ServerState_val server_states)" by (simp add: server_states_def)
qed

subsection \<open>The buffers for the sketch and the class\<close>

record sketch_rdma_info =
  sk_data_buf :: ptr
  sk_data_size :: int
  sketch_wr_addr :: ptr
  sketch_mr :: ptr
  sketch_seg :: ptr
  sk_remote_rkey :: u32
  sk_remote_addr :: u64
  sk_remote_len :: u32

text \<open>The constructor: 1000 elements of four bytes, and one scatter/gather entry of 16 bytes.\<close>

definition sketch_rdma_info_ctor ::
    "'w platform \<Rightarrow> sketch_rdma_info \<Rightarrow> ('w, sketch_rdma_info) lib" where
  "sketch_rdma_info_ctor P sk m =
     (case lib_malloc P (1000 * 4) m of (buf, m1) \<Rightarrow>
      case lib_malloc P 16 m1 of (seg, m2) \<Rightarrow>
        (sk\<lparr>sk_data_size := 1000, sk_data_buf := buf, sketch_seg := seg\<rparr>, m2))"

record test_class_rdma_info =
  test_class_wr_addr :: ptr
  test_sgl :: ptr
  test_class_mr :: ptr
  class_buf_mr :: ptr
  class_send_mr :: ptr
  ci_class_info :: rdma_info
  clas_buf_info :: rdma_info
  class_recv_data :: ptr
  class_recv_buf :: ptr
  class_send_buf :: ptr
  tc_remote_rkey :: u32
  tc_remote_addr :: u64
  tc_remote_len :: u32

subsection \<open>The members that both classes have\<close>

text \<open>
  Where a completion thread is: not started, about to wait for an event, about to poll, or (client
  only) between the two assignments that follow the completion of a read.
\<close>

datatype (plugins only: code) cq_pc = Cq_none | Cq_wait | Cq_poll | Cq_dec

record 'w endpoint =
  mach :: "'w machine"
  ip :: string
  port :: u16
  sin :: ptr
  start_buf :: ptr
  start_size :: int
  rdma_buf :: ptr
  rdma_size :: int
  cm_channel :: ptr
  cm_id :: ptr
  channel :: ptr
  pd :: ptr
  cq :: ptr
  qp :: ptr
  rq_wr_addr :: ptr
  recv_sgl_addr :: ptr
  recv_buf_addr :: ptr
  recv_mr :: ptr
  sq_wr_addr :: ptr
  send_sgl_addr :: ptr
  send_buf_addr :: ptr
  send_mr :: ptr
  rdma_sq_wr_addr :: ptr
  rdma_sgl_addr :: ptr
  rdma_mr :: ptr
  start_mr :: ptr
  remote_rkey :: u32
  remote_addr :: u64
  remote_len :: u32
  class_info :: test_class_rdma_info
  sketch_info :: sketch_rdma_info
  wc_addr :: ptr
  bad_wr_addr :: ptr
  cq_pc :: cq_pc

text \<open>
  The last three are not members: the addresses of the local variables \<open>wc\<close> of the completion
  thread and \<open>bad_wr\<close> of the functions that post, and where the completion thread is.
\<close>

text \<open>The reasons for which the processes end with \<open>exit(1)\<close>, or crash.\<close>

datatype (plugins only: code) fatal =
    Malloc_error | Getaddrinfo_error int | Unknown_family | Resolve_addr_error | Resolve_route_error
  | Bind_addr_error | Listen_error | Event_channel_error | Create_id_error | Get_cm_event_error
  | Ack_cm_event_error | Alloc_pd_error | Comp_channel_error | Create_cq_error | Req_notify_error
  | Create_qp_error | Reg_mr_error | Post_recv_error | Post_send_error | Connect_error | Accept_error
  | Recv_length_error | Get_cq_event_error | Wrong_cq | No_remote_addr | Bad_alloc | Null_dereference

subsection \<open>Statements of a member function\<close>

text \<open>
  \<open>lib f k\<close> calls the library function \<open>f\<close>, whose arguments come from the state, and goes on with
  the statement \<open>k r\<close> on its result \<open>r\<close>.  \<open>on_mach g\<close> stores into memory or a typed heap.  \<open>thread env cs\<close>
  is a thread's statements: before each of them the other threads of the process and the device,
  \<open>env\<close>, may run.
\<close>

definition lib :: "('s \<Rightarrow> 'w machine) \<Rightarrow> ('w machine \<Rightarrow> 's \<Rightarrow> 's) \<Rightarrow> ('s \<Rightarrow> ('w, 'r) lib) \<Rightarrow>
    ('r \<Rightarrow> ('s, 'e) stmt) \<Rightarrow> ('s, 'e) stmt" where
  "lib get put f k s = (case f s (get s) of (r, m) \<Rightarrow> k r (put m s))"

lemma triple_lib [triple_rules]:
  "(\<And>r. triple (\<lambda>t. \<exists>s m. p s \<and> f s (get s) = (r, m) \<and> t = put m s) (k r) q) \<Longrightarrow>
   triple p (lib get put f k) q"
  by (fastforce simp: triple_def lib_def split: prod.splits)

definition put_mach :: "'w machine \<Rightarrow> ('w, 'z) endpoint_scheme \<Rightarrow> ('w, 'z) endpoint_scheme" where
  "put_mach m s = s\<lparr>mach := m\<rparr>"

definition on_mach :: "(('w, 'z) endpoint_scheme \<Rightarrow> 'w machine \<Rightarrow> 'w machine) \<Rightarrow>
    (('w, 'z) endpoint_scheme, 'e) stmt" where
  "on_mach g s = Some (Inr (s\<lparr>mach := g s (mach s)\<rparr>))"

abbreviation ep_lib where "ep_lib \<equiv> lib mach put_mach"

definition thread :: "('s \<Rightarrow> 'e + 's) \<Rightarrow> ('s, 'e) stmt list \<Rightarrow> ('s, 'e) stmt" where
  "thread env cs = block (concat (map (\<lambda>c. [interleave env, c]) cs))"

definition fail :: "'e \<Rightarrow> ('s, 'e) stmt" where
  "fail e s = Some (Inl e)"

lemma lib_run [stmt_simps]: "lib get put f k s = (case f s (get s) of (r, m) \<Rightarrow> k r (put m s))"
  by (simp add: lib_def)

declare put_mach_def [stmt_simps] on_mach_def [stmt_simps] fail_def [stmt_simps]

lemma thread_Nil [stmt_simps]: "thread env [] s = Some (Inr s)"
  by (simp add: thread_def block.simps skip_def)

lemma thread_Cons [stmt_simps]:
  "thread env (c # cs) s =
     (case env s of Inl e \<Rightarrow> Some (Inl e) | Inr t \<Rightarrow> seq c (thread env cs) t)"
  by (simp add: thread_def block.simps seq_def interleave_def split: sum.splits)

text \<open>Stores through a pointer to a structure.\<close>

definition set_sge :: "ptr \<Rightarrow> (ibv_sge \<Rightarrow> ibv_sge) \<Rightarrow> 'w machine \<Rightarrow> 'w machine" where
  "set_sge p f m = m\<lparr>sge_at := (sge_at m)(p := f (sge_at m p))\<rparr>"

definition set_send_wr :: "ptr \<Rightarrow> (ibv_send_wr \<Rightarrow> ibv_send_wr) \<Rightarrow> 'w machine \<Rightarrow> 'w machine" where
  "set_send_wr p f m = m\<lparr>send_wr_at := (send_wr_at m)(p := f (send_wr_at m p))\<rparr>"

definition set_recv_wr :: "ptr \<Rightarrow> (ibv_recv_wr \<Rightarrow> ibv_recv_wr) \<Rightarrow> 'w machine \<Rightarrow> 'w machine" where
  "set_recv_wr p f m = m\<lparr>recv_wr_at := (recv_wr_at m)(p := f (recv_wr_at m p))\<rparr>"

definition on_mem :: "(memory \<Rightarrow> memory) \<Rightarrow> 'w machine \<Rightarrow> 'w machine" where
  "on_mem f m = m\<lparr>mem := f (mem m)\<rparr>"

text \<open>\<open>strcpy\<close> of a string literal.\<close>

definition c_string :: "string \<Rightarrow> u8 list" where
  "c_string cs = map of_char cs @ [0]"

definition strcpy :: "ptr \<Rightarrow> string \<Rightarrow> memory \<Rightarrow> memory" where
  "strcpy p cs mm = write_bytes mm p (c_string cs)"

text \<open>\<open>memset (&wr, 0, sizeof wr)\<close> and \<open>memset (&init_attr, 0, sizeof init_attr)\<close>.\<close>

definition zero_send_wr :: ibv_send_wr where
  "zero_send_wr =
     \<lparr>send_wr_wr_id = 0, send_wr_next = 0, send_wr_sg_list = 0, send_wr_num_sge = 0,
      send_wr_opcode = IBV_WR_RDMA_WRITE, send_wr_send_flags = 0, send_wr_imm_data = 0,
      send_wr_wr = Wr_rdma 0 0, send_wr_xrc_remote_srqn = 0,
      send_wr_tail = Wr_tso 0 0 0\<rparr>"

definition SQ_DEPTH :: int where "SQ_DEPTH = 16"

text \<open>The queue pair that both sides ask for; \<open>sge\<close> is the only difference.\<close>

definition init_attr :: "u32 \<Rightarrow> ptr \<Rightarrow> ibv_qp_init_attr" where
  "init_attr sge q =
     \<lparr>qp_init_attr_qp_context = 0, qp_init_attr_send_cq = q, qp_init_attr_recv_cq = q,
      qp_init_attr_srq = 0,
      qp_init_attr_cap =
        \<lparr>qp_cap_max_send_wr = word_of_int SQ_DEPTH, qp_cap_max_recv_wr = 2, qp_cap_max_send_sge = sge,
         qp_cap_max_recv_sge = sge, qp_cap_max_inline_data = 0\<rparr>,
      qp_init_attr_qp_type = IBV_QPT_RC, qp_init_attr_sq_sig_all = 0\<rparr>"

subsection \<open>Steps that both classes take\<close>

definition access_flags :: "ibv_access_flags list \<Rightarrow> u32" where
  "access_flags = flags_or (ibv_access_flags_bit 20)"

definition rw_access :: u32 where
  "rw_access = access_flags [IBV_ACCESS_LOCAL_WRITE, IBV_ACCESS_REMOTE_READ, IBV_ACCESS_REMOTE_WRITE]"

definition SIGNALED :: u32 where
  "SIGNALED = flags_or ibv_send_flags_bit [IBV_SEND_SIGNALED]"

text \<open>\<open>x_mr = ibv_reg_mr (pd, addr, len, acc); if (!x_mr) exit (1)\<close>.\<close>

definition register :: "'w platform \<Rightarrow> (('w, 'z) endpoint_scheme \<Rightarrow> ptr) \<Rightarrow>
    (('w, 'z) endpoint_scheme \<Rightarrow> u64) \<Rightarrow> u32 \<Rightarrow>
    (ptr \<Rightarrow> ('w, 'z) endpoint_scheme \<Rightarrow> ('w, 'z) endpoint_scheme) \<Rightarrow>
    (('w, 'z) endpoint_scheme, fatal) stmt" where
  "register P addr len acc store =
     ep_lib (\<lambda>s. ibv_reg_mr P True (pd s) (addr s) (len s) acc)
       (\<lambda>r. block [assign (store r), exit_if (\<lambda>_. r = 0) Reg_mr_error])"

text \<open>The regions that both sides register: the two advertisement buffers and the caller's buffers.\<close>

definition register_buffers :: "'w platform \<Rightarrow> (('w, 'z) endpoint_scheme, fatal) stmt" where
  "register_buffers P = block
     [register P recv_buf_addr (\<lambda>_. of_nat sizeof_rdma_info) (access_flags [IBV_ACCESS_LOCAL_WRITE])
        (\<lambda>r s. s\<lparr>recv_mr := r\<rparr>),
      register P send_buf_addr (\<lambda>_. of_nat sizeof_rdma_info) 0 (\<lambda>r s. s\<lparr>send_mr := r\<rparr>),
      register P rdma_buf (\<lambda>s. word_of_int (rdma_size s)) rw_access (\<lambda>r s. s\<lparr>rdma_mr := r\<rparr>),
      register P start_buf (\<lambda>s. word_of_int (start_size s)) rw_access (\<lambda>r s. s\<lparr>start_mr := r\<rparr>)]"

text \<open>The end of \<open>setup_buffer\<close>: scatter/gather entries and work requests; \<open>op\<close> is the opcode of \<open>sq_wr\<close>.\<close>

definition prepare_requests :: "ibv_wr_opcode \<Rightarrow> (('w, 'z) endpoint_scheme, fatal) stmt" where
  "prepare_requests op = block
     [on_mach (\<lambda>s m. set_sge (recv_sgl_addr s) (\<lambda>g. g\<lparr>sge_addr := recv_buf_addr s,
          sge_length := of_nat sizeof_rdma_info, sge_lkey := mr_lkey (mr_at m (recv_mr s))\<rparr>) m),
      on_mach (\<lambda>s. set_recv_wr (rq_wr_addr s) (\<lambda>w. w\<lparr>recv_wr_num_sge := 1,
          recv_wr_sg_list := recv_sgl_addr s\<rparr>)),
      on_mach (\<lambda>s m. set_sge (send_sgl_addr s) (\<lambda>g. g\<lparr>sge_addr := send_buf_addr s,
          sge_length := of_nat sizeof_rdma_info, sge_lkey := mr_lkey (mr_at m (send_mr s))\<rparr>) m),
      on_mach (\<lambda>s. set_send_wr (sq_wr_addr s) (\<lambda>w. w\<lparr>send_wr_num_sge := 1,
          send_wr_sg_list := send_sgl_addr s, send_wr_send_flags := SIGNALED,
          send_wr_opcode := op\<rparr>)),
      on_mach (\<lambda>s m. set_sge (rdma_sgl_addr s) (\<lambda>g. g\<lparr>sge_addr := rdma_buf s,
          sge_lkey := mr_lkey (mr_at m (rdma_mr s))\<rparr>) m),
      on_mach (\<lambda>s. set_send_wr (rdma_sq_wr_addr s) (\<lambda>w. w\<lparr>send_wr_num_sge := 1,
          send_wr_sg_list := rdma_sgl_addr s, send_wr_send_flags := SIGNALED\<rparr>))]"

text \<open>\<open>ret = ibv_post_send (qp, wr, &bad_wr); if (ret) exit (1)\<close>.\<close>

definition post_send :: "'w platform \<Rightarrow> (('w, 'z) endpoint_scheme \<Rightarrow> ptr) \<Rightarrow>
    (('w, 'z) endpoint_scheme, fatal) stmt" where
  "post_send P wr = ep_lib (\<lambda>s. ibv_post_send P (qp s) (wr s) (bad_wr_addr s))
     (\<lambda>ret. exit_if (\<lambda>_. ret \<noteq> 0) Post_send_error)"

text \<open>
  The one-sided request of \<open>rdma_read\<close> and \<open>rdma_write\<close> on the peer's advertised buffer: the whole
  advertised length, to or from the local \<open>rdma_buf\<close>.
\<close>

definition rdma_request :: "ibv_wr_opcode \<Rightarrow> (('w, 'z) endpoint_scheme, fatal) stmt" where
  "rdma_request op = block
     [on_mach (\<lambda>s. set_send_wr (rdma_sq_wr_addr s) (\<lambda>w. w\<lparr>send_wr_opcode := op,
          send_wr_wr := Wr_rdma (remote_addr s) (remote_rkey s)\<rparr>)),
      on_mach (\<lambda>s m. set_sge (rdma_sgl_addr s) (\<lambda>g. g\<lparr>sge_addr := rdma_buf s,
          sge_lkey := mr_lkey (mr_at m (rdma_mr s)), sge_length := remote_len s\<rparr>) m),
      on_mach (\<lambda>s. set_send_wr (rdma_sq_wr_addr s) (\<lambda>w. w\<lparr>send_wr_num_sge := 1,
          send_wr_sg_list := rdma_sgl_addr s\<rparr>))]"

text \<open>
  The first part of \<open>bindaddr\<close>: the socket address that \<open>getaddrinfo\<close> finds for the configured IP, with
  the port.  A \<open>sockaddr_in\<close> has 16 bytes, a \<open>sockaddr_in6\<close> 28, a \<open>sockaddr_storage\<close> 128; the family
  is the first two bytes and the port, in network order, the next two in both.
\<close>

definition PF_INET :: int where "PF_INET = 2"

definition PF_INET6 :: int where "PF_INET6 = 10"

definition copy_sockaddr :: "int \<Rightarrow> ptr \<Rightarrow> (('w, 'z) endpoint_scheme, fatal) stmt" where
  "copy_sockaddr family src =
     (if family = PF_INET then on_mach (\<lambda>s. on_mem (\<lambda>mm. memcpy mm (sin s) src 16))
      else if family = PF_INET6 then on_mach (\<lambda>s. on_mem (\<lambda>mm. memcpy mm (sin s) src 28))
      else fail Unknown_family)"

definition resolve_sin :: "'w platform \<Rightarrow> (('w, 'z) endpoint_scheme, fatal) stmt" where
  "resolve_sin P = block
     [ep_lib (\<lambda>s. lib_malloc P 128) (\<lambda>r. assign (\<lambda>s. s\<lparr>sin := r\<rparr>)),
      exit_if (\<lambda>s. sin s = 0) Malloc_error,
      ep_lib (\<lambda>s. lib_getaddrinfo P (ip s)) (\<lambda>(ret, res). block
        [exit_if (\<lambda>_. ret \<noteq> 0) (Getaddrinfo_error ret),
         (\<lambda>s. case addrinfo_at (mach s) res of (family, src) \<Rightarrow> copy_sockaddr family src s)]),
      cond (\<lambda>s. load_word (mem (mach s)) (sin s) = (word_of_int PF_INET :: u16))
        (on_mach (\<lambda>s. on_mem (\<lambda>mm. store_word mm (sin s + 2) (port s))))
        (on_mach (\<lambda>s. on_mem (\<lambda>mm. store_word mm (sin s + 2) (port s))))]"

text \<open>\<open>ret = ibv_req_notify_cq (cq, 0); if (ret) exit (1)\<close>.\<close>

definition request_notify :: "'w platform \<Rightarrow> (('w, 'z) endpoint_scheme, fatal) stmt" where
  "request_notify P = ep_lib (\<lambda>s. ibv_req_notify_cq P (cq s) 0)
     (\<lambda>ret. exit_if (\<lambda>_. ret \<noteq> 0) Req_notify_error)"

text \<open>The head of the loop of both completion threads: wait for an event and ask for the next one.\<close>

definition cq_wait :: "'w platform \<Rightarrow> (('w, 'z) endpoint_scheme, fatal) stmt" where
  "cq_wait P = block
     [ep_lib (\<lambda>s. lib_get_cq_event P (channel s)) (\<lambda>(ret, ev_cq, ev_ctx). block
        [exit_if (\<lambda>_. ret \<noteq> 0) Get_cq_event_error, exit_if (\<lambda>s. ev_cq \<noteq> cq s) Wrong_cq]),
      request_notify P,
      assign (\<lambda>s. s\<lparr>cq_pc := Cq_poll\<rparr>)]"

text \<open>The tail of the loop.\<close>

definition cq_ack :: "'w platform \<Rightarrow> (('w, 'z) endpoint_scheme, fatal) stmt" where
  "cq_ack P = block
     [ep_lib (\<lambda>s. lib_ack_cq_events P (cq s) 1) (\<lambda>_. skip),
      assign (\<lambda>s. s\<lparr>cq_pc := Cq_wait\<rparr>)]"

end
