(* ===== verification/Client.thy ===== *)
theory Client
  imports Rdma_Utils
begin

section \<open>The client process: simplest_client.cpp\<close>

text \<open>
  \<open>simple_client\<close> and the global counter \<open>pendingReads\<close> as a record, and every member function as a
  statement on it, as in \<open>Server\<close>.  A completion of an RDMA READ takes two steps of the completion
  thread, because the main thread may run between the two assignments that follow it.
  \<open>pendingReads\<close> is an unbounded integer: it never leaves the range of an \<open>int\<close> (see \<open>Reads\<close>).
\<close>

subsection \<open>The object\<close>

record 'w client = "'w endpoint" +
  cstate :: ClientState
  GET_RDMA_ADDR :: bool
  RDMA_READ_COMPLETE :: bool
  RDMA_WRITE_COMPLETE :: bool
  GET_CLASS_ADDR :: bool
  GET_SKETCH_ADDR :: bool
  pendingReads :: int

definition simple_client_ctor ::
    "'w platform \<Rightarrow> string \<Rightarrow> int \<Rightarrow> ptr \<Rightarrow> int \<Rightarrow> ptr \<Rightarrow> int \<Rightarrow> ('w client, fatal) stmt" where
  "simple_client_ctor P ip' port' sbuf ssize rbuf rsize = block
     [assign (\<lambda>s. s\<lparr>GET_RDMA_ADDR := False, RDMA_READ_COMPLETE := False,
        RDMA_WRITE_COMPLETE := False, GET_CLASS_ADDR := False, GET_SKETCH_ADDR := False,
        cstate := INIT\<rparr>),
      ep_lib (\<lambda>s. sketch_rdma_info_ctor P (sketch_info s)) (\<lambda>sk. assign (\<lambda>s. s\<lparr>sketch_info := sk\<rparr>)),
      assign (\<lambda>s. s\<lparr>ip := ip', port := htobe16 (word_of_int port'), start_buf := sbuf,
                    start_size := ssize, rdma_buf := rbuf, rdma_size := rsize\<rparr>)]"

subsection \<open>The connection thread\<close>

definition client_cm_event :: "'w platform \<Rightarrow> rdma_cm_event \<Rightarrow> ('w client, fatal) stmt" where
  "client_cm_event P ev =
     (case cm_event_event ev of
        RDMA_CM_EVENT_ADDR_RESOLVED \<Rightarrow> block
          [ep_lib (\<lambda>s. lib_resolve_route P (cm_id s) 2000)
             (\<lambda>ret. exit_if (\<lambda>_. ret \<noteq> 0) Resolve_route_error),
           assign (\<lambda>s. s\<lparr>cstate := ADDR_RESOLVED\<rparr>)]
      | RDMA_CM_EVENT_ROUTE_RESOLVED \<Rightarrow> assign (\<lambda>s. s\<lparr>cstate := ROUTE_RESOLVED\<rparr>)
      | RDMA_CM_EVENT_ESTABLISHED \<Rightarrow> assign (\<lambda>s. s\<lparr>cstate := CONNECTED\<rparr>)
      | _ \<Rightarrow> skip)"

text \<open>One iteration of \<open>cm_thread\<close>.  A route that is resolved in the wrong state only prints a message.\<close>

definition client_cm_thread :: "'w platform \<Rightarrow> ('w client, fatal) stmt" where
  "client_cm_thread P = ep_lib (\<lambda>s. lib_get_cm_event P (cm_channel s)) (\<lambda>(ret, event). block
     [exit_if (\<lambda>_. ret \<noteq> 0) Get_cm_event_error,
      (\<lambda>s. client_cm_event P (cm_event_at (mach s) event) s),
      ep_lib (\<lambda>s. lib_ack_cm_event P event) (\<lambda>ret. exit_if (\<lambda>_. ret \<noteq> 0) Ack_cm_event_error)])"

definition client_bindaddr :: "'w platform \<Rightarrow> ('w client \<Rightarrow> fatal + 'w client) \<Rightarrow> ('w client, fatal) stmt" where
  "client_bindaddr P env = thread env
     [resolve_sin P,
      ep_lib (\<lambda>s. lib_resolve_addr P (cm_id s) 0 (sin s) 2000)
        (\<lambda>ret. exit_if (\<lambda>_. ret \<noteq> 0) Resolve_addr_error),
      await env (\<lambda>s. cstate s = ROUTE_RESOLVED)]"

subsection \<open>Completions\<close>

text \<open>
  \<open>recv_handler\<close>: an advertisement of the server has arrived in \<open>recv_buf\<close>; the immediate value says
  of what.  The receive is posted again, without looking at the result, only after a message with
  an immediate value.
\<close>

definition recv_handler :: "'w platform \<Rightarrow> ibv_wc \<Rightarrow> ('w client, fatal) stmt" where
  "recv_handler P wc = block
     [exit_if (\<lambda>_. wc_byte_len wc \<noteq> of_nat sizeof_rdma_info) Recv_length_error,
      cond (\<lambda>_. has_flag (ibv_wc_flags_bit IBV_WC_WITH_IMM) (wc_wc_flags wc))
        (block
          [assign (\<lambda>s.
             let info = rdma_info_at (mem (mach s)) (recv_buf_addr s);
                 addr = be64toh (info_buf info); len = be32toh (info_size info);
                 rkey = be32toh (info_rkey info); imm = be32toh (wc_imm_data wc) in
             if imm = 1122 then
               s\<lparr>remote_addr := addr, remote_len := len, remote_rkey := rkey, GET_RDMA_ADDR := True\<rparr>
             else if imm = 1123 then
               s\<lparr>class_info := (class_info s)
                   \<lparr>tc_remote_addr := addr, tc_remote_len := len, tc_remote_rkey := rkey\<rparr>,
                 GET_CLASS_ADDR := True\<rparr>
             else if imm = 1124 then
               s\<lparr>sketch_info := (sketch_info s)
                   \<lparr>sk_remote_addr := addr, sk_remote_len := len, sk_remote_rkey := rkey\<rparr>,
                 GET_SKETCH_ADDR := True\<rparr>
             else s),
           ep_lib (\<lambda>s. ibv_post_recv P (qp s) (rq_wr_addr s) 0) (\<lambda>ret. skip)])
        skip]"

definition client_completion :: "'w platform \<Rightarrow> ibv_wc \<Rightarrow> ('w client, fatal) stmt" where
  "client_completion P wc =
     (case wc_opcode wc of
        IBV_WC_RECV \<Rightarrow> recv_handler P wc
      | IBV_WC_RDMA_READ \<Rightarrow> assign (\<lambda>s. s\<lparr>RDMA_READ_COMPLETE := True, cq_pc := Cq_dec\<rparr>)
      | IBV_WC_RDMA_WRITE \<Rightarrow> assign (\<lambda>s. s\<lparr>RDMA_WRITE_COMPLETE := True\<rparr>)
      | _ \<Rightarrow> skip)"

definition client_poll :: "'w platform \<Rightarrow> ('w client, fatal) stmt" where
  "client_poll P = ep_lib (\<lambda>s. ibv_poll_cq P (cq s) 1 (wc_addr s))
     (\<lambda>ret. if ret = 1 then (\<lambda>s. client_completion P (wc_at (mach s) (wc_addr s)) s) else cq_ack P)"

text \<open>One step of \<open>cq_thread\<close>; the thread repeats it for ever.\<close>

definition client_cq_thread :: "'w platform \<Rightarrow> ('w client, fatal) stmt" where
  "client_cq_thread P s =
     (case cq_pc s of
        Cq_none \<Rightarrow> skip s
      | Cq_wait \<Rightarrow> cq_wait P s
      | Cq_poll \<Rightarrow> client_poll P s
      | Cq_dec \<Rightarrow> assign (\<lambda>s. s\<lparr>pendingReads := pendingReads s - 1, cq_pc := Cq_poll\<rparr>) s)"

subsection \<open>Reading and writing the server's buffer\<close>

definition client_rdma_read :: "'w platform \<Rightarrow> ('w client \<Rightarrow> fatal + 'w client) \<Rightarrow> ('w client, fatal) stmt" where
  "client_rdma_read P env = thread env
     [exit_if (\<lambda>s. \<not> GET_RDMA_ADDR s) No_remote_addr,
      assign (\<lambda>s. s\<lparr>RDMA_READ_COMPLETE := False\<rparr>),
      rdma_request IBV_WR_RDMA_READ,
      post_send P rdma_sq_wr_addr,
      assign (\<lambda>s. s\<lparr>pendingReads := pendingReads s + 1\<rparr>),
      await env (\<lambda>s. \<not> 0 < pendingReads s)]"

definition client_rdma_write :: "'w platform \<Rightarrow> ('w client \<Rightarrow> fatal + 'w client) \<Rightarrow> ('w client, fatal) stmt" where
  "client_rdma_write P env = thread env
     [assign (\<lambda>s. s\<lparr>RDMA_WRITE_COMPLETE := False\<rparr>),
      on_mach (\<lambda>s. on_mem (strcpy (rdma_buf s) ''write some data from client'')),
      rdma_request IBV_WR_RDMA_WRITE,
      post_send P rdma_sq_wr_addr,
      await env RDMA_WRITE_COMPLETE]"

subsection \<open>Registering memory\<close>

definition client_setup_buffer :: "'w platform \<Rightarrow> ('w client, fatal) stmt" where
  "client_setup_buffer P = block
     [register_buffers P,
      ep_lib (\<lambda>s. lib_malloc P 1000)
        (\<lambda>r. assign (\<lambda>s. s\<lparr>class_info := (class_info s)\<lparr>class_recv_data := r\<rparr>\<rparr>)),
      ep_lib (\<lambda>s. lib_malloc P (1000 * 4))
        (\<lambda>r. assign (\<lambda>s. s\<lparr>class_info := (class_info s)\<lparr>class_recv_buf := r\<rparr>\<rparr>)),
      register P (\<lambda>s. class_recv_data (class_info s)) (\<lambda>_. 1000) rw_access
        (\<lambda>r s. s\<lparr>class_info := (class_info s)\<lparr>test_class_mr := r\<rparr>\<rparr>),
      register P (\<lambda>s. class_recv_buf (class_info s)) (\<lambda>_. 1000 * 4) rw_access
        (\<lambda>r s. s\<lparr>class_info := (class_info s)\<lparr>class_buf_mr := r\<rparr>\<rparr>),
      register P (\<lambda>s. sk_data_buf (sketch_info s))
        (\<lambda>s. word_of_int (sk_data_size (sketch_info s) * 4)) rw_access
        (\<lambda>r s. s\<lparr>sketch_info := (sketch_info s)\<lparr>sketch_mr := r\<rparr>\<rparr>),
      prepare_requests IBV_WR_SEND]"

subsection \<open>Reading the class\<close>

text \<open>
  The request of \<open>read_class\<close>: one READ of the 32 bytes of the object and the 100 words after it,
  scattered into two buffers by two entries at \<open>test_sgl\<close>.
\<close>

definition class_request :: "('w client, fatal) stmt" where
  "class_request = block
     [on_mach (\<lambda>s. set_send_wr (test_class_wr_addr (class_info s)) (\<lambda>w. w
        \<lparr>send_wr_wr := Wr_rdma (tc_remote_addr (class_info s)) (tc_remote_rkey (class_info s)),
         send_wr_opcode := IBV_WR_RDMA_READ, send_wr_send_flags := SIGNALED\<rparr>)),
      on_mach (\<lambda>s m. set_sge (test_sgl (class_info s)) (\<lambda>g. g
        \<lparr>sge_addr := class_recv_data (class_info s),
         sge_lkey := mr_lkey (mr_at m (test_class_mr (class_info s))),
         sge_length := of_nat sizeof_rdma_test\<rparr>) m),
      on_mach (\<lambda>s m. set_sge (test_sgl (class_info s) + 16) (\<lambda>g. g
        \<lparr>sge_addr := class_recv_buf (class_info s),
         sge_lkey := mr_lkey (mr_at m (class_buf_mr (class_info s))),
         sge_length := 100 * 4\<rparr>) m),
      on_mach (\<lambda>s. set_send_wr (test_class_wr_addr (class_info s)) (\<lambda>w. w
        \<lparr>send_wr_num_sge := 2, send_wr_sg_list := test_sgl (class_info s)\<rparr>))]"

text \<open>
  \<open>read_class\<close>: the result is the object that arrived in \<open>class_recv_data\<close>, with its array pointer
  set to \<open>class_recv_buf\<close>; \<open>result\<close> names the object in the caller.  The object that the function
  allocates first, \<open>new RdmaTest (0, 0, 0)\<close>, is never used.
\<close>

definition read_class ::
    "'w platform \<Rightarrow> ('w client \<Rightarrow> fatal + 'w client) \<Rightarrow> (rdma_test \<Rightarrow> ('w client, fatal) stmt)
      \<Rightarrow> ('w client, fatal) stmt" where
  "read_class P env result = thread env
     [ep_lib (\<lambda>s. operator_new P sizeof_rdma_test) (\<lambda>r. block
        [exit_if (\<lambda>_. r = 0) Bad_alloc,
         (\<lambda>s. case RdmaTest_ctor P r 0 0 0 (mach s) of
                None \<Rightarrow> fail Bad_alloc s
              | Some m \<Rightarrow> skip (put_mach m s))]),
      ep_lib (\<lambda>s. lib_malloc P (2 * 16))
        (\<lambda>r. assign (\<lambda>s. s\<lparr>class_info := (class_info s)\<lparr>test_sgl := r\<rparr>\<rparr>)),
      assign (\<lambda>s. s\<lparr>RDMA_READ_COMPLETE := False\<rparr>),
      class_request,
      post_send P (\<lambda>s. test_class_wr_addr (class_info s)),
      assign (\<lambda>s. s\<lparr>pendingReads := pendingReads s + 1\<rparr>),
      await env (\<lambda>s. \<not> 0 < pendingReads s),
      on_mach (\<lambda>s. on_mem (\<lambda>mm. store_word mm (class_recv_data (class_info s) + 16)
        (class_recv_buf (class_info s)))),
      (\<lambda>s. result (rdma_test_at (mem (mach s)) (class_recv_data (class_info s))) s)]"

subsection \<open>Reading the sketch\<close>

text \<open>The request for element \<open>i\<close>: four bytes at four times the index, on both sides.\<close>

definition sketch_request :: "nat \<Rightarrow> ('w client, fatal) stmt" where
  "sketch_request i = block
     [on_mach (\<lambda>s. set_send_wr (sketch_wr_addr (sketch_info s)) (\<lambda>w. w
        \<lparr>send_wr_wr := Wr_rdma (sk_remote_addr (sketch_info s) + of_nat i * 4)
           (sk_remote_rkey (sketch_info s)),
         send_wr_opcode := IBV_WR_RDMA_READ, send_wr_send_flags := SIGNALED\<rparr>)),
      on_mach (\<lambda>s m. set_sge (sketch_seg (sketch_info s)) (\<lambda>g. g
        \<lparr>sge_addr := sk_data_buf (sketch_info s) + of_nat i * 4,
         sge_lkey := mr_lkey (mr_at m (sketch_mr (sketch_info s))), sge_length := 4\<rparr>) m),
      on_mach (\<lambda>s. set_send_wr (sketch_wr_addr (sketch_info s)) (\<lambda>w. w
        \<lparr>send_wr_num_sge := 1, send_wr_sg_list := sketch_seg (sketch_info s)\<rparr>))]"

definition ow_read_element ::
    "'w platform \<Rightarrow> ('w client \<Rightarrow> fatal + 'w client) \<Rightarrow> nat \<Rightarrow> ('w client, fatal) stmt" where
  "ow_read_element P env i = thread env
     [assign (\<lambda>s. s\<lparr>RDMA_READ_COMPLETE := False\<rparr>),
      sketch_request i,
      post_send P (\<lambda>s. sketch_wr_addr (sketch_info s)),
      assign (\<lambda>s. s\<lparr>pendingReads := pendingReads s + 1\<rparr>),
      await env RDMA_READ_COMPLETE]"

text \<open>The bound \<open>data_size\<close> of the loop is read once: nothing changes it after the constructor.\<close>

definition ow_read :: "'w platform \<Rightarrow> ('w client \<Rightarrow> fatal + 'w client) \<Rightarrow> ('w client, fatal) stmt" where
  "ow_read P env = thread env
     [assign (\<lambda>s. s\<lparr>pendingReads := 0\<rparr>),
      (\<lambda>s. for_each [0..<nat (sk_data_size (sketch_info s))] (ow_read_element P env) s),
      await env (\<lambda>s. \<not> 0 < pendingReads s)]"

subsection \<open>Start-up\<close>

text \<open>
  The part of \<open>start\<close> that makes the queues.  A completion queue that could not be created is only
  reported: the next call dereferences the NULL pointer.  A receive that could not be posted is only
  reported, too.
\<close>

definition client_make_queues ::
    "'w platform \<Rightarrow> ('w client \<Rightarrow> fatal + 'w client) \<Rightarrow> ('w client, fatal) stmt" where
  "client_make_queues P env = thread env
     [ep_lib (\<lambda>s m. lib_alloc_pd P (cm_id_verbs (cm_id_at m (cm_id s))) m) (\<lambda>r. block
        [assign (\<lambda>s. s\<lparr>pd := r\<rparr>), exit_if (\<lambda>_. r = 0) Alloc_pd_error]),
      ep_lib (\<lambda>s m. lib_create_comp_channel P (cm_id_verbs (cm_id_at m (cm_id s))) m) (\<lambda>r. block
        [assign (\<lambda>s. s\<lparr>channel := r\<rparr>), exit_if (\<lambda>_. r = 0) Comp_channel_error]),
      ep_lib (\<lambda>s m. lib_create_cq P (cm_id_verbs (cm_id_at m (cm_id s))) (SQ_DEPTH * 2) 0
          (channel s) 0 m) (\<lambda>r. assign (\<lambda>s. s\<lparr>cq := r\<rparr>)),
      exit_if (\<lambda>s. cq s = 0) Null_dereference,
      request_notify P,
      ep_lib (\<lambda>s. lib_rdma_create_qp P (cm_id s) (pd s) (init_attr 10 (cq s)))
        (\<lambda>ret. exit_if (\<lambda>_. ret \<noteq> 0) Create_qp_error),
      assign (\<lambda>s. s\<lparr>qp := cm_id_qp (cm_id_at (mach s) (cm_id s))\<rparr>),
      client_setup_buffer P,
      ep_lib (\<lambda>s. ibv_post_recv P (qp s) (rq_wr_addr s) (bad_wr_addr s)) (\<lambda>ret. skip)]"

definition client_conn_param :: rdma_conn_param where
  "client_conn_param =
     \<lparr>conn_param_private_data = 0, conn_param_private_data_len = 0,
      conn_param_responder_resources = 1, conn_param_initiator_depth = 1,
      conn_param_flow_control = 0, conn_param_retry_count = 7, conn_param_rnr_retry_count = 7,
      conn_param_srq = 0, conn_param_qp_num = 0\<rparr>"

text \<open>The end of \<open>start\<close>: the client's advertisement, then the wait for the server's.\<close>

definition client_advertise ::
    "'w platform \<Rightarrow> ('w client \<Rightarrow> fatal + 'w client) \<Rightarrow> ('w client, fatal) stmt" where
  "client_advertise P env = thread env
     [on_mach (\<lambda>s m. on_mem (store_rdma_info (send_buf_addr s) (start_buf s)
        (mr_rkey (mr_at m (start_mr s))) (word_of_int (start_size s))) m),
      on_mach (\<lambda>s. set_send_wr (sq_wr_addr s) (\<lambda>w. w\<lparr>send_wr_opcode := IBV_WR_SEND\<rparr>)),
      post_send P sq_wr_addr,
      await env GET_RDMA_ADDR]"

definition client_start :: "'w platform \<Rightarrow> ('w client \<Rightarrow> fatal + 'w client) \<Rightarrow> ('w client, fatal) stmt" where
  "client_start P env = block
     [ep_lib (\<lambda>s. create_first_event_channel P) (\<lambda>(ch, msg). assign (\<lambda>s. s\<lparr>cm_channel := ch\<rparr>)),
      ep_lib (\<lambda>s. lib_create_id P (cm_channel s) 0 RDMA_PS_TCP) (\<lambda>(ret, i). block
        [assign (\<lambda>s. s\<lparr>cm_id := i\<rparr>), exit_if (\<lambda>_. ret \<noteq> 0) Create_id_error]),
      client_bindaddr P env,
      client_make_queues P env,
      assign (\<lambda>s. s\<lparr>cq_pc := Cq_wait\<rparr>),
      thread env
        [ep_lib (\<lambda>s. lib_connect P (cm_id s) client_conn_param)
           (\<lambda>ret. exit_if (\<lambda>_. ret \<noteq> 0) Connect_error),
         await env (\<lambda>s. cstate s = CONNECTED)],
      client_advertise P env]"

text \<open>
  \<open>main\<close> after the constructor, up to its final loop: the numbers that the program prints after
  \<open>read_class\<close> are left out, as all output; the pause of a second is a point where the other threads
  run.
\<close>

definition client_session :: "'w platform \<Rightarrow> ('w client \<Rightarrow> fatal + 'w client) \<Rightarrow> ('w client, fatal) stmt" where
  "client_session P env = block
     [client_start P env,
      client_rdma_read P env,
      await env GET_CLASS_ADDR,
      read_class P env (\<lambda>_. skip),
      client_rdma_read P env,
      interleave env,
      for_each [0..<10] (\<lambda>_. ow_read P env)]"

definition client_main :: "'w platform \<Rightarrow> ('w client \<Rightarrow> fatal + 'w client) \<Rightarrow> ('w client, fatal) stmt" where
  "client_main P env =
     ep_lib (\<lambda>s. lib_malloc P 1000) (\<lambda>sbuf.
     ep_lib (\<lambda>s. lib_malloc P 1000) (\<lambda>rbuf. block
       [on_mach (\<lambda>s. on_mem (strcpy sbuf ''hello world form client'')),
        simple_client_ctor P ''10.0.0.20'' 1245 sbuf 1000 rbuf 1000,
        client_session P env,
        await env (\<lambda>_. False)]))"

end
