(* ===== verification/Threads.thy ===== *)
theory Threads
  imports Rdma_Utils
begin

section \<open>Threads beside a main thread\<close>

text \<open>
  What the proofs about both processes share: the other threads as any number of steps of a step
  relation, rules for the statements of a thread, and the end of its waits.
\<close>

subsection \<open>The other threads\<close>

text \<open>\<open>env\<close> stands for what runs between two statements: it takes steps of \<open>step\<close>, or ends the process.\<close>

definition runs_beside :: "('s \<Rightarrow> 's \<Rightarrow> bool) \<Rightarrow> ('s \<Rightarrow> fatal + 's) \<Rightarrow> bool" where
  "runs_beside step env \<longleftrightarrow> (\<forall>s t. env s = Inr t \<longrightarrow> step\<^sup>*\<^sup>* s t)"

text \<open>A condition that every step keeps holds after the other threads ran.\<close>

lemma runs_beside_inv:
  assumes "runs_beside step env" and "env s = Inr t" and "i s"
    and "\<And>s t. step s t \<Longrightarrow> i s \<Longrightarrow> i t"
  shows "i t"
proof -
  have "step\<^sup>*\<^sup>* s t" using assms(1,2) by (simp add: runs_beside_def)
  then show ?thesis using assms(3) by (induction) (use assms(4) in auto)
qed

lemma triple_thread_Nil: "(\<And>s. p s \<Longrightarrow> q s) \<Longrightarrow> triple p (thread env []) q"
  by (auto simp: triple_def stmt_simps)

lemma triple_thread_Cons:
  assumes "\<And>s t. p s \<Longrightarrow> env s = Inr t \<Longrightarrow> p t" and "triple p c r" and "triple r (thread env cs) q"
  shows "triple p (thread env (c # cs)) q"
  using assms by (fastforce simp: triple_def stmt_simps split: sum.splits option.splits)

subsection \<open>Statements that keep a relation\<close>

text \<open>
  \<open>within same c\<close>: every run of \<open>c\<close> to its end leads to a state that \<open>same\<close> relates to the first one.  The
  interface of a frame is a reflexive and transitive relation; what a statement keeps then follows
  from what its calls and assignments keep.
\<close>

definition within :: "('s \<Rightarrow> 's \<Rightarrow> bool) \<Rightarrow> ('s, 'e) stmt \<Rightarrow> bool" where
  "within same c \<longleftrightarrow> (\<forall>s t. c s = Some (Inr t) \<longrightarrow> same s t)"

lemma withinD: "within same c \<Longrightarrow> c s = Some (Inr t) \<Longrightarrow> same s t"
  by (simp add: within_def)

lemma within_triple: "within same c \<Longrightarrow> (\<And>s t. p s \<Longrightarrow> same s t \<Longrightarrow> q t) \<Longrightarrow> triple p c q"
  by (auto simp: within_def triple_def)

lemma within_mono: "within same c \<Longrightarrow> (\<And>s t. same s t \<Longrightarrow> same' s t) \<Longrightarrow> within same' c"
  by (auto simp: within_def)

lemma within_state: "(\<And>x. within same (c x)) \<Longrightarrow> within same (\<lambda>s. c (g s) s)"
  by (simp add: within_def)

lemma within_assign: "(\<And>s. same s (f s)) \<Longrightarrow> within same (assign f)"
  by (simp add: within_def assign_run)

lemma within_on_mach: "(\<And>s. same s (s\<lparr>mach := g s (mach s)\<rparr>)) \<Longrightarrow> within same (on_mach g)"
  by (simp add: within_def on_mach_def)

lemma within_fail: "within same (fail e)"
  by (simp add: within_def fail_def)

locale frame =
  fixes same :: "('w, 'z) endpoint_scheme \<Rightarrow> ('w, 'z) endpoint_scheme \<Rightarrow> bool"
  assumes same_refl: "same s s" and same_trans: "same s t \<Longrightarrow> same t u \<Longrightarrow> same s u"
begin

lemma within_skip: "within same skip"
  by (simp add: within_def skip_run same_refl)

lemma within_exit_if: "within same (exit_if b e)"
  by (simp add: within_def exit_if_def same_refl)

lemma within_block: "(\<And>c. c \<in> set cs \<Longrightarrow> within same c) \<Longrightarrow> within same (block cs)"
proof (induction cs)
  case Nil
  show ?case by (simp add: within_def block_Nil same_refl)
next
  case (Cons c cs)
  then have c: "within same c" and cs: "within same (block cs)" by simp_all
  show ?case
    by (auto simp: within_def block_Cons seq_def split: option.splits sum.splits
        intro: same_trans [OF withinD [OF c] withinD [OF cs]])
qed

lemma within_cond: "within same c \<Longrightarrow> within same e \<Longrightarrow> within same (cond b c e)"
  by (simp add: within_def cond_def)

lemma within_lib:
  assumes "\<And>s r m. f s (mach s) = (r, m) \<Longrightarrow> same s (put_mach m s)" and "\<And>r. within same (k r)"
  shows "within same (ep_lib f k)"
  by (auto simp: within_def lib_run split: prod.splits intro: same_trans [OF assms(1) withinD [OF assms(2)]])

lemmas within_rules = within_skip within_exit_if within_block within_cond within_lib within_fail

end

subsection \<open>Statements that come to an end\<close>

text \<open>\<open>halts p c\<close>: from a state with \<open>p\<close> the statement comes to an end, be it with an error.\<close>

definition halts :: "('s \<Rightarrow> bool) \<Rightarrow> ('s, 'e) stmt \<Rightarrow> bool" where
  "halts p c \<longleftrightarrow> (\<forall>s. p s \<longrightarrow> c s \<noteq> None)"

lemma halts_thread_Nil: "halts p (thread env [])"
  by (simp add: halts_def stmt_simps)

lemma halts_thread_Cons:
  assumes "\<And>s t. p s \<Longrightarrow> env s = Inr t \<Longrightarrow> p t" and "halts p c" and "triple p c r"
    and "halts r (thread env cs)"
  shows "halts p (thread env (c # cs))"
  using assms by (fastforce simp: halts_def triple_def stmt_simps split: sum.splits option.splits)

lemma halts_for_each:
  assumes "\<And>i. i \<in> set xs \<Longrightarrow> halts p (body i)" and "\<And>i. i \<in> set xs \<Longrightarrow> triple p (body i) p"
  shows "halts p (for_each xs body)"
  using assms
proof (induction xs)
  case Nil
  show ?case by (simp add: halts_def stmt_simps)
next
  case (Cons x xs)
  then have "halts p (body x)" "triple p (body x) p" "halts p (for_each xs body)" by simp_all
  then show ?case
    by (fastforce simp: halts_def triple_def for_each_def block_Cons seq_def
        split: option.splits sum.splits)
qed

lemma await_halts:
  fixes measure' :: "'s \<Rightarrow> nat"
  assumes "\<And>s t. p s \<Longrightarrow> \<not> b s \<Longrightarrow> env s = Inr t \<Longrightarrow> p t \<and> measure' t < measure' s"
  shows "halts p (await env b)"
proof (unfold halts_def, intro allI impI)
  fix s assume "p s"
  then show "await env b s \<noteq> None"
  proof (induction "measure' s" arbitrary: s rule: less_induct)
    case less
    show ?case
    proof (cases "b s")
      case True
      then show ?thesis by (simp add: await_now)
    next
      case False
      show ?thesis
      proof (cases "env s")
        case (Inl e)
        with False show ?thesis by (simp add: await.simps)
      next
        case (Inr t)
        with assms [OF less.prems False] less.hyps have "await env b t \<noteq> None" by blast
        with False Inr show ?thesis by (simp add: await_step)
      qed
    qed
  qed
qed


text \<open>
  \<open>runs p c q\<close>: from a state with \<open>p\<close> the statement comes to a good end, in a state with \<open>q\<close>.  A wait
  does when every turn of the other threads brings it nearer to its condition.
\<close>

definition runs :: "('s \<Rightarrow> bool) \<Rightarrow> ('s, 'e) stmt \<Rightarrow> ('s \<Rightarrow> bool) \<Rightarrow> bool" where
  "runs p c q \<longleftrightarrow> (\<forall>s. p s \<longrightarrow> (\<exists>t. c s = Some (Inr t) \<and> q t))"

lemma runsD: "runs p c q \<Longrightarrow> p s \<Longrightarrow> \<exists>t. c s = Some (Inr t) \<and> q t"
  by (simp add: runs_def)

lemma runs_weaken: "runs p c q \<Longrightarrow> (\<And>s. p' s \<Longrightarrow> p s) \<Longrightarrow> (\<And>s. q s \<Longrightarrow> q' s) \<Longrightarrow> runs p' c q'"
  by (fastforce simp: runs_def)

lemma runs_triple: "runs p c q \<Longrightarrow> triple p' c q' \<Longrightarrow> (\<And>s. p s \<Longrightarrow> p' s) \<Longrightarrow> runs p c (\<lambda>s. q s \<and> q' s)"
  by (fastforce simp: runs_def triple_def)

lemma runs_block_Nil: "runs p (block []) p"
  by (simp add: runs_def block_Nil)

lemma runs_block_Cons: "runs p c r \<Longrightarrow> runs r (block cs) q \<Longrightarrow> runs p (block (c # cs)) q"
  by (fastforce simp: runs_def block_Cons seq_def)

lemma runs_thread_Nil: "runs p (thread env []) p"
  by (simp add: runs_def thread_Nil)

lemma runs_thread_Cons:
  assumes "\<And>s. p s \<Longrightarrow> \<exists>t. env s = Inr t \<and> p t" and "runs p c r" and "runs r (thread env cs) q"
  shows "runs p (thread env (c # cs)) q"
  using assms by (fastforce simp: runs_def thread_Cons seq_def)

lemma runs_for_each: "(\<And>i. runs p (body i) p) \<Longrightarrow> runs p (for_each xs body) p"
  by (induction xs) (simp_all add: for_each_def runs_block_Nil runs_block_Cons [where r = p])

lemma runs_await:
  fixes measure' :: "'s \<Rightarrow> nat"
  assumes "\<And>s. p s \<Longrightarrow> \<not> b s \<Longrightarrow> \<exists>t. env s = Inr t \<and> p t \<and> measure' t < measure' s"
  shows "runs p (await env b) (\<lambda>s. p s \<and> b s)"
proof (unfold runs_def, intro allI impI)
  fix s assume "p s"
  then show "\<exists>t. await env b s = Some (Inr t) \<and> p t \<and> b t"
  proof (induction "measure' s" arbitrary: s rule: less_induct)
    case less
    show ?case
    proof (cases "b s")
      case True
      then show ?thesis using less.prems by (simp add: await_now)
    next
      case False
      from assms [OF less.prems this] obtain t where "env s = Inr t" "p t" "measure' t < measure' s" by blast
      with less.hyps False show ?thesis by (simp add: await_step)
    qed
  qed
qed

subsection \<open>The device\<close>

text \<open>
  What the model knows of the device and the kernel, as observations of the \<open>world\<close>: their own
  steps, how many READ requests they have that were posted and whose completion has not been taken
  from the completion queue, the work request identifiers of the SEND requests in that state (in the
  order of the send queue), the messages sent so far (immediate value and payload), the memory
  that they do not write (registered without a write permission, or not written by the peer, or not
  registered at all), and the provider's
  tables, by which the inline verbs reach the provider, once they are in place.
\<close>

type_synonym op_tables = "(ptr \<Rightarrow> ibv_context) \<times> (ptr \<Rightarrow> ibv_cq) \<times> (ptr \<Rightarrow> ibv_qp)"

record 'w device =
  dev_step :: "'w machine \<Rightarrow> 'w machine \<Rightarrow> bool"
  dev_reads :: "'w \<Rightarrow> nat"
  dev_sends :: "'w \<Rightarrow> u64 list"
  dev_sent :: "'w \<Rightarrow> (u32 \<times> u8 list) list"
  dev_private :: "ptr \<Rightarrow> bool"
  dev_tables :: op_tables

definition outstanding :: "'w device \<Rightarrow> 'w machine \<Rightarrow> nat" where
  "outstanding d m = dev_reads d (world m)"

definition pending_sends :: "'w device \<Rightarrow> 'w machine \<Rightarrow> u64 list" where
  "pending_sends d m = dev_sends d (world m)"

definition sent :: "'w device \<Rightarrow> 'w machine \<Rightarrow> (u32 \<times> u8 list) list" where
  "sent d m = dev_sent d (world m)"

definition tables :: "'w machine \<Rightarrow> op_tables" where
  "tables m = (context_at m, cq_at m, qp_at m)"

definition in_place :: "'w device \<Rightarrow> 'w machine \<Rightarrow> bool" where
  "in_place d m \<longleftrightarrow> tables m = dev_tables d"

lemma own_stores [simp]:
  "outstanding d (m\<lparr>mem := x\<rparr>) = outstanding d m" "tables (m\<lparr>mem := x\<rparr>) = tables m"
  "outstanding d (m\<lparr>sge_at := y\<rparr>) = outstanding d m" "tables (m\<lparr>sge_at := y\<rparr>) = tables m"
  "outstanding d (m\<lparr>send_wr_at := z\<rparr>) = outstanding d m" "tables (m\<lparr>send_wr_at := z\<rparr>) = tables m"
  "pending_sends d (m\<lparr>mem := x\<rparr>) = pending_sends d m" "sent d (m\<lparr>mem := x\<rparr>) = sent d m"
  "pending_sends d (m\<lparr>send_wr_at := z\<rparr>) = pending_sends d m" "sent d (m\<lparr>send_wr_at := z\<rparr>) = sent d m"
  by (simp_all add: outstanding_def tables_def pending_sends_def sent_def)

end
