(* ===== verification/Reads.thy ===== *)
theory Reads
  imports Client Threads
begin

section \<open>The client's threads and its outstanding reads\<close>

text \<open>
  The connection thread, the completion thread and the device as a step relation between two
  statements of the main thread, and what the counter \<open>pendingReads\<close> and the flag
  \<open>RDMA_READ_COMPLETE\<close> say about the READ requests that the device still has.
\<close>

subsection \<open>What runs beside the main thread\<close>

inductive client_env_step ::
    "'w platform \<Rightarrow> ('w machine \<Rightarrow> 'w machine \<Rightarrow> bool) \<Rightarrow> 'w client \<Rightarrow> 'w client \<Rightarrow> bool"
  for P dev where
  cm: "client_cm_thread P s = Some (Inr t) \<Longrightarrow> client_env_step P dev s t"
| cq: "client_cq_thread P s = Some (Inr t) \<Longrightarrow> client_env_step P dev s t"
| device: "dev (mach s) m \<Longrightarrow> client_env_step P dev s (s\<lparr>mach := m\<rparr>)"

inductive_cases client_env_stepE: "client_env_step P dev s t"

subsection \<open>The contract of the device\<close>

text \<open>
  This is what verbs and the connection manager document about READs: a READ that is accepted while
  none is outstanding is one outstanding READ; taking the completion of a READ is one less; no other
  call and no step of the device changes the number, writes the caller's work requests or moves the
  tables.  Nothing is promised about posting a READ while another one is outstanding: the client
  asks for \<open>initiator_depth\<close> 1.
\<close>

definition same_reads :: "'w device \<Rightarrow> 'w machine \<Rightarrow> 'w machine \<Rightarrow> bool" where
  "same_reads d m m' \<longleftrightarrow>
     outstanding d m' = outstanding d m \<and> send_wr_at m' = send_wr_at m \<and> tables m' = tables m"

definition keeps :: "'w device \<Rightarrow> ('w, 'r) lib \<Rightarrow> bool" where
  "keeps d f \<longleftrightarrow> (\<forall>m r m'. f m = (r, m') \<longrightarrow> same_reads d m m')"

definition verb_keeps :: "'w device \<Rightarrow> ('w, 'r) lib \<Rightarrow> bool" where
  "verb_keeps d f \<longleftrightarrow> (\<forall>m r m'. f m = (r, m') \<longrightarrow> in_place d m \<longrightarrow> same_reads d m m')"

definition polls_read :: "'w platform \<Rightarrow> 'w device \<Rightarrow> bool" where
  "polls_read P d \<longleftrightarrow> (\<forall>q n wc m r m'. ibv_poll_cq P q n wc m = (r, m') \<longrightarrow> in_place d m \<longrightarrow>
     send_wr_at m' = send_wr_at m \<and> tables m' = tables m \<and>
     outstanding d m = outstanding d m' +
       (if r = 1 \<and> wc_opcode (wc_at m' wc) = IBV_WC_RDMA_READ then 1 else 0))"

definition posts_read :: "'w platform \<Rightarrow> 'w device \<Rightarrow> bool" where
  "posts_read P d \<longleftrightarrow>
     (\<forall>q wr bad m m'. ibv_post_send P q wr bad m = (0, m') \<longrightarrow> in_place d m \<longrightarrow>
        outstanding d m = 0 \<longrightarrow>
        send_wr_at m' = send_wr_at m \<and> tables m' = tables m \<and>
        outstanding d m' = (if send_wr_opcode (send_wr_at m wr) = IBV_WR_RDMA_READ then 1 else 0))"

definition reads_contract :: "'w platform \<Rightarrow> 'w device \<Rightarrow> bool" where
  "reads_contract P d \<longleftrightarrow>
     polls_read P d \<and> posts_read P d \<and>
     (\<forall>m m'. dev_step d m m' \<longrightarrow> same_reads d m m') \<and>
     (\<forall>ch. keeps d (lib_get_cm_event P ch)) \<and>
     (\<forall>e. keeps d (lib_ack_cm_event P e)) \<and>
     (\<forall>i ms. keeps d (lib_resolve_route P i ms)) \<and>
     (\<forall>ch. keeps d (lib_get_cq_event P ch)) \<and>
     (\<forall>q n. keeps d (lib_ack_cq_events P q n)) \<and>
     (\<forall>n. keeps d (lib_malloc P n)) \<and>
     (\<forall>q f. verb_keeps d (ibv_req_notify_cq P q f)) \<and>
     (\<forall>q wr bad. verb_keeps d (ibv_post_recv P q wr bad))"

lemma keepsD: "keeps d f \<Longrightarrow> f m = (r, m') \<Longrightarrow> same_reads d m m'"
  by (simp add: keeps_def)

lemma contract_poll:
  "reads_contract P d \<Longrightarrow> ibv_poll_cq P q n wc m = (r, m') \<Longrightarrow> in_place d m \<Longrightarrow>
   send_wr_at m' = send_wr_at m \<and> tables m' = tables m \<and>
   outstanding d m = outstanding d m' +
     (if r = 1 \<and> wc_opcode (wc_at m' wc) = IBV_WC_RDMA_READ then 1 else 0)"
  by (simp add: reads_contract_def polls_read_def)

lemma contract_post:
  "reads_contract P d \<Longrightarrow> ibv_post_send P q wr bad m = (0, m') \<Longrightarrow> in_place d m \<Longrightarrow>
   outstanding d m = 0 \<Longrightarrow>
   send_wr_at m' = send_wr_at m \<and> tables m' = tables m \<and>
   outstanding d m' = (if send_wr_opcode (send_wr_at m wr) = IBV_WR_RDMA_READ then 1 else 0)"
  unfolding reads_contract_def posts_read_def by blast

lemma contract_device: "reads_contract P d \<Longrightarrow> dev_step d m m' \<Longrightarrow> same_reads d m m'"
  by (simp add: reads_contract_def)

lemma contract_verbs:
  assumes "reads_contract P d"
  shows "ibv_req_notify_cq P q f m = (r, m') \<Longrightarrow> in_place d m \<Longrightarrow> same_reads d m m'"
    and "ibv_post_recv P q wr bad m = (r, m') \<Longrightarrow> in_place d m \<Longrightarrow> same_reads d m m'"
  using assms unfolding reads_contract_def verb_keeps_def by blast+

lemma contract_keeps:
  assumes "reads_contract P d"
  shows "keeps d (lib_get_cm_event P ch)" and "keeps d (lib_ack_cm_event P e)"
    and "keeps d (lib_resolve_route P i ms)" and "keeps d (lib_get_cq_event P ch)"
    and "keeps d (lib_ack_cq_events P q k)" and "keeps d (lib_malloc P sz)"
  using assms by (simp_all add: reads_contract_def)

lemmas lib_keeps = contract_keeps [THEN keepsD]

subsection \<open>The accounts\<close>

text \<open>
  \<open>balance\<close>: the counter, less the outstanding reads, less the completion that the completion thread
  has taken but not yet counted.  It is 0 except between the post of a READ and the increment.
\<close>

definition balance :: "'w device \<Rightarrow> 'w client \<Rightarrow> int" where
  "balance d s =
     pendingReads s - int (outstanding d (mach s)) - (if cq_pc s = Cq_dec then 1 else 0)"

text \<open>
  What the main thread relies on: its own work requests, their contents and addresses, and the
  tables of the provider.
\<close>

type_synonym requests_view = "(ptr \<Rightarrow> ibv_send_wr) \<times> op_tables \<times> ptr \<times> ptr \<times> ptr \<times> ptr"

definition requests :: "'w client \<Rightarrow> requests_view" where
  "requests s = (send_wr_at (mach s), tables (mach s), rdma_sq_wr_addr s, test_class_wr_addr (class_info s),
     sketch_wr_addr (sketch_info s), sq_wr_addr s)"

definition account ::
    "'w device \<Rightarrow> 'w client \<Rightarrow> int \<times> nat \<times> bool \<times> bool \<times> requests_view" where
  "account d s =
     (pendingReads s, outstanding d (mach s), RDMA_READ_COMPLETE s, cq_pc s = Cq_dec, requests s)"

lemma cm_account:
  assumes "reads_contract P d" and "client_cm_thread P s = Some (Inr t)"
  shows "account d t = account d s"
  using assms(2)
  by (auto simp: client_cm_thread_def client_cm_event_def stmt_simps account_def requests_def same_reads_def
      dest!: lib_keeps [OF assms(1)]
      split: prod.splits if_splits sum.splits option.splits rdma_cm_event_type.splits)

lemma cq_pc_simps [simp]: "cq_pc (put_mach m s) = cq_pc s" "mach (put_mach m s) = m"
    "pendingReads (put_mach m c) = pendingReads c"
    "RDMA_READ_COMPLETE (put_mach m c) = RDMA_READ_COMPLETE c"
    "send_wr_at m = send_wr_at (mach c) \<Longrightarrow> tables m = tables (mach c) \<Longrightarrow>
       requests (put_mach m c) = requests c"
  by (simp_all add: put_mach_def requests_def)

lemma requests_simps [simp]:
  "requests (c\<lparr>RDMA_WRITE_COMPLETE := x\<rparr>) = requests c"
  "requests (c\<lparr>RDMA_READ_COMPLETE := x\<rparr>) = requests c"
  "requests (c\<lparr>RDMA_READ_COMPLETE := x, cq_pc := y\<rparr>) = requests c"
  "requests (c\<lparr>pendingReads := i\<rparr>) = requests c"
  by (simp_all add: requests_def)

lemma request_notify_account:
  assumes "reads_contract P d" and "request_notify P s = Some (Inr t)" and "in_place d (mach s)"
  shows "account d t = account d s \<and> cq_pc t = cq_pc s"
  using assms(2,3) contract_verbs(1) [OF assms(1)]
  by (auto simp: request_notify_def stmt_simps account_def requests_def same_reads_def
      split: prod.splits if_splits)

lemma cq_wait_account:
  assumes c: "reads_contract P d" and run: "cq_wait P s = Some (Inr t)" and pc: "cq_pc s \<noteq> Cq_dec"
    and T: "in_place d (mach s)"
  shows "account d t = account d s"
proof -
  from run obtain ret ev ctx m u where ev: "lib_get_cq_event P (channel s) (mach s) = ((ret, ev, ctx), m)"
    and n: "request_notify P (put_mach m s) = Some (Inr u)" and t: "t = u\<lparr>cq_pc := Cq_poll\<rparr>"
    by (auto simp: cq_wait_def lib_run block_Cons block_Nil seq_def exit_if_def assign_run
        split: prod.splits if_splits option.splits sum.splits)
  have same: "same_reads d (mach s) m" by (rule lib_keeps(4) [OF c ev])
  then have "in_place d (mach (put_mach m s))" using T by (simp add: same_reads_def in_place_def)
  from request_notify_account [OF c n this] same t pc show ?thesis
    by (simp add: account_def requests_def same_reads_def put_mach_def)
qed

lemma cq_ack_account:
  assumes "reads_contract P d" and "cq_ack P s = Some (Inr t)" and "cq_pc s \<noteq> Cq_dec"
  shows "account d t = account d s"
  using assms(2,3)
  by (auto simp: cq_ack_def stmt_simps account_def requests_def same_reads_def
      dest!: lib_keeps [OF assms(1)]
      split: prod.splits if_splits sum.splits option.splits)

lemma recv_handler_account:
  assumes "reads_contract P d" and "recv_handler P wc s = Some (Inr t)" and "in_place d (mach s)"
  shows "account d t = account d s"
  using assms(2,3) contract_verbs(2) [OF assms(1)]
  by (auto simp: recv_handler_def stmt_simps account_def requests_def same_reads_def in_place_def Let_def
      split: prod.splits if_splits sum.splits option.splits)

lemma client_poll_account:
  assumes c: "reads_contract P d" and run: "client_poll P s = Some (Inr t)"
    and pc: "cq_pc s = Cq_poll" and T: "in_place d (mach s)"
  obtains "account d t = account d s"
  | n where "outstanding d (mach s) = Suc n" "account d t = (pendingReads s, n, True, True, requests s)"
proof -
  obtain r m where poll: "ibv_poll_cq P (cq s) 1 (wc_addr s) (mach s) = (r, m)" by fastforce
  let ?s = "put_mach m s" and ?wc = "wc_at m (wc_addr (put_mach m s))"
  note reads = contract_poll [OF c poll T]
  show thesis
  proof (cases "r = 1")
    case False
    with run poll have "cq_ack P ?s = Some (Inr t)" by (simp add: client_poll_def stmt_simps)
    from cq_ack_account [OF c this] that(1) False reads pc show thesis by (simp add: account_def)
  next
    case r: True
    with run poll have t: "client_completion P ?wc ?s = Some (Inr t)"
      by (simp add: client_poll_def lib_def)
    have wc: "?wc = wc_at m (wc_addr s)" by (simp add: put_mach_def)
    show thesis
    proof (cases "wc_opcode ?wc = IBV_WC_RDMA_READ")
      case True
      with t have "t = ?s\<lparr>RDMA_READ_COMPLETE := True, cq_pc := Cq_dec\<rparr>"
        by (simp add: client_completion_def stmt_simps)
      then show thesis
        using that(2) [of "outstanding d m"] reads r True wc by (simp add: account_def)
    next
      case False
      then have "account d t = account d ?s"
        using t recv_handler_account [OF c, of _ ?s] T reads
        by (auto simp: client_completion_def assign_run skip_run account_def in_place_def
            split: ibv_wc_opcode.splits)
      with that(1) reads r False wc show thesis by (simp add: account_def)
    qed
  qed
qed

subsection \<open>One step of the other threads\<close>

lemma client_env_step_account:
  assumes c: "reads_contract P d" and step: "client_env_step P (dev_step d) s t"
    and T: "in_place d (mach s)"
  obtains "account d t = account d s"
  | n where "cq_pc s \<noteq> Cq_dec" "outstanding d (mach s) = Suc n"
      "account d t = (pendingReads s, n, True, True, requests s)"
  | "cq_pc s = Cq_dec"
      "account d t = (pendingReads s - 1, outstanding d (mach s), RDMA_READ_COMPLETE s, False, requests s)"
  using step
proof (cases rule: client_env_step.cases)
  case cm
  with cm_account [OF c] that(1) show thesis by blast
next
  case (device m)
  with contract_device [OF c] that(1) show thesis
    by (simp add: account_def requests_def same_reads_def)
next
  case cq
  show thesis
  proof (cases "cq_pc s")
    case Cq_none
    with cq that(1) show thesis by (simp add: client_cq_thread_def stmt_simps)
  next
    case Cq_wait
    with cq that(1) cq_wait_account [OF c _ _ T] show thesis by (simp add: client_cq_thread_def)
  next
    case Cq_poll
    with cq have "client_poll P s = Some (Inr t)" by (simp add: client_cq_thread_def)
    from client_poll_account [OF c this Cq_poll T] that(1,2) Cq_poll show thesis by auto
  next
    case Cq_dec
    with cq that(3) show thesis
      by (auto simp: client_cq_thread_def stmt_simps account_def requests_def)
  qed
qed

text \<open>
  \<open>posted d k\<close>: at most one READ is outstanding, the flag says whether it has completed, and the
  counter is off by \<open>k\<close>.  \<open>quiet\<close>: no READ is outstanding and the counter is right.  \<open>settled\<close>:
  moreover, the completion thread has no completion left to count.
\<close>

definition posted :: "'w device \<Rightarrow> int \<Rightarrow> 'w client \<Rightarrow> bool" where
  "posted d k s \<longleftrightarrow> in_place d (mach s) \<and> balance d s = k \<and> outstanding d (mach s) \<le> 1 \<and>
     (RDMA_READ_COMPLETE s \<longleftrightarrow> outstanding d (mach s) = 0)"

definition quiet :: "'w device \<Rightarrow> 'w client \<Rightarrow> bool" where
  "quiet d s \<longleftrightarrow> in_place d (mach s) \<and> balance d s = 0 \<and> outstanding d (mach s) = 0"

definition settled :: "'w device \<Rightarrow> 'w client \<Rightarrow> bool" where
  "settled d s \<longleftrightarrow> in_place d (mach s) \<and> pendingReads s = 0 \<and> outstanding d (mach s) = 0 \<and>
     cq_pc s \<noteq> Cq_dec"

lemma settled_iff: "settled d s \<longleftrightarrow> quiet d s \<and> pendingReads s = 0"
  by (auto simp: settled_def quiet_def balance_def split: if_splits)

lemma step_keeps:
  assumes c: "reads_contract P d" and step: "client_env_step P (dev_step d) s t"
    and T: "in_place d (mach s)"
  shows "in_place d (mach t)" and "balance d t = balance d s" and "requests t = requests s"
    and "posted d k s \<Longrightarrow> posted d k t"
    and "outstanding d (mach s) = 0 \<Longrightarrow>
      outstanding d (mach t) = 0 \<and> RDMA_READ_COMPLETE t = RDMA_READ_COMPLETE s"
    and "settled d s \<Longrightarrow> settled d t"
proof -
  have place: "in_place d (mach t)" if "requests t = requests s"
    using that T by (simp add: requests_def in_place_def)
  show "in_place d (mach t)" "balance d t = balance d s" "requests t = requests s"
    "posted d k s \<Longrightarrow> posted d k t"
    "outstanding d (mach s) = 0 \<Longrightarrow>
      outstanding d (mach t) = 0 \<and> RDMA_READ_COMPLETE t = RDMA_READ_COMPLETE s"
    "settled d s \<Longrightarrow> settled d t"
    using place
    by (atomize (full), cases rule: client_env_step_account [OF c step T])
      (auto simp: account_def balance_def posted_def settled_def)
qed

lemma env_keeps:
  assumes c: "reads_contract P d" and env: "runs_beside (client_env_step P (dev_step d)) env" "env s = Inr t"
    and T: "in_place d (mach s)"
  shows "in_place d (mach t)" and "balance d t = balance d s" and "requests t = requests s"
    and "posted d k s \<Longrightarrow> posted d k t" and "quiet d s \<Longrightarrow> quiet d t"
    and "settled d s \<Longrightarrow> settled d t"
    and "quiet d s \<Longrightarrow> RDMA_READ_COMPLETE t = RDMA_READ_COMPLETE s"
proof -
  have inv: "i t" if "i s" "\<And>u w. client_env_step P (dev_step d) w u \<Longrightarrow> in_place d (mach w) \<Longrightarrow> i w \<Longrightarrow> i u"
    for i
  proof -
    have "in_place d (mach t) \<and> i t"
      by (rule runs_beside_inv [OF env, where i = "\<lambda>u. in_place d (mach u) \<and> i u"])
        (use that T step_keeps(1) [OF c] in blast)+
    then show ?thesis by blast
  qed
  show place: "in_place d (mach t)" 
    by (rule inv [where i = "\<lambda>u. in_place d (mach u)"]) (use T step_keeps(1) [OF c] in auto)
  show bal: "balance d t = balance d s"
    by (rule inv [where i = "\<lambda>u. balance d u = balance d s"]) (simp_all add: step_keeps(2) [OF c])
  show "requests t = requests s"
    by (rule inv [where i = "\<lambda>u. requests u = requests s"]) (simp_all add: step_keeps(3) [OF c])
  show "posted d k t" if "posted d k s"
    using that by (rule inv) (rule step_keeps(4) [OF c])
  have zero: "outstanding d (mach t) = 0 \<and> RDMA_READ_COMPLETE t = RDMA_READ_COMPLETE s"
    if "outstanding d (mach s) = 0"
    by (rule inv [where i = "\<lambda>u. outstanding d (mach u) = 0 \<and> RDMA_READ_COMPLETE u = RDMA_READ_COMPLETE s"])
      (use that step_keeps(5) [OF c] in auto)
  show "quiet d t" if "quiet d s" using that bal zero place by (simp add: quiet_def)
  show "RDMA_READ_COMPLETE t = RDMA_READ_COMPLETE s" if "quiet d s"
    using that zero by (simp add: quiet_def)
  show "settled d t" if "settled d s"
    using that by (rule inv) (rule step_keeps(6) [OF c])
qed

lemma posted_kept:
  assumes "reads_contract P d" and "runs_beside (client_env_step P (dev_step d)) env"
  shows "posted d k s \<Longrightarrow> env s = Inr t \<Longrightarrow> posted d k t"
  using env_keeps(4) [OF assms] by (simp add: posted_def)

subsection \<open>A READ that is counted and awaited\<close>

text \<open>The state before the post: the flag is cleared and the request at \<open>wr s\<close> is a READ.\<close>

definition armed :: "'w device \<Rightarrow> ('w client \<Rightarrow> ptr) \<Rightarrow> 'w client \<Rightarrow> bool" where
  "armed d wr s \<longleftrightarrow> quiet d s \<and> \<not> RDMA_READ_COMPLETE s \<and>
     send_wr_opcode (send_wr_at (mach s) (wr s)) = IBV_WR_RDMA_READ"

definition own_request :: "('w client \<Rightarrow> ptr) \<Rightarrow> bool" where
  "own_request wr \<longleftrightarrow> (\<forall>s t. requests t = requests s \<longrightarrow> wr t = wr s)"

lemma own_requests:
  "own_request rdma_sq_wr_addr" "own_request (\<lambda>s. test_class_wr_addr (class_info s))"
  "own_request (\<lambda>s. sketch_wr_addr (sketch_info s))"
  by (auto simp: own_request_def requests_def)

lemma post_counts:
  assumes "reads_contract P d"
  shows "triple (armed d wr) (post_send P wr) (posted d (-1))"
proof (unfold triple_def, intro allI impI)
  fix s t
  assume s: "armed d wr s" and run: "post_send P wr s = Some (Inr t)"
  then obtain m where post: "ibv_post_send P (qp s) (wr s) (bad_wr_addr s) (mach s) = (0, m)"
    and t: "t = put_mach m s"
    by (auto simp: post_send_def lib_run exit_if_def split: prod.splits if_splits)
  have "outstanding d m = 1" and "tables m = tables (mach s)"
    using contract_post [OF assms post] s by (simp_all add: armed_def quiet_def)
  then show "posted d (-1) t"
    using s t by (simp add: in_place_def posted_def armed_def quiet_def balance_def)
qed

lemma armed_kept:
  assumes c: "reads_contract P d" and env: "runs_beside (client_env_step P (dev_step d)) env" and wr: "own_request wr"
    and s: "armed d wr s" and t: "env s = Inr t"
  shows "armed d wr t"
proof -
  have T: "in_place d (mach s)" using s by (simp add: armed_def quiet_def)
  have "requests t = requests s" by (rule env_keeps [OF c env t T])
  moreover have "wr t = wr s" using wr calculation unfolding own_request_def by blast
  ultimately have "send_wr_opcode (send_wr_at (mach t) (wr t)) = IBV_WR_RDMA_READ"
    using s by (simp add: armed_def requests_def)
  with env_keeps [OF c env t T] s show ?thesis unfolding armed_def by blast
qed

lemma counted_read:
  assumes c: "reads_contract P d" and env: "runs_beside (client_env_step P (dev_step d)) env" and wr: "own_request wr"
    and rest: "triple (\<lambda>s. posted d 0 s \<and> b s) (thread env cs) q"
  shows "triple (armed d wr) (thread env
    (post_send P wr # assign (\<lambda>s. s\<lparr>pendingReads := pendingReads s + 1\<rparr>) # await env b # cs)) q"
proof (rule triple_thread_Cons [where r = "posted d (-1)"], goal_cases)
  case (1 s t)
  then show ?case by (rule armed_kept [OF c env wr])
next
  case 2
  show ?case by (rule post_counts [OF c])
next
  case 3
  show ?case
  proof (rule triple_thread_Cons)
    show "triple (posted d (-1)) (assign (\<lambda>s. s\<lparr>pendingReads := pendingReads s + 1\<rparr>)) (posted d 0)"
      by (rule triple_assign) (simp add: posted_def balance_def)
    show "triple (posted d 0) (thread env (await env b # cs)) q"
    proof (rule triple_thread_Cons)
      show "triple (posted d 0) (await env b) (\<lambda>s. posted d 0 s \<and> b s)"
        by (rule triple_await) (use posted_kept [OF c env] in blast)+
    qed (use posted_kept [OF c env] rest in blast)+
  qed (use posted_kept [OF c env] in blast)
qed

lemma posted_settled: "posted d 0 s \<Longrightarrow> \<not> 0 < pendingReads s \<Longrightarrow> settled d s \<and> RDMA_READ_COMPLETE s"
  by (auto simp: posted_def settled_def balance_def split: if_splits)

lemma posted_quiet: "posted d 0 s \<Longrightarrow> RDMA_READ_COMPLETE s \<Longrightarrow> quiet d s"
  by (simp add: posted_def quiet_def)

lemma quiet_kept:
  assumes "reads_contract P d" and "runs_beside (client_env_step P (dev_step d)) env"
  shows "quiet d s \<Longrightarrow> env s = Inr t \<Longrightarrow> quiet d t"
    and "quiet d s \<and> \<not> RDMA_READ_COMPLETE s \<Longrightarrow> env s = Inr t \<Longrightarrow> quiet d t \<and> \<not> RDMA_READ_COMPLETE t"
    and "settled d s \<Longrightarrow> env s = Inr t \<Longrightarrow> settled d t"
    and "settled d s \<and> RDMA_READ_COMPLETE s \<Longrightarrow> env s = Inr t \<Longrightarrow> settled d t \<and> RDMA_READ_COMPLETE t"
  using env_keeps [OF assms] settled_iff unfolding quiet_def by blast+

lemma clear_flag:
  "triple (quiet d) (assign (\<lambda>s. s\<lparr>RDMA_READ_COMPLETE := False\<rparr>))
     (\<lambda>s. quiet d s \<and> \<not> RDMA_READ_COMPLETE s)"
  by (rule triple_assign) (simp add: quiet_def balance_def)

lemma requests_arm:
  "triple (\<lambda>s. quiet d s \<and> \<not> RDMA_READ_COMPLETE s) (rdma_request IBV_WR_RDMA_READ)
     (armed d rdma_sq_wr_addr)"
  "triple (\<lambda>s. quiet d s \<and> \<not> RDMA_READ_COMPLETE s) class_request
     (armed d (\<lambda>s. test_class_wr_addr (class_info s)))"
  "triple (\<lambda>s. quiet d s \<and> \<not> RDMA_READ_COMPLETE s) (sketch_request i)
     (armed d (\<lambda>s. sketch_wr_addr (sketch_info s)))"
  by (auto simp: triple_def rdma_request_def class_request_def sketch_request_def stmt_simps
      armed_def quiet_def balance_def set_send_wr_def set_sge_def in_place_def)

lemma rdma_read_triple:
  assumes "reads_contract P d" and "runs_beside (client_env_step P (dev_step d)) env"
  shows "triple (quiet d) (client_rdma_read P env) (\<lambda>s. settled d s \<and> RDMA_READ_COMPLETE s)"
proof -
  note kept = quiet_kept [OF assms]
  show ?thesis
    unfolding client_rdma_read_def
    by (rule triple_thread_Cons [OF kept(1) triple_exit_if], assumption+)
      (rule triple_thread_Cons [OF kept(1) clear_flag]
        triple_thread_Cons [OF kept(2) requests_arm(1)]
        counted_read [OF assms own_requests(1)] triple_thread_Nil | assumption
        | use posted_settled in blast)+
qed

text \<open>
  C7: \<open>rdma_read\<close> returns only after its READ: when it is called with no READ outstanding and
  returns, no READ is outstanding, the completion has been seen (\<open>RDMA_READ_COMPLETE\<close>), the counter is
  back at 0 and the completion thread has no decrement left to do, whatever the other threads and
  the device did meanwhile.
\<close>

theorem rdma_read_settles:
  assumes "reads_contract P d" and "runs_beside (client_env_step P (dev_step d)) env"
    and "quiet d s" and "client_rdma_read P env s = Some (Inr t)"
  shows "settled d t \<and> RDMA_READ_COMPLETE t"
  using tripleD [OF rdma_read_triple [OF assms(1,2)] assms(3,4)] .

lemma ctor_keeps:
  assumes "reads_contract P d" and "RdmaTest_ctor P r sz a b m = Some m'"
  shows "same_reads d m m'"
  using assms(2)
  by (auto simp: RdmaTest_ctor_def operator_new_def Let_def same_reads_def
      dest!: lib_keeps(6) [OF assms(1)] split: prod.splits if_splits)

lemma quiet_same: "quiet d s \<Longrightarrow> same_reads d (mach s) m \<Longrightarrow> quiet d (put_mach m s)"
  by (simp add: quiet_def balance_def same_reads_def in_place_def)

lemma class_objects:
  assumes "reads_contract P d"
  shows "triple (quiet d)
      (ep_lib (\<lambda>s. operator_new P sizeof_rdma_test) (\<lambda>r. block
        [exit_if (\<lambda>_. r = 0) Bad_alloc,
         (\<lambda>s. case RdmaTest_ctor P r 0 0 0 (mach s) of
                None \<Rightarrow> fail Bad_alloc s
              | Some m \<Rightarrow> skip (put_mach m s))])) (quiet d)"
    and "triple (quiet d)
      (ep_lib (\<lambda>s. lib_malloc P (2 * 16))
        (\<lambda>r. assign (\<lambda>s. s\<lparr>class_info := (class_info s)\<lparr>test_sgl := r\<rparr>\<rparr>))) (quiet d)"
proof -
  have "quiet d t" if q: "quiet d s"
    and run: "ep_lib (\<lambda>s. operator_new P sizeof_rdma_test) (\<lambda>r. block
        [exit_if (\<lambda>_. r = 0) Bad_alloc,
         (\<lambda>s. case RdmaTest_ctor P r 0 0 0 (mach s) of
                None \<Rightarrow> fail Bad_alloc s
              | Some m \<Rightarrow> skip (put_mach m s))]) s = Some (Inr t)" for s t
  proof -
    from run obtain r m m' where
      "operator_new P sizeof_rdma_test (mach s) = (r, m)" "RdmaTest_ctor P r 0 0 0 m = Some m'"
      "t = put_mach m' (put_mach m s)"
      by (auto simp: lib_run block_Cons block_Nil seq_def exit_if_def fail_def skip_run
          split: prod.splits if_splits option.splits)
    moreover from this have "same_reads d (mach s) m"
      using lib_keeps(6) [OF assms] by (simp add: operator_new_def)
    ultimately show ?thesis using q ctor_keeps [OF assms] by (auto intro!: quiet_same)
  qed
  then show "triple (quiet d)
      (ep_lib (\<lambda>s. operator_new P sizeof_rdma_test) (\<lambda>r. block
        [exit_if (\<lambda>_. r = 0) Bad_alloc,
         (\<lambda>s. case RdmaTest_ctor P r 0 0 0 (mach s) of
                None \<Rightarrow> fail Bad_alloc s
              | Some m \<Rightarrow> skip (put_mach m s))])) (quiet d)"
    by (simp add: triple_def)
  show "triple (quiet d)
      (ep_lib (\<lambda>s. lib_malloc P (2 * 16))
        (\<lambda>r. assign (\<lambda>s. s\<lparr>class_info := (class_info s)\<lparr>test_sgl := r\<rparr>\<rparr>))) (quiet d)"
    using lib_keeps(6) [OF assms]
    by (auto simp: triple_def lib_run assign_run put_mach_def quiet_def balance_def same_reads_def in_place_def
        split: prod.splits)
qed

lemma read_class_triple:
  assumes "reads_contract P d" and "runs_beside (client_env_step P (dev_step d)) env"
  shows "triple (quiet d) (read_class P env (\<lambda>_. skip)) (\<lambda>s. settled d s \<and> RDMA_READ_COMPLETE s)"
proof -
  note kept = quiet_kept [OF assms]
  have store: "triple (\<lambda>s. settled d s \<and> RDMA_READ_COMPLETE s)
      (on_mach (\<lambda>s. on_mem (\<lambda>mm. store_word mm (class_recv_data (class_info s) + 16)
        (class_recv_buf (class_info s))))) (\<lambda>s. settled d s \<and> RDMA_READ_COMPLETE s)"
    by (simp add: triple_def on_mach_def on_mem_def settled_def in_place_def)
  have tail: "triple (\<lambda>s. posted d 0 s \<and> \<not> 0 < pendingReads s) (thread env
      [on_mach (\<lambda>s. on_mem (\<lambda>mm. store_word mm (class_recv_data (class_info s) + 16)
        (class_recv_buf (class_info s)))),
       (\<lambda>s. (\<lambda>_. skip) (rdma_test_at (mem (mach s)) (class_recv_data (class_info s))) s)])
      (\<lambda>s. settled d s \<and> RDMA_READ_COMPLETE s)"
    by (rule triple_weaken [OF triple_thread_Cons [OF kept(4) store
          triple_thread_Cons [OF kept(4) triple_skip triple_thread_Nil]]])
      (auto dest: posted_settled)
  show ?thesis
    unfolding read_class_def
    by (rule triple_thread_Cons [OF kept(1) class_objects(1) [OF assms(1)]]
        triple_thread_Cons [OF kept(1) class_objects(2) [OF assms(1)]]
        triple_thread_Cons [OF kept(1) clear_flag]
        triple_thread_Cons [OF kept(2) requests_arm(2)]
        counted_read [OF assms own_requests(2) tail] | assumption)+
qed


lemma ow_read_element_quiet:
  assumes "reads_contract P d" and "runs_beside (client_env_step P (dev_step d)) env"
  shows "triple (quiet d) (ow_read_element P env i) (quiet d)"
proof -
  note kept = quiet_kept [OF assms]
  show ?thesis
    unfolding ow_read_element_def
    by (rule triple_thread_Cons [OF kept(1) clear_flag]
        triple_thread_Cons [OF kept(2) requests_arm(3)]
        counted_read [OF assms own_requests(3)] triple_thread_Nil
        | assumption | use posted_quiet in blast)+
qed

lemma ow_read_triple:
  assumes "reads_contract P d" and "runs_beside (client_env_step P (dev_step d)) env"
  shows "triple (settled d) (ow_read P env) (settled d)"
proof -
  note kept = quiet_kept [OF assms]
  have reset: "triple (settled d) (assign (\<lambda>s. s\<lparr>pendingReads := 0\<rparr>)) (quiet d)"
    by (rule triple_assign) (auto simp: settled_def quiet_def balance_def)
  have each: "triple (quiet d) (for_each [0..<n] (ow_read_element P env)) (quiet d)" for n
    by (rule triple_for_each) (rule ow_read_element_quiet [OF assms])
  have loop: "triple (quiet d)
      (\<lambda>s. for_each [0..<nat (sk_data_size (sketch_info s))] (ow_read_element P env) s) (quiet d)"
    using each unfolding triple_def by blast
  have final: "triple (quiet d) (await env (\<lambda>s. \<not> 0 < pendingReads s)) (settled d)"
    by (rule triple_await, erule (1) kept(1))
      (auto simp: settled_def quiet_def balance_def split: if_splits)
  show ?thesis
    unfolding ow_read_def
    by (rule triple_thread_Cons [OF kept(3) reset triple_thread_Cons [OF kept(1) loop
          triple_thread_Cons [OF kept(1) final triple_thread_Nil]]])
qed


subsection \<open>The waits end\<close>

text \<open>
  Progress of the other threads: while a READ is counted as pending, every turn of theirs brings it
  nearer to its end (the device completes it and the completion is taken, or the completion thread
  counts a completion it has taken), unless the process ends.
\<close>

definition pending_work :: "'w device \<Rightarrow> 'w client \<Rightarrow> nat" where
  "pending_work d s = 2 * outstanding d (mach s) + (if cq_pc s = Cq_dec then 1 else 0)"

definition makes_progress :: "'w device \<Rightarrow> ('w client \<Rightarrow> fatal + 'w client) \<Rightarrow> bool" where
  "makes_progress d env \<longleftrightarrow> (\<forall>s t. in_place d (mach s) \<longrightarrow> balance d s = 0 \<longrightarrow> 0 < pendingReads s \<longrightarrow> env s = Inr t \<longrightarrow>
     pending_work d t < pending_work d s)"

lemma await_pending_halts:
  assumes "makes_progress d env"
    and "\<And>s. p s \<Longrightarrow> in_place d (mach s) \<and> balance d s = 0"
    and "\<And>s. p s \<Longrightarrow> \<not> b s \<Longrightarrow> 0 < pendingReads s"
    and "\<And>s t. p s \<Longrightarrow> env s = Inr t \<Longrightarrow> p t"
  shows "halts p (await env b)"
  by (rule await_halts [where measure' = "pending_work d"])
    (use assms in \<open>unfold makes_progress_def, blast\<close>)

lemma simple_halts:
  "halts p (assign f)" "halts p (exit_if c e)" "halts p skip" "halts p (rdma_request op)"
  "halts p (sketch_request i)" "halts p (post_send P wr)"
  by (auto simp: halts_def stmt_simps rdma_request_def sketch_request_def post_send_def
      split: prod.splits)

lemma counted_read_halts:
  assumes c: "reads_contract P d" and env: "runs_beside (client_env_step P (dev_step d)) env" and wr: "own_request wr"
    and w: "makes_progress d env"
    and b: "\<And>s. posted d 0 s \<Longrightarrow> \<not> b s \<Longrightarrow> 0 < pendingReads s"
  shows "halts (armed d wr) (thread env
    [post_send P wr, assign (\<lambda>s. s\<lparr>pendingReads := pendingReads s + 1\<rparr>), await env b])"
proof (rule halts_thread_Cons [where r = "posted d (-1)"], goal_cases)
  case (1 s t)
  then show ?case by (rule armed_kept [OF c env wr])
next
  case 4
  note kept = posted_kept [OF c env]
  have incr: "triple (posted d (-1)) (assign (\<lambda>s. s\<lparr>pendingReads := pendingReads s + 1\<rparr>)) (posted d 0)"
    by (rule triple_assign) (simp add: posted_def balance_def)
  have wait: "halts (posted d 0) (await env b)"
    by (rule await_pending_halts [OF w _ b kept]) (simp_all add: posted_def)
  have post: "triple (posted d 0) (await env b) (\<lambda>_. True)" by (simp add: triple_def)
  show ?case
    by (rule halts_thread_Cons [OF kept simple_halts(1) incr
          halts_thread_Cons [OF kept wait post halts_thread_Nil]])
qed (simp_all add: simple_halts post_counts [OF c])

text \<open>
  C18: \<open>rdma_read\<close> never hangs: called with no READ outstanding, it comes to its end, by returning or
  with an error, provided that the other threads make progress with the READ that it counts.
\<close>

theorem rdma_read_ends:
  assumes "reads_contract P d" and "runs_beside (client_env_step P (dev_step d)) env" and "makes_progress d env"
    and "quiet d s"
  shows "client_rdma_read P env s \<noteq> None"
proof -
  note kept = quiet_kept [OF assms(1,2)]
  have exit: "triple (quiet d) (exit_if (\<lambda>s. \<not> GET_RDMA_ADDR s) No_remote_addr) (quiet d)"
    by (rule triple_exit_if)
  have "halts (quiet d) (client_rdma_read P env)"
    unfolding client_rdma_read_def
    by (rule halts_thread_Cons [OF kept(1) simple_halts(2) exit
          halts_thread_Cons [OF kept(1) simple_halts(1) clear_flag
          halts_thread_Cons [OF kept(2) simple_halts(4) requests_arm(1)
          counted_read_halts [OF assms(1,2) own_requests(1) assms(3)]]]]) blast+
  with assms(4) show ?thesis by (simp add: halts_def)
qed

text \<open>
  C19: \<open>ow_read\<close> never hangs: none of its waits, one for every element of the sketch and one at the
  end, lasts for ever if the other threads make progress.
\<close>

theorem ow_read_ends:
  assumes "reads_contract P d" and "runs_beside (client_env_step P (dev_step d)) env" and "makes_progress d env"
    and "settled d s"
  shows "ow_read P env s \<noteq> None"
proof -
  note kept = quiet_kept [OF assms(1,2)]
  have pos: "0 < pendingReads u" if "posted d 0 u" "\<not> RDMA_READ_COMPLETE u" for u
    using that by (auto simp: posted_def balance_def split: if_splits)
  have body: "halts (quiet d) (ow_read_element P env i)" for i
    unfolding ow_read_element_def
    by (rule halts_thread_Cons [OF kept(1) simple_halts(1) clear_flag
          halts_thread_Cons [OF kept(2) simple_halts(5) requests_arm(3)
          counted_read_halts [OF assms(1,2) own_requests(3) assms(3)]]]) (use pos in blast)+
  have step: "triple (quiet d) (ow_read_element P env i) (quiet d)" for i
    by (rule ow_read_element_quiet [OF assms(1,2)])
  have each: "halts (quiet d) (for_each [0..<n] (ow_read_element P env))"
    "triple (quiet d) (for_each [0..<n] (ow_read_element P env)) (quiet d)" for n
    using body step by (auto intro: halts_for_each triple_for_each)
  have loop: "halts (quiet d)
      (\<lambda>s. for_each [0..<nat (sk_data_size (sketch_info s))] (ow_read_element P env) s)"
    "triple (quiet d)
      (\<lambda>s. for_each [0..<nat (sk_data_size (sketch_info s))] (ow_read_element P env) s) (quiet d)"
    using each unfolding halts_def triple_def by blast+
  have reset: "triple (settled d) (assign (\<lambda>s. s\<lparr>pendingReads := 0\<rparr>)) (quiet d)"
    by (rule triple_assign) (auto simp: settled_def quiet_def balance_def)
  have final: "halts (quiet d) (await env (\<lambda>s. \<not> 0 < pendingReads s))"
    by (rule await_pending_halts [OF assms(3) _ _ kept(1)]) (simp_all add: quiet_def)
  have done': "triple (quiet d) (await env (\<lambda>s. \<not> 0 < pendingReads s)) (\<lambda>_. True)"
    by (simp add: triple_def)
  have "halts (settled d) (ow_read P env)"
    unfolding ow_read_def
    by (rule halts_thread_Cons [OF kept(3) simple_halts(1) reset
          halts_thread_Cons [OF kept(1) loop halts_thread_Cons [OF kept(1) final done' halts_thread_Nil]]])
  with assms(4) show ?thesis by (simp add: halts_def)
qed

end
