(* ===== verification/Reads_Example.thy ===== *)
theory Reads_Example
  imports Reads
begin

section \<open>A device that answers at once\<close>

text \<open>
  A concrete device for applying the properties of \<open>Reads\<close>: the world is the number of outstanding
  READs, posting a READ makes it 1, and polling takes a completion whenever there is one.  The
  provider's four entry points have the code addresses 1 (poll), 2 (post send) and 3.
\<close>

definition ex_context :: ibv_context where
  "ex_context = undefined\<lparr>ctx_ops := undefined
     \<lparr>ops_poll_cq := 1, ops_post_send := 2, ops_post_recv := 3, ops_req_notify_cq := 3\<rparr>\<rparr>"

definition ex_code :: "nat code" where
  "ex_code f args m =
     (if f = 1 then
        (if world m = 0 then (0, m)
         else (1, m\<lparr>world := world m - 1,
                    wc_at := (wc_at m)(args ! 2 := (wc_at m (args ! 2))\<lparr>wc_opcode := IBV_WC_RDMA_READ\<rparr>)\<rparr>))
      else if f = 2 then
        (0, m\<lparr>world := if send_wr_opcode (send_wr_at m (args ! 1)) = IBV_WR_RDMA_READ then 1 else 0\<rparr>)
      else (0, m))"

definition ex_platform :: "nat platform" where
  "ex_platform = quiet_platform\<lparr>code := ex_code\<rparr>"

definition ex_device :: "nat device" where
  "ex_device = \<lparr>dev_step = (\<lambda>_ _. False), dev_reads = (\<lambda>n. n), dev_sends = (\<lambda>_. []), dev_sent = (\<lambda>_. []),
     dev_private = (\<lambda>_. True), dev_tables = (\<lambda>_. ex_context, \<lambda>_. undefined, \<lambda>_. undefined)\<rparr>"

lemma ex_in_place:
  "in_place ex_device m \<longleftrightarrow> context_at m = (\<lambda>_. ex_context) \<and> cq_at m = (\<lambda>_. undefined) \<and> qp_at m = (\<lambda>_. undefined)"
  by (simp add: in_place_def tables_def ex_device_def)

lemma ex_outstanding: "outstanding ex_device m = world m"
  by (simp add: outstanding_def ex_device_def)

lemma ex_verbs:
  assumes "context_at m = (\<lambda>_. ex_context)"
  shows "ibv_poll_cq ex_platform q n wc m =
      (if world m = 0 then (0, m)
       else (1, m\<lparr>world := world m - 1,
                  wc_at := (wc_at m)(wc := (wc_at m wc)\<lparr>wc_opcode := IBV_WC_RDMA_READ\<rparr>)\<rparr>))"
    and "ibv_post_send ex_platform q wr bad m =
      (0, m\<lparr>world := if send_wr_opcode (send_wr_at m wr) = IBV_WR_RDMA_READ then 1 else 0\<rparr>)"
    and "ibv_post_recv ex_platform q wr bad m = (0, m)"
    and "ibv_req_notify_cq ex_platform q fl m = (0, m)"
  using assms
  by (simp_all add: ibv_poll_cq_def ibv_post_send_def ibv_post_recv_def ibv_req_notify_cq_def
      call_int_def ex_platform_def ex_code_def ex_context_def c_int_def)

lemma ex_contract: "reads_contract ex_platform ex_device"
proof -
  have lib: "keeps ex_device (lib_get_cm_event ex_platform ch)"
    "keeps ex_device (lib_ack_cm_event ex_platform e)"
    "keeps ex_device (lib_resolve_route ex_platform i ms)"
    "keeps ex_device (lib_get_cq_event ex_platform ch)"
    "keeps ex_device (lib_ack_cq_events ex_platform q n)"
    "keeps ex_device (lib_malloc ex_platform k)" for ch e i ms q n k
    by (auto simp: keeps_def same_reads_def ex_platform_def quiet_platform_def)
  have verbs: "verb_keeps ex_device (ibv_req_notify_cq ex_platform q fl)"
    "verb_keeps ex_device (ibv_post_recv ex_platform q wr bad)" for q fl wr bad
    by (auto simp: verb_keeps_def same_reads_def ex_in_place ex_verbs)
  have "polls_read ex_platform ex_device"
    by (auto simp: polls_read_def ex_in_place ex_verbs tables_def ex_outstanding
        split: if_splits)
  moreover have "posts_read ex_platform ex_device"
    by (auto simp: posts_read_def ex_in_place ex_verbs tables_def ex_outstanding)
  ultimately show ?thesis
    using lib verbs by (simp add: reads_contract_def) (simp add: ex_device_def)
qed

text \<open>While a READ is pending the completion thread takes a step, otherwise nothing happens.\<close>

definition ex_env :: "nat client \<Rightarrow> fatal + nat client" where
  "ex_env s =
     (if 0 < pendingReads s then
        (if cq_pc s = Cq_poll \<or> cq_pc s = Cq_dec
         then (case client_cq_thread ex_platform s of None \<Rightarrow> Inl Wrong_cq | Some r \<Rightarrow> r)
         else Inl Wrong_cq)
      else Inr s)"

lemma ex_runs_beside: "runs_beside (client_env_step ex_platform (dev_step ex_device)) ex_env"
  by (auto simp: runs_beside_def ex_env_def split: if_splits option.splits
      intro!: r_into_rtranclp client_env_step.cq)

lemma ex_turn:
  assumes "context_at (mach s) = (\<lambda>_. ex_context)"
  shows "ex_env s =
     (if pendingReads s \<le> 0 then Inr s
      else if cq_pc s = Cq_dec then Inr (s\<lparr>pendingReads := pendingReads s - 1, cq_pc := Cq_poll\<rparr>)
      else if cq_pc s \<noteq> Cq_poll then Inl Wrong_cq
      else if world (mach s) = 0 then Inr (s\<lparr>mach := mach s, cq_pc := Cq_wait\<rparr>)
      else Inr (s\<lparr>mach := (mach s)\<lparr>world := world (mach s) - 1, wc_at := (wc_at (mach s))
                   (wc_addr s := (wc_at (mach s) (wc_addr s))\<lparr>wc_opcode := IBV_WC_RDMA_READ\<rparr>)\<rparr>,
                 RDMA_READ_COMPLETE := True, cq_pc := Cq_dec\<rparr>))"
proof -
  have ack: "lib_ack_cq_events ex_platform q n m = ((), m)" for q n m
    by (simp add: ex_platform_def quiet_platform_def)
  show ?thesis
    using assms
    by (auto simp: ex_env_def client_cq_thread_def client_poll_def lib_run assign_run skip_run
        ex_verbs put_mach_def cq_ack_def block_Cons block_Nil seq_def ack client_completion_def)
qed

lemma ex_progress: "makes_progress ex_device ex_env"
proof (unfold makes_progress_def ex_in_place, intro allI impI)
  fix s t
  assume "context_at (mach s) = (\<lambda>_. ex_context) \<and> cq_at (mach s) = (\<lambda>_. undefined)
      \<and> qp_at (mach s) = (\<lambda>_. undefined)"
    and "balance ex_device s = 0" "0 < pendingReads s" "ex_env s = Inr t"
  then show "pending_work ex_device t < pending_work ex_device s"
    by (auto simp: ex_turn pending_work_def ex_outstanding balance_def split: if_splits)
qed

definition ex_client :: "nat client" where
  "ex_client = undefined\<lparr>mach := undefined\<lparr>world := 0, context_at := \<lambda>_. ex_context,
       cq_at := \<lambda>_. undefined, qp_at := \<lambda>_. undefined\<rparr>,
     GET_RDMA_ADDR := True, RDMA_READ_COMPLETE := False, pendingReads := 0, cq_pc := Cq_poll,
     sketch_info := undefined\<lparr>sk_data_size := 1\<rparr>\<rparr>"

lemma ex_settled: "settled ex_device ex_client"
  by (simp add: settled_def ex_in_place ex_client_def ex_outstanding)

lemma ex_quiet: "quiet ex_device ex_client"
  using ex_settled by (simp add: settled_iff)

lemma ex_await:
  "await ex_env b s = (if b s then Some (Inr s) else case ex_env s of Inl e \<Rightarrow> Some (Inl e) | Inr t \<Rightarrow> await ex_env b t)"
  by (rule await.simps)

lemma ex_idle: "pendingReads s \<le> 0 \<Longrightarrow> ex_env s = Inr s"
  by (simp add: ex_env_def)

lemmas ex_run = stmt_simps ex_idle ex_turn ex_verbs set_send_wr_def set_sge_def post_send_def
  ex_client_def

lemma ex_rdma_read: "\<exists>t. client_rdma_read ex_platform ex_env ex_client = Some (Inr t)"
  by (simp add: client_rdma_read_def rdma_request_def ex_run ex_await)

lemma ex_ow_read: "\<exists>t. ow_read ex_platform ex_env ex_client = Some (Inr t)"
  by (simp add: ow_read_def ow_read_element_def sketch_request_def ex_run ex_await)

lemma ex_malloc: "lib_malloc ex_platform n m = (4096, m)"
  by (simp add: ex_platform_def quiet_platform_def)

lemma ex_read_class: "\<exists>t. read_class ex_platform ex_env (\<lambda>_. skip) ex_client = Some (Inr t)"
  by (simp add: read_class_def class_request_def ex_run ex_await RdmaTest_ctor_def
      operator_new_def Let_def ex_malloc)

subsection \<open>The properties at this device\<close>

lemma rdma_read_settles_witness:
  "\<exists>t. client_rdma_read ex_platform ex_env ex_client = Some (Inr t) \<and> settled ex_device t \<and>
     RDMA_READ_COMPLETE t"
  using ex_rdma_read rdma_read_settles [OF ex_contract ex_runs_beside ex_quiet] by blast



lemma rdma_read_ends_witness: "client_rdma_read ex_platform ex_env ex_client \<noteq> None"
  by (rule rdma_read_ends [OF ex_contract ex_runs_beside ex_progress ex_quiet])

lemma ow_read_ends_witness: "ow_read ex_platform ex_env ex_client \<noteq> None"
  by (rule ow_read_ends [OF ex_contract ex_runs_beside ex_progress ex_settled])

end
