(* ===== verification/Server.thy ===== *)
theory Server
  imports Rdma_Utils
begin

section \<open>The server process: simplest_server.cpp\<close>

text \<open>
  \<open>simple_server\<close> as a record of its members and every member function as a statement on it.  The
  main thread runs \<open>start\<close>; the connection thread runs \<open>cm_thread\<close>, one iteration at a time; the
  completion thread runs \<open>cq_thread\<close> in steps (wait for an event, handle one completion, acknowledge).
  \<open>env\<close> is what the other threads and the device do between two statements of the main thread.
  Output to the terminal is left out.
\<close>

subsection \<open>The object\<close>

record 'w server = "'w endpoint" +
  sstate :: ServerState
  SERVER_GET_REMOTE_ADDR :: bool
  child_cm_id :: ptr
  rdma_addr_send_complete :: bool
  class_addr_send_complete :: bool
  sketch_addr_send_complete :: bool
  wr_addr :: ptr
  a_addr :: ptr

text \<open>
  \<open>wr_addr\<close> is the address of the local variable \<open>wr\<close> of the functions that send, \<open>a_addr\<close> that of the
  global object \<open>a\<close>.
\<close>

definition simple_server_ctor ::
    "'w platform \<Rightarrow> string \<Rightarrow> int \<Rightarrow> ptr \<Rightarrow> int \<Rightarrow> ptr \<Rightarrow> int \<Rightarrow> ('w server, fatal) stmt" where
  "simple_server_ctor P ip' port' sbuf ssize rbuf rsize = block
     [assign (\<lambda>s. s\<lparr>sstate := SERVER_INIT, SERVER_GET_REMOTE_ADDR := False\<rparr>),
      ep_lib (\<lambda>s. sketch_rdma_info_ctor P (sketch_info s)) (\<lambda>sk. assign (\<lambda>s. s\<lparr>sketch_info := sk\<rparr>)),
      assign (\<lambda>s. s\<lparr>rdma_addr_send_complete := False, class_addr_send_complete := False,
                    sketch_addr_send_complete := False\<rparr>),
      assign (\<lambda>s. s\<lparr>ip := ip', port := htobe16 (word_of_int port'), start_buf := sbuf,
                    start_size := ssize, rdma_buf := rbuf, rdma_size := rsize\<rparr>)]"

subsection \<open>Registering memory\<close>

definition class_send_size :: nat where
  "class_send_size = sizeof_rdma_test + 5000 * 4"

definition server_setup_buffer :: "'w platform \<Rightarrow> ('w server, fatal) stmt" where
  "server_setup_buffer P = block
     [register_buffers P,
      ep_lib (\<lambda>s. lib_malloc P class_send_size)
        (\<lambda>r. assign (\<lambda>s. s\<lparr>class_info := (class_info s)\<lparr>class_send_buf := r\<rparr>\<rparr>)),
      register P (\<lambda>s. class_send_buf (class_info s)) (\<lambda>_. of_nat class_send_size) rw_access
        (\<lambda>r s. s\<lparr>class_info := (class_info s)\<lparr>class_send_mr := r\<rparr>\<rparr>),
      register P (\<lambda>s. sk_data_buf (sketch_info s))
        (\<lambda>s. word_of_int (sk_data_size (sketch_info s) * 4)) rw_access
        (\<lambda>r s. s\<lparr>sketch_info := (sketch_info s)\<lparr>sketch_mr := r\<rparr>\<rparr>),
      prepare_requests IBV_WR_SEND_WITH_IMM]"

subsection \<open>Completions\<close>

text \<open>\<open>server_recv_handler\<close>: the client's advertisement has arrived in \<open>recv_buf\<close>.\<close>

definition server_recv_handler :: "ibv_wc \<Rightarrow> ('w server, fatal) stmt" where
  "server_recv_handler wc = block
     [exit_if (\<lambda>_. wc_byte_len wc \<noteq> of_nat sizeof_rdma_info) Recv_length_error,
      assign (\<lambda>s. let info = rdma_info_at (mem (mach s)) (recv_buf_addr s) in
        s\<lparr>remote_addr := be64toh (info_buf info), remote_len := be32toh (info_size info),
          remote_rkey := be32toh (info_rkey info)\<rparr>),
      assign (\<lambda>s. s\<lparr>SERVER_GET_REMOTE_ADDR := True\<rparr>)]"

text \<open>The body of the \<open>switch\<close> on the opcode of a completion; \<open>wr_id\<close> is cut to 32 bits.\<close>

definition server_completion :: "ibv_wc \<Rightarrow> ('w server, fatal) stmt" where
  "server_completion wc =
     (case wc_opcode wc of
        IBV_WC_RECV \<Rightarrow> server_recv_handler wc
      | IBV_WC_SEND \<Rightarrow>
          (let wr_id = ucast (wc_wr_id wc) :: u32 in
           if wr_id = 0 then assign (\<lambda>s. s\<lparr>rdma_addr_send_complete := True\<rparr>)
           else if wr_id = 1123 then assign (\<lambda>s. s\<lparr>class_addr_send_complete := True\<rparr>)
           else if wr_id = 1124 then assign (\<lambda>s. s\<lparr>sketch_addr_send_complete := True\<rparr>)
           else skip)
      | _ \<Rightarrow> skip)"

definition server_poll :: "'w platform \<Rightarrow> ('w server, fatal) stmt" where
  "server_poll P = ep_lib (\<lambda>s. ibv_poll_cq P (cq s) 1 (wc_addr s))
     (\<lambda>ret. if ret > 0 then (\<lambda>s. server_completion (wc_at (mach s) (wc_addr s)) s) else cq_ack P)"

text \<open>One step of \<open>cq_thread\<close>; the thread repeats it for ever.\<close>

definition server_cq_thread :: "'w platform \<Rightarrow> ('w server, fatal) stmt" where
  "server_cq_thread P s =
     (case cq_pc s of
        Cq_wait \<Rightarrow> cq_wait P s
      | Cq_poll \<Rightarrow> server_poll P s
      | _ \<Rightarrow> skip s)"

subsection \<open>One-sided requests\<close>

text \<open>
  \<open>rdma_read\<close>.  Its second test is an assignment in the source, \<open>if (SERVER_GET_REMOTE_ADDR = false)\<close>:
  it clears the flag and is never true.
\<close>

definition server_rdma_read :: "'w platform \<Rightarrow> ('w server, fatal) stmt" where
  "server_rdma_read P = block
     [exit_if (\<lambda>s. \<not> SERVER_GET_REMOTE_ADDR s) No_remote_addr,
      assign (\<lambda>s. s\<lparr>SERVER_GET_REMOTE_ADDR := False\<rparr>),
      exit_if SERVER_GET_REMOTE_ADDR No_remote_addr,
      rdma_request IBV_WR_RDMA_READ,
      post_send P rdma_sq_wr_addr]"

definition server_rdma_write :: "'w platform \<Rightarrow> ('w server, fatal) stmt" where
  "server_rdma_write P = block
     [on_mach (\<lambda>s. on_mem (strcpy (rdma_buf s) ''write some data from client'')),
      rdma_request IBV_WR_RDMA_WRITE,
      post_send P rdma_sq_wr_addr]"

subsection \<open>The connection thread\<close>

definition server_cm_event :: "rdma_cm_event \<Rightarrow> ('w server, fatal) stmt" where
  "server_cm_event ev =
     (case cm_event_event ev of
        RDMA_CM_EVENT_CONNECT_REQUEST \<Rightarrow>
          block [assign (\<lambda>s. s\<lparr>sstate := REQUEST_GET\<rparr>), assign (\<lambda>s. s\<lparr>child_cm_id := cm_event_id ev\<rparr>)]
      | RDMA_CM_EVENT_CONNECT_RESPONSE \<Rightarrow> assign (\<lambda>s. s\<lparr>sstate := SERVER_CONNECTED\<rparr>)
      | RDMA_CM_EVENT_ESTABLISHED \<Rightarrow> assign (\<lambda>s. s\<lparr>sstate := SERVER_CONNECTED\<rparr>)
      | _ \<Rightarrow> skip)"

text \<open>One iteration of \<open>cm_thread\<close>.\<close>

definition server_cm_thread :: "'w platform \<Rightarrow> ('w server, fatal) stmt" where
  "server_cm_thread P = ep_lib (\<lambda>s. lib_get_cm_event P (cm_channel s)) (\<lambda>(ret, event). block
     [exit_if (\<lambda>_. ret \<noteq> 0) Get_cm_event_error,
      (\<lambda>s. server_cm_event (cm_event_at (mach s) event) s),
      ep_lib (\<lambda>s. lib_ack_cm_event P event) (\<lambda>ret. exit_if (\<lambda>_. ret \<noteq> 0) Ack_cm_event_error)])"

definition server_bindaddr :: "'w platform \<Rightarrow> ('w server \<Rightarrow> fatal + 'w server) \<Rightarrow> ('w server, fatal) stmt" where
  "server_bindaddr P env = thread env
     [resolve_sin P,
      ep_lib (\<lambda>s. lib_bind_addr P (cm_id s) (sin s)) (\<lambda>ret. exit_if (\<lambda>_. ret \<noteq> 0) Bind_addr_error),
      ep_lib (\<lambda>s. lib_listen P (cm_id s) 3) (\<lambda>ret. exit_if (\<lambda>_. ret \<noteq> 0) Listen_error),
      await env (\<lambda>s. sstate s = REQUEST_GET)]"

subsection \<open>Sending the addresses\<close>

text \<open>The local work request of the two functions below: cleared, then filled.\<close>

definition send_request :: "u32 \<Rightarrow> u64 \<Rightarrow> 'w server \<Rightarrow> 'w machine \<Rightarrow> 'w machine" where
  "send_request imm wrid s = set_send_wr (wr_addr s) (\<lambda>_. zero_send_wr
     \<lparr>send_wr_opcode := IBV_WR_SEND_WITH_IMM, send_wr_send_flags := SIGNALED,
      send_wr_imm_data := htobe32 imm, send_wr_wr_id := wrid,
      send_wr_sg_list := send_sgl_addr s, send_wr_num_sge := 1\<rparr>)"

text \<open>
  \<open>init_class_recv\<close> sends the address of \<open>class_send_buf\<close> first and copies the object and its array
  there afterwards.
\<close>

definition init_class_recv ::
    "'w platform \<Rightarrow> ('w server \<Rightarrow> fatal + 'w server) \<Rightarrow> ('w server, fatal) stmt" where
  "init_class_recv P env = thread env
     [on_mach (\<lambda>s m. on_mem (store_rdma_info (send_buf_addr s) (class_send_buf (class_info s))
        (mr_rkey (mr_at m (class_send_mr (class_info s)))) (of_nat sizeof_rdma_test)) m),
      on_mach (send_request 1123 1123),
      post_send P wr_addr,
      on_mach (\<lambda>s. on_mem (\<lambda>mm. memcpy mm (class_send_buf (class_info s)) (a_addr s) sizeof_rdma_test)),
      on_mach (\<lambda>s. on_mem (\<lambda>mm. let obj = rdma_test_at mm (a_addr s) in
        memcpy mm (class_send_buf (class_info s) + of_nat sizeof_rdma_test) (rt_data_buf obj)
          (unat (rt_size obj) * 4)))]"

text \<open>\<open>init_sketch_rdma\<close> fills the sketch with its indices before it sends the address.\<close>

definition init_sketch_rdma ::
    "'w platform \<Rightarrow> ('w server \<Rightarrow> fatal + 'w server) \<Rightarrow> ('w server, fatal) stmt" where
  "init_sketch_rdma P env = thread env
     [on_mach (\<lambda>s m. on_mem (store_rdma_info (send_buf_addr s) (sk_data_buf (sketch_info s))
        (mr_rkey (mr_at m (sketch_mr (sketch_info s)))) (word_of_int (sk_data_size (sketch_info s)))) m),
      on_mach (send_request 1124 1124),
      on_mach (\<lambda>s. on_mem (fill_from 0 (nat (sk_data_size (sketch_info s)))
        (sk_data_buf (sketch_info s)))),
      post_send P wr_addr]"

subsection \<open>Start-up\<close>

text \<open>The part of \<open>start\<close> that makes the queues, up to the posted receive.\<close>

definition server_make_queues ::
    "'w platform \<Rightarrow> ('w server \<Rightarrow> fatal + 'w server) \<Rightarrow> ('w server, fatal) stmt" where
  "server_make_queues P env = thread env
     [ep_lib (\<lambda>s m. lib_alloc_pd P (cm_id_verbs (cm_id_at m (child_cm_id s))) m) (\<lambda>r. block
        [assign (\<lambda>s. s\<lparr>pd := r\<rparr>), exit_if (\<lambda>_. r = 0) Alloc_pd_error]),
      ep_lib (\<lambda>s m. lib_create_comp_channel P (cm_id_verbs (cm_id_at m (child_cm_id s))) m) (\<lambda>r. block
        [assign (\<lambda>s. s\<lparr>channel := r\<rparr>), exit_if (\<lambda>_. r = 0) Comp_channel_error]),
      ep_lib (\<lambda>s m. lib_create_cq P (cm_id_verbs (cm_id_at m (child_cm_id s))) (SQ_DEPTH * 2) 0
          (channel s) 0 m) (\<lambda>r. block
        [assign (\<lambda>s. s\<lparr>cq := r\<rparr>), exit_if (\<lambda>_. r = 0) Create_cq_error]),
      request_notify P,
      ep_lib (\<lambda>s. lib_rdma_create_qp P (child_cm_id s) (pd s) (init_attr 1 (cq s)))
        (\<lambda>ret. exit_if (\<lambda>_. ret \<noteq> 0) Create_qp_error),
      assign (\<lambda>s. s\<lparr>qp := cm_id_qp (cm_id_at (mach s) (child_cm_id s))\<rparr>),
      server_setup_buffer P,
      ep_lib (\<lambda>s. ibv_post_recv P (qp s) (rq_wr_addr s) (bad_wr_addr s))
        (\<lambda>ret. exit_if (\<lambda>_. ret \<noteq> 0) Post_recv_error)]"

text \<open>
  The end of \<open>start\<close>: after the client's advertisement the server sends the address of \<open>start_buf\<close>
  (immediate 1122), then that of the class and that of the sketch, each after the completion of
  the send before it: they share \<open>send_buf\<close>.
\<close>

definition server_advertise ::
    "'w platform \<Rightarrow> ('w server \<Rightarrow> fatal + 'w server) \<Rightarrow> ('w server, fatal) stmt" where
  "server_advertise P env = thread env
     [on_mach (\<lambda>s m. on_mem (store_rdma_info (send_buf_addr s) (start_buf s)
        (mr_rkey (mr_at m (start_mr s))) (word_of_int (start_size s))) m),
      on_mach (\<lambda>s. set_send_wr (sq_wr_addr s) (\<lambda>w. w\<lparr>send_wr_opcode := IBV_WR_SEND_WITH_IMM,
        send_wr_send_flags := SIGNALED, send_wr_imm_data := htobe32 1122\<rparr>)),
      post_send P sq_wr_addr,
      await env rdma_addr_send_complete,
      init_class_recv P env,
      await env class_addr_send_complete,
      init_sketch_rdma P env,
      await env sketch_addr_send_complete]"

text \<open>
  The wait for the connection compares the server's state with \<open>CONNECTED\<close>, an enumerator of the
  client's enumeration: the comparison is on the integers.
\<close>

definition server_start ::
    "'w platform \<Rightarrow> ('w server \<Rightarrow> fatal + 'w server) \<Rightarrow> ('w server, fatal) stmt" where
  "server_start P env = block
     [ep_lib (\<lambda>s. create_first_event_channel P) (\<lambda>(ch, msg). block
        [assign (\<lambda>s. s\<lparr>cm_channel := ch\<rparr>), exit_if (\<lambda>_. ch = 0) Event_channel_error]),
      ep_lib (\<lambda>s. lib_create_id P (cm_channel s) 0 RDMA_PS_TCP) (\<lambda>(ret, i). block
        [assign (\<lambda>s. s\<lparr>cm_id := i\<rparr>), exit_if (\<lambda>_. ret \<noteq> 0) Create_id_error]),
      server_bindaddr P env,
      server_make_queues P env,
      assign (\<lambda>s. s\<lparr>cq_pc := Cq_wait\<rparr>),
      thread env
        [ep_lib (\<lambda>s. lib_accept P (child_cm_id s) None) (\<lambda>ret. exit_if (\<lambda>_. ret \<noteq> 0) Accept_error),
         await env (\<lambda>s. ServerState_val (sstate s) = ClientState_val CONNECTED),
         await env SERVER_GET_REMOTE_ADDR],
      server_advertise P env]"

definition server_main ::
    "'w platform \<Rightarrow> ('w server \<Rightarrow> fatal + 'w server) \<Rightarrow> ('w server, fatal) stmt" where
  "server_main P env =
     ep_lib (\<lambda>s. lib_malloc P 1000) (\<lambda>sbuf.
     ep_lib (\<lambda>s. lib_malloc P 1000) (\<lambda>rbuf. block
       [on_mach (\<lambda>s. on_mem (strcpy sbuf ''hello world form server'')),
        simple_server_ctor P ''10.0.0.20'' 1245 sbuf 1000 rbuf 1000,
        server_start P env,
        await env (\<lambda>_. False)]))"

end
