(* ===== verification/Sends.thy ===== *)
theory Sends
  imports Server Threads
begin

section \<open>The server's threads and its messages\<close>

text \<open>
  The server sends three advertisements from one buffer.  This theory follows the send queue: which
  messages leave the server, in which order and with which contents, and that the buffer is reused
  only after the message before has been sent.
\<close>

subsection \<open>What runs beside the main thread\<close>

inductive server_env_step ::
    "'w platform \<Rightarrow> ('w machine \<Rightarrow> 'w machine \<Rightarrow> bool) \<Rightarrow> 'w server \<Rightarrow> 'w server \<Rightarrow> bool"
  for P dev where
  cm: "server_cm_thread P s = Some (Inr t) \<Longrightarrow> server_env_step P dev s t"
| cq: "server_cq_thread P s = Some (Inr t) \<Longrightarrow> server_env_step P dev s t"
| device: "dev (mach s) m \<Longrightarrow> server_env_step P dev s (s\<lparr>mach := m\<rparr>)"

subsection \<open>The contract of the device\<close>

text \<open>
  A send with an immediate value and one scatter/gather entry that is accepted while the send queue
  is empty is the one pending request, and its message is the bytes of the entry at that time.
  Completions are taken in the order of the queue, each with the identifier of its request.  No other
  call and no step of the device sends a message, writes the caller's requests, entries or regions,
  moves the tables or writes private memory.
\<close>

definition same_local :: "'w device \<Rightarrow> 'w machine \<Rightarrow> 'w machine \<Rightarrow> bool" where
  "same_local d m m' \<longleftrightarrow> sge_at m' = sge_at m \<and> mr_at m' = mr_at m \<and> send_wr_at m' = send_wr_at m \<and>
     tables m' = tables m \<and> (\<forall>a. dev_private d a \<longrightarrow> mem m' a = mem m a)"

definition same_sends :: "'w device \<Rightarrow> 'w machine \<Rightarrow> 'w machine \<Rightarrow> bool" where
  "same_sends d m m' \<longleftrightarrow>
     same_local d m m' \<and> pending_sends d m' = pending_sends d m \<and> sent d m' = sent d m"

definition no_send :: "'w device \<Rightarrow> ('w, 'r) lib \<Rightarrow> bool" where
  "no_send d f \<longleftrightarrow> (\<forall>m r m'. f m = (r, m') \<longrightarrow> in_place d m \<longrightarrow> same_sends d m m')"

definition polls_send :: "'w platform \<Rightarrow> 'w device \<Rightarrow> bool" where
  "polls_send P d \<longleftrightarrow> (\<forall>q wc m r m'. ibv_poll_cq P q 1 wc m = (r, m') \<longrightarrow> in_place d m \<longrightarrow>
     same_local d m m' \<and> sent d m' = sent d m \<and>
     (if 0 < r \<and> wc_opcode (wc_at m' wc) = IBV_WC_SEND
      then pending_sends d m = wc_wr_id (wc_at m' wc) # pending_sends d m'
      else pending_sends d m' = pending_sends d m))"

definition gathered :: "'w machine \<Rightarrow> ptr \<Rightarrow> u8 list" where
  "gathered m sgl = read_bytes (mem m) (sge_addr (sge_at m sgl)) (unat (sge_length (sge_at m sgl)))"

definition posts_send :: "'w platform \<Rightarrow> 'w device \<Rightarrow> bool" where
  "posts_send P d \<longleftrightarrow>
     (\<forall>q wr bad m m'. ibv_post_send P q wr bad m = (0, m') \<longrightarrow> in_place d m \<longrightarrow>
        pending_sends d m = [] \<longrightarrow>
        send_wr_opcode (send_wr_at m wr) = IBV_WR_SEND_WITH_IMM \<longrightarrow>
        send_wr_num_sge (send_wr_at m wr) = 1 \<longrightarrow>
        same_local d m m' \<and> pending_sends d m' = [send_wr_wr_id (send_wr_at m wr)] \<and>
        sent d m' = sent d m @ [(send_wr_imm_data (send_wr_at m wr),
          gathered m (send_wr_sg_list (send_wr_at m wr)))])"

definition sends_contract :: "'w platform \<Rightarrow> 'w device \<Rightarrow> bool" where
  "sends_contract P d \<longleftrightarrow>
     polls_send P d \<and> posts_send P d \<and>
     (\<forall>m m'. dev_step d m m' \<longrightarrow> same_sends d m m') \<and>
     (\<forall>ch. no_send d (lib_get_cm_event P ch)) \<and>
     (\<forall>e. no_send d (lib_ack_cm_event P e)) \<and>
     (\<forall>ch. no_send d (lib_get_cq_event P ch)) \<and>
     (\<forall>q n. no_send d (lib_ack_cq_events P q n)) \<and>
     (\<forall>q f. no_send d (ibv_req_notify_cq P q f))"

lemma poll_sends:
  assumes "sends_contract P d" and "in_place d m" and "ibv_poll_cq P q 1 wc m = (r, m')"
  shows "same_local d m m' \<and> sent d m' = sent d m \<and>
     (if 0 < r \<and> wc_opcode (wc_at m' wc) = IBV_WC_SEND
      then pending_sends d m = wc_wr_id (wc_at m' wc) # pending_sends d m'
      else pending_sends d m' = pending_sends d m)"
  using assms by (simp add: sends_contract_def polls_send_def)

lemma post_sends:
  assumes "sends_contract P d" and "in_place d m" and "ibv_post_send P q wr bad m = (0, m')"
    and "pending_sends d m = []" and "send_wr_opcode (send_wr_at m wr) = IBV_WR_SEND_WITH_IMM"
    and "send_wr_num_sge (send_wr_at m wr) = 1"
  shows "same_local d m m'" and "pending_sends d m' = [send_wr_wr_id (send_wr_at m wr)]"
    and "sent d m' = sent d m @ [(send_wr_imm_data (send_wr_at m wr),
          gathered m (send_wr_sg_list (send_wr_at m wr)))]"
  using assms unfolding sends_contract_def posts_send_def by blast+

subsection \<open>What the other threads leave alone\<close>

text \<open>The main thread's own data in a state: entries, regions, requests, addresses, private memory.\<close>

type_synonym own_data =
  "(ptr \<Rightarrow> ibv_sge) \<times> (ptr \<Rightarrow> ibv_mr) \<times> op_tables \<times> ptr list \<times> int \<times> test_class_rdma_info \<times> sketch_rdma_info"

definition own :: "'w server \<Rightarrow> own_data" where
  "own s = (sge_at (mach s), mr_at (mach s), tables (mach s),
     [send_buf_addr s, send_sgl_addr s, sq_wr_addr s, wr_addr s, start_buf s, start_mr s, a_addr s],
     start_size s, class_info s, sketch_info s)"

definition untouched :: "'w device \<Rightarrow> 'w server \<Rightarrow> 'w server \<Rightarrow> bool" where
  "untouched d s t \<longleftrightarrow> own t = own s \<and> send_wr_at (mach t) = send_wr_at (mach s) \<and>
     (\<forall>a. dev_private d a \<longrightarrow> mem (mach t) a = mem (mach s) a) \<and> sent d (mach t) = sent d (mach s)"

definition flags :: "'w server \<Rightarrow> bool \<times> bool \<times> bool" where
  "flags s = (rdma_addr_send_complete s, class_addr_send_complete s, sketch_addr_send_complete s)"

text \<open>The flags after the completion of the request with identifier \<open>w\<close>.\<close>

definition mark :: "u64 \<Rightarrow> bool \<times> bool \<times> bool \<Rightarrow> bool \<times> bool \<times> bool" where
  "mark w f = (case f of (a, b, c) \<Rightarrow>
     (a \<or> (ucast w :: u32) = 0, b \<or> (ucast w :: u32) = 1123, c \<or> (ucast w :: u32) = 1124))"

lemma untouched_refl: "untouched d s s"
  by (simp add: untouched_def)

lemma untouched_trans: "untouched d s t \<Longrightarrow> untouched d t u \<Longrightarrow> untouched d s u"
  by (simp add: untouched_def)

lemma untouched_place: "untouched d s t \<Longrightarrow> in_place d (mach s) \<Longrightarrow> in_place d (mach t)"
  by (simp add: untouched_def own_def in_place_def)

lemma untouched_mach:
  "same_local d (mach s) m \<Longrightarrow> sent d m = sent d (mach s) \<Longrightarrow> untouched d s (s\<lparr>mach := m\<rparr>)"
  by (simp add: untouched_def own_def same_local_def)

subsection \<open>One step of the other threads\<close>

text \<open>The frame of the other threads: nothing of the main thread's data, of the sends or the flags changes.\<close>

definition same_sending :: "'w device \<Rightarrow> 'w server \<Rightarrow> 'w server \<Rightarrow> bool" where
  "same_sending d s t \<longleftrightarrow> untouched d s t \<and>
     pending_sends d (mach t) = pending_sends d (mach s) \<and> flags t = flags s"

definition sends_frame :: "'w device \<Rightarrow> 'w server \<Rightarrow> 'w server \<Rightarrow> bool" where
  "sends_frame d s t \<longleftrightarrow> (in_place d (mach s) \<longrightarrow> same_sending d s t)"

abbreviation stays :: "'w device \<Rightarrow> ('w server, fatal) stmt \<Rightarrow> bool" where
  "stays d \<equiv> within (sends_frame d)"

lemma same_sending_trans: "same_sending d s t \<Longrightarrow> same_sending d t u \<Longrightarrow> same_sending d s u"
  unfolding same_sending_def by (auto intro: untouched_trans)

lemma same_sending_place: "same_sending d s t \<Longrightarrow> in_place d (mach s) \<Longrightarrow> in_place d (mach t)"
  unfolding same_sending_def by (auto intro: untouched_place)

interpretation sending: frame "sends_frame d"
proof
  fix s t u :: "'a server"
  show "sends_frame d s s" by (simp add: sends_frame_def same_sending_def untouched_refl)
  show "sends_frame d s u" if "sends_frame d s t" "sends_frame d t u"
    using that same_sending_trans [of d s t u] same_sending_place [of d s t] by (auto simp: sends_frame_def)
qed

lemma staysD: "stays d c \<Longrightarrow> in_place d (mach s) \<Longrightarrow> c s = Some (Inr t) \<Longrightarrow> same_sending d s t"
  by (auto simp: within_def sends_frame_def)

lemma stays_assign: "(\<And>s. same_sending d s (f s)) \<Longrightarrow> stays d (assign f)"
  by (rule within_assign) (simp add: sends_frame_def)

lemma stays_lib:
  assumes "\<And>s. no_send d (f s)" and "\<And>r. stays d (k r)"
  shows "stays d (ep_lib f k)"
proof (rule sending.within_lib [OF _ assms(2)])
  fix s r m assume "f s (mach s) = (r, m)"
  then have "in_place d (mach s) \<Longrightarrow> same_sends d (mach s) m" using assms(1) by (auto simp: no_send_def)
  then show "sends_frame d s (put_mach m s)"
    by (auto simp: sends_frame_def same_sending_def same_sends_def untouched_mach put_mach_def flags_def)
qed

lemma no_sends:
  assumes "sends_contract P d"
  shows "no_send d (lib_get_cm_event P ch)" and "no_send d (lib_ack_cm_event P e)"
    and "no_send d (lib_get_cq_event P ch)" and "no_send d (lib_ack_cq_events P q k)"
    and "no_send d (ibv_req_notify_cq P q f)"
  using assms by (simp_all add: sends_contract_def)

lemma same_members:
  "same_sending d s (s\<lparr>sstate := x\<rparr>)" "same_sending d s (s\<lparr>child_cm_id := y\<rparr>)"
  "same_sending d s (s\<lparr>cq_pc := z\<rparr>)" "same_sending d s (s\<lparr>SERVER_GET_REMOTE_ADDR := b\<rparr>)"
  "same_sending d s (s\<lparr>remote_addr := ra, remote_len := l, remote_rkey := k\<rparr>)"
  by (simp_all add: same_sending_def untouched_def own_def flags_def)

lemma server_cm_event_stays: "stays d (server_cm_event ev)"
  by (cases "cm_event_event ev")
    (auto simp: server_cm_event_def intro!: sending.within_skip stays_assign sending.within_block same_members)

lemma server_cm_thread_stays:
  assumes "sends_contract P d"
  shows "stays d (server_cm_thread P)"
  unfolding server_cm_thread_def
  by (rule stays_lib) (auto simp: no_sends [OF assms] split_def
    intro!: sending.within_block sending.within_exit_if stays_lib within_state [OF server_cm_event_stays])

lemma cq_wait_stays:
  assumes "sends_contract P d"
  shows "stays d (cq_wait P)" and "stays d (cq_ack P)"
  unfolding cq_wait_def cq_ack_def request_notify_def
  by (auto simp: no_sends [OF assms] split_def
    intro!: sending.within_block sending.within_exit_if stays_lib stays_assign sending.within_skip same_members)

lemma server_recv_handler_stays: "stays d (server_recv_handler wc)"
  unfolding server_recv_handler_def
  by (auto simp: Let_def intro!: sending.within_block sending.within_exit_if stays_assign same_members)

text \<open>The effect of one completion, if it is that of a send with the identifier \<open>w\<close>.\<close>

lemma server_completion_marks:
  assumes "wc_opcode wc = IBV_WC_SEND" and "server_completion wc s = Some (Inr t)"
  shows "mach t = mach s \<and> own t = own s \<and> flags t = mark (wc_wr_id wc) (flags s)"
  using assms
  by (auto simp: server_completion_def Let_def stmt_simps own_def flags_def mark_def split: if_splits)

lemma server_completion_stays: "wc_opcode wc \<noteq> IBV_WC_SEND \<Longrightarrow> stays d (server_completion wc)"
  by (cases "wc_opcode wc")
    (simp_all add: server_completion_def sending.within_skip server_recv_handler_stays)

lemma server_poll_sends:
  assumes c: "sends_contract P d" and T: "in_place d (mach s)" and run: "server_poll P s = Some (Inr t)"
  shows "untouched d s t \<and>
    (pending_sends d (mach t) = pending_sends d (mach s) \<and> flags t = flags s \<or>
     (\<exists>w. pending_sends d (mach s) = w # pending_sends d (mach t) \<and> flags t = mark w (flags s)))"
proof -
  obtain r m where poll: "ibv_poll_cq P (cq s) 1 (wc_addr s) (mach s) = (r, m)" by fastforce
  let ?s = "put_mach m s"
  let ?wc = "wc_at m (wc_addr s)"
  note eff = poll_sends [OF c T poll]
  have un: "untouched d s ?s" using eff by (simp add: untouched_mach put_mach_def)
  have T': "in_place d (mach ?s)" by (rule untouched_place [OF un T])
  have fl: "flags ?s = flags s" by (simp add: flags_def put_mach_def)
  show ?thesis
  proof (cases "0 < r")
    case False
    with run poll have "cq_ack P ?s = Some (Inr t)" by (simp add: server_poll_def lib_run)
    with staysD [OF cq_wait_stays(2) [OF c] T'] have "same_sending d ?s t" by blast
    with un eff False fl show ?thesis
      by (auto simp: same_sending_def put_mach_def intro: untouched_trans)
  next
    case r: True
    with run poll have t: "server_completion ?wc ?s = Some (Inr t)"
      by (simp add: server_poll_def lib_run put_mach_def)
    show ?thesis
    proof (cases "wc_opcode ?wc = IBV_WC_SEND")
      case True
      from server_completion_marks [OF this t] un eff r True fl show ?thesis
        by (auto simp: untouched_def put_mach_def)
    next
      case False
      with staysD [OF server_completion_stays [OF this] T' t] have "same_sending d ?s t" by blast
      with un eff False fl show ?thesis
        by (auto simp: same_sending_def put_mach_def intro: untouched_trans)
    qed
  qed
qed

lemma server_env_step_sends:
  assumes c: "sends_contract P d" and T: "in_place d (mach s)"
    and step: "server_env_step P (dev_step d) s t"
  shows "untouched d s t \<and>
    (pending_sends d (mach t) = pending_sends d (mach s) \<and> flags t = flags s \<or>
     (\<exists>w. pending_sends d (mach s) = w # pending_sends d (mach t) \<and> flags t = mark w (flags s)))"
  using step
proof (cases rule: server_env_step.cases)
  case cm
  with staysD [OF server_cm_thread_stays [OF c] T] show ?thesis by (auto simp: same_sending_def)
next
  case (device m)
  with c have "same_sends d (mach s) m" by (simp add: sends_contract_def)
  with device show ?thesis by (simp add: same_sends_def untouched_mach flags_def)
next
  case cq
  show ?thesis
  proof (cases "cq_pc s")
    case Cq_wait
    with cq staysD [OF cq_wait_stays(1) [OF c] T] show ?thesis
      by (auto simp: server_cq_thread_def same_sending_def)
  next
    case Cq_poll
    with cq server_poll_sends [OF c T] show ?thesis by (simp add: server_cq_thread_def)
  qed (use cq in \<open>simp_all add: server_cq_thread_def skip_run untouched_refl\<close>)
qed

subsection \<open>The phases of a send\<close>

text \<open>
  \<open>calm d f L\<close>: the send queue is empty, the flags are \<open>f\<close> and the messages so far \<open>L\<close>.  \<open>waiting d w f L\<close>:
  the request \<open>w\<close> is pending, or its completion has been handled.
\<close>

definition calm :: "'w device \<Rightarrow> bool \<times> bool \<times> bool \<Rightarrow> (u32 \<times> u8 list) list \<Rightarrow> 'w server \<Rightarrow> bool" where
  "calm d f L s \<longleftrightarrow> in_place d (mach s) \<and> pending_sends d (mach s) = [] \<and> flags s = f \<and>
     sent d (mach s) = L"

definition waiting ::
    "'w device \<Rightarrow> u64 \<Rightarrow> bool \<times> bool \<times> bool \<Rightarrow> (u32 \<times> u8 list) list \<Rightarrow> 'w server \<Rightarrow> bool" where
  "waiting d w f L s \<longleftrightarrow> in_place d (mach s) \<and> sent d (mach s) = L \<and>
     (pending_sends d (mach s) = [w] \<and> flags s = f \<or>
      pending_sends d (mach s) = [] \<and> flags s = mark w f)"

lemma env_sends:
  assumes c: "sends_contract P d" and env: "runs_beside (server_env_step P (dev_step d)) env"
    and e: "env s = Inr t" and T: "in_place d (mach s)"
  shows "untouched d s t" and "in_place d (mach t)"
    and "calm d f L s \<Longrightarrow> calm d f L t" and "waiting d w f L s \<Longrightarrow> waiting d w f L t"
proof -
  have inv: "untouched d s t \<and> i t"
    if i: "i s" "\<And>u v. server_env_step P (dev_step d) u v \<Longrightarrow> in_place d (mach u) \<Longrightarrow> i u \<Longrightarrow> i v" for i
    by (rule runs_beside_inv [OF env e, where i = "\<lambda>u. untouched d s u \<and> i u"])
      (use i T server_env_step_sends [OF c] untouched_refl untouched_trans untouched_place in blast)+
  show un: "untouched d s t" using inv [of "\<lambda>_. True"] by simp
  show "in_place d (mach t)" by (rule untouched_place [OF un T])
  have step: "calm d f L u \<Longrightarrow> calm d f L v" "waiting d w f L u \<Longrightarrow> waiting d w f L v"
    if "server_env_step P (dev_step d) u v" "in_place d (mach u)" for u v
    using server_env_step_sends [OF c that(2,1)] untouched_place [of d u v]
    by (auto simp: calm_def waiting_def untouched_def)
  show "calm d f L s \<Longrightarrow> calm d f L t" "waiting d w f L s \<Longrightarrow> waiting d w f L t"
    using inv [of "calm d f L"] inv [of "waiting d w f L"] step by blast+
qed

text \<open>
  Before the post of an advertisement \<open>bs\<close>: its bytes are in the send buffer, which the one entry
  of the request covers and the device does not write.
\<close>

definition send_ready :: "'w device \<Rightarrow> 'w server \<Rightarrow> bool" where
  "send_ready d s \<longleftrightarrow> sge_addr (sge_at (mach s) (send_sgl_addr s)) = send_buf_addr s \<and>
     sge_length (sge_at (mach s) (send_sgl_addr s)) = 16 \<and>
     (\<forall>i < 16. dev_private d (send_buf_addr s + of_nat i))"

definition holds_advert :: "u8 list \<Rightarrow> 'w server \<Rightarrow> bool" where
  "holds_advert bs s \<longleftrightarrow> read_bytes (mem (mach s)) (send_buf_addr s) 16 = bs"

definition send_wr_ready :: "ptr \<Rightarrow> u64 \<Rightarrow> 'w server \<Rightarrow> bool" where
  "send_wr_ready p w s \<longleftrightarrow> send_wr_num_sge (send_wr_at (mach s) p) = 1 \<and>
     send_wr_sg_list (send_wr_at (mach s) p) = send_sgl_addr s \<and>
     send_wr_wr_id (send_wr_at (mach s) p) = w"

definition send_imm_ready :: "ptr \<Rightarrow> u32 \<Rightarrow> 'w server \<Rightarrow> bool" where
  "send_imm_ready p imm s \<longleftrightarrow> send_wr_opcode (send_wr_at (mach s) p) = IBV_WR_SEND_WITH_IMM \<and>
     send_wr_imm_data (send_wr_at (mach s) p) = imm"

lemma read_bytes_private:
  "(\<And>i. i < n \<Longrightarrow> m' (p + of_nat i) = m (p + of_nat i)) \<Longrightarrow> read_bytes m' p n = read_bytes m p n"
  by (simp add: read_bytes_def)

lemma untouched_keeps:
  assumes "untouched d s t"
  shows "own t = own s" and "send_ready d s \<Longrightarrow> send_ready d t"
    and "send_ready d s \<Longrightarrow> holds_advert bs s \<Longrightarrow> holds_advert bs t"
    and "send_wr_ready p w s \<Longrightarrow> send_wr_ready p w t" and "send_imm_ready p imm s \<Longrightarrow> send_imm_ready p imm t"
proof -
  have o: "sge_at (mach t) = sge_at (mach s)" "send_buf_addr t = send_buf_addr s"
    "send_sgl_addr t = send_sgl_addr s" "send_wr_at (mach t) = send_wr_at (mach s)"
    using assms by (simp_all add: untouched_def own_def)
  show "own t = own s" using assms by (simp add: untouched_def)
  show "send_ready d s \<Longrightarrow> send_ready d t" "send_wr_ready p w s \<Longrightarrow> send_wr_ready p w t"
    "send_imm_ready p imm s \<Longrightarrow> send_imm_ready p imm t"
    by (simp_all add: send_ready_def send_wr_ready_def send_imm_ready_def o)
  show "holds_advert bs t" if r: "send_ready d s" and h: "holds_advert bs s"
  proof -
    have "read_bytes (mem (mach t)) (send_buf_addr s) 16 = read_bytes (mem (mach s)) (send_buf_addr s) 16"
      by (rule read_bytes_private) (use assms r in \<open>simp add: untouched_def send_ready_def\<close>)
    with h o show ?thesis by (simp add: holds_advert_def)
  qed
qed

text \<open>The post of a prepared advertisement appends it to the messages.\<close>

lemma post_advert:
  assumes "sends_contract P d"
  shows "triple (\<lambda>s. calm d f L s \<and> own s = x \<and> send_ready d s \<and> holds_advert bs s \<and>
      send_wr_ready (wr s) w s \<and> send_imm_ready (wr s) imm s)
    (post_send P wr) (\<lambda>s. waiting d w f (L @ [(imm, bs)]) s \<and> own s = x \<and> send_ready d s)"
proof (unfold triple_def, intro allI impI)
  fix s t
  assume s: "calm d f L s \<and> own s = x \<and> send_ready d s \<and> holds_advert bs s \<and>
      send_wr_ready (wr s) w s \<and> send_imm_ready (wr s) imm s"
    and run: "post_send P wr s = Some (Inr t)"
  from run obtain m where post: "ibv_post_send P (qp s) (wr s) (bad_wr_addr s) (mach s) = (0, m)"
    and t: "t = s\<lparr>mach := m\<rparr>"
    by (auto simp: post_send_def lib_run exit_if_def put_mach_def split: prod.splits if_splits)
  have eff: "same_local d (mach s) m" "pending_sends d m = [w]" "sent d m = L @ [(imm, bs)]"
    using post_sends [OF assms _ post] s
    by (simp_all add: calm_def send_wr_ready_def send_imm_ready_def send_ready_def holds_advert_def
        gathered_def)
  then show "waiting d w f (L @ [(imm, bs)]) t \<and> own t = x \<and> send_ready d t"
    using s t
    by (auto simp: waiting_def calm_def same_local_def in_place_def own_def flags_def send_ready_def)
qed

subsection \<open>The three advertisements\<close>

text \<open>\<open>stage d f L x A\<close>: the server between two statements, with nothing pending and more facts \<open>A\<close>.\<close>

definition stage :: "'w device \<Rightarrow> bool \<times> bool \<times> bool \<Rightarrow> (u32 \<times> u8 list) list \<Rightarrow> 'w server \<Rightarrow>
    ('w server \<Rightarrow> bool) \<Rightarrow> 'w server \<Rightarrow> bool" where
  "stage d f L s0 A s \<longleftrightarrow> calm d f L s \<and> own s = own s0 \<and> send_ready d s \<and> A s"

definition stable :: "'w device \<Rightarrow> ('w server \<Rightarrow> bool) \<Rightarrow> bool" where
  "stable d A \<longleftrightarrow> (\<forall>s t. untouched d s t \<longrightarrow> send_ready d s \<longrightarrow> A s \<longrightarrow> A t)"

lemma stables:
  "stable d (\<lambda>_. True)" "stable d (holds_advert bs)" "stable d (send_wr_ready p w)"
  "stable d (send_imm_ready p imm)"
  "stable d A \<Longrightarrow> stable d B \<Longrightarrow> stable d (\<lambda>s. A s \<and> B s)"
  unfolding stable_def using untouched_keeps by blast+

lemma own_fields:
  assumes "own s = own s0"
  shows "send_buf_addr s = send_buf_addr s0" "send_sgl_addr s = send_sgl_addr s0"
    "sq_wr_addr s = sq_wr_addr s0" "wr_addr s = wr_addr s0" "start_buf s = start_buf s0"
    "start_mr s = start_mr s0" "start_size s = start_size s0" "class_info s = class_info s0"
    "sketch_info s = sketch_info s0" "mr_at (mach s) = mr_at (mach s0)" "a_addr s = a_addr s0"
  using assms by (simp_all add: own_def)

lemma stage_facts: "stage d f L s0 A s \<Longrightarrow> A s"
  by (simp add: stage_def)

lemma stage_mem:
  "stage d f L s0 A s \<Longrightarrow> B (s\<lparr>mach := (mach s)\<lparr>mem := mm\<rparr>\<rparr>) \<Longrightarrow>
   stage d f L s0 B (s\<lparr>mach := (mach s)\<lparr>mem := mm\<rparr>\<rparr>)"
  by (auto simp: stage_def calm_def in_place_def own_def flags_def send_ready_def)

lemma stage_wr:
  "stage d f L s0 A s \<Longrightarrow> B (s\<lparr>mach := (mach s)\<lparr>send_wr_at := ws\<rparr>\<rparr>) \<Longrightarrow>
   stage d f L s0 B (s\<lparr>mach := (mach s)\<lparr>send_wr_at := ws\<rparr>\<rparr>)"
  by (auto simp: stage_def calm_def in_place_def own_def flags_def send_ready_def)

lemma env_stage:
  assumes c: "sends_contract P d" and env: "runs_beside (server_env_step P (dev_step d)) env"
    and A: "stable d A" and s: "stage d f L s0 A s" and e: "env s = Inr t"
  shows "stage d f L s0 A t"
proof -
  have T: "in_place d (mach s)" using s by (simp add: stage_def calm_def)
  note un = env_sends(1) [OF c env e T]
  from s env_sends(3) [OF c env e T, of f L] untouched_keeps(1,2) [OF un] A un
  show ?thesis by (auto simp: stage_def stable_def)
qed

text \<open>After the post: the request \<open>w\<close> on its way, with the main thread's data as in \<open>s0\<close>.\<close>

definition on_way :: "'w device \<Rightarrow> u64 \<Rightarrow> bool \<times> bool \<times> bool \<Rightarrow> (u32 \<times> u8 list) list \<Rightarrow> 'w server \<Rightarrow>
    'w server \<Rightarrow> bool" where
  "on_way d w f L s0 s \<longleftrightarrow> waiting d w f L s \<and> own s = own s0 \<and> send_ready d s"

lemma env_on_way:
  assumes c: "sends_contract P d" and env: "runs_beside (server_env_step P (dev_step d)) env"
    and s: "on_way d w f L s0 s" and e: "env s = Inr t"
  shows "on_way d w f L s0 t"
proof -
  have T: "in_place d (mach s)" using s by (simp add: on_way_def waiting_def)
  note un = env_sends(1) [OF c env e T]
  from s env_sends(4) [OF c env e T, of w f L] untouched_keeps(1,2) [OF un]
  show ?thesis by (auto simp: on_way_def)
qed

lemma on_way_mem:
  "on_way d w f L s0 s \<Longrightarrow> on_way d w f L s0 (s\<lparr>mach := (mach s)\<lparr>mem := mm\<rparr>\<rparr>)"
  by (auto simp: on_way_def waiting_def in_place_def own_def flags_def send_ready_def)

lemma post_on_way:
  assumes "sends_contract P d" and "\<And>s. own s = own s0 \<Longrightarrow> wr s = p"
  shows "triple (stage d f L s0 (\<lambda>s. holds_advert bs s \<and> send_wr_ready p w s \<and> send_imm_ready p imm s))
    (post_send P wr) (on_way d w f (L @ [(imm, bs)]) s0)"
  by (rule triple_weaken [OF post_advert [OF assms(1)]])
    (auto simp: stage_def on_way_def assms(2))

lemma arrived:
  assumes c: "sends_contract P d" and env: "runs_beside (server_env_step P (dev_step d)) env"
    and b: "\<And>s. on_way d w f L s0 s \<Longrightarrow> b s \<Longrightarrow> flags s \<noteq> f"
  shows "triple (on_way d w f L s0) (await env b) (stage d (mark w f) L s0 (\<lambda>_. True))"
proof (rule triple_await)
  show "\<And>s t. on_way d w f L s0 s \<Longrightarrow> \<not> b s \<Longrightarrow> env s = Inr t \<Longrightarrow> on_way d w f L s0 t"
    by (rule env_on_way [OF c env])
  fix s assume s: "on_way d w f L s0 s" "b s"
  then have "flags s \<noteq> f" by (rule b)
  with s show "stage d (mark w f) L s0 (\<lambda>_. True) s"
    by (auto simp: on_way_def waiting_def stage_def calm_def)
qed

text \<open>The contents of the three messages.\<close>

definition start_advert :: "'w server \<Rightarrow> u8 list" where
  "start_advert s =
     advert_bytes (start_buf s) (mr_rkey (mr_at (mach s) (start_mr s))) (word_of_int (start_size s))"

definition class_advert :: "'w server \<Rightarrow> u8 list" where
  "class_advert s = advert_bytes (class_send_buf (class_info s))
     (mr_rkey (mr_at (mach s) (class_send_mr (class_info s)))) (of_nat sizeof_rdma_test)"

definition sketch_advert :: "'w server \<Rightarrow> u8 list" where
  "sketch_advert s = advert_bytes (sk_data_buf (sketch_info s))
     (mr_rkey (mr_at (mach s) (sketch_mr (sketch_info s)))) (word_of_int (sk_data_size (sketch_info s)))"

lemma store_advert:
  assumes "\<And>s. own s = own s0 \<Longrightarrow> x s (mach s) = x s0 (mach s0)"
    and "\<And>s. own s = own s0 \<Longrightarrow> y s (mach s) = y s0 (mach s0)"
    and "\<And>s. own s = own s0 \<Longrightarrow> z s (mach s) = z s0 (mach s0)"
  shows "triple (stage d f L s0 (send_wr_ready p w))
     (on_mach (\<lambda>s m. on_mem (store_rdma_info (send_buf_addr s) (x s m) (y s m) (z s m)) m))
     (stage d f L s0 (\<lambda>s. holds_advert
        (advert_bytes (x s0 (mach s0)) (y s0 (mach s0)) (z s0 (mach s0))) s \<and> send_wr_ready p w s))"
    and "triple (stage d f L s0 (\<lambda>_. True))
     (on_mach (\<lambda>s m. on_mem (store_rdma_info (send_buf_addr s) (x s m) (y s m) (z s m)) m))
     (stage d f L s0 (holds_advert (advert_bytes (x s0 (mach s0)) (y s0 (mach s0)) (z s0 (mach s0)))))"
proof -
  have holds: "holds_advert (advert_bytes (x s0 (mach s0)) (y s0 (mach s0)) (z s0 (mach s0)))
      (s\<lparr>mach := (mach s)\<lparr>mem := store_rdma_info (send_buf_addr s) (x s (mach s)) (y s (mach s))
         (z s (mach s)) (mem (mach s))\<rparr>\<rparr>)" if "own s = own s0" for s
    using assms(1-3) [OF that] by (simp add: holds_advert_def store_rdma_info_bytes)
  have own: "stage d f L s0 A s \<Longrightarrow> own s = own s0" for A s by (simp add: stage_def)
  show "triple (stage d f L s0 (\<lambda>_. True))
     (on_mach (\<lambda>s m. on_mem (store_rdma_info (send_buf_addr s) (x s m) (y s m) (z s m)) m))
     (stage d f L s0 (holds_advert (advert_bytes (x s0 (mach s0)) (y s0 (mach s0)) (z s0 (mach s0)))))"
    unfolding triple_def on_mach_def on_mem_def using holds own by (auto intro!: stage_mem)
  have wr: "send_wr_ready p w (s\<lparr>mach := (mach s)\<lparr>mem := mm\<rparr>\<rparr>)"
    if "stage d f L s0 (send_wr_ready p w) s" for s mm
    using that by (simp add: stage_def send_wr_ready_def)
  show "triple (stage d f L s0 (send_wr_ready p w))
     (on_mach (\<lambda>s m. on_mem (store_rdma_info (send_buf_addr s) (x s m) (y s m) (z s m)) m))
     (stage d f L s0 (\<lambda>s. holds_advert
        (advert_bytes (x s0 (mach s0)) (y s0 (mach s0)) (z s0 (mach s0))) s \<and> send_wr_ready p w s))"
    unfolding triple_def on_mach_def on_mem_def using holds own wr by (auto intro!: stage_mem)
qed

lemma first_request:
  "triple (stage d f L s0 (\<lambda>s. holds_advert bs s \<and> send_wr_ready (sq_wr_addr s0) w s))
     (on_mach (\<lambda>s. set_send_wr (sq_wr_addr s) (\<lambda>w. w\<lparr>send_wr_opcode := IBV_WR_SEND_WITH_IMM,
        send_wr_send_flags := SIGNALED, send_wr_imm_data := imm\<rparr>)))
     (stage d f L s0 (\<lambda>s. holds_advert bs s \<and> send_wr_ready (sq_wr_addr s0) w s \<and>
        send_imm_ready (sq_wr_addr s0) imm s))"
proof -
  have "sq_wr_addr s = sq_wr_addr s0" if "stage d f L s0 A s" for s A
    using that own_fields(3) [of s s0] by (simp add: stage_def)
  then show ?thesis
    unfolding triple_def on_mach_def set_send_wr_def
    by (auto intro!: stage_wr dest: stage_facts
        simp: holds_advert_def send_wr_ready_def send_imm_ready_def)
qed

lemma later_request:
  "triple (stage d f L s0 (holds_advert bs)) (on_mach (send_request imm w))
     (stage d f L s0 (\<lambda>s. holds_advert bs s \<and> send_wr_ready (wr_addr s0) w s \<and>
        send_imm_ready (wr_addr s0) (htobe32 imm) s))"
proof -
  have "wr_addr s = wr_addr s0" if "stage d f L s0 A s" for s A
    using that own_fields(4) [of s s0] by (simp add: stage_def)
  then show ?thesis
    unfolding triple_def on_mach_def set_send_wr_def send_request_def
    by (auto intro!: stage_wr dest: stage_facts
        simp: holds_advert_def send_wr_ready_def send_imm_ready_def)
qed

lemma sketch_fill_keeps:
  fixes s0 :: "'w server"
  assumes "apart (sk_data_buf (sketch_info s0)) (4 * nat (sk_data_size (sketch_info s0)))
      (send_buf_addr s0) 16"
    and "4 * nat (sk_data_size (sketch_info s0)) \<le> 2 ^ 64"
  shows "triple (stage d f L s0 (\<lambda>s. holds_advert bs s \<and> send_wr_ready p w s \<and> send_imm_ready p imm s))
     (on_mach (\<lambda>s. on_mem (fill_from 0 (nat (sk_data_size (sketch_info s))) (sk_data_buf (sketch_info s)))))
     (stage d f L s0 (\<lambda>s. holds_advert bs s \<and> send_wr_ready p w s \<and> send_imm_ready p imm s))"
proof (unfold triple_def on_mach_def on_mem_def, intro allI impI)
  fix s t :: "'w server"
  let ?K = "\<lambda>s. holds_advert bs s \<and> send_wr_ready p w s \<and> send_imm_ready p imm s"
  let ?m = "fill_from 0 (nat (sk_data_size (sketch_info s))) (sk_data_buf (sketch_info s)) (mem (mach s))"
  assume s: "stage d f L s0 ?K s"
    and t: "Some (Inr (s\<lparr>mach := (mach s)\<lparr>mem := ?m\<rparr>\<rparr>)) = Some (Inr t)"
  have o: "sketch_info s = sketch_info s0" "send_buf_addr s = send_buf_addr s0"
    using s own_fields [of s s0] by (simp_all add: stage_def)
  have "read_bytes ?m (send_buf_addr s) 16 = read_bytes (mem (mach s)) (send_buf_addr s) 16"
    unfolding o fill_from_0 [OF assms(2)] by (rule read_write_apart) (simp add: assms(1))
  then have "?K (s\<lparr>mach := (mach s)\<lparr>mem := ?m\<rparr>\<rparr>)"
    using stage_facts [OF s] by (simp add: holds_advert_def send_wr_ready_def send_imm_ready_def)
  with t show "stage d f L s0 ?K t" by (auto intro: stage_mem [OF s])
qed

lemma init_class_recv_on_way:
  assumes c: "sends_contract P d" and env: "runs_beside (server_env_step P (dev_step d)) env"
  shows "triple (stage d f L s0 (\<lambda>_. True)) (init_class_recv P env)
     (on_way d 1123 f (L @ [(htobe32 1123, class_advert s0)]) s0)"
proof -
  note es = env_stage [OF c env] and eo = env_on_way [OF c env]
  let ?Q = "on_way d 1123 f (L @ [(htobe32 1123, class_advert s0)]) s0"
  have copy: "triple ?Q (on_mach (\<lambda>s. on_mem (g s))) ?Q" for g
    by (auto simp: triple_def on_mach_def on_mem_def intro: on_way_mem)
  have store: "triple (stage d f L s0 (\<lambda>_. True))
     (on_mach (\<lambda>s m. on_mem (store_rdma_info (send_buf_addr s) (class_send_buf (class_info s))
        (mr_rkey (mr_at m (class_send_mr (class_info s)))) (of_nat sizeof_rdma_test)) m))
     (stage d f L s0 (holds_advert (class_advert s0)))"
    unfolding class_advert_def by (rule store_advert(2)) (simp_all add: own_def)
  have post: "triple (stage d f L s0 (\<lambda>s. holds_advert (class_advert s0) s \<and>
      send_wr_ready (wr_addr s0) 1123 s \<and> send_imm_ready (wr_addr s0) (htobe32 1123) s))
      (post_send P wr_addr) ?Q"
    by (rule post_on_way [OF c own_fields(4)])
  show ?thesis
    unfolding init_class_recv_def
    by (rule triple_thread_Cons [OF es [OF stables(1)] store]
        triple_thread_Cons [OF es [OF stables(2)] later_request]
        triple_thread_Cons [OF es [OF stables(5) [OF stables(2) stables(5) [OF stables(3,4)]]] post]
        triple_thread_Cons [OF eo copy] triple_thread_Nil | assumption)+
qed

lemma init_sketch_rdma_on_way:
  assumes c: "sends_contract P d" and env: "runs_beside (server_env_step P (dev_step d)) env"
    and "apart (sk_data_buf (sketch_info s0)) (4 * nat (sk_data_size (sketch_info s0)))
      (send_buf_addr s0) 16"
    and "4 * nat (sk_data_size (sketch_info s0)) \<le> 2 ^ 64"
  shows "triple (stage d f L s0 (\<lambda>_. True)) (init_sketch_rdma P env)
     (on_way d 1124 f (L @ [(htobe32 1124, sketch_advert s0)]) s0)"
proof -
  note es = env_stage [OF c env]
  let ?Q = "on_way d 1124 f (L @ [(htobe32 1124, sketch_advert s0)]) s0"
  have store: "triple (stage d f L s0 (\<lambda>_. True))
     (on_mach (\<lambda>s m. on_mem (store_rdma_info (send_buf_addr s) (sk_data_buf (sketch_info s))
        (mr_rkey (mr_at m (sketch_mr (sketch_info s)))) (word_of_int (sk_data_size (sketch_info s)))) m))
     (stage d f L s0 (holds_advert (sketch_advert s0)))"
    unfolding sketch_advert_def by (rule store_advert(2)) (simp_all add: own_def)
  have post: "triple (stage d f L s0 (\<lambda>s. holds_advert (sketch_advert s0) s \<and>
      send_wr_ready (wr_addr s0) 1124 s \<and> send_imm_ready (wr_addr s0) (htobe32 1124) s))
      (post_send P wr_addr) ?Q"
    by (rule post_on_way [OF c own_fields(4)])
  note K = stables(5) [OF stables(2) stables(5) [OF stables(3,4)]]
  show ?thesis
    unfolding init_sketch_rdma_def
    by (rule triple_thread_Cons [OF es [OF stables(1)] store]
        triple_thread_Cons [OF es [OF stables(2)] later_request]
        triple_thread_Cons [OF es [OF K] sketch_fill_keeps [OF assms(3,4)]]
        triple_thread_Cons [OF es [OF K] post] triple_thread_Nil | assumption)+
qed

text \<open>The server before its first advertisement; \<open>w\<close> is the identifier that \<open>sq_wr\<close> happens to have.\<close>

definition may_advertise :: "'w device \<Rightarrow> u64 \<Rightarrow> 'w server \<Rightarrow> bool" where
  "may_advertise d w s \<longleftrightarrow>
     in_place d (mach s) \<and> pending_sends d (mach s) = [] \<and> flags s = (False, False, False) \<and>
     send_ready d s \<and> send_wr_ready (sq_wr_addr s) w s \<and>
     apart (sk_data_buf (sketch_info s)) (4 * nat (sk_data_size (sketch_info s))) (send_buf_addr s) 16 \<and>
     4 * nat (sk_data_size (sketch_info s)) \<le> 2 ^ 64"

lemma first_advert:
  assumes c: "sends_contract P d" and env: "runs_beside (server_env_step P (dev_step d)) env"
    and rest: "triple (on_way d w f (L @ [(htobe32 1122, start_advert s0)]) s0) (thread env cs) q"
  shows "triple (stage d f L s0 (send_wr_ready (sq_wr_addr s0) w)) (thread env
     (on_mach (\<lambda>s m. on_mem (store_rdma_info (send_buf_addr s) (start_buf s)
        (mr_rkey (mr_at m (start_mr s))) (word_of_int (start_size s))) m) #
      on_mach (\<lambda>s. set_send_wr (sq_wr_addr s) (\<lambda>w. w\<lparr>send_wr_opcode := IBV_WR_SEND_WITH_IMM,
        send_wr_send_flags := SIGNALED, send_wr_imm_data := htobe32 1122\<rparr>)) #
      post_send P sq_wr_addr # cs)) q"
proof -
  note es = env_stage [OF c env]
  have store: "triple (stage d f L s0 (send_wr_ready (sq_wr_addr s0) w))
     (on_mach (\<lambda>s m. on_mem (store_rdma_info (send_buf_addr s) (start_buf s)
        (mr_rkey (mr_at m (start_mr s))) (word_of_int (start_size s))) m))
     (stage d f L s0 (\<lambda>s. holds_advert (start_advert s0) s \<and> send_wr_ready (sq_wr_addr s0) w s))"
    unfolding start_advert_def by (rule store_advert(1)) (simp_all add: own_def)
  have post: "triple (stage d f L s0 (\<lambda>s. holds_advert (start_advert s0) s \<and>
      send_wr_ready (sq_wr_addr s0) w s \<and> send_imm_ready (sq_wr_addr s0) (htobe32 1122) s))
      (post_send P sq_wr_addr) (on_way d w f (L @ [(htobe32 1122, start_advert s0)]) s0)"
    by (rule post_on_way [OF c own_fields(3)])
  show ?thesis
    by (rule triple_thread_Cons [OF es [OF stables(3)] store]
        triple_thread_Cons [OF es [OF stables(5) [OF stables(2,3)]] first_request]
        triple_thread_Cons [OF es [OF stables(5) [OF stables(2) stables(5) [OF stables(3,4)]]] post rest]
        | assumption)+
qed

text \<open>The three waits: each ends with its own flag set and nothing pending.\<close>

lemma flag_marks:
  "(ucast (w :: u64) :: u32) = 0 \<Longrightarrow> mark w (False, False, False) = (True, False, False)"
  "mark 1123 (True, False, False) = (True, True, False)" "mark 1124 (True, True, False) = (True, True, True)"
  by (simp_all add: mark_def)

lemma arrivals:
  assumes c: "sends_contract P d" and env: "runs_beside (server_env_step P (dev_step d)) env"
  shows "(ucast w :: u32) = 0 \<Longrightarrow> triple (on_way d w (False, False, False) L s) (await env rdma_addr_send_complete)
      (stage d (True, False, False) L s (\<lambda>_. True))"
    and "triple (on_way d 1123 (True, False, False) L s) (await env class_addr_send_complete)
      (stage d (True, True, False) L s (\<lambda>_. True))"
    and "triple (on_way d 1124 (True, True, False) L s) (await env sketch_addr_send_complete)
      (stage d (True, True, True) L s (\<lambda>_. True))"
  using arrived [OF c env, of w "(False, False, False)" L s rdma_addr_send_complete]
    arrived [OF c env, of 1123 "(True, False, False)" L s class_addr_send_complete]
    arrived [OF c env, of 1124 "(True, True, False)" L s sketch_addr_send_complete]
  by (simp_all add: flags_def flag_marks)

lemma server_sends_three:
  assumes "sends_contract P d" and "runs_beside (server_env_step P (dev_step d)) env"
    and "may_advertise d w s" and "(ucast w :: u32) = 0"
    and "server_advertise P env s = Some (Inr t)"
  shows "sent d (mach t) = sent d (mach s) @
      [(htobe32 1122, start_advert s), (htobe32 1123, class_advert s), (htobe32 1124, sketch_advert s)]
    \<and> pending_sends d (mach t) = [] \<and> flags t = (True, True, True) \<and> own t = own s"
proof -
  let ?L = "sent d (mach s)"
  let ?L1 = "?L @ [(htobe32 1122, start_advert s)]"
  let ?L2 = "?L1 @ [(htobe32 1123, class_advert s)]"
  let ?L3 = "?L2 @ [(htobe32 1124, sketch_advert s)]"
  note c = assms(1) and env = assms(2)
  note es = env_stage [OF c env stables(1)] and eo = env_on_way [OF c env]
  have may: "apart (sk_data_buf (sketch_info s)) (4 * nat (sk_data_size (sketch_info s))) (send_buf_addr s) 16"
    "4 * nat (sk_data_size (sketch_info s)) \<le> 2 ^ 64"
    using assms(3) by (simp_all add: may_advertise_def)
  note arrivals = arrivals [OF c env]
  note w1 = arrivals(1) [OF assms(4), of ?L1 s] and w2 = arrivals(2) [of ?L2 s] and w3 = arrivals(3) [of ?L3 s]
  have rest: "triple (on_way d w (False, False, False) ?L1 s) (thread env
      [await env rdma_addr_send_complete, init_class_recv P env, await env class_addr_send_complete,
       init_sketch_rdma P env, await env sketch_addr_send_complete])
      (stage d (True, True, True) ?L3 s (\<lambda>_. True))"
    by (rule triple_thread_Cons [OF eo w1 triple_thread_Cons [OF es init_class_recv_on_way [OF c env]
        triple_thread_Cons [OF eo w2 triple_thread_Cons [OF es init_sketch_rdma_on_way [OF c env may]
        triple_thread_Cons [OF eo w3 triple_thread_Nil]]]]])
  have "triple (stage d (False, False, False) ?L s (send_wr_ready (sq_wr_addr s) w))
      (server_advertise P env) (stage d (True, True, True) ?L3 s (\<lambda>_. True))"
    unfolding server_advertise_def by (rule first_advert [OF c env rest])
  moreover have "stage d (False, False, False) ?L s (send_wr_ready (sq_wr_addr s) w) s"
    using assms(3) by (simp add: may_advertise_def stage_def calm_def)
  ultimately have "stage d (True, True, True) ?L3 s (\<lambda>_. True) t"
    using assms(5) by (rule tripleD)
  then show ?thesis by (simp add: stage_def calm_def)
qed

text \<open>
  The server's part of \<open>start\<close> after the client's advertisement: when it returns, exactly three
  messages have left the server, in this order: the address, key and size of \<open>start_buf\<close> with the
  immediate value 1122, of the class buffer with 1123, of the sketch with 1124, each 16 bytes in
  network order; all of them have completed, and the one send buffer was never overwritten while a
  message was pending (the contract of the device says nothing of a post while one is).  It relies
  on \<open>wr_id\<close> of \<open>sq_wr\<close>, which the program never initialises, being 0 in its low 32 bits.
\<close>

lemma server_advertises:
  assumes "sends_contract P d" and "runs_beside (server_env_step P (dev_step d)) env"
    and "may_advertise d w s" and "(ucast w :: u32) = 0"
    and "server_advertise P env s = Some (Inr t)"
  shows "sent d (mach t) = sent d (mach s) @
      [(htobe32 1122, start_advert s), (htobe32 1123, class_advert s), (htobe32 1124, sketch_advert s)]
    \<and> pending_sends d (mach t) = [] \<and> flags t = (True, True, True)"
  using server_sends_three [OF assms] by blast

text \<open>
  C21: The consequence of the uninitialised identifier: if the low 32 bits of \<open>wr_id\<close> of \<open>sq_wr\<close> happen
  to be anything but 0, \<open>start\<close> of the server never returns; the first completion is not recognised.
\<close>

theorem server_stuck_on_stray_wr_id:
  assumes "sends_contract P d" and "runs_beside (server_env_step P (dev_step d)) env"
    and "may_advertise d w s" and "(ucast w :: u32) \<noteq> 0"
  shows "server_advertise P env s \<noteq> Some (Inr t)"
proof
  assume run: "server_advertise P env s = Some (Inr t)"
  let ?L = "sent d (mach s)"
  let ?L1 = "?L @ [(htobe32 1122, start_advert s)]"
  note c = assms(1) and env = assms(2)
  have never: "\<not> rdma_addr_send_complete u" if "on_way d w (False, False, False) ?L1 s u" for u
    using that assms(4) by (auto simp: on_way_def waiting_def flags_def mark_def)
  have w1: "triple (on_way d w (False, False, False) ?L1 s) (await env rdma_addr_send_complete) (\<lambda>_. False)"
    by (rule triple_await [OF env_on_way [OF c env]]) (use never in blast)+
  have rest: "triple (on_way d w (False, False, False) ?L1 s) (thread env
      (await env rdma_addr_send_complete # cs)) (\<lambda>_. False)" for cs
    by (rule triple_thread_Cons [OF env_on_way [OF c env] w1]) (simp_all add: triple_def)
  have "triple (stage d (False, False, False) ?L s (send_wr_ready (sq_wr_addr s) w))
      (server_advertise P env) (\<lambda>_. False)"
    unfolding server_advertise_def by (rule first_advert [OF c env rest])
  moreover have "stage d (False, False, False) ?L s (send_wr_ready (sq_wr_addr s) w) s"
    using assms(3) by (simp add: may_advertise_def stage_def calm_def)
  ultimately show False using run by (rule tripleD)
qed

end
