(* ===== verification/Sends_End.thy ===== *)
theory Sends_End
  imports Sends
begin

section \<open>The server's waits come to an end\<close>

text \<open>
  The end of the server's \<open>start\<close> waits for the completion of each of its messages.  It does not wait
  for ever if the other threads make progress with a pending send.
\<close>

subsection \<open>Threads without waits\<close>

lemma halts_weaken: "halts p c \<Longrightarrow> (\<And>s. q s \<Longrightarrow> p s) \<Longrightarrow> halts q c"
  by (simp add: halts_def)

lemma thread_append: "thread env (xs @ ys) s =
    (case thread env xs s of None \<Rightarrow> None | Some (Inl e) \<Rightarrow> Some (Inl e) | Some (Inr t) \<Rightarrow> thread env ys t)"
  unfolding thread_def by (simp add: block_append seq_def)

lemma halts_thread_append:
  assumes "halts p (thread env xs)" and "triple p (thread env xs) r" and "halts r (thread env ys)"
  shows "halts p (thread env (xs @ ys))"
  using assms by (fastforce simp: halts_def triple_def thread_append split: option.splits sum.splits)

lemma halts_thread_all: "(\<And>c. c \<in> set cs \<Longrightarrow> halts (\<lambda>_. True) c) \<Longrightarrow> halts (\<lambda>_. True) (thread env cs)"
proof (induction cs)
  case Nil
  show ?case by (rule halts_thread_Nil)
next
  case (Cons c cs)
  show ?case
    by (rule halts_thread_Cons [where r = "\<lambda>_. True"]) (simp_all add: Cons triple_def)
qed

lemma steps_halt: "halts p (on_mach g)" "halts p (post_send P wr)"
  by (simp_all add: halts_def on_mach_def post_send_def lib_run exit_if_def split: prod.split)

lemma sends_halt: "halts p (init_class_recv P env)" "halts p (init_sketch_rdma P env)"
proof -
  have "halts (\<lambda>_. True) (init_class_recv P env)"
    unfolding init_class_recv_def by (rule halts_thread_all) (auto intro: steps_halt)
  then show "halts p (init_class_recv P env)" by (rule halts_weaken) simp
  have "halts (\<lambda>_. True) (init_sketch_rdma P env)"
    unfolding init_sketch_rdma_def by (rule halts_thread_all) (auto intro: steps_halt)
  then show "halts p (init_sketch_rdma P env)" by (rule halts_weaken) simp
qed

subsection \<open>Progress\<close>

text \<open>
  \<open>sends_progress d env work\<close>: while a send is pending, every turn of the other threads takes its
  completion or brings it nearer, as \<open>work\<close> measures it.
\<close>

definition sends_progress :: "'w device \<Rightarrow> ('w server \<Rightarrow> fatal + 'w server) \<Rightarrow> ('w server \<Rightarrow> nat) \<Rightarrow> bool" where
  "sends_progress d env work \<longleftrightarrow> (\<forall>s t. in_place d (mach s) \<longrightarrow> pending_sends d (mach s) \<noteq> [] \<longrightarrow> env s = Inr t \<longrightarrow>
     pending_sends d (mach t) = [] \<or> work t < work s)"

lemma wait_halts:
  assumes c: "sends_contract P d" and env: "runs_beside (server_env_step P (dev_step d)) env"
    and progress: "sends_progress d env work" and b: "\<And>s. flags s = mark w f \<Longrightarrow> b s"
  shows "halts (on_way d w f L s0) (await env b)"
proof (rule await_halts [where measure' = "\<lambda>s. if pending_sends d (mach s) = [] then 0 else Suc (work s)"])
  fix s t assume s: "on_way d w f L s0 s" and nb: "\<not> b s" and e: "env s = Inr t"
  then have "in_place d (mach s)" "pending_sends d (mach s) \<noteq> []"
    using b by (auto simp: on_way_def waiting_def)
  with progress e have "pending_sends d (mach t) = [] \<or> work t < work s" by (auto simp: sends_progress_def)
  with \<open>pending_sends d (mach s) \<noteq> []\<close> env_on_way [OF c env s e]
  show "on_way d w f L s0 t \<and>
      (if pending_sends d (mach t) = [] then 0 else Suc (work t)) < (if pending_sends d (mach s) = [] then 0 else Suc (work s))"
    by auto
qed

text \<open>
  C17: The end of the server's \<open>start\<close> never hangs, once it is ready to send and if \<open>wr_id\<close> of \<open>sq_wr\<close> happens to
  be 0 in its low 32 bits: it returns or ends with an error, provided that the other threads make
  progress with a pending send.
\<close>

theorem server_advertise_ends:
  assumes "sends_contract P d" and "runs_beside (server_env_step P (dev_step d)) env"
    and "sends_progress d env work" and "may_advertise d w s" and "(ucast w :: u32) = 0"
  shows "server_advertise P env s \<noteq> None"
proof -
  note c = assms(1) and env = assms(2)
  note es = env_stage [OF c env stables(1)] and eo = env_on_way [OF c env]
  note halt = wait_halts [OF c env assms(3)] and arrive = arrivals [OF c env]
  let ?L = "sent d (mach s)"
  let ?L1 = "?L @ [(htobe32 1122, start_advert s)]"
  let ?L2 = "?L1 @ [(htobe32 1123, class_advert s)]"
  let ?L3 = "?L2 @ [(htobe32 1124, sketch_advert s)]"
  have may: "apart (sk_data_buf (sketch_info s)) (4 * nat (sk_data_size (sketch_info s))) (send_buf_addr s) 16"
    "4 * nat (sk_data_size (sketch_info s)) \<le> 2 ^ 64"
    using assms(4) by (simp_all add: may_advertise_def)
  have flag: "flags u = mark w (False, False, False) \<Longrightarrow> rdma_addr_send_complete u"
    "flags u = mark 1123 (True, False, False) \<Longrightarrow> class_addr_send_complete u"
    "flags u = mark 1124 (True, True, False) \<Longrightarrow> sketch_addr_send_complete u" for u
    using assms(5) by (simp_all add: flags_def flag_marks)
  have last: "halts (on_way d 1124 (True, True, False) ?L3 s) (thread env [await env sketch_addr_send_complete])"
    by (rule halts_thread_Cons [OF eo halt [OF flag(3)] arrive(3) halts_thread_Nil])
  have sketch: "halts (on_way d 1123 (True, False, False) ?L2 s) (thread env
      [await env class_addr_send_complete, init_sketch_rdma P env, await env sketch_addr_send_complete])"
    by (rule halts_thread_Cons [OF eo halt [OF flag(2)] arrive(2)
        halts_thread_Cons [OF es sends_halt(2) init_sketch_rdma_on_way [OF c env may] last]])
  have rest: "halts (on_way d w (False, False, False) ?L1 s) (thread env
      [await env rdma_addr_send_complete, init_class_recv P env, await env class_addr_send_complete,
       init_sketch_rdma P env, await env sketch_addr_send_complete])"
    by (rule halts_thread_Cons [OF eo halt [OF flag(1)] arrive(1) [OF assms(5)]
        halts_thread_Cons [OF es sends_halt(1) init_class_recv_on_way [OF c env] sketch]])
  have "halts (stage d (False, False, False) ?L s (send_wr_ready (sq_wr_addr s) w)) (server_advertise P env)"
    unfolding server_advertise_def
  proof (rule halts_thread_append [of _ env "[a, b, c]" for a b c, simplified, OF _ first_advert [OF c env] rest])
    show "triple (on_way d w (False, False, False) ?L1 s) (thread env []) (on_way d w (False, False, False) ?L1 s)"
      by (rule triple_thread_Nil)
  qed (rule halts_weaken [OF halts_thread_all], auto intro: steps_halt)
  moreover have "stage d (False, False, False) ?L s (send_wr_ready (sq_wr_addr s) w) s"
    using assms(4) by (simp add: may_advertise_def stage_def calm_def)
  ultimately show ?thesis by (simp add: halts_def)
qed

end
