(* ===== verification/Sends_Example.thy ===== *)
theory Sends_Example
  imports Sends_End
begin

section \<open>A send queue that completes in order\<close>

text \<open>
  A concrete device for applying the properties of \<open>Sends\<close>: the world is the list of pending
  identifiers and the list of messages; posting appends to both, polling takes the first identifier.
\<close>

type_synonym sx_world = "u64 list \<times> (u32 \<times> u8 list) list"

definition sx_context :: ibv_context where
  "sx_context = undefined\<lparr>ctx_ops := undefined
     \<lparr>ops_poll_cq := 1, ops_post_send := 2, ops_req_notify_cq := 3\<rparr>\<rparr>"

definition sx_code :: "sx_world code" where
  "sx_code f args m =
     (if f = 1 then
        (case world m of
           ([], _) \<Rightarrow> (0, m)
         | (w # ws, msgs) \<Rightarrow> (1, m\<lparr>world := (ws, msgs), wc_at := (wc_at m)(args ! 2 :=
             (wc_at m (args ! 2))\<lparr>wc_opcode := IBV_WC_SEND, wc_wr_id := w\<rparr>)\<rparr>))
      else if f = 2 then
        (let w = send_wr_at m (args ! 1) in
         (0, m\<lparr>world := (fst (world m) @ [send_wr_wr_id w],
                 snd (world m) @ [(send_wr_imm_data w, gathered m (send_wr_sg_list w))])\<rparr>))
      else (0, m))"

definition sx_platform :: "sx_world platform" where
  "sx_platform = quiet_platform\<lparr>code := sx_code\<rparr>"

definition sx_device :: "sx_world device" where
  "sx_device = \<lparr>dev_step = (\<lambda>_ _. False), dev_reads = (\<lambda>_. 0), dev_sends = fst, dev_sent = snd,
     dev_private = (\<lambda>_. True), dev_tables = (\<lambda>_. sx_context, \<lambda>_. undefined, \<lambda>_. undefined)\<rparr>"

lemma sx_in_place:
  "in_place sx_device m \<longleftrightarrow> context_at m = (\<lambda>_. sx_context) \<and> cq_at m = (\<lambda>_. undefined) \<and> qp_at m = (\<lambda>_. undefined)"
  by (simp add: in_place_def tables_def sx_device_def)

lemma sx_views:
  "pending_sends sx_device m = fst (world m)" "sent sx_device m = snd (world m)"
  by (simp_all add: pending_sends_def sent_def sx_device_def)

lemma sx_verbs:
  assumes "context_at m = (\<lambda>_. sx_context)"
  shows "ibv_poll_cq sx_platform q n wc m =
      (case world m of
         ([], _) \<Rightarrow> (0, m)
       | (w # ws, msgs) \<Rightarrow> (1, m\<lparr>world := (ws, msgs), wc_at := (wc_at m)(wc :=
           (wc_at m wc)\<lparr>wc_opcode := IBV_WC_SEND, wc_wr_id := w\<rparr>)\<rparr>))"
    and "ibv_post_send sx_platform q wr bad m =
      (let w = send_wr_at m wr in
       (0, m\<lparr>world := (fst (world m) @ [send_wr_wr_id w],
               snd (world m) @ [(send_wr_imm_data w, gathered m (send_wr_sg_list w))])\<rparr>))"
    and "ibv_req_notify_cq sx_platform q fl m = (0, m)"
  using assms
  by (simp_all add: ibv_poll_cq_def ibv_post_send_def ibv_req_notify_cq_def call_int_def
      sx_platform_def sx_code_def sx_context_def c_int_def Let_def split: prod.split list.split)

lemma sx_contract: "sends_contract sx_platform sx_device"
proof -
  have lib: "no_send sx_device (lib_get_cm_event sx_platform ch)"
    "no_send sx_device (lib_ack_cm_event sx_platform e)"
    "no_send sx_device (lib_get_cq_event sx_platform ch)"
    "no_send sx_device (lib_ack_cq_events sx_platform q n)" for ch e q n
    by (auto simp: no_send_def same_sends_def same_local_def sx_platform_def quiet_platform_def)
  have verb: "no_send sx_device (ibv_req_notify_cq sx_platform q fl)" for q fl
    by (auto simp: no_send_def same_sends_def same_local_def sx_in_place sx_verbs)
  have "polls_send sx_platform sx_device"
    by (auto simp: polls_send_def sx_in_place sx_verbs sx_views same_local_def tables_def
        split: prod.splits list.splits)
  moreover have "posts_send sx_platform sx_device"
    by (auto simp: posts_send_def sx_in_place sx_verbs sx_views same_local_def tables_def Let_def)
  ultimately show ?thesis
    using lib verb by (simp add: sends_contract_def) (simp add: sx_device_def)
qed

text \<open>While a send is pending the completion thread takes a step, otherwise nothing happens.\<close>

definition sx_env :: "sx_world server \<Rightarrow> fatal + sx_world server" where
  "sx_env s =
     (if fst (world (mach s)) \<noteq> [] \<and> cq_pc s = Cq_poll
      then (case server_cq_thread sx_platform s of None \<Rightarrow> Inl Wrong_cq | Some r \<Rightarrow> r)
      else Inr s)"

lemma sx_runs_beside: "runs_beside (server_env_step sx_platform (dev_step sx_device)) sx_env"
  by (auto simp: runs_beside_def sx_env_def split: if_splits option.splits
      intro!: r_into_rtranclp server_env_step.cq)

definition sx_server :: "u64 \<Rightarrow> sx_world server" where
  "sx_server w = undefined
     \<lparr>mach := undefined\<lparr>world := ([], []), context_at := \<lambda>_. sx_context, cq_at := \<lambda>_. undefined,
         qp_at := \<lambda>_. undefined, mem := \<lambda>_. 0,
         sge_at := \<lambda>_. \<lparr>sge_addr = 0x1000, sge_length = 16, sge_lkey = 5\<rparr>,
         send_wr_at := \<lambda>_. zero_send_wr\<lparr>send_wr_wr_id := w, send_wr_num_sge := 1,
           send_wr_sg_list := 0x1100\<rparr>\<rparr>,
      cq_pc := Cq_poll, send_buf_addr := 0x1000, send_sgl_addr := 0x1100, sq_wr_addr := 0x1200,
      wr_addr := 0x1300, start_size := 1000,
      sketch_info := undefined\<lparr>sk_data_size := 2, sk_data_buf := 0x2000\<rparr>,
      rdma_addr_send_complete := False, class_addr_send_complete := False,
      sketch_addr_send_complete := False\<rparr>"

lemma sx_may_advertise: "may_advertise sx_device w (sx_server w)"
  by (simp add: may_advertise_def sx_in_place sx_views flags_def send_ready_def send_wr_ready_def
      sx_server_def apart_by_distance) (simp add: sx_device_def)

lemma sx_turn:
  assumes "context_at (mach s) = (\<lambda>_. sx_context)" and "cq_pc s = Cq_poll"
    and "world (mach s) = (w # ws, msgs)"
  shows "sx_env s = (case server_completion ((wc_at (mach s) (wc_addr s))\<lparr>wc_opcode := IBV_WC_SEND, wc_wr_id := w\<rparr>)
     (s\<lparr>mach := (mach s)\<lparr>world := (ws, msgs), wc_at := (wc_at (mach s))(wc_addr s :=
        (wc_at (mach s) (wc_addr s))\<lparr>wc_opcode := IBV_WC_SEND, wc_wr_id := w\<rparr>)\<rparr>\<rparr>) of
     None \<Rightarrow> Inl Wrong_cq | Some r \<Rightarrow> r)"
  using assms
  by (simp add: sx_env_def server_cq_thread_def server_poll_def lib_run sx_verbs put_mach_def)

lemma sx_idle: "fst (world (mach s)) = [] \<Longrightarrow> sx_env s = Inr s"
  by (simp add: sx_env_def)

lemma sx_await:
  "await sx_env b s = (if b s then Some (Inr s) else case sx_env s of Inl e \<Rightarrow> Some (Inl e) | Inr t \<Rightarrow> await sx_env b t)"
  by (rule await.simps)

lemmas sx_run = stmt_simps sx_idle sx_turn sx_verbs set_send_wr_def post_send_def
  server_completion_def Let_def on_mem_def send_request_def zero_send_wr_def sx_await

lemma sx_advertise: "\<exists>t. server_advertise sx_platform sx_env (sx_server 0) = Some (Inr t)"
  by (simp add: server_advertise_def init_class_recv_def init_sketch_rdma_def sx_server_def sx_run)

lemma server_advertises_witness:
  "\<exists>t. server_advertise sx_platform sx_env (sx_server 0) = Some (Inr t) \<and>
     snd (world (mach t)) = [(htobe32 1122, start_advert (sx_server 0)),
       (htobe32 1123, class_advert (sx_server 0)), (htobe32 1124, sketch_advert (sx_server 0))]"
proof -
  obtain t where t: "server_advertise sx_platform sx_env (sx_server 0) = Some (Inr t)"
    using sx_advertise by blast
  from server_advertises [OF sx_contract sx_runs_beside sx_may_advertise _ t] t show ?thesis
    by (auto simp: sx_views) (simp add: sx_server_def)
qed

lemma server_stuck_on_stray_wr_id_witness:
  "\<forall>t. server_advertise sx_platform sx_env (sx_server 7) \<noteq> Some (Inr t)"
  using server_stuck_on_stray_wr_id [OF sx_contract sx_runs_beside sx_may_advertise, of 7] by simp

text \<open>The completion thread handles a pending send in every turn, or the process has ended.\<close>

definition sx_busy_env :: "sx_world server \<Rightarrow> fatal + sx_world server" where
  "sx_busy_env s = (if fst (world (mach s)) \<noteq> [] \<and> cq_pc s \<noteq> Cq_poll then Inl Wrong_cq else sx_env s)"

lemma sx_busy_runs_beside: "runs_beside (server_env_step sx_platform (dev_step sx_device)) sx_busy_env"
  using sx_runs_beside by (auto simp: runs_beside_def sx_busy_env_def split: if_splits)

lemma sx_progress: "sends_progress sx_device sx_busy_env (\<lambda>s. length (fst (world (mach s))))"
proof (unfold sends_progress_def, intro allI impI disjI2)
  fix s t :: "sx_world server"
  assume place: "in_place sx_device (mach s)" and "pending_sends sx_device (mach s) \<noteq> []" and run: "sx_busy_env s = Inr t"
  then obtain w ws msgs where world: "world (mach s) = (w # ws, msgs)" and poll: "cq_pc s = Cq_poll"
    by (cases "world (mach s)"; cases "fst (world (mach s))") (auto simp: sx_views sx_busy_env_def split: if_splits)
  let ?wc = "(wc_at (mach s) (wc_addr s))\<lparr>wc_opcode := IBV_WC_SEND, wc_wr_id := w\<rparr>"
  let ?s = "s\<lparr>mach := (mach s)\<lparr>world := (ws, msgs), wc_at := (wc_at (mach s))(wc_addr s := ?wc)\<rparr>\<rparr>"
  have "sx_env s = (case server_completion ?wc ?s of None \<Rightarrow> Inl Wrong_cq | Some r \<Rightarrow> r)"
    using place by (intro sx_turn) (simp_all add: sx_in_place poll world)
  with run have "server_completion ?wc ?s = Some (Inr t)"
    by (auto simp: sx_busy_env_def poll split: option.splits)
  from server_completion_marks [OF _ this]
  show "length (fst (world (mach t))) < length (fst (world (mach s)))" by (simp add: world)
qed

lemma server_advertise_ends_witness: "server_advertise sx_platform sx_busy_env (sx_server 0) \<noteq> None"
  by (rule server_advertise_ends [OF sx_contract sx_busy_runs_beside sx_progress sx_may_advertise]) simp

end
