(* ===== verification/Regions.thy ===== *)
theory Regions
  imports Client Server Verbs_Laws
begin

section \<open>Registered memory and the requests that use it\<close>

text \<open>
  Both processes register their buffers before they connect, and every scatter/gather entry carries
  the local key of a region.  The device checks that an entry lies in its region; here is what the
  program guarantees of that.
\<close>

subsection \<open>The contract of registration\<close>

text \<open>
  \<open>live w\<close> are the regions of the process: a successful \<open>ibv_reg_mr\<close> returns a new one that has the
  address and length asked for and leaves the others as they are; \<open>malloc\<close> leaves all as they are.
\<close>

definition reg_contract :: "'w platform \<Rightarrow> ('w \<Rightarrow> ptr set) \<Rightarrow> bool" where
  "reg_contract P live \<longleftrightarrow>
     access_optional_range P = optional_range \<and>
     (\<forall>p addr len acc m r m'. lib_reg_mr P p addr len acc m = (r, m') \<longrightarrow> r \<noteq> 0 \<longrightarrow>
        mr_addr (mr_at m' r) = addr \<and> mr_length (mr_at m' r) = len \<and>
        r \<notin> live (world m) \<and> live (world m') = insert r (live (world m)) \<and>
        (\<forall>q \<in> live (world m). mr_at m' q = mr_at m q)) \<and>
     (\<forall>n m r m'. lib_malloc P n m = (r, m') \<longrightarrow> mr_at m' = mr_at m \<and> live (world m') = live (world m))"

definition region :: "('w \<Rightarrow> ptr set) \<Rightarrow> 'w machine \<Rightarrow> ptr \<Rightarrow> ptr \<Rightarrow> u64 \<Rightarrow> bool" where
  "region live m r p n \<longleftrightarrow>
     r \<in> live (world m) \<and> mr_addr (mr_at m r) = p \<and> mr_length (mr_at m r) = n"

text \<open>The entry \<open>g\<close> carries the key of the region \<open>r\<close> and lies in it.\<close>

definition covered :: "'w machine \<Rightarrow> ibv_sge \<Rightarrow> ptr \<Rightarrow> bool" where
  "covered m g r \<longleftrightarrow> sge_lkey g = mr_lkey (mr_at m r) \<and>
     unat (sge_addr g - mr_addr (mr_at m r)) + unat (sge_length g) \<le> unat (mr_length (mr_at m r))"

lemma block_Cons_run:
  "block (c # cs) s = Some (Inr t) \<longleftrightarrow> (\<exists>u. c s = Some (Inr u) \<and> block cs u = Some (Inr t))"
  by (auto simp: block_Cons seq_def split: option.splits sum.splits)

lemma block_Nil_run: "block [] s = Some (Inr t) \<longleftrightarrow> t = s"
  by (auto simp: block_Nil)

lemma no_optional:
  "and (access_flags [IBV_ACCESS_LOCAL_WRITE]) optional_range = 0" "and 0 optional_range = 0"
  "and rw_access optional_range = 0"
  using and_optional_range [of "[IBV_ACCESS_LOCAL_WRITE]"]
    and_optional_range [of "[IBV_ACCESS_LOCAL_WRITE, IBV_ACCESS_REMOTE_READ, IBV_ACCESS_REMOTE_WRITE]"]
  by (simp_all add: access_flags_def rw_access_def)

lemma register_run:
  assumes c: "reg_contract P live" and acc: "and acc optional_range = 0"
    and run: "register P addr len acc store s = Some (Inr t)"
  obtains r m where "t = store r (put_mach m s)" "region live m r (addr s) (len s)"
    "\<And>q p n. region live (mach s) q p n \<Longrightarrow> region live m q p n"
proof -
  obtain r m where reg: "ibv_reg_mr P True (pd s) (addr s) (len s) acc (mach s) = (r, m)" by fastforce
  with run have t: "t = store r (put_mach m s)" and r: "r \<noteq> 0"
    by (auto simp: register_def lib_run block_Cons_run block_Nil_run assign_run exit_if_def
        split: if_splits)
  from reg c acc have "lib_reg_mr P (pd s) (addr s) (len s) (sint acc) (mach s) = (r, m)"
    by (simp add: ibv_reg_mr_def reg_contract_def)
  with c r have eff: "mr_addr (mr_at m r) = addr s \<and> mr_length (mr_at m r) = len s \<and>
      r \<notin> live (world (mach s)) \<and> live (world m) = insert r (live (world (mach s))) \<and>
      (\<forall>q \<in> live (world (mach s)). mr_at m q = mr_at (mach s) q)"
    unfolding reg_contract_def by blast
  show thesis by (rule that [OF t]) (use eff in \<open>auto simp: region_def\<close>)
qed

lemma malloc_run:
  assumes c: "reg_contract P live"
    and run: "ep_lib (\<lambda>s. lib_malloc P n) (\<lambda>r. assign (f r)) s = Some (Inr t)"
  obtains r m where "t = f r (put_mach m s)"
    "\<And>q p n. region live (mach s) q p n \<Longrightarrow> region live m q p n"
proof -
  obtain r m where a: "lib_malloc P n (mach s) = (r, m)" by fastforce
  then have "mr_at m = mr_at (mach s) \<and> live (world m) = live (world (mach s))"
    using c unfolding reg_contract_def by blast
  with run a that show thesis by (auto simp: lib_run assign_run region_def)
qed

lemma region_mach [simp]:
  "region live (m\<lparr>sge_at := x\<rparr>) = region live m" "region live (m\<lparr>send_wr_at := y\<rparr>) = region live m"
  "region live (m\<lparr>recv_wr_at := z\<rparr>) = region live m"
  by (auto simp: region_def fun_eq_iff)

subsection \<open>Registering\<close>

lemma mr_at_set:
  "mr_at (set_sge p f m) = mr_at m" "mr_at (set_send_wr p g m) = mr_at m"
  "mr_at (set_recv_wr p h m) = mr_at m"
  by (simp_all add: set_sge_def set_send_wr_def set_recv_wr_def)

text \<open>The four regions of both processes.\<close>

definition base_regions :: "('w \<Rightarrow> ptr set) \<Rightarrow> ('w, 'z) endpoint_scheme \<Rightarrow> bool" where
  "base_regions live s \<longleftrightarrow>
     region live (mach s) (recv_mr s) (recv_buf_addr s) 16 \<and>
     region live (mach s) (send_mr s) (send_buf_addr s) 16 \<and>
     region live (mach s) (rdma_mr s) (rdma_buf s) (word_of_int (rdma_size s)) \<and>
     region live (mach s) (start_mr s) (start_buf s) (word_of_int (start_size s))"

lemma register_buffers_regions:
  assumes c: "reg_contract P live" and run: "register_buffers P s = Some (Inr t)"
  shows "base_regions live t \<and> class_info t = class_info s \<and> sketch_info t = sketch_info s \<and>
     recv_sgl_addr t = recv_sgl_addr s \<and> send_sgl_addr t = send_sgl_addr s \<and>
     rdma_sgl_addr t = rdma_sgl_addr s \<and> sq_wr_addr t = sq_wr_addr s \<and>
     rdma_sq_wr_addr t = rdma_sq_wr_addr s"
proof -
  from run obtain s1 s2 s3 where
    1: "register P recv_buf_addr (\<lambda>_. of_nat sizeof_rdma_info) (access_flags [IBV_ACCESS_LOCAL_WRITE])
        (\<lambda>r s. s\<lparr>recv_mr := r\<rparr>) s = Some (Inr s1)" and
    2: "register P send_buf_addr (\<lambda>_. of_nat sizeof_rdma_info) 0 (\<lambda>r s. s\<lparr>send_mr := r\<rparr>) s1 = Some (Inr s2 :: fatal + _)" and
    3: "register P rdma_buf (\<lambda>s. word_of_int (rdma_size s)) rw_access (\<lambda>r s. s\<lparr>rdma_mr := r\<rparr>) s2 = Some (Inr s3)" and
    4: "register P start_buf (\<lambda>s. word_of_int (start_size s)) rw_access (\<lambda>r s. s\<lparr>start_mr := r\<rparr>) s3 = Some (Inr t)"
    by (auto simp: register_buffers_def block_Cons_run block_Nil_run)
  obtain r1 m1 where 1: "s1 = (put_mach m1 s)\<lparr>recv_mr := r1\<rparr>" "region live m1 r1 (recv_buf_addr s) (of_nat sizeof_rdma_info)"
    using register_run [OF c no_optional(1) 1] by blast
  obtain r2 m2 where 2: "s2 = (put_mach m2 s1)\<lparr>send_mr := r2\<rparr>" "region live m2 r2 (send_buf_addr s1) (of_nat sizeof_rdma_info)"
    "\<And>q p n. region live (mach s1) q p n \<Longrightarrow> region live m2 q p n"
    using register_run [OF c no_optional(2) 2] by blast
  obtain r3 m3 where 3: "s3 = (put_mach m3 s2)\<lparr>rdma_mr := r3\<rparr>" "region live m3 r3 (rdma_buf s2) (word_of_int (rdma_size s2))"
    "\<And>q p n. region live (mach s2) q p n \<Longrightarrow> region live m3 q p n"
    using register_run [OF c no_optional(3) 3] by blast
  obtain r4 m4 where 4: "t = (put_mach m4 s3)\<lparr>start_mr := r4\<rparr>" "region live m4 r4 (start_buf s3) (word_of_int (start_size s3))"
    "\<And>q p n. region live (mach s3) q p n \<Longrightarrow> region live m4 q p n"
    using register_run [OF c no_optional(3) 4] by blast
  show ?thesis
    using 1 2 3 4 by (simp add: base_regions_def put_mach_def sizeof_rdma_info_def)
qed

text \<open>The regions of the sketch and the class on each side.\<close>

definition sketch_region :: "('w \<Rightarrow> ptr set) \<Rightarrow> ('w, 'z) endpoint_scheme \<Rightarrow> bool" where
  "sketch_region live s \<longleftrightarrow> region live (mach s) (sketch_mr (sketch_info s)) (sk_data_buf (sketch_info s))
     (word_of_int (sk_data_size (sketch_info s) * 4))"

definition client_regions :: "('w \<Rightarrow> ptr set) \<Rightarrow> ('w, 'z) endpoint_scheme \<Rightarrow> bool" where
  "client_regions live s \<longleftrightarrow> base_regions live s \<and> sketch_region live s \<and>
     region live (mach s) (test_class_mr (class_info s)) (class_recv_data (class_info s)) 1000 \<and>
     region live (mach s) (class_buf_mr (class_info s)) (class_recv_buf (class_info s)) 4000"

definition server_regions :: "('w \<Rightarrow> ptr set) \<Rightarrow> ('w, 'z) endpoint_scheme \<Rightarrow> bool" where
  "server_regions live s \<longleftrightarrow> base_regions live s \<and> sketch_region live s \<and>
     region live (mach s) (class_send_mr (class_info s)) (class_send_buf (class_info s)) 20032"

lemmas regions_defs = client_regions_def server_regions_def base_regions_def sketch_region_def

text \<open>The three entries that \<open>setup_buffer\<close> fills, and the requests that carry them.\<close>

definition entries_ready :: "ibv_wr_opcode \<Rightarrow> ('w, 'z) endpoint_scheme \<Rightarrow> bool" where
  "entries_ready op s \<longleftrightarrow>
     (let m = mach s; rw = recv_wr_at m (rq_wr_addr s); sw = send_wr_at m (sq_wr_addr s);
          dw = send_wr_at m (rdma_sq_wr_addr s);
          rg = sge_at m (recv_wr_sg_list rw); sg = sge_at m (send_wr_sg_list sw) in
      recv_wr_num_sge rw = 1 \<and> sge_addr rg = recv_buf_addr s \<and> sge_length rg = 16 \<and> covered m rg (recv_mr s) \<and>
      send_wr_num_sge sw = 1 \<and> sge_addr sg = send_buf_addr s \<and> sge_length sg = 16 \<and> covered m sg (send_mr s) \<and>
      send_wr_opcode sw = op \<and> send_wr_send_flags sw = SIGNALED \<and>
      send_wr_num_sge dw = 1 \<and> send_wr_sg_list dw = rdma_sgl_addr s \<and> send_wr_send_flags dw = SIGNALED)"

lemma prepare_requests_run:
  assumes "prepare_requests op s = Some (Inr t)"
  obtains "t = put_mach (mach t) s" "mr_at (mach t) = mr_at (mach s)" "world (mach t) = world (mach s)"
    "sge_at (mach t) = (sge_at (mach s))
      (recv_sgl_addr s := \<lparr>sge_addr = recv_buf_addr s, sge_length = 16, sge_lkey = mr_lkey (mr_at (mach s) (recv_mr s))\<rparr>,
       send_sgl_addr s := \<lparr>sge_addr = send_buf_addr s, sge_length = 16, sge_lkey = mr_lkey (mr_at (mach s) (send_mr s))\<rparr>,
       rdma_sgl_addr s := sge_at (mach t) (rdma_sgl_addr s))"
    "recv_wr_sg_list (recv_wr_at (mach t) (rq_wr_addr s)) = recv_sgl_addr s"
    "recv_wr_num_sge (recv_wr_at (mach t) (rq_wr_addr s)) = 1"
    "send_wr_at (mach t) = (send_wr_at (mach s))
      (sq_wr_addr s := (send_wr_at (mach s) (sq_wr_addr s))\<lparr>send_wr_num_sge := 1,
          send_wr_sg_list := send_sgl_addr s, send_wr_send_flags := SIGNALED, send_wr_opcode := op\<rparr>,
       rdma_sq_wr_addr s := send_wr_at (mach t) (rdma_sq_wr_addr s))"
    "send_wr_num_sge (send_wr_at (mach t) (rdma_sq_wr_addr s)) = 1"
    "send_wr_sg_list (send_wr_at (mach t) (rdma_sq_wr_addr s)) = rdma_sgl_addr s"
    "send_wr_send_flags (send_wr_at (mach t) (rdma_sq_wr_addr s)) = SIGNALED"
proof -
  have sge: "g\<lparr>sge_addr := a, sge_length := n, sge_lkey := k\<rparr> = \<lparr>sge_addr = a, sge_length = n, sge_lkey = k\<rparr>"
    for g a n k by (cases g) simp
  let ?m1 = "set_sge (recv_sgl_addr s) (\<lambda>g. g\<lparr>sge_addr := recv_buf_addr s,
          sge_length := 16, sge_lkey := mr_lkey (mr_at (mach s) (recv_mr s))\<rparr>) (mach s)"
  let ?m2 = "set_recv_wr (rq_wr_addr s) (\<lambda>w. w\<lparr>recv_wr_num_sge := 1, recv_wr_sg_list := recv_sgl_addr s\<rparr>) ?m1"
  let ?m3 = "set_sge (send_sgl_addr s) (\<lambda>g. g\<lparr>sge_addr := send_buf_addr s,
          sge_length := 16, sge_lkey := mr_lkey (mr_at (mach s) (send_mr s))\<rparr>) ?m2"
  let ?m4 = "set_send_wr (sq_wr_addr s) (\<lambda>w. w\<lparr>send_wr_num_sge := 1,
          send_wr_sg_list := send_sgl_addr s, send_wr_send_flags := SIGNALED, send_wr_opcode := op\<rparr>) ?m3"
  let ?m5 = "set_sge (rdma_sgl_addr s) (\<lambda>g. g\<lparr>sge_addr := rdma_buf s,
          sge_lkey := mr_lkey (mr_at (mach s) (rdma_mr s))\<rparr>) ?m4"
  let ?m6 = "set_send_wr (rdma_sq_wr_addr s) (\<lambda>w. w\<lparr>send_wr_num_sge := 1,
          send_wr_sg_list := rdma_sgl_addr s, send_wr_send_flags := SIGNALED\<rparr>) ?m5"
  have t: "t = put_mach ?m6 s"
    using assms
    by (simp add: prepare_requests_def block_Cons_run block_Nil_run on_mach_def sizeof_rdma_info_def
        put_mach_def mr_at_set)
  then have m: "mach t = ?m6" by (simp add: put_mach_def)
  show thesis
    by (rule that, unfold m, rule t)
      (simp_all add: set_sge_def set_send_wr_def set_recv_wr_def sge)
qed

lemma prepare_requests_entries:
  assumes run: "prepare_requests op s = Some (Inr t)" and b: "base_regions live s"
    and d: "distinct [recv_sgl_addr s, send_sgl_addr s, rdma_sgl_addr s]" "sq_wr_addr s \<noteq> rdma_sq_wr_addr s"
  shows "entries_ready op t"
  using run
proof (rule prepare_requests_run, goal_cases)
  case 1
  obtain m where t: "t = put_mach m s" using 1(1) by blast
  have d: "send_sgl_addr s \<noteq> recv_sgl_addr s" "rdma_sgl_addr s \<noteq> recv_sgl_addr s"
    "recv_sgl_addr s \<noteq> rdma_sgl_addr s" "send_sgl_addr s \<noteq> rdma_sgl_addr s" "recv_sgl_addr s \<noteq> send_sgl_addr s"
    using d(1) by auto
  have r: "sge_at m (recv_sgl_addr s) = \<lparr>sge_addr = recv_buf_addr s, sge_length = 16, sge_lkey = mr_lkey (mr_at (mach s) (recv_mr s))\<rparr>"
    "sge_at m (send_sgl_addr s) = \<lparr>sge_addr = send_buf_addr s, sge_length = 16, sge_lkey = mr_lkey (mr_at (mach s) (send_mr s))\<rparr>"
    using fun_cong [OF 1(4), of "recv_sgl_addr s"] fun_cong [OF 1(4), of "send_sgl_addr s"] d
    by (simp_all add: t put_mach_def)
  have w: "send_wr_at m (sq_wr_addr s) = (send_wr_at (mach s) (sq_wr_addr s))\<lparr>send_wr_num_sge := 1,
          send_wr_sg_list := send_sgl_addr s, send_wr_send_flags := SIGNALED, send_wr_opcode := op\<rparr>"
    using fun_cong [OF 1(7), of "sq_wr_addr s"] assms(4) by (simp add: t put_mach_def)
  show ?case
    using 1(2,3,5,6,8-) b
    by (simp add: t put_mach_def entries_ready_def Let_def r w covered_def base_regions_def region_def)
qed

lemma client_setup_buffer_run:
  assumes "reg_contract P live" and "client_setup_buffer P s = Some (Inr t)"
  obtains u where "client_regions live u" "prepare_requests IBV_WR_SEND u = Some (Inr t)"
    "recv_sgl_addr u = recv_sgl_addr s" "send_sgl_addr u = send_sgl_addr s" "rdma_sgl_addr u = rdma_sgl_addr s"
    "sq_wr_addr u = sq_wr_addr s" "rdma_sq_wr_addr u = rdma_sq_wr_addr s"
proof -
  note c = assms(1)
  from assms(2) obtain s1 s2 s3 s4 s5 s6 where
    1: "register_buffers P s = Some (Inr s1)" and
    2: "ep_lib (\<lambda>s. lib_malloc P 1000)
        (\<lambda>r. assign (\<lambda>s. s\<lparr>class_info := (class_info s)\<lparr>class_recv_data := r\<rparr>\<rparr>)) s1 = Some (Inr s2 :: fatal + _)" and
    3: "ep_lib (\<lambda>s. lib_malloc P (1000 * 4))
        (\<lambda>r. assign (\<lambda>s. s\<lparr>class_info := (class_info s)\<lparr>class_recv_buf := r\<rparr>\<rparr>)) s2 = Some (Inr s3 :: fatal + _)" and
    4: "register P (\<lambda>s. class_recv_data (class_info s)) (\<lambda>_. 1000) rw_access
        (\<lambda>r s. s\<lparr>class_info := (class_info s)\<lparr>test_class_mr := r\<rparr>\<rparr>) s3 = Some (Inr s4)" and
    5: "register P (\<lambda>s. class_recv_buf (class_info s)) (\<lambda>_. 1000 * 4) rw_access
        (\<lambda>r s. s\<lparr>class_info := (class_info s)\<lparr>class_buf_mr := r\<rparr>\<rparr>) s4 = Some (Inr s5)" and
    6: "register P (\<lambda>s. sk_data_buf (sketch_info s))
        (\<lambda>s. word_of_int (sk_data_size (sketch_info s) * 4)) rw_access
        (\<lambda>r s. s\<lparr>sketch_info := (sketch_info s)\<lparr>sketch_mr := r\<rparr>\<rparr>) s5 = Some (Inr s6)" and
    7: "prepare_requests IBV_WR_SEND s6 = Some (Inr t)"
    unfolding client_setup_buffer_def block_Cons_run block_Nil_run by blast
  have b1: "base_regions live s1" using register_buffers_regions [OF c 1] by simp
  have a1: "recv_sgl_addr s1 = recv_sgl_addr s \<and> send_sgl_addr s1 = send_sgl_addr s \<and>
      rdma_sgl_addr s1 = rdma_sgl_addr s \<and> sq_wr_addr s1 = sq_wr_addr s \<and> rdma_sq_wr_addr s1 = rdma_sq_wr_addr s"
    using register_buffers_regions [OF c 1] by simp
  obtain r2 m2 where 2: "s2 = (\<lambda>s. s\<lparr>class_info := (class_info s)\<lparr>class_recv_data := r2\<rparr>\<rparr>) (put_mach m2 s1)"
    "\<And>q p n. region live (mach s1) q p n \<Longrightarrow> region live m2 q p n"
    using malloc_run [OF c 2] by metis
  obtain r3 m3 where 3: "s3 = (\<lambda>s. s\<lparr>class_info := (class_info s)\<lparr>class_recv_buf := r3\<rparr>\<rparr>) (put_mach m3 s2)"
    "\<And>q p n. region live (mach s2) q p n \<Longrightarrow> region live m3 q p n"
    using malloc_run [OF c 3] by metis
  note run = register_run [OF c no_optional(3)]
  obtain r4 m4 where 4: "s4 = (put_mach m4 s3)\<lparr>class_info := (class_info s3)\<lparr>test_class_mr := r4\<rparr>\<rparr>"
    "region live m4 r4 (class_recv_data (class_info s3)) 1000"
    "\<And>q p n. region live (mach s3) q p n \<Longrightarrow> region live m4 q p n"
    using run [OF 4] by (auto simp: put_mach_def)
  obtain r5 m5 where 5: "s5 = (put_mach m5 s4)\<lparr>class_info := (class_info s4)\<lparr>class_buf_mr := r5\<rparr>\<rparr>"
    "region live m5 r5 (class_recv_buf (class_info s4)) 4000"
    "\<And>q p n. region live (mach s4) q p n \<Longrightarrow> region live m5 q p n"
    using run [OF 5] by (auto simp: put_mach_def)
  obtain r6 m6 where 6: "s6 = (put_mach m6 s5)\<lparr>sketch_info := (sketch_info s5)\<lparr>sketch_mr := r6\<rparr>\<rparr>"
    "region live m6 r6 (sk_data_buf (sketch_info s5)) (word_of_int (sk_data_size (sketch_info s5) * 4))"
    "\<And>q p n. region live (mach s5) q p n \<Longrightarrow> region live m6 q p n"
    using run [OF 6] by (auto simp: put_mach_def)
  have s6: "client_regions live s6"
    using b1 2 3 4 5 6 by (simp add: regions_defs put_mach_def)
  show thesis
    by (rule that [OF s6 7]) (use a1 2(1) 3(1) 4(1) 5(1) 6(1) in \<open>simp_all add: put_mach_def\<close>)
qed

lemma client_setup_buffer_regions:
  assumes "reg_contract P live"
    and "distinct [recv_sgl_addr s, send_sgl_addr s, rdma_sgl_addr s]" and "sq_wr_addr s \<noteq> rdma_sq_wr_addr s"
    and "client_setup_buffer P s = Some (Inr t)"
  shows "client_regions live t \<and> entries_ready IBV_WR_SEND t"
proof -
  obtain u where u: "client_regions live u" and run: "prepare_requests IBV_WR_SEND u = Some (Inr t)"
    and a: "recv_sgl_addr u = recv_sgl_addr s" "send_sgl_addr u = send_sgl_addr s" "rdma_sgl_addr u = rdma_sgl_addr s"
    "sq_wr_addr u = sq_wr_addr s" "rdma_sq_wr_addr u = rdma_sq_wr_addr s"
    using client_setup_buffer_run [OF assms(1,4)] .
  have "entries_ready IBV_WR_SEND t"
    by (rule prepare_requests_entries [OF run, of live]) (use u assms(2,3) in \<open>simp_all add: client_regions_def a\<close>)
  moreover obtain m where "t = put_mach m u" "mr_at m = mr_at (mach u)" "world m = world (mach u)"
    using run by (rule prepare_requests_run)
  ultimately show ?thesis
    using u by (simp add: regions_defs region_def put_mach_def)
qed

text \<open>
  C27: \<open>setup_buffer\<close> of the client: when it returns, its seven buffers are registered regions with the
  lengths asked for, the receive and the send request each carry one entry of 16 bytes that lies in
  the region whose key it has, and the send request asks for a completion.
\<close>

theorem client_setup_buffer_registers:
  assumes "reg_contract P live"
    and "distinct [recv_sgl_addr s, send_sgl_addr s, rdma_sgl_addr s]" and "sq_wr_addr s \<noteq> rdma_sq_wr_addr s"
    and "client_setup_buffer P s = Some (Inr t)"
  shows "client_regions live t \<and> entries_ready IBV_WR_SEND t"
  using assms by (rule client_setup_buffer_regions)

lemma server_setup_buffer_run:
  assumes "reg_contract P live" and "server_setup_buffer P s = Some (Inr t)"
  obtains u where "server_regions live u" "prepare_requests IBV_WR_SEND_WITH_IMM u = Some (Inr t)"
    "recv_sgl_addr u = recv_sgl_addr s" "send_sgl_addr u = send_sgl_addr s" "rdma_sgl_addr u = rdma_sgl_addr s"
    "sq_wr_addr u = sq_wr_addr s" "rdma_sq_wr_addr u = rdma_sq_wr_addr s"
proof -
  note c = assms(1)
  from assms(2) obtain s1 s2 s3 s4 where
    1: "register_buffers P s = Some (Inr s1)" and
    2: "ep_lib (\<lambda>s. lib_malloc P class_send_size)
        (\<lambda>r. assign (\<lambda>s. s\<lparr>class_info := (class_info s)\<lparr>class_send_buf := r\<rparr>\<rparr>)) s1 = Some (Inr s2 :: fatal + _)" and
    3: "register P (\<lambda>s. class_send_buf (class_info s)) (\<lambda>_. of_nat class_send_size) rw_access
        (\<lambda>r s. s\<lparr>class_info := (class_info s)\<lparr>class_send_mr := r\<rparr>\<rparr>) s2 = Some (Inr s3)" and
    4: "register P (\<lambda>s. sk_data_buf (sketch_info s))
        (\<lambda>s. word_of_int (sk_data_size (sketch_info s) * 4)) rw_access
        (\<lambda>r s. s\<lparr>sketch_info := (sketch_info s)\<lparr>sketch_mr := r\<rparr>\<rparr>) s3 = Some (Inr s4)" and
    5: "prepare_requests IBV_WR_SEND_WITH_IMM s4 = Some (Inr t)"
    unfolding server_setup_buffer_def block_Cons_run block_Nil_run by blast
  have b1: "base_regions live s1" using register_buffers_regions [OF c 1] by simp
  have a1: "recv_sgl_addr s1 = recv_sgl_addr s \<and> send_sgl_addr s1 = send_sgl_addr s \<and>
      rdma_sgl_addr s1 = rdma_sgl_addr s \<and> sq_wr_addr s1 = sq_wr_addr s \<and> rdma_sq_wr_addr s1 = rdma_sq_wr_addr s"
    using register_buffers_regions [OF c 1] by simp
  obtain r2 m2 where 2: "s2 = (\<lambda>s. s\<lparr>class_info := (class_info s)\<lparr>class_send_buf := r2\<rparr>\<rparr>) (put_mach m2 s1)"
    "\<And>q p n. region live (mach s1) q p n \<Longrightarrow> region live m2 q p n"
    using malloc_run [OF c 2] by metis
  note run = register_run [OF c no_optional(3)]
  obtain r3 m3 where 3: "s3 = (put_mach m3 s2)\<lparr>class_info := (class_info s2)\<lparr>class_send_mr := r3\<rparr>\<rparr>"
    "region live m3 r3 (class_send_buf (class_info s2)) 20032"
    "\<And>q p n. region live (mach s2) q p n \<Longrightarrow> region live m3 q p n"
    using run [OF 3] by (auto simp: put_mach_def class_send_size_def sizeof_rdma_test_def)
  obtain r4 m4 where 4: "s4 = (put_mach m4 s3)\<lparr>sketch_info := (sketch_info s3)\<lparr>sketch_mr := r4\<rparr>\<rparr>"
    "region live m4 r4 (sk_data_buf (sketch_info s3)) (word_of_int (sk_data_size (sketch_info s3) * 4))"
    "\<And>q p n. region live (mach s3) q p n \<Longrightarrow> region live m4 q p n"
    using run [OF 4] by (auto simp: put_mach_def)
  have s4: "server_regions live s4"
    using b1 2 3 4 by (simp add: regions_defs put_mach_def)
  show thesis
    by (rule that [OF s4 5]) (use a1 2(1) 3(1) 4(1) in \<open>simp_all add: put_mach_def\<close>)
qed

text \<open>
  C28: \<open>setup_buffer\<close> of the server: when it returns, its six buffers are registered regions, among them
  the 20032 bytes for the object and its array, and the receive and the send request carry their
  entries.
\<close>

theorem server_setup_buffer_registers:
  assumes "reg_contract P live"
    and "distinct [recv_sgl_addr s, send_sgl_addr s, rdma_sgl_addr s]" and "sq_wr_addr s \<noteq> rdma_sq_wr_addr s"
    and "server_setup_buffer P s = Some (Inr t)"
  shows "server_regions live t \<and> entries_ready IBV_WR_SEND_WITH_IMM t"
proof -
  obtain u where u: "server_regions live u" and run: "prepare_requests IBV_WR_SEND_WITH_IMM u = Some (Inr t)"
    and a: "recv_sgl_addr u = recv_sgl_addr s" "send_sgl_addr u = send_sgl_addr s" "rdma_sgl_addr u = rdma_sgl_addr s"
    "sq_wr_addr u = sq_wr_addr s" "rdma_sq_wr_addr u = rdma_sq_wr_addr s"
    using server_setup_buffer_run [OF assms(1,4)] .
  have "entries_ready IBV_WR_SEND_WITH_IMM t"
    by (rule prepare_requests_entries [OF run, of live]) (use u assms(2,3) in \<open>simp_all add: server_regions_def a\<close>)
  moreover obtain m where "t = put_mach m u" "mr_at m = mr_at (mach u)" "world m = world (mach u)"
    using run by (rule prepare_requests_run)
  ultimately show ?thesis
    using u by (simp add: regions_defs region_def put_mach_def)
qed

subsection \<open>The one-sided requests\<close>

text \<open>
  What a READ or WRITE request asks the device for: the entries, in order, and the range of the
  peer's memory that they cover together.
\<close>

definition local_ranges :: "'w machine \<Rightarrow> ptr \<Rightarrow> ibv_sge list" where
  "local_ranges m wr = map (\<lambda>k. sge_at m (send_wr_sg_list (send_wr_at m wr) + 16 * of_nat k))
     [0..<nat (send_wr_num_sge (send_wr_at m wr))]"

lemma unat_word_of_int64: "0 \<le> x \<Longrightarrow> x < 2 ^ 64 \<Longrightarrow> unat (word_of_int x :: u64) = nat x"
  by (simp add: unat_eq_nat_uint uint_word_of_int)

definition remote_length :: "'w machine \<Rightarrow> ptr \<Rightarrow> nat" where
  "remote_length m wr = sum_list (map (\<lambda>g. unat (sge_length g)) (local_ranges m wr))"

text \<open>
  The READ of \<open>read_class\<close>, on registered buffers: two entries, the first of the 32 bytes of the
  object in \<open>class_recv_data\<close>, the second of 400 bytes in \<open>class_recv_buf\<close>, both within the region
  whose key they carry; together 432 bytes from the advertised address on, whatever length was
  advertised.
\<close>

lemma class_request_covered:
  assumes "client_regions live (s :: 'w client)" and "class_request s = Some (Inr t)"
  shows "let w = test_class_wr_addr (class_info s); rs = local_ranges (mach t) w in
    map sge_addr rs = [class_recv_data (class_info s), class_recv_buf (class_info s)] \<and>
    map sge_length rs = [32, 400] \<and>
    list_all2 (covered (mach t)) rs [test_class_mr (class_info s), class_buf_mr (class_info s)] \<and>
    remote_length (mach t) w = 432 \<and> send_wr_opcode (send_wr_at (mach t) w) = IBV_WR_RDMA_READ \<and>
    send_wr_wr (send_wr_at (mach t) w) = Wr_rdma (tc_remote_addr (class_info s)) (tc_remote_rkey (class_info s))"
  using assms
  by (auto simp: class_request_def block_Cons_run block_Nil_run on_mach_def set_sge_def set_send_wr_def
      local_ranges_def remote_length_def covered_def client_regions_def region_def Let_def
      sizeof_rdma_test_def upt_rec)

text \<open>
  The READ of element \<open>i\<close> of the sketch, on registered buffers: for every index that \<open>ow_read\<close> uses
  the four bytes at \<open>4 * i\<close> lie in the region of the sketch.
\<close>

lemma sketch_request_covered:
  assumes "client_regions live (s :: 'w client)" and "sketch_request i s = Some (Inr t)"
    and "i < nat (sk_data_size (sketch_info s))" and "sk_data_size (sketch_info s) < 2 ^ 31"
  shows "let w = sketch_wr_addr (sketch_info s); rs = local_ranges (mach t) w in
    map sge_addr rs = [sk_data_buf (sketch_info s) + 4 * of_nat i] \<and>
    list_all2 (covered (mach t)) rs [sketch_mr (sketch_info s)] \<and> remote_length (mach t) w = 4 \<and>
    send_wr_opcode (send_wr_at (mach t) w) = IBV_WR_RDMA_READ \<and>
    send_wr_wr (send_wr_at (mach t) w) =
      Wr_rdma (sk_remote_addr (sketch_info s) + 4 * of_nat i) (sk_remote_rkey (sketch_info s))"
proof -
  have len: "unat (word_of_int (sk_data_size (sketch_info s) * 4) :: u64) = nat (sk_data_size (sketch_info s)) * 4"
    using assms(3,4) by (subst unat_word_of_int64) (auto simp: nat_mult_distrib)
  have "unat (of_nat (4 * i) :: u64) = 4 * i"
    using assms(3,4) by (intro unat_of_nat_small) auto
  then have off: "unat (4 * of_nat i :: u64) = 4 * i" by simp
  show ?thesis
    using assms len off
    by (auto simp: sketch_request_def block_Cons_run block_Nil_run on_mach_def set_sge_def set_send_wr_def
      local_ranges_def remote_length_def covered_def client_regions_def sketch_region_def region_def Let_def
      mult.commute)
qed

lemma rdma_request_run:
  assumes "rdma_request op s = Some (Inr t)"
  obtains "t = put_mach (mach t) s" "mr_at (mach t) = mr_at (mach s)" "world (mach t) = world (mach s)"
    "local_ranges (mach t) (rdma_sq_wr_addr s) = [\<lparr>sge_addr = rdma_buf s, sge_length = remote_len s,
      sge_lkey = mr_lkey (mr_at (mach s) (rdma_mr s))\<rparr>]"
    "send_wr_opcode (send_wr_at (mach t) (rdma_sq_wr_addr s)) = op"
    "send_wr_wr (send_wr_at (mach t) (rdma_sq_wr_addr s)) = Wr_rdma (remote_addr s) (remote_rkey s)"
proof -
  let ?m1 = "set_send_wr (rdma_sq_wr_addr s) (\<lambda>w. w\<lparr>send_wr_opcode := op,
      send_wr_wr := Wr_rdma (remote_addr s) (remote_rkey s)\<rparr>) (mach s)"
  let ?m2 = "set_sge (rdma_sgl_addr s) (\<lambda>g. g\<lparr>sge_addr := rdma_buf s,
      sge_lkey := mr_lkey (mr_at (mach s) (rdma_mr s)), sge_length := remote_len s\<rparr>) ?m1"
  let ?m = "set_send_wr (rdma_sq_wr_addr s) (\<lambda>w. w\<lparr>send_wr_num_sge := 1,
      send_wr_sg_list := rdma_sgl_addr s\<rparr>) ?m2"
  have t: "t = put_mach ?m s"
    using assms
    by (simp add: rdma_request_def block_Cons_run block_Nil_run on_mach_def put_mach_def mr_at_set)
  then have m: "mach t = ?m" by (simp add: put_mach_def)
  have w: "send_wr_num_sge (send_wr_at (mach t) (rdma_sq_wr_addr s)) = 1"
    "send_wr_sg_list (send_wr_at (mach t) (rdma_sq_wr_addr s)) = rdma_sgl_addr s"
    "send_wr_opcode (send_wr_at (mach t) (rdma_sq_wr_addr s)) = op"
    "send_wr_wr (send_wr_at (mach t) (rdma_sq_wr_addr s)) = Wr_rdma (remote_addr s) (remote_rkey s)"
    unfolding m by (simp_all add: set_send_wr_def set_sge_def)
  have g: "sge_at (mach t) (rdma_sgl_addr s) = \<lparr>sge_addr = rdma_buf s, sge_length = remote_len s,
      sge_lkey = mr_lkey (mr_at (mach s) (rdma_mr s))\<rparr>" "mr_at (mach t) = mr_at (mach s)"
    "world (mach t) = world (mach s)"
    unfolding m by (simp_all add: mr_at_set set_send_wr_def set_sge_def)
  show thesis
    by (rule that) (use t m w g in \<open>simp_all add: local_ranges_def\<close>)
qed

text \<open>
  C31: The READ or WRITE of the whole advertised buffer: its entry starts at \<open>rdma_buf\<close> and lies in the
  registered region exactly when the length that the peer advertised is at most \<open>rdma_size\<close>; the
  program does not compare the two.
\<close>

theorem rdma_request_covered_iff:
  assumes "base_regions live s" and "rdma_request op s = Some (Inr t)"
    and "0 \<le> rdma_size s" and "rdma_size s < 2 ^ 31"
  shows "let w = rdma_sq_wr_addr s; rs = local_ranges (mach t) w in
    map sge_addr rs = [rdma_buf s] \<and> remote_length (mach t) w = unat (remote_len s) \<and>
    (list_all2 (covered (mach t)) rs [rdma_mr s] \<longleftrightarrow> uint (remote_len s) \<le> rdma_size s) \<and>
    send_wr_opcode (send_wr_at (mach t) w) = op \<and>
    send_wr_wr (send_wr_at (mach t) w) = Wr_rdma (remote_addr s) (remote_rkey s)"
proof -
  have len: "unat (word_of_int (rdma_size s) :: u64) = nat (rdma_size s)"
    using assms(3,4) by (simp add: unat_word_of_int64)
  have mr: "mr_addr (mr_at (mach s) (rdma_mr s)) = rdma_buf s"
    "unat (mr_length (mr_at (mach s) (rdma_mr s))) = nat (rdma_size s)"
    using assms(1) len by (simp_all add: base_regions_def region_def)
  have le: "unat (remote_len s) \<le> nat (rdma_size s) \<longleftrightarrow> uint (remote_len s) \<le> rdma_size s"
    using assms(3) by (simp add: le_nat_iff)
  show ?thesis
    using assms(2) by (rule rdma_request_run) (simp add: remote_length_def covered_def Let_def mr le)
qed

end
