(* ===== verification/Regions_Example.thy ===== *)
theory Regions_Example
  imports Regions Platform_Example
begin

section \<open>A provider that registers\<close>

text \<open>
  A concrete provider for applying the properties of \<open>Regions\<close>: the world is the number of regions,
  the next one has the next pointer and key, and after 100 registrations the provider refuses.
\<close>

definition rx_reg :: "ptr \<Rightarrow> u64 \<Rightarrow> (nat, ptr) lib" where
  "rx_reg addr len m =
     (if world m < 100
      then (of_nat (Suc (world m)), m\<lparr>world := Suc (world m), mr_at := (mr_at m)
        (of_nat (Suc (world m)) := (mr_at m 0)\<lparr>mr_addr := addr, mr_length := len, mr_lkey := of_nat (world m)\<rparr>)\<rparr>)
      else (0, m))"

definition rx_live :: "nat \<Rightarrow> ptr set" where
  "rx_live n = {of_nat k |k. 0 < k \<and> k \<le> n \<and> k \<le> 100}"

definition rx_platform :: "nat platform" where
  "rx_platform = quiet_platform\<lparr>lib_reg_mr := \<lambda>pd addr len acc. rx_reg addr len\<rparr>"

lemma rx_small: "k \<le> 100 \<Longrightarrow> l \<le> 100 \<Longrightarrow> (of_nat k :: ptr) = of_nat l \<longleftrightarrow> k = l"
proof -
  assume "k \<le> 100" "l \<le> 100"
  then have "unat (of_nat k :: ptr) = k" "unat (of_nat l :: ptr) = l"
    by (simp_all add: unat_of_nat_small)
  then show ?thesis by metis
qed

lemma rx_contract: "reg_contract rx_platform rx_live"
proof -
  have "access_optional_range rx_platform = optional_range"
    by (simp add: rx_platform_def optional_range_value)
  moreover have "rx_live (Suc n) = insert (of_nat (Suc n)) (rx_live n)" "of_nat (Suc n) \<notin> rx_live n"
    if "n < 100" for n
    using that by (auto simp: rx_live_def le_Suc_eq rx_small simp del: of_nat_Suc)
  ultimately show ?thesis
    unfolding reg_contract_def
    by (auto simp: rx_platform_def rx_reg_def simp del: of_nat_Suc split: if_splits)
qed

definition rx_machine :: "nat machine" where
  "rx_machine = undefined\<lparr>world := 0, mr_at := \<lambda>_. undefined\<rparr>"

definition rx_client :: "nat client" where
  "rx_client = undefined\<lparr>mach := rx_machine, recv_buf_addr := 0x1000, send_buf_addr := 0x1010,
     rdma_buf := 0x2000, rdma_size := 1000, start_buf := 0x2400, start_size := 1000,
     recv_sgl_addr := 0x3000, send_sgl_addr := 0x3010, rdma_sgl_addr := 0x3020,
     sq_wr_addr := 0x3100, rdma_sq_wr_addr := 0x3180, remote_len := 1000,
     sketch_info := undefined\<lparr>sk_data_size := 1000, sk_data_buf := 0x5000\<rparr>\<rparr>"

definition rx_server :: "nat server" where
  "rx_server = undefined\<lparr>mach := rx_machine, recv_buf_addr := 0x1000, send_buf_addr := 0x1010,
     rdma_buf := 0x2000, rdma_size := 1000, start_buf := 0x2400, start_size := 1000,
     recv_sgl_addr := 0x3000, send_sgl_addr := 0x3010, rdma_sgl_addr := 0x3020,
     sq_wr_addr := 0x3100, rdma_sq_wr_addr := 0x3180,
     sketch_info := undefined\<lparr>sk_data_size := 1000, sk_data_buf := 0x5000\<rparr>\<rparr>"

lemma rx_registers:
  "and acc optional_range = 0 \<Longrightarrow> ibv_reg_mr rx_platform True p addr len acc m = rx_reg addr len m"
  "lib_malloc rx_platform n m = (4096, m)"
  by (simp_all add: ibv_reg_mr_def rx_platform_def optional_range_value)

lemmas rx_run = rx_registers rx_reg_def no_optional register_def register_buffers_def lib_run block_Cons_run
  block_Cons block_Nil seq_def exit_if_def assign_run put_mach_def

lemma rx_client_setup: "\<exists>t. client_setup_buffer rx_platform rx_client = Some (Inr t)"
  by (simp add: client_setup_buffer_def rx_run prepare_requests_def on_mach_def rx_client_def rx_machine_def)

lemma rx_server_setup: "\<exists>t. server_setup_buffer rx_platform rx_server = Some (Inr t)"
  by (simp add: server_setup_buffer_def rx_run prepare_requests_def on_mach_def rx_server_def rx_machine_def)

lemma client_setup_buffer_registers_witness:
  "\<exists>t. client_setup_buffer rx_platform rx_client = Some (Inr t) \<and> client_regions rx_live t \<and>
     entries_ready IBV_WR_SEND t"
proof -
  obtain t where t: "client_setup_buffer rx_platform rx_client = Some (Inr t)"
    using rx_client_setup by blast
  with client_setup_buffer_registers [OF rx_contract _ _ t] show ?thesis by (simp add: rx_client_def)
qed

lemma server_setup_buffer_registers_witness:
  "\<exists>t. server_setup_buffer rx_platform rx_server = Some (Inr t) \<and> server_regions rx_live t \<and>
     entries_ready IBV_WR_SEND_WITH_IMM t"
proof -
  obtain t where t: "server_setup_buffer rx_platform rx_server = Some (Inr t)"
    using rx_server_setup by blast
  with server_setup_buffer_registers [OF rx_contract _ _ t] show ?thesis by (simp add: rx_server_def)
qed

text \<open>A client with its seven regions, the pointers 1 to 7.\<close>

definition rx_mr :: "ptr \<Rightarrow> u64 \<Rightarrow> ibv_mr" where
  "rx_mr p n = undefined\<lparr>mr_addr := p, mr_length := n, mr_lkey := 9\<rparr>"

definition rx_ready :: "nat client" where
  "rx_ready = rx_client\<lparr>mach := rx_machine\<lparr>world := 7, mr_at := (\<lambda>_. undefined)
       (1 := rx_mr 0x1000 16, 2 := rx_mr 0x1010 16, 3 := rx_mr 0x2000 1000, 4 := rx_mr 0x2400 1000,
        5 := rx_mr 0x4000 1000, 6 := rx_mr 0x4400 4000, 7 := rx_mr 0x5000 4000)\<rparr>,
     recv_mr := 1, send_mr := 2, rdma_mr := 3, start_mr := 4,
     class_info := undefined\<lparr>test_class_mr := 5, class_buf_mr := 6, class_recv_data := 0x4000,
       class_recv_buf := 0x4400, test_sgl := 0x6000\<rparr>,
     sketch_info := (sketch_info rx_client)\<lparr>sketch_mr := 7\<rparr>\<rparr>"

lemma rx_live_7: "of_nat (Suc k) \<in> rx_live 7" if "k < 7"
  using that unfolding rx_live_def by (intro CollectI exI [of _ "Suc k"]) simp

lemma rx_ready_regions: "client_regions rx_live rx_ready"
  using rx_live_7 [of 0] rx_live_7 [of 1] rx_live_7 [of 2] rx_live_7 [of 3] rx_live_7 [of 4]
    rx_live_7 [of 5] rx_live_7 [of 6]
  by (simp add: regions_defs region_def rx_ready_def rx_mr_def rx_client_def rx_machine_def)

lemma rx_requests:
  "\<exists>t. class_request s = Some (Inr t)" "\<exists>t. sketch_request i s = Some (Inr t)"
  "\<exists>t. rdma_request op s = Some (Inr t)"
  by (simp_all add: class_request_def sketch_request_def rdma_request_def block_Cons block_Nil seq_def on_mach_def)

lemma class_request_covered_witness:
  "\<exists>t. class_request rx_ready = Some (Inr t) \<and>
     (let rs = local_ranges (mach t) (test_class_wr_addr (class_info rx_ready)) in
      map sge_addr rs = [0x4000, 0x4400] \<and> list_all2 (covered (mach t)) rs [5, 6])"
proof -
  obtain t where t: "class_request rx_ready = Some (Inr t)" using rx_requests(1) by blast
  with class_request_covered [OF rx_ready_regions t] show ?thesis
    by (simp add: Let_def) (simp add: rx_ready_def)
qed

lemma sketch_request_covered_witness:
  "\<exists>t. sketch_request 999 rx_ready = Some (Inr t) \<and>
     (let rs = local_ranges (mach t) (sketch_wr_addr (sketch_info rx_ready)) in
      map sge_addr rs = [0x5000 + 3996] \<and> list_all2 (covered (mach t)) rs [7])"
proof -
  obtain t where t: "sketch_request 999 rx_ready = Some (Inr t)" using rx_requests(2) by blast
  have "999 < nat (sk_data_size (sketch_info rx_ready))" "sk_data_size (sketch_info rx_ready) < 2 ^ 31"
    by (simp_all add: rx_ready_def rx_client_def)
  from sketch_request_covered [OF rx_ready_regions t this] t show ?thesis
    by (simp add: Let_def) (simp add: rx_ready_def rx_client_def)
qed

lemma rdma_request_covered_iff_witness:
  "\<exists>t. rdma_request IBV_WR_RDMA_READ rx_ready = Some (Inr t) \<and>
     list_all2 (covered (mach t)) (local_ranges (mach t) (rdma_sq_wr_addr rx_ready)) [3]"
proof -
  obtain t where t: "rdma_request IBV_WR_RDMA_READ rx_ready = Some (Inr t)" using rx_requests(3) by blast
  have "base_regions rx_live rx_ready" using rx_ready_regions by (simp add: client_regions_def)
  from rdma_request_covered_iff [OF this t] t show ?thesis
    by (simp add: Let_def) (simp add: rx_ready_def rx_client_def)
qed

end
