(* ===== verification/Copies.thy ===== *)
theory Copies
  imports Reads Regions
begin

section \<open>What the client's reads bring\<close>

text \<open>
  \<open>Reads\<close> shows that the functions of the client return only after the completion of their READs; here
  is what is then in memory.  The server's memory is a constant of the device (\<open>remote\<close>): the theory
  is about a peer that does not change what it has advertised.
\<close>

subsection \<open>Segments in flight\<close>

text \<open>
  A READ in flight is a list of segments, each an address and the bytes that arrive there; \<open>scatter\<close>
  deals the bytes from the remote address on to the entries of the request, in order.
\<close>

type_synonym segments = "(ptr \<times> u8 list) list"

primrec scatter :: "ibv_sge list \<Rightarrow> u64 \<Rightarrow> memory \<Rightarrow> segments" where
  "scatter [] ra rem = []"
| "scatter (g # gs) ra rem =
     (sge_addr g, read_bytes rem ra (unat (sge_length g))) # scatter gs (ra + of_nat (unat (sge_length g))) rem"

definition cells :: "segments \<Rightarrow> ptr \<Rightarrow> bool" where
  "cells F a \<longleftrightarrow> (\<exists>(p, bs) \<in> set F. unat (a - p) < length bs)"

definition landed :: "segments \<Rightarrow> memory \<Rightarrow> bool" where
  "landed F mm \<longleftrightarrow> (\<forall>(p, bs) \<in> set F. read_bytes mm p (length bs) = bs)"

definition separate :: "segments \<Rightarrow> bool" where
  "separate F \<longleftrightarrow> sorted_wrt (\<lambda>(p, bs) (q, cs). apart p (length bs) q (length cs)) F \<and>
     (\<forall>(p, bs) \<in> set F. length bs < 2 ^ 64)"

lemma cells_Nil [simp]: "\<not> cells [] a" by (simp add: cells_def)

lemma landed_Nil [simp]: "landed [] mm" by (simp add: landed_def)

text \<open>Segments stay landed as long as their cells do not change.\<close>

lemma landed_cong:
  assumes "landed F mm" and "separate F" and "\<And>a. cells F a \<Longrightarrow> mm' a = mm a"
  shows "landed F mm'"
proof -
  have "read_bytes mm' p (length bs) = read_bytes mm p (length bs)" if "(p, bs) \<in> set F" for p bs
  proof -
    have "mm' (p + of_nat i) = mm (p + of_nat i)" if "i < length bs" for i
    proof (rule assms(3))
      have "length bs < 2 ^ 64" using assms(2) \<open>(p, bs) \<in> set F\<close> by (auto simp: separate_def)
      then have "unat (of_nat i :: ptr) = i" using that by (simp add: unat_of_nat_small)
      then show "cells F (p + of_nat i)"
        unfolding cells_def using that \<open>(p, bs) \<in> set F\<close> by (intro bexI [of _ "(p, bs)"]) simp_all
    qed
    then show ?thesis by (simp add: read_bytes_def)
  qed
  then show ?thesis using assms(1) by (fastforce simp: landed_def)
qed

subsection \<open>The contract of the device\<close>

text \<open>
  \<open>flight w\<close> is the READ that is outstanding, as segments; \<open>receives\<close> are the bytes of receive buffers,
  into which messages may arrive at any time.
\<close>

record 'w transfer =
  flight :: "'w \<Rightarrow> segments"
  remote :: memory
  receives :: "ptr \<Rightarrow> bool"

text \<open>A call or a step of the device that completes no READ.\<close>

definition same_data :: "'w device \<Rightarrow> 'w transfer \<Rightarrow> 'w machine \<Rightarrow> 'w machine \<Rightarrow> bool" where
  "same_data d x m m' \<longleftrightarrow>
     tables m' = tables m \<and> outstanding d m' = outstanding d m \<and> sge_at m' = sge_at m \<and>
     flight x (world m') = flight x (world m) \<and>
     (\<forall>a. \<not> receives x a \<longrightarrow> \<not> cells (flight x (world m)) a \<longrightarrow> mem m' a = mem m a)"

text \<open>
  \<open>calls_keep P d R\<close>: every call of the other threads and of \<open>read_class\<close> except the taking of a READ
  completion relates the machine before and after by \<open>R\<close>.
\<close>

definition read_taken :: "'w machine \<Rightarrow> ptr \<Rightarrow> int \<Rightarrow> bool" where
  "read_taken m wc r \<longleftrightarrow> r = 1 \<and> wc_opcode (wc_at m wc) = IBV_WC_RDMA_READ"

definition relates :: "('w machine \<Rightarrow> 'w machine \<Rightarrow> bool) \<Rightarrow> ('w, 'r) lib \<Rightarrow> bool" where
  "relates R f \<longleftrightarrow> (\<forall>m r m'. f m = (r, m') \<longrightarrow> R m m')"

definition verb_relates :: "'w device \<Rightarrow> ('w machine \<Rightarrow> 'w machine \<Rightarrow> bool) \<Rightarrow> ('w, 'r) lib \<Rightarrow> bool" where
  "verb_relates d R f \<longleftrightarrow> (\<forall>m r m'. f m = (r, m') \<longrightarrow> in_place d m \<longrightarrow> R m m')"

definition calls_keep ::
    "'w platform \<Rightarrow> 'w device \<Rightarrow> ('w machine \<Rightarrow> 'w machine \<Rightarrow> bool) \<Rightarrow> bool" where
  "calls_keep P d R \<longleftrightarrow>
     (\<forall>m m'. dev_step d m m' \<longrightarrow> R m m') \<and>
     (\<forall>ch. relates R (lib_get_cm_event P ch)) \<and> (\<forall>e. relates R (lib_ack_cm_event P e)) \<and>
     (\<forall>i ms. relates R (lib_resolve_route P i ms)) \<and> (\<forall>ch. relates R (lib_get_cq_event P ch)) \<and>
     (\<forall>q k. relates R (lib_ack_cq_events P q k)) \<and> (\<forall>k. relates R (lib_malloc P k)) \<and>
     (\<forall>q f. verb_relates d R (ibv_req_notify_cq P q f)) \<and>
     (\<forall>q wr bad. verb_relates d R (ibv_post_recv P q wr bad)) \<and>
     (\<forall>q n wc m r m'. ibv_poll_cq P q n wc m = (r, m') \<longrightarrow> in_place d m \<longrightarrow>
        \<not> read_taken m' wc r \<longrightarrow> R m m')"

lemma relatesD: "relates R f \<Longrightarrow> f m = (r, m') \<Longrightarrow> R m m'"
  by (simp add: relates_def)

lemma verb_relatesD: "verb_relates d R f \<Longrightarrow> f m = (r, m') \<Longrightarrow> in_place d m \<Longrightarrow> R m m'"
  by (simp add: verb_relates_def)

lemma calls_relate:
  assumes "calls_keep P d R"
  shows "relates R (lib_get_cm_event P ch)" and "relates R (lib_ack_cm_event P e)"
    and "relates R (lib_resolve_route P i ms)" and "relates R (lib_get_cq_event P ch)"
    and "relates R (lib_ack_cq_events P q k)" and "relates R (lib_malloc P k')"
  using assms by (simp_all add: calls_keep_def)

lemma calls_verb_relate:
  assumes "calls_keep P d R"
  shows "verb_relates d R (ibv_req_notify_cq P q f)" and "verb_relates d R (ibv_post_recv P q wr bad)"
  using assms by (simp_all add: calls_keep_def)

lemma calls_rest:
  assumes "calls_keep P d R"
  shows "dev_step d m m' \<Longrightarrow> R m m'"
    and "ibv_poll_cq P q n wc m = (r, m') \<Longrightarrow> in_place d m \<Longrightarrow> \<not> read_taken m' wc r \<Longrightarrow> R m m'"
  using assms by (simp_all add: calls_keep_def)

lemmas calls_lib = calls_relate [THEN relatesD] and calls_verb = calls_verb_relate [THEN verb_relatesD]

text \<open>
  A completion that the client takes is that of the outstanding READ; when it is a successful one the
  bytes are there.  The segments of one READ must not overlap for that.  The program never looks at
  the status: \<open>reliable\<close> says that all completions are successful.
\<close>

definition polls_landed :: "'w platform \<Rightarrow> 'w device \<Rightarrow> 'w transfer \<Rightarrow> bool" where
  "polls_landed P d x \<longleftrightarrow> (\<forall>q n wc m r m'. ibv_poll_cq P q n wc m = (r, m') \<longrightarrow> in_place d m \<longrightarrow>
     read_taken m' wc r \<longrightarrow>
     flight x (world m') = [] \<and> sge_at m' = sge_at m \<and>
     (\<forall>a. \<not> receives x a \<longrightarrow> \<not> cells (flight x (world m)) a \<longrightarrow> mem m' a = mem m a) \<and>
     (wc_status (wc_at m' wc) = IBV_WC_SUCCESS \<longrightarrow> separate (flight x (world m)) \<longrightarrow>
        landed (flight x (world m)) (mem m')))"

definition posts_flight :: "'w platform \<Rightarrow> 'w device \<Rightarrow> 'w transfer \<Rightarrow> bool" where
  "posts_flight P d x \<longleftrightarrow>
     (\<forall>q wr bad m m' ra rk. ibv_post_send P q wr bad m = (0, m') \<longrightarrow> in_place d m \<longrightarrow>
        outstanding d m = 0 \<longrightarrow> send_wr_opcode (send_wr_at m wr) = IBV_WR_RDMA_READ \<longrightarrow>
        send_wr_wr (send_wr_at m wr) = Wr_rdma ra rk \<longrightarrow>
        flight x (world m') = scatter (local_ranges m wr) ra (remote x) \<and>
        (\<forall>a. \<not> receives x a \<longrightarrow> \<not> cells (flight x (world m')) a \<longrightarrow> mem m' a = mem m a))"

definition transfers :: "'w platform \<Rightarrow> 'w device \<Rightarrow> 'w transfer \<Rightarrow> bool" where
  "transfers P d x \<longleftrightarrow>
     reads_contract P d \<and> calls_keep P d (same_data d x) \<and> polls_landed P d x \<and> posts_flight P d x"

definition reliable :: "'w platform \<Rightarrow> 'w device \<Rightarrow> bool" where
  "reliable P d \<longleftrightarrow> (\<forall>q n wc m r m'. ibv_poll_cq P q n wc m = (r, m') \<longrightarrow> in_place d m \<longrightarrow> r = 1 \<longrightarrow>
     wc_status (wc_at m' wc) = IBV_WC_SUCCESS)"

text \<open>No further advertisement arrives while the other threads run.\<close>

definition adverts :: "'w client \<Rightarrow> (u64 \<times> u32 \<times> u32) list" where
  "adverts s =
     [(remote_addr s, remote_rkey s, remote_len s),
      (tc_remote_addr (class_info s), tc_remote_rkey (class_info s), tc_remote_len (class_info s)),
      (sk_remote_addr (sketch_info s), sk_remote_rkey (sketch_info s), sk_remote_len (sketch_info s))]"

definition adverts_stable :: "('w client \<Rightarrow> fatal + 'w client) \<Rightarrow> bool" where
  "adverts_stable env \<longleftrightarrow> (\<forall>s t. env s = Inr t \<longrightarrow> adverts t = adverts s)"


subsection \<open>One step of the other threads\<close>

text \<open>Members that only the main thread changes.\<close>

definition members :: "'w client \<Rightarrow> ptr \<times> ptr \<times> ptr \<times> test_class_rdma_info \<times> sketch_rdma_info" where
  "members s = (rdma_buf s, rdma_sgl_addr s, rdma_sq_wr_addr s,
     (class_info s)\<lparr>tc_remote_addr := 0, tc_remote_rkey := 0, tc_remote_len := 0\<rparr>,
     (sketch_info s)\<lparr>sk_remote_addr := 0, sk_remote_rkey := 0, sk_remote_len := 0\<rparr>)"

lemma members_mach [simp]:
  "members (put_mach m s) = members s" "members (s\<lparr>mach := m\<rparr>) = members s"
  "members (s\<lparr>RDMA_READ_COMPLETE := b\<rparr>) = members s"
  "members (s\<lparr>RDMA_READ_COMPLETE := b, cq_pc := c\<rparr>) = members s"
  "members (s\<lparr>pendingReads := k\<rparr>) = members s"
  "members (s\<lparr>cq_pc := c\<rparr>) = members s"
  by (simp_all add: members_def put_mach_def)

lemma cm_machine:
  assumes calls: "calls_keep P d R" and refl: "reflp R" and trans: "transp R"
    and run: "client_cm_thread P s = Some (Inr t)"
  shows "R (mach s) (mach t) \<and> members t = members s"
proof -
  obtain ret ev m1 where e: "lib_get_cm_event P (cm_channel s) (mach s) = ((ret, ev), m1)"
    by (metis prod.exhaust)
  from run obtain u where h: "client_cm_event P (cm_event_at m1 ev) (put_mach m1 s) = Some (Inr u)"
    and a: "ep_lib (\<lambda>s. lib_ack_cm_event P ev) (\<lambda>ret. exit_if (\<lambda>_. ret \<noteq> 0) Ack_cm_event_error) u = Some (Inr t)"
    by (auto simp: client_cm_thread_def lib_run [where f = "\<lambda>s. lib_get_cm_event P (cm_channel s)"]
        e block_Cons_run block_Nil_run exit_if_def split: if_splits)
  have "R m1 (mach u) \<and> members u = members s"
    using h by (auto simp: client_cm_event_def stmt_simps reflpD [OF refl] members_def
        dest!: calls_lib(3) [OF calls] split: rdma_cm_event_type.splits prod.splits if_splits)
  moreover obtain r m2 where r: "lib_ack_cm_event P ev (mach u) = (r, m2)" by fastforce
  then have "R (mach u) m2" by (rule calls_lib(2) [OF calls])
  moreover have "t = put_mach m2 u"
    using a r by (simp add: lib_run exit_if_def split: if_splits)
  ultimately show ?thesis
    using calls_lib(1) [OF calls e] transpD [OF trans] members_mach(1) cq_pc_simps(2) by metis
qed

lemma recv_handler_machine:
  assumes calls: "calls_keep P d R" and refl: "reflp R"
    and run: "recv_handler P wc s = Some (Inr t)" and T: "in_place d (mach s)"
  shows "R (mach s) (mach t) \<and> members t = members s"
  using run T calls_verb(2) [OF calls]
  by (auto simp: recv_handler_def stmt_simps reflpD [OF refl] members_def Let_def
      split: prod.splits if_splits)

lemma cq_ack_machine:
  assumes calls: "calls_keep P d R" and run: "cq_ack P s = Some (Inr t)"
  shows "R (mach s) (mach t) \<and> members t = members s"
  using run
  by (auto simp: cq_ack_def lib_run block_Cons block_Nil seq_def assign_run skip_run members_def put_mach_def
      dest!: calls_lib(5) [OF calls] split: prod.splits)

lemma cq_wait_machine:
  assumes calls: "calls_keep P d R" and trans: "transp R"
    and place: "\<forall>a b. R a b \<longrightarrow> in_place d a \<longrightarrow> in_place d b"
    and run: "cq_wait P s = Some (Inr t)" and T: "in_place d (mach s)"
  shows "R (mach s) (mach t) \<and> members t = members s"
proof -
  from run obtain ret ev ctx m1 r m2 where e: "lib_get_cq_event P (channel s) (mach s) = ((ret, ev, ctx), m1)"
    and n: "ibv_req_notify_cq P (cq s) 0 m1 = (r, m2)" and t: "t = (put_mach m2 s)\<lparr>cq_pc := Cq_poll\<rparr>"
    by (auto simp: cq_wait_def request_notify_def lib_run block_Cons block_Nil seq_def exit_if_def assign_run put_mach_def
        split: prod.splits if_splits option.splits sum.splits)
  have 1: "R (mach s) m1" by (rule calls_lib(4) [OF calls e])
  have "R m1 m2" by (rule calls_verb(1) [OF calls n]) (use place 1 T in blast)
  with transpD [OF trans 1] t show ?thesis by (simp add: put_mach_def members_def)
qed

lemma client_env_step_machine:
  assumes calls: "calls_keep P d R" and refl: "reflp R" and trans: "transp R"
    and place: "\<forall>a b. R a b \<longrightarrow> in_place d a \<longrightarrow> in_place d b"
    and step: "client_env_step P (dev_step d) s t" and T: "in_place d (mach s)"
  obtains "R (mach s) (mach t)" "members t = members s"
  | m where "ibv_poll_cq P (cq s) 1 (wc_addr s) (mach s) = (1, m)" "read_taken m (wc_addr s) 1"
      "mach t = m" "members t = members s"
  using step
proof (cases rule: client_env_step.cases)
  case cm
  with cm_machine [OF calls refl trans] that(1) show thesis by blast
next
  case (device m)
  with calls_rest(1) [OF calls] that(1) show thesis by simp
next
  case cq
  show thesis
  proof (cases "cq_pc s")
    case Cq_none
    with cq that(1) reflpD [OF refl] show thesis by (auto simp: client_cq_thread_def stmt_simps)
  next
    case Cq_wait
    with cq that(1) cq_wait_machine [OF calls trans place _ T] show thesis
      by (auto simp: client_cq_thread_def)
  next
    case Cq_dec
    with cq that(1) reflpD [OF refl] show thesis by (auto simp: client_cq_thread_def stmt_simps members_def)
  next
    case Cq_poll
    with cq have run: "client_poll P s = Some (Inr t)" by (simp add: client_cq_thread_def)
    obtain r m where poll: "ibv_poll_cq P (cq s) 1 (wc_addr s) (mach s) = (r, m)" by fastforce
    show thesis
    proof (cases "read_taken m (wc_addr s) r")
      case True
      with run poll have "mach t = m \<and> members t = members s"
        by (auto simp: client_poll_def lib_run client_completion_def assign_run read_taken_def put_mach_def
            members_def)
      with that(2) poll True show thesis by (auto simp: read_taken_def)
    next
      case False
      have 1: "R (mach s) m" by (rule calls_rest(2) [OF calls poll T False])
      have "R m (mach t) \<and> members t = members s"
      proof (cases "r = 1")
        case False
        with run poll have "cq_ack P (put_mach m s) = Some (Inr t)" by (simp add: client_poll_def lib_run)
        from cq_ack_machine [OF calls this] show ?thesis by (simp add: put_mach_def members_def)
      next
        case r: True
        with run poll have c: "client_completion P (wc_at m (wc_addr s)) (put_mach m s) = Some (Inr t)"
          by (simp add: client_poll_def lib_run) (simp add: put_mach_def)
        have "in_place d (mach (put_mach m s))" using place 1 T by (simp add: put_mach_def)
        from recv_handler_machine [OF calls refl _ this, of "wc_at m (wc_addr s)"] c \<open>\<not> read_taken m (wc_addr s) r\<close> r
        show ?thesis
          by (auto simp: client_completion_def assign_run skip_run read_taken_def put_mach_def members_def reflpD [OF refl]
              split: ibv_wc_opcode.splits)
      qed
      with that(1) transpD [OF trans 1] show thesis by blast
    qed
  qed
qed


subsection \<open>A READ lands\<close>

text \<open>
  \<open>lands d x F mm s\<close>: the READ of the segments \<open>F\<close> is in flight or, when none is outstanding, it has
  landed; the rest of memory, receive buffers apart, is that of \<open>mm\<close>.
\<close>

definition lands :: "'w device \<Rightarrow> 'w transfer \<Rightarrow> segments \<Rightarrow> memory \<Rightarrow> 'w client \<Rightarrow> bool" where
  "lands d x F mm s \<longleftrightarrow>
     (if outstanding d (mach s) = 0 then flight x (world (mach s)) = [] \<and> landed F (mem (mach s))
      else flight x (world (mach s)) = F) \<and>
     (\<forall>a. \<not> receives x a \<longrightarrow> \<not> cells F a \<longrightarrow> mem (mach s) a = mm a)"

text \<open>No segment overlaps another one or a receive buffer.\<close>

definition clear :: "'w transfer \<Rightarrow> segments \<Rightarrow> bool" where
  "clear x F \<longleftrightarrow> separate F \<and> (\<forall>a. cells F a \<longrightarrow> \<not> receives x a)"

lemma clear_Nil [simp]: "clear x []" by (simp add: clear_def separate_def)

lemma same_data_rel: "reflp (same_data d x)" "transp (same_data d x)"
  "\<forall>a b. same_data d x a b \<longrightarrow> in_place d a \<longrightarrow> in_place d b"
  by (auto simp: reflp_def transp_def same_data_def in_place_def)

definition unchanged :: "'w device \<Rightarrow> 'w transfer \<Rightarrow> segments \<Rightarrow> memory \<Rightarrow> 'w client \<Rightarrow> 'w client \<Rightarrow> bool" where
  "unchanged d x F mm s t \<longleftrightarrow> in_place d (mach t) \<and> outstanding d (mach t) \<le> 1 \<and> lands d x F mm t \<and>
     sge_at (mach t) = sge_at (mach s) \<and> members t = members s"

lemma step_lands:
  assumes c: "transfers P d x" and rel: "reliable P d" and clr: "clear x F"
    and step: "client_env_step P (dev_step d) s t" and s: "unchanged d x F mm u s"
  shows "unchanged d x F mm u t"
proof -
  have calls: "calls_keep P d (same_data d x)" and reads: "reads_contract P d"
    using c by (simp_all add: transfers_def)
  have T: "in_place d (mach s)" and le: "outstanding d (mach s) \<le> 1" and l: "lands d x F mm s"
    using s by (simp_all add: unchanged_def)
  show ?thesis
  proof (cases rule: client_env_step_machine [OF calls same_data_rel step T])
    case 1
    let ?m = "mach s" and ?m' = "mach t"
    have m: "tables ?m' = tables ?m" "outstanding d ?m' = outstanding d ?m" "sge_at ?m' = sge_at ?m"
      "flight x (world ?m') = flight x (world ?m)"
      and mem: "\<And>a. \<not> receives x a \<Longrightarrow> \<not> cells (flight x (world ?m)) a \<Longrightarrow> mem ?m' a = mem ?m a"
      using 1(1) by (auto simp: same_data_def)
    have "landed F (mem ?m')" if "outstanding d ?m = 0"
    proof (rule landed_cong)
      show "landed F (mem ?m)" "separate F" using l clr that by (simp_all add: lands_def clear_def)
      show "mem ?m' a = mem ?m a" if "cells F a" for a
        using l clr that \<open>outstanding d ?m = 0\<close> by (intro mem) (auto simp: lands_def clear_def)
    qed
    moreover have "mem ?m' a = mm a" if "\<not> receives x a" "\<not> cells F a" for a
      using mem [of a] l that by (auto simp: lands_def split: if_splits)
    ultimately have "lands d x F mm t" using l m by (auto simp: lands_def)
    with s m 1(2) T show ?thesis by (simp add: unchanged_def in_place_def)
  next
    case (2 m)
    have taken: "1 = (1::int) \<and> wc_opcode (wc_at m (wc_addr s)) = IBV_WC_RDMA_READ"
      using 2(2) by (simp add: read_taken_def)
    then have acc: "tables m = tables (mach s)" "outstanding d (mach s) = Suc (outstanding d m)"
      using contract_poll [OF reads 2(1) T] by simp_all
    then have "flight x (world (mach s)) = F" "outstanding d m = 0" using l le by (simp_all add: lands_def)
    moreover have "wc_status (wc_at m (wc_addr s)) = IBV_WC_SUCCESS"
      using rel 2(1) T unfolding reliable_def by blast
    moreover have pl: "polls_landed P d x" using c by (simp add: transfers_def)
    moreover note pl [unfolded polls_landed_def, rule_format, OF 2(1) T 2(2)]
    ultimately have "lands d x F mm t" "sge_at m = sge_at (mach s)"
      using l clr 2(3) by (auto simp: lands_def clear_def)
    with s 2(3,4) T acc \<open>outstanding d m = 0\<close> show ?thesis by (simp add: unchanged_def in_place_def)
  qed
qed

lemma env_lands:
  assumes "transfers P d x" and "reliable P d" and "clear x F"
    and "runs_beside (client_env_step P (dev_step d)) env" and "env s = Inr t"
    and "in_place d (mach s)" and "outstanding d (mach s) \<le> 1" and "lands d x F mm s"
  shows "lands d x F mm t" and "sge_at (mach t) = sge_at (mach s)" and "members t = members s"
proof -
  have "unchanged d x F mm s s" using assms(6-8) by (simp add: unchanged_def)
  then have "unchanged d x F mm s t"
    by (rule runs_beside_inv [OF assms(4,5)]) (rule step_lands [OF assms(1-3)])
  then show "lands d x F mm t" "sge_at (mach t) = sge_at (mach s)" "members t = members s"
    by (simp_all add: unchanged_def)
qed

subsection \<open>The reference: a copy\<close>

definition deliver :: "segments \<Rightarrow> memory \<Rightarrow> memory" where
  "deliver F mm = fold (\<lambda>(p, bs) mm. write_bytes mm p bs) F mm"

lemma read_bytes_cell:
  assumes "read_bytes mm p (length bs) = bs" and "unat (a - p) < length bs"
  shows "mm a = bs ! unat (a - p)"
proof -
  have "bs ! unat (a - p) = read_bytes mm p (length bs) ! unat (a - p)" using assms(1) by simp
  also have "\<dots> = mm a" using assms(2) by (simp add: read_bytes_def)
  finally show ?thesis by simp
qed

lemma landed_deliver:
  assumes "landed F mm'" and "\<not> cells F a \<Longrightarrow> mm' a = mm a"
  shows "deliver F mm a = mm' a"
  using assms
proof (induction F arbitrary: mm)
  case Nil
  then show ?case by (simp add: deliver_def)
next
  case (Cons g F)
  obtain p bs where g: "g = (p, bs)" by fastforce
  have "deliver F (write_bytes mm p bs) a = mm' a"
  proof (rule Cons.IH)
    show "landed F mm'" using Cons.prems by (simp add: landed_def)
    show "mm' a = write_bytes mm p bs a" if "\<not> cells F a"
      using that Cons.prems read_bytes_cell [of mm' p bs a]
      by (auto simp: g landed_def write_bytes_def cells_def)
  qed
  then show ?case by (simp add: deliver_def g)
qed


subsection \<open>A READ that is counted, awaited and landed\<close>

text \<open>
  \<open>known s0 s\<close>: the members and the advertisements are those of \<open>s0\<close>.  \<open>resting\<close>: no READ is in
  flight, and memory is \<open>mm\<close> but for the receive buffers.  \<open>aimed\<close>: the request at \<open>wr s\<close> reads \<open>F\<close>.
\<close>

definition known :: "'w client \<Rightarrow> 'w client \<Rightarrow> bool" where
  "known s0 s \<longleftrightarrow> members s = members s0 \<and> adverts s = adverts s0"

lemma class_info_eqI:
  fixes c c' :: test_class_rdma_info
  assumes "c\<lparr>tc_remote_addr := 0, tc_remote_rkey := 0, tc_remote_len := 0\<rparr> =
      c'\<lparr>tc_remote_addr := 0, tc_remote_rkey := 0, tc_remote_len := 0\<rparr>"
    and "tc_remote_addr c = tc_remote_addr c'" "tc_remote_rkey c = tc_remote_rkey c'" "tc_remote_len c = tc_remote_len c'"
  shows "c = c'"
  using assms by (cases c; cases c') simp

lemma sketch_info_eqI:
  fixes c c' :: sketch_rdma_info
  assumes "c\<lparr>sk_remote_addr := 0, sk_remote_rkey := 0, sk_remote_len := 0\<rparr> =
      c'\<lparr>sk_remote_addr := 0, sk_remote_rkey := 0, sk_remote_len := 0\<rparr>"
    and "sk_remote_addr c = sk_remote_addr c'" "sk_remote_rkey c = sk_remote_rkey c'" "sk_remote_len c = sk_remote_len c'"
  shows "c = c'"
  using assms by (cases c; cases c') simp

lemma known_fields:
  assumes "known s0 s"
  shows "rdma_buf s = rdma_buf s0" and "rdma_sgl_addr s = rdma_sgl_addr s0"
    and "rdma_sq_wr_addr s = rdma_sq_wr_addr s0" and "class_info s = class_info s0"
    and "sketch_info s = sketch_info s0" and "remote_addr s = remote_addr s0"
    and "remote_rkey s = remote_rkey s0" and "remote_len s = remote_len s0"
  using assms
  by (auto simp: known_def members_def adverts_def intro: class_info_eqI sketch_info_eqI)

lemma known_simps [simp]:
  "known s0 (put_mach m s) = known s0 s" "known s0 (s\<lparr>mach := m\<rparr>) = known s0 s"
  "known s0 (s\<lparr>RDMA_READ_COMPLETE := b\<rparr>) = known s0 s"
  "known s0 (s\<lparr>pendingReads := k\<rparr>) = known s0 s"
  by (simp_all add: known_def members_def adverts_def put_mach_def)

definition resting :: "'w device \<Rightarrow> 'w transfer \<Rightarrow> memory \<Rightarrow> 'w client \<Rightarrow> 'w client \<Rightarrow> bool" where
  "resting d x mm s0 s \<longleftrightarrow> quiet d s \<and> lands d x [] mm s \<and> known s0 s"

definition aimed :: "'w transfer \<Rightarrow> ('w client \<Rightarrow> ptr) \<Rightarrow> segments \<Rightarrow> 'w client \<Rightarrow> bool" where
  "aimed x wr F s \<longleftrightarrow> (\<exists>ra rk. send_wr_wr (send_wr_at (mach s) (wr s)) = Wr_rdma ra rk \<and>
     scatter (local_ranges (mach s) (wr s)) ra (remote x) = F)"

lemma lands_deliver:
  assumes "lands d x F mm s" and "outstanding d (mach s) = 0"
  shows "lands d x [] (deliver F mm) s"
  using assms landed_deliver [of F "mem (mach s)" _ mm]
  by (auto simp: lands_def)


lemma transfers_reads: "transfers P d x \<Longrightarrow> reads_contract P d"
  by (simp add: transfers_def)

lemma env_resting:
  assumes c: "transfers P d x" "reliable P d" and env: "runs_beside (client_env_step P (dev_step d)) env"
    and st: "adverts_stable env"
  shows "resting d x mm s0 s \<Longrightarrow> env s = Inr t \<Longrightarrow> resting d x mm s0 t"
    and "resting d x mm s0 s \<and> \<not> RDMA_READ_COMPLETE s \<Longrightarrow> env s = Inr t \<Longrightarrow>
      resting d x mm s0 t \<and> \<not> RDMA_READ_COMPLETE t"
    and "armed d wr s \<and> aimed x wr F s \<and> resting d x mm s0 s \<Longrightarrow> own_request wr \<Longrightarrow> env s = Inr t \<Longrightarrow>
      armed d wr t \<and> aimed x wr F t \<and> resting d x mm s0 t"
    and "posted d k s \<and> lands d x F mm s \<and> known s0 s \<Longrightarrow> clear x F \<Longrightarrow> env s = Inr t \<Longrightarrow>
      posted d k t \<and> lands d x F mm t \<and> known s0 t"
proof -
  have kn: "known s0 t" if "known s0 s" "env s = Inr t" "in_place d (mach s)" "outstanding d (mach s) \<le> 1"
    "lands d x F mm s" "clear x F" for F mm
    using env_lands(3) [OF c that(6) env that(2-5)] st that(1,2) by (auto simp: known_def adverts_stable_def)
  have q: "quiet d s \<Longrightarrow> in_place d (mach s) \<and> outstanding d (mach s) \<le> 1" by (simp add: quiet_def)
  note reads = transfers_reads [OF c(1)]
  show rest: "resting d x mm s0 t" if r: "resting d x mm s0 s" and t: "env s = Inr t"
  proof -
    have s: "quiet d s" "lands d x [] mm s" "known s0 s" using r by (simp_all add: resting_def)
    note place = q [OF s(1), THEN conjunct1] q [OF s(1), THEN conjunct2]
    have "quiet d t" by (rule quiet_kept(1) [OF reads env s(1) t])
    moreover have "lands d x [] mm t" by (rule env_lands(1) [OF c clear_Nil env t place s(2)])
    moreover have "known s0 t" by (rule kn [OF s(3) t place s(2) clear_Nil])
    ultimately show ?thesis by (simp add: resting_def)
  qed
  show "resting d x mm s0 t \<and> \<not> RDMA_READ_COMPLETE t"
    if r: "resting d x mm s0 s \<and> \<not> RDMA_READ_COMPLETE s" and t: "env s = Inr t"
  proof -
    have "quiet d s \<and> \<not> RDMA_READ_COMPLETE s" using r by (simp add: resting_def)
    from quiet_kept(2) [OF reads env this t] rest [OF conjunct1 [OF r] t] show ?thesis by simp
  qed
  show "armed d wr t \<and> aimed x wr F t \<and> resting d x mm s0 t"
    if a: "armed d wr s \<and> aimed x wr F s \<and> resting d x mm s0 s" and wr: "own_request wr" and t: "env s = Inr t"
  proof -
    have place: "in_place d (mach s)" "outstanding d (mach s) \<le> 1" "lands d x [] mm s"
      using a q by (simp_all add: resting_def)
    have "requests t = requests s" by (rule env_keeps(3) [OF reads env t place(1)])
    moreover have "wr t = wr s" using wr calculation unfolding own_request_def by blast
    moreover have "sge_at (mach t) = sge_at (mach s)" by (rule env_lands(2) [OF c clear_Nil env t place])
    ultimately have "aimed x wr F t" using a by (simp add: aimed_def local_ranges_def requests_def)
    with rest a t armed_kept [OF reads env wr _ t] show ?thesis by blast
  qed
  show "posted d k t \<and> lands d x F mm t \<and> known s0 t"
    if p: "posted d k s \<and> lands d x F mm s \<and> known s0 s" and clr: "clear x F" and t: "env s = Inr t"
  proof -
    have s: "posted d k s" "lands d x F mm s" "known s0 s" using p by simp_all
    have place: "in_place d (mach s)" "outstanding d (mach s) \<le> 1" using s(1) by (simp_all add: posted_def)
    show ?thesis
      using posted_kept [OF reads env s(1) t] env_lands(1) [OF c clr env t place s(2)]
        kn [OF s(3) t place s(2) clr] by simp
  qed
qed

lemma post_lands:
  assumes c: "transfers P d x" and s: "armed d wr s \<and> aimed x wr F s \<and> resting d x mm s0 s"
    and run: "post_send P wr s = Some (Inr t)"
  shows "posted d (-1) t \<and> lands d x F mm t \<and> known s0 t"
proof -
  obtain ra rk where aim: "send_wr_wr (send_wr_at (mach s) (wr s)) = Wr_rdma ra rk"
    and F: "scatter (local_ranges (mach s) (wr s)) ra (remote x) = F"
    using s unfolding aimed_def by blast
  from run obtain m where post: "ibv_post_send P (qp s) (wr s) (bad_wr_addr s) (mach s) = (0, m)"
    and t: "t = put_mach m s"
    by (auto simp: post_send_def lib_run exit_if_def split: prod.splits if_splits)
  have "posted d (-1) t"
    using post_counts [OF transfers_reads [OF c], of wr] s run unfolding triple_def by blast
  have before: "in_place d (mach s)" "outstanding d (mach s) = 0"
    "send_wr_opcode (send_wr_at (mach s) (wr s)) = IBV_WR_RDMA_READ"
    using s by (simp_all add: armed_def quiet_def)
  have out: "outstanding d m = 1"
    using contract_post [OF transfers_reads [OF c] post before(1,2)] before(3) by simp
  have "posts_flight P d x" using c by (simp add: transfers_def)
  from this [unfolded posts_flight_def, rule_format, OF post before aim]
  have "flight x (world m) = F" "\<And>a. \<not> receives x a \<Longrightarrow> \<not> cells F a \<Longrightarrow> mem m a = mem (mach s) a"
    using F by auto
  then have "lands d x F mm t"
    using s t out by (simp add: resting_def lands_def)
  with \<open>posted d (-1) t\<close> s t show ?thesis by (simp add: resting_def)
qed

lemma counted_transfer:
  assumes c: "transfers P d x" "reliable P d" and env: "runs_beside (client_env_step P (dev_step d)) env"
    and st: "adverts_stable env" and wr: "own_request wr" and clr: "clear x F"
    and rest: "triple (\<lambda>s. (posted d 0 s \<and> lands d x F mm s \<and> known s0 s) \<and> b s) (thread env cs) q"
  shows "triple (\<lambda>s. armed d wr s \<and> aimed x wr F s \<and> resting d x mm s0 s) (thread env
    (post_send P wr # assign (\<lambda>s. s\<lparr>pendingReads := pendingReads s + 1\<rparr>) # await env b # cs)) q"
proof -
  note kept = env_resting(3) [OF c env st _ wr] env_resting(4) [OF c env st _ clr]
  have post: "triple (\<lambda>s. armed d wr s \<and> aimed x wr F s \<and> resting d x mm s0 s) (post_send P wr)
      (\<lambda>s. posted d (-1) s \<and> lands d x F mm s \<and> known s0 s)"
    unfolding triple_def using post_lands [OF c(1)] by blast
  have incr: "triple (\<lambda>s. posted d (-1) s \<and> lands d x F mm s \<and> known s0 s)
      (assign (\<lambda>s. s\<lparr>pendingReads := pendingReads s + 1\<rparr>)) (\<lambda>s. posted d 0 s \<and> lands d x F mm s \<and> known s0 s)"
    by (rule triple_assign) (simp add: posted_def balance_def lands_def)
  have wait: "triple (\<lambda>s. posted d 0 s \<and> lands d x F mm s \<and> known s0 s) (await env b)
      (\<lambda>s. (posted d 0 s \<and> lands d x F mm s \<and> known s0 s) \<and> b s)"
    by (rule triple_await [OF kept(2)]) simp_all
  show ?thesis
    by (rule triple_thread_Cons [OF kept(1) post triple_thread_Cons [OF kept(2) incr
          triple_thread_Cons [OF kept(2) wait rest]]])
qed

text \<open>The requests aim at the ranges that the functions are about.\<close>

definition rdma_segments :: "'w transfer \<Rightarrow> 'w client \<Rightarrow> segments" where
  "rdma_segments x s = [(rdma_buf s, read_bytes (remote x) (remote_addr s) (unat (remote_len s)))]"

definition class_segments :: "'w transfer \<Rightarrow> 'w client \<Rightarrow> segments" where
  "class_segments x s =
     [(class_recv_data (class_info s), read_bytes (remote x) (tc_remote_addr (class_info s)) 32),
      (class_recv_buf (class_info s), read_bytes (remote x) (tc_remote_addr (class_info s) + 32) 400)]"

definition sketch_segments :: "'w transfer \<Rightarrow> nat \<Rightarrow> 'w client \<Rightarrow> segments" where
  "sketch_segments x i s = [(sk_data_buf (sketch_info s) + of_nat i * 4,
     read_bytes (remote x) (sk_remote_addr (sketch_info s) + of_nat i * 4) 4)]"

lemma requests_aim:
  "rdma_request IBV_WR_RDMA_READ s = Some (Inr t) \<Longrightarrow> aimed x rdma_sq_wr_addr (rdma_segments x s) t"
  "class_request s = Some (Inr t) \<Longrightarrow> aimed x (\<lambda>s. test_class_wr_addr (class_info s)) (class_segments x s) t"
  "sketch_request i s = Some (Inr t) \<Longrightarrow> aimed x (\<lambda>s. sketch_wr_addr (sketch_info s)) (sketch_segments x i s) t"
  by (auto simp: rdma_request_def class_request_def sketch_request_def block_Cons_run block_Nil_run on_mach_def
      aimed_def local_ranges_def rdma_segments_def class_segments_def sketch_segments_def set_sge_def set_send_wr_def
      sizeof_rdma_test_def upt_rec)

lemma requests_rest:
  "rdma_request op s = Some (Inr t) \<Longrightarrow> resting d x mm s0 s \<Longrightarrow> resting d x mm s0 t"
  "class_request s = Some (Inr t) \<Longrightarrow> resting d x mm s0 s \<Longrightarrow> resting d x mm s0 t"
  "sketch_request i s = Some (Inr t) \<Longrightarrow> resting d x mm s0 s \<Longrightarrow> resting d x mm s0 t"
  by (auto simp: rdma_request_def class_request_def sketch_request_def block_Cons_run block_Nil_run on_mach_def
      set_sge_def set_send_wr_def resting_def quiet_def balance_def in_place_def lands_def)


subsection \<open>The functions copy the server's memory\<close>

text \<open>\<open>away x p n\<close>: no receive buffer has a byte in the \<open>n\<close> bytes at \<open>p\<close>.\<close>

definition away :: "'w transfer \<Rightarrow> ptr \<Rightarrow> nat \<Rightarrow> bool" where
  "away x p n \<longleftrightarrow> (\<forall>a. unat (a - p) < n \<longrightarrow> \<not> receives x a)"

text \<open>Memory that agrees apart from receive buffers reads the same away from them.\<close>

lemma read_bytes_away:
  assumes "away x r n" and "n \<le> 2 ^ 64" and "\<And>a. \<not> receives x a \<Longrightarrow> mm a = mm' a"
  shows "read_bytes mm r n = read_bytes mm' r n"
proof -
  have "mm (r + of_nat i) = mm' (r + of_nat i)" if "i < n" for i
  proof (rule assms(3))
    have "unat (of_nat i :: ptr) = i" using that assms(2) by (intro unat_of_nat_small) simp
    then show "\<not> receives x (r + of_nat i)" using assms(1) that by (simp add: away_def)
  qed
  then show ?thesis by (simp add: read_bytes_def)
qed

lemma clear_single: "away x p (length bs) \<Longrightarrow> length bs < 2 ^ 64 \<Longrightarrow> clear x [(p, bs)]"
  by (auto simp: clear_def away_def cells_def separate_def)

lemma unat_u32_less: "unat (w :: u32) < 2 ^ 64"
proof -
  have "unat w < 2 ^ LENGTH(32)" by (rule unsigned_less)
  then show ?thesis by simp
qed

text \<open>The client before a READ: nothing in flight.\<close>

definition at_rest :: "'w device \<Rightarrow> 'w transfer \<Rightarrow> 'w client \<Rightarrow> bool" where
  "at_rest d x s \<longleftrightarrow> settled d s \<and> flight x (world (mach s)) = []"

lemma at_rest_resting: "at_rest d x s \<Longrightarrow> resting d x (mem (mach s)) s s"
  by (simp add: at_rest_def settled_iff resting_def lands_def quiet_def known_def)

lemma clear_flag_rest:
  "triple (resting d x mm s0) (assign (\<lambda>s. s\<lparr>RDMA_READ_COMPLETE := False\<rparr>))
     (\<lambda>s. resting d x mm s0 s \<and> \<not> RDMA_READ_COMPLETE s)"
  by (rule triple_assign) (simp add: resting_def quiet_def balance_def lands_def)

text \<open>The segments depend only on members and advertisements.\<close>

lemma segments_known:
  assumes "known s0 s"
  shows "rdma_segments x s = rdma_segments x s0" and "class_segments x s = class_segments x s0"
    and "sketch_segments x i s = sketch_segments x i s0"
  using known_fields [OF assms] by (simp_all add: rdma_segments_def class_segments_def sketch_segments_def)

lemma request_ready:
  shows "triple (\<lambda>s. resting d x mm s0 s \<and> \<not> RDMA_READ_COMPLETE s) (rdma_request IBV_WR_RDMA_READ)
      (\<lambda>s. armed d rdma_sq_wr_addr s \<and> aimed x rdma_sq_wr_addr (rdma_segments x s0) s \<and> resting d x mm s0 s)"
    and "triple (\<lambda>s. resting d x mm s0 s \<and> \<not> RDMA_READ_COMPLETE s) class_request
      (\<lambda>s. armed d (\<lambda>s. test_class_wr_addr (class_info s)) s \<and>
        aimed x (\<lambda>s. test_class_wr_addr (class_info s)) (class_segments x s0) s \<and> resting d x mm s0 s)"
    and "triple (\<lambda>s. resting d x mm s0 s \<and> \<not> RDMA_READ_COMPLETE s) (sketch_request i)
      (\<lambda>s. armed d (\<lambda>s. sketch_wr_addr (sketch_info s)) s \<and>
        aimed x (\<lambda>s. sketch_wr_addr (sketch_info s)) (sketch_segments x i s0) s \<and> resting d x mm s0 s)"
proof -
  have split: "resting d x mm s0 s \<Longrightarrow> known s0 s \<and> quiet d s" for s by (simp add: resting_def)
  have all: "triple (\<lambda>s. resting d x mm s0 s \<and> \<not> RDMA_READ_COMPLETE s) c
      (\<lambda>s. armed d wr s \<and> aimed x wr (F s0) s \<and> resting d x mm s0 s)"
    if arm: "triple (\<lambda>s. quiet d s \<and> \<not> RDMA_READ_COMPLETE s) c (armed d wr)"
      and aim: "\<And>s t. c s = Some (Inr t) \<Longrightarrow> aimed x wr (F s) t" and F: "\<And>s. known s0 s \<Longrightarrow> F s = F s0"
      and keep: "\<And>s t. c s = Some (Inr t) \<Longrightarrow> resting d x mm s0 s \<Longrightarrow> resting d x mm s0 t"
    for c :: "('a client, fatal) stmt" and wr F
    unfolding triple_def
  proof (intro allI impI)
    fix s t assume s: "resting d x mm s0 s \<and> \<not> RDMA_READ_COMPLETE s" and run: "c s = Some (Inr t)"
    have "armed d wr t" using tripleD [OF arm _ run] s split by blast
    moreover have "aimed x wr (F s0) t" using aim [OF run] F s split by metis
    ultimately show "armed d wr t \<and> aimed x wr (F s0) t \<and> resting d x mm s0 t"
      using keep [OF run] s by blast
  qed
  show "triple (\<lambda>s. resting d x mm s0 s \<and> \<not> RDMA_READ_COMPLETE s) (rdma_request IBV_WR_RDMA_READ)
      (\<lambda>s. armed d rdma_sq_wr_addr s \<and> aimed x rdma_sq_wr_addr (rdma_segments x s0) s \<and> resting d x mm s0 s)"
    by (rule all [OF requests_arm(1) requests_aim(1) segments_known(1) requests_rest(1)])
  show "triple (\<lambda>s. resting d x mm s0 s \<and> \<not> RDMA_READ_COMPLETE s) class_request
      (\<lambda>s. armed d (\<lambda>s. test_class_wr_addr (class_info s)) s \<and>
        aimed x (\<lambda>s. test_class_wr_addr (class_info s)) (class_segments x s0) s \<and> resting d x mm s0 s)"
    by (rule all [OF requests_arm(2) requests_aim(2) segments_known(2) requests_rest(2)])
  show "triple (\<lambda>s. resting d x mm s0 s \<and> \<not> RDMA_READ_COMPLETE s) (sketch_request i)
      (\<lambda>s. armed d (\<lambda>s. sketch_wr_addr (sketch_info s)) s \<and>
        aimed x (\<lambda>s. sketch_wr_addr (sketch_info s)) (sketch_segments x i s0) s \<and> resting d x mm s0 s)"
    by (rule all [OF requests_arm(3) requests_aim(3) segments_known(3) requests_rest(3)])
qed

text \<open>
  C11: \<open>rdma_read\<close> is a \<open>memcpy\<close> from the server: when it returns, \<open>rdma_buf\<close> holds the bytes of the
  advertised buffer of the server, all of them, and no other byte of the client has changed, receive
  buffers apart.  All completions have to be successful, because the program does not look at their
  status, and no new advertisement may arrive meanwhile.
\<close>

theorem rdma_read_copies:
  assumes "transfers P d x" and "reliable P d" and "runs_beside (client_env_step P (dev_step d)) env"
    and "adverts_stable env" and "at_rest d x s" and "away x (rdma_buf s) (unat (remote_len s))"
    and "client_rdma_read P env s = Some (Inr t)" and "\<not> receives x a"
  shows "mem (mach t) a = write_bytes (mem (mach s)) (rdma_buf s)
    (read_bytes (remote x) (remote_addr s) (unat (remote_len s))) a"
proof -
  let ?F = "rdma_segments x s" and ?mm = "mem (mach s)"
  have clr: "clear x ?F"
    unfolding rdma_segments_def using assms(6) unat_u32_less by (intro clear_single) simp_all
  note kept = env_resting [OF assms(1-4)]
  have final: "lands d x [] (deliver ?F ?mm) u"
    if "posted d 0 u \<and> lands d x ?F ?mm u \<and> known s u" "\<not> 0 < pendingReads u" for u
    using that posted_settled by (intro lands_deliver) (auto simp: settled_def)
  have check: "triple (resting d x ?mm s) (exit_if (\<lambda>s. \<not> GET_RDMA_ADDR s) No_remote_addr) (resting d x ?mm s)"
    by (rule triple_exit_if)
  have "triple (resting d x ?mm s) (client_rdma_read P env) (lands d x [] (deliver ?F ?mm))"
    unfolding client_rdma_read_def
    by (rule triple_thread_Cons [OF kept(1) check triple_thread_Cons [OF kept(1) clear_flag_rest
          triple_thread_Cons [OF kept(2) request_ready(1)
          counted_transfer [OF assms(1-4) own_requests(1) clr triple_thread_Nil]]]]) (use final in blast)+
  from tripleD [OF this at_rest_resting [OF assms(5)] assms(7)] assms(8) show ?thesis
    by (simp add: lands_def deliver_def rdma_segments_def)
qed


text \<open>Element after element: after \<open>i\<close> elements memory is as after a copy of \<open>4 * i\<close> bytes.\<close>

definition sketch_copied :: "'w transfer \<Rightarrow> 'w client \<Rightarrow> nat \<Rightarrow> memory" where
  "sketch_copied x s i = write_bytes (mem (mach s)) (sk_data_buf (sketch_info s))
     (read_bytes (remote x) (sk_remote_addr (sketch_info s)) (4 * i))"

lemma sketch_copied_Suc:
  assumes "4 * Suc i \<le> 2 ^ 64"
  shows "deliver (sketch_segments x i s) (sketch_copied x s i) = sketch_copied x s (Suc i)"
proof -
  let ?rd = "read_bytes (remote x)" and ?ra = "sk_remote_addr (sketch_info s)"
  have "?rd ?ra (4 * Suc i) = ?rd ?ra (4 * i) @ ?rd (?ra + of_nat i * 4) 4"
    using read_bytes_append [of "remote x" ?ra "4 * i" 4] by (simp add: mult.commute add.commute)
  then show ?thesis
    using write_write_bytes_append [of "?rd ?ra (4 * i)" "?rd (?ra + of_nat i * 4) 4"
        "mem (mach s)" "sk_data_buf (sketch_info s)"] assms
    by (simp add: deliver_def sketch_segments_def sketch_copied_def mult.commute)
qed

lemma sketch_segments_clear:
  assumes "away x (sk_data_buf (sketch_info s)) (4 * n)" and "i < n" and "4 * n \<le> 2 ^ 64"
  shows "clear x (sketch_segments x i s)"
proof -
  let ?p = "sk_data_buf (sketch_info s)"
  have "\<not> receives x a" if a: "unat (a - (?p + of_nat i * 4)) < 4" for a
  proof -
    have "a - ?p = (a - (?p + of_nat i * 4)) + of_nat (4 * i)" by simp
    also have "\<dots> = of_nat (unat (a - (?p + of_nat i * 4)) + 4 * i)" by simp
    finally have "unat (a - ?p) = unat (of_nat (unat (a - (?p + of_nat i * 4)) + 4 * i) :: ptr)"
      by (rule arg_cong)
    also have "\<dots> = unat (a - (?p + of_nat i * 4)) + 4 * i"
      using a assms(2,3) by (intro unat_of_nat_small) simp
    finally show ?thesis using assms(1,2) a by (simp add: away_def)
  qed
  then show ?thesis unfolding sketch_segments_def by (intro clear_single) (simp_all add: away_def)
qed

lemma triple_for_upto:
  assumes "\<And>i. i < n \<Longrightarrow> triple (p i) (body i) (p (Suc i))"
  shows "triple (p 0) (for_each [0..<n] body) (p n)"
  using assms
proof (induction n)
  case 0
  show ?case by (simp add: for_each_def triple_block_Nil)
next
  case (Suc n)
  then have "triple (p 0) (for_each [0..<n] body) (p n)" "triple (p n) (body n) (p (Suc n))" by simp_all
  then show ?case
    by (auto simp: for_each_def block_append intro!: triple_seq triple_block_Cons triple_block_Nil)
qed

lemma ow_read_element_copies:
  assumes "transfers P d x" and "reliable P d" and "runs_beside (client_env_step P (dev_step d)) env"
    and "adverts_stable env" and "away x (sk_data_buf (sketch_info s0)) (4 * n)" and "i < n" and "4 * n \<le> 2 ^ 64"
  shows "triple (resting d x (sketch_copied x s0 i) s0) (ow_read_element P env i)
    (resting d x (sketch_copied x s0 (Suc i)) s0)"
proof -
  let ?F = "sketch_segments x i s0" and ?mm = "sketch_copied x s0 i"
  have clr: "clear x ?F" by (rule sketch_segments_clear [OF assms(5-7)])
  note kept = env_resting [OF assms(1-4)]
  have eq: "deliver ?F ?mm = sketch_copied x s0 (Suc i)"
    using assms(6,7) by (intro sketch_copied_Suc) simp
  have final: "resting d x (sketch_copied x s0 (Suc i)) s0 u"
    if u: "(posted d 0 u \<and> lands d x ?F ?mm u \<and> known s0 u) \<and> RDMA_READ_COMPLETE u" for u
  proof -
    have "quiet d u" using u posted_quiet by blast
    then show ?thesis
      using u lands_deliver [of d x ?F ?mm u] by (simp add: resting_def quiet_def eq)
  qed
  show ?thesis
    unfolding ow_read_element_def
    by (rule triple_thread_Cons [OF kept(1) clear_flag_rest
          triple_thread_Cons [OF kept(2) request_ready(3)
          counted_transfer [OF assms(1-4) own_requests(3) clr triple_thread_Nil]]]) (use final in blast)+
qed

lemma ow_read_copied:
  assumes "transfers P d x" and "reliable P d" and "runs_beside (client_env_step P (dev_step d)) env"
    and "adverts_stable env" and "at_rest d x s" and "nat (sk_data_size (sketch_info s)) = n"
    and "away x (sk_data_buf (sketch_info s)) (4 * n)" and "4 * n \<le> 2 ^ 64"
    and "ow_read P env s = Some (Inr t)" and "\<not> receives x a"
  shows "mem (mach t) a = write_bytes (mem (mach s)) (sk_data_buf (sketch_info s))
    (read_bytes (remote x) (sk_remote_addr (sketch_info s)) (4 * n)) a"
proof -
  note kept = env_resting [OF assms(1-4)]
  have zero: "sketch_copied x s 0 = mem (mach s)"
    by (simp add: sketch_copied_def write_bytes_def fun_eq_iff)
  have set': "settled d s" using assms(5) by (simp add: at_rest_def)
  have reset: "triple (\<lambda>u. resting d x (mem (mach s)) s u \<and> pendingReads u = 0)
      (assign (\<lambda>s. s\<lparr>pendingReads := 0\<rparr>)) (resting d x (sketch_copied x s 0) s)"
    by (rule triple_assign) (simp add: zero resting_def quiet_def balance_def lands_def)
  have start: "resting d x (mem (mach s)) s u \<and> pendingReads u = 0 \<Longrightarrow> env u = Inr v \<Longrightarrow>
      resting d x (mem (mach s)) s v \<and> pendingReads v = 0" for u v
    using kept(1) [of "mem (mach s)" s u v] quiet_kept(3) [OF transfers_reads [OF assms(1)] assms(3), of u v]
    by (simp add: settled_iff resting_def)
  have each: "triple (resting d x (sketch_copied x s 0) s) (for_each [0..<n] (ow_read_element P env))
      (resting d x (sketch_copied x s n) s)"
    by (rule triple_for_upto [where p = "\<lambda>i. resting d x (sketch_copied x s i) s"])
      (rule ow_read_element_copies [OF assms(1-4,7) _ assms(8)])
  have loop: "triple (resting d x (sketch_copied x s 0) s)
      (\<lambda>s. for_each [0..<nat (sk_data_size (sketch_info s))] (ow_read_element P env) s)
      (resting d x (sketch_copied x s n) s)"
    unfolding triple_def
  proof (intro allI impI)
    fix u v assume u: "resting d x (sketch_copied x s 0) s u"
      and run: "for_each [0..<nat (sk_data_size (sketch_info u))] (ow_read_element P env) u = Some (Inr v)"
    have "nat (sk_data_size (sketch_info u)) = n"
      using u known_fields(5) [of s u] assms(6) by (simp add: resting_def)
    with run show "resting d x (sketch_copied x s n) s v" using tripleD [OF each u] by simp
  qed
  have wait: "triple (resting d x (sketch_copied x s n) s) (await env (\<lambda>s. \<not> 0 < pendingReads s))
      (resting d x (sketch_copied x s n) s)"
    by (rule triple_await [OF kept(1)]) simp_all
  have "triple (\<lambda>u. resting d x (mem (mach s)) s u \<and> pendingReads u = 0) (ow_read P env)
      (resting d x (sketch_copied x s n) s)"
    unfolding ow_read_def
    by (rule triple_thread_Cons [OF start reset triple_thread_Cons [OF kept(1) loop
          triple_thread_Cons [OF kept(1) wait triple_thread_Nil]]])
  from tripleD [OF this _ assms(9)] at_rest_resting [OF assms(5)] set' assms(10) show ?thesis
    by (simp add: settled_def resting_def lands_def sketch_copied_def)
qed

text \<open>
  C12: \<open>ow_read\<close>, one READ for every element of the sketch, is one bulk copy: when it returns, the \<open>4 * n\<close>
  bytes of the local sketch are those of the server's sketch, and no other byte has changed, receive
  buffers apart.
\<close>

theorem ow_read_copies:
  assumes "transfers P d x" and "reliable P d" and "runs_beside (client_env_step P (dev_step d)) env"
    and "adverts_stable env" and "at_rest d x s" and "nat (sk_data_size (sketch_info s)) = n"
    and "away x (sk_data_buf (sketch_info s)) (4 * n)" and "4 * n \<le> 2 ^ 64"
    and "ow_read P env s = Some (Inr t)" and "\<not> receives x a"
  shows "mem (mach t) a = write_bytes (mem (mach s)) (sk_data_buf (sketch_info s))
    (read_bytes (remote x) (sk_remote_addr (sketch_info s)) (4 * n)) a"
  using assms by (rule ow_read_copied)


subsection \<open>The class\<close>

text \<open>
  The two allocations at the start of \<open>read_class\<close> may change memory (the unused object is written) and
  the entry array; after them the client is at rest again, with other contents.
\<close>

definition resting_class :: "'w device \<Rightarrow> 'w transfer \<Rightarrow> 'w client \<Rightarrow> 'w client \<Rightarrow> bool" where
  "resting_class d x s0 s \<longleftrightarrow> (\<exists>u mm. resting d x mm u s \<and> adverts u = adverts s0 \<and>
     class_recv_data (class_info u) = class_recv_data (class_info s0) \<and>
     class_recv_buf (class_info u) = class_recv_buf (class_info s0))"

lemma resting_self: "resting d x mm u s \<Longrightarrow> resting d x (mem (mach s)) s s"
  by (auto simp: resting_def lands_def known_def quiet_def)

lemma resting_classI:
  assumes "resting d x mm s s" and "adverts s = adverts s0"
    and "class_recv_data (class_info s) = class_recv_data (class_info s0)"
    and "class_recv_buf (class_info s) = class_recv_buf (class_info s0)"
  shows "resting_class d x s0 s"
  using assms unfolding resting_class_def by blast

lemma resting_classE:
  assumes "resting_class d x s0 s"
  shows "resting d x (mem (mach s)) s s" and "adverts s = adverts s0"
    and "class_recv_data (class_info s) = class_recv_data (class_info s0)"
    and "class_recv_buf (class_info s) = class_recv_buf (class_info s0)"
proof -
  from assms obtain u mm where u: "resting d x mm u s" "adverts u = adverts s0"
    "class_recv_data (class_info u) = class_recv_data (class_info s0)"
    "class_recv_buf (class_info u) = class_recv_buf (class_info s0)"
    unfolding resting_class_def by blast
  show "resting d x (mem (mach s)) s s" by (rule resting_self [OF u(1)])
  have "known u s" using u(1) by (simp add: resting_def)
  with u(2-) known_fields(4) [of u s] show "adverts s = adverts s0"
    "class_recv_data (class_info s) = class_recv_data (class_info s0)"
    "class_recv_buf (class_info s) = class_recv_buf (class_info s0)"
    by (simp_all add: known_def)
qed

lemma env_resting_class:
  assumes c: "transfers P d x" "reliable P d" and env: "runs_beside (client_env_step P (dev_step d)) env"
    and st: "adverts_stable env"
  shows "resting_class d x s0 s \<Longrightarrow> env s = Inr t \<Longrightarrow> resting_class d x s0 t"
  unfolding resting_class_def using env_resting(1) [OF c env st] by blast

text \<open>A call that may write memory but leaves the device alone.\<close>

definition same_device :: "'w device \<Rightarrow> 'w transfer \<Rightarrow> 'w machine \<Rightarrow> 'w machine \<Rightarrow> bool" where
  "same_device d x m m' \<longleftrightarrow> tables m' = tables m \<and> outstanding d m' = outstanding d m \<and>
     flight x (world m') = flight x (world m)"

lemma resting_class_mach:
  assumes "resting_class d x s0 s" and "same_device d x (mach s) m"
  shows "resting_class d x s0 (put_mach m s)"
proof (rule resting_classI)
  note s = resting_classE [OF assms(1)]
  show "resting d x (mem m) (put_mach m s) (put_mach m s)"
    using s(1) assms(2)
    by (simp add: resting_def quiet_def balance_def same_device_def in_place_def lands_def known_def put_mach_def)
  show "adverts (put_mach m s) = adverts s0"
    "class_recv_data (class_info (put_mach m s)) = class_recv_data (class_info s0)"
    "class_recv_buf (class_info (put_mach m s)) = class_recv_buf (class_info s0)"
    using s(2-) by (simp_all add: adverts_def put_mach_def)
qed

lemma malloc_device:
  assumes "transfers P d x" and "lib_malloc P n m = (r, m')"
  shows "same_device d x m m'"
  using calls_lib(6) [of P d "same_data d x", OF _ assms(2)] assms(1)
  by (simp add: transfers_def same_data_def same_device_def)

lemma ctor_device:
  assumes c: "transfers P d x" and run: "RdmaTest_ctor P r sz a b m = Some m'"
  shows "same_device d x m m'"
proof -
  have own: "same_device d x (m\<lparr>mem := mm\<rparr>) m1 \<Longrightarrow> same_device d x m (m1\<lparr>mem := mm'\<rparr>)" for mm mm' and m m1 :: "'a machine"
    by (simp add: same_device_def)
  from run obtain buf m1 where "lib_malloc P (max 1 (4 * unat sz)) (m\<lparr>mem :=
      store_word (store_word (store_word (mem m) r sz) (r + 4) a) (r + 8) b\<rparr>) = (buf, m1)"
    and "\<exists>mm'. m' = m1\<lparr>mem := mm'\<rparr>"
    by (auto simp: RdmaTest_ctor_def operator_new_def Let_def split: prod.splits if_splits)
  with malloc_device [OF c this(1)] own show ?thesis by blast
qed

lemma same_device_trans: "same_device d x a b \<Longrightarrow> same_device d x b c \<Longrightarrow> same_device d x a c"
  by (simp add: same_device_def)

lemma class_objects_rest:
  assumes c: "transfers P d x"
  shows "triple (resting_class d x s0)
      (ep_lib (\<lambda>s. operator_new P sizeof_rdma_test) (\<lambda>r. block
        [exit_if (\<lambda>_. r = 0) Bad_alloc,
         (\<lambda>s. case RdmaTest_ctor P r 0 0 0 (mach s) of
                None \<Rightarrow> fail Bad_alloc s
              | Some m \<Rightarrow> skip (put_mach m s))])) (resting_class d x s0)"
    and "triple (resting_class d x s0)
      (ep_lib (\<lambda>s. lib_malloc P (2 * 16))
        (\<lambda>r. assign (\<lambda>s. s\<lparr>class_info := (class_info s)\<lparr>test_sgl := r\<rparr>\<rparr>))) (resting_class d x s0)"
proof -
  have "resting_class d x s0 t" if q: "resting_class d x s0 s"
    and run: "ep_lib (\<lambda>s. operator_new P sizeof_rdma_test) (\<lambda>r. block
        [exit_if (\<lambda>_. r = 0) Bad_alloc,
         (\<lambda>s. case RdmaTest_ctor P r 0 0 0 (mach s) of
                None \<Rightarrow> fail Bad_alloc s
              | Some m \<Rightarrow> skip (put_mach m s))]) s = Some (Inr t)" for s t
  proof -
    from run obtain r m m' where new: "operator_new P sizeof_rdma_test (mach s) = (r, m)"
      and ctor: "RdmaTest_ctor P r 0 0 0 m = Some m'" and t: "t = put_mach m' (put_mach m s)"
      by (auto simp: lib_run block_Cons block_Nil seq_def exit_if_def fail_def skip_run
          split: prod.splits if_splits option.splits)
    have "resting_class d x s0 (put_mach m s)"
      using q malloc_device [OF c] new by (auto simp: operator_new_def intro: resting_class_mach)
    then show ?thesis
      unfolding t by (rule resting_class_mach) (simp add: ctor_device [OF c ctor])
  qed
  then show "triple (resting_class d x s0)
      (ep_lib (\<lambda>s. operator_new P sizeof_rdma_test) (\<lambda>r. block
        [exit_if (\<lambda>_. r = 0) Bad_alloc,
         (\<lambda>s. case RdmaTest_ctor P r 0 0 0 (mach s) of
                None \<Rightarrow> fail Bad_alloc s
              | Some m \<Rightarrow> skip (put_mach m s))])) (resting_class d x s0)"
    by (simp add: triple_def)
  have sgl: "resting_class d x s0 (s\<lparr>class_info := (class_info s)\<lparr>test_sgl := r\<rparr>\<rparr>)"
    if q: "resting_class d x s0 s" for s r
    using resting_classE [OF q]
    by (intro resting_classI [where mm = "mem (mach s)"]) (simp_all add: resting_def quiet_def balance_def lands_def known_def adverts_def)
  show "triple (resting_class d x s0)
      (ep_lib (\<lambda>s. lib_malloc P (2 * 16))
        (\<lambda>r. assign (\<lambda>s. s\<lparr>class_info := (class_info s)\<lparr>test_sgl := r\<rparr>\<rparr>))) (resting_class d x s0)"
    by (auto simp: triple_def lib_run assign_run split: prod.splits
        intro!: sgl intro: resting_class_mach malloc_device [OF c])
qed


lemma resting_class_start:
  assumes "\<And>u mm. adverts u = adverts s0 \<Longrightarrow> class_recv_data (class_info u) = class_recv_data (class_info s0) \<Longrightarrow>
      class_recv_buf (class_info u) = class_recv_buf (class_info s0) \<Longrightarrow> triple (resting d x mm u) c q"
  shows "triple (resting_class d x s0) c q"
  using assms unfolding triple_def resting_class_def by blast

text \<open>What \<open>read_class\<close> leaves in memory: the two segments, and the array pointer set.\<close>

definition class_image :: "'w transfer \<Rightarrow> 'w client \<Rightarrow> memory \<Rightarrow> memory" where
  "class_image x s mm = store_word (deliver (class_segments x s) mm)
     (class_recv_data (class_info s) + 16) (class_recv_buf (class_info s))"

lemma read_class_tail:
  assumes c: "transfers P d x" "reliable P d" "runs_beside (client_env_step P (dev_step d)) env"
    "adverts_stable env" and clr: "clear x (class_segments x u)"
  shows "triple (resting d x mm u) (thread env
     [assign (\<lambda>s. s\<lparr>RDMA_READ_COMPLETE := False\<rparr>),
      class_request,
      post_send P (\<lambda>s. test_class_wr_addr (class_info s)),
      assign (\<lambda>s. s\<lparr>pendingReads := pendingReads s + 1\<rparr>),
      await env (\<lambda>s. \<not> 0 < pendingReads s),
      on_mach (\<lambda>s. on_mem (\<lambda>mm. store_word mm (class_recv_data (class_info s) + 16)
        (class_recv_buf (class_info s)))),
      (\<lambda>s. (\<lambda>_. skip) (rdma_test_at (mem (mach s)) (class_recv_data (class_info s))) s)])
     (resting d x (class_image x u mm) u)"
proof -
  let ?F = "class_segments x u"
  note kept = env_resting [OF c]
  have arrive: "resting d x (deliver ?F mm) u v"
    if "(posted d 0 v \<and> lands d x ?F mm v \<and> known u v) \<and> \<not> 0 < pendingReads v" for v
  proof -
    have "settled d v" using that posted_settled by blast
    then show ?thesis using that lands_deliver [of d x ?F mm v]
      by (simp add: resting_def settled_iff quiet_def)
  qed
  have store: "triple (resting d x (deliver ?F mm) u) (on_mach (\<lambda>s. on_mem (\<lambda>mm.
      store_word mm (class_recv_data (class_info s) + 16) (class_recv_buf (class_info s)))))
      (resting d x (class_image x u mm) u)"
  proof (unfold triple_def, intro allI impI)
    fix v w
    assume v: "resting d x (deliver ?F mm) u v" and run: "on_mach (\<lambda>s. on_mem (\<lambda>mm.
      store_word mm (class_recv_data (class_info s) + 16) (class_recv_buf (class_info s)))) v = Some (Inr w)"
    have "class_info v = class_info u" using v known_fields(4) by (auto simp: resting_def)
    then have "w = put_mach ((mach v)\<lparr>mem := store_word (mem (mach v)) (class_recv_data (class_info u) + 16)
        (class_recv_buf (class_info u))\<rparr>) v"
      using run by (simp add: on_mach_def on_mem_def put_mach_def)
    then show "resting d x (class_image x u mm) u w"
      using v by (simp add: resting_def quiet_def balance_def in_place_def lands_def class_image_def
          store_word_def write_bytes_def)
  qed
  have tail: "triple (\<lambda>s. (posted d 0 s \<and> lands d x ?F mm s \<and> known u s) \<and> \<not> 0 < pendingReads s) (thread env
     [on_mach (\<lambda>s. on_mem (\<lambda>mm. store_word mm (class_recv_data (class_info s) + 16)
        (class_recv_buf (class_info s)))),
      (\<lambda>s. (\<lambda>_. skip) (rdma_test_at (mem (mach s)) (class_recv_data (class_info s))) s)])
     (resting d x (class_image x u mm) u)"
    by (rule triple_weaken [OF triple_thread_Cons [OF kept(1) store
          triple_thread_Cons [OF kept(1) triple_skip triple_thread_Nil]]]) (use arrive in blast)+
  show ?thesis
    by (rule triple_thread_Cons [OF kept(1) clear_flag_rest triple_thread_Cons [OF kept(2) request_ready(2)
          counted_transfer [OF c own_requests(2) clr tail]]])
qed

lemma apart_inner:
  assumes "apart p 32 q k"
  shows "apart (p + 16) 8 q k"
  unfolding apart_def
proof (intro allI impI)
  fix i assume "i < k"
  then have ge: "32 \<le> unat (q + of_nat i - p)" using assms by (simp add: apart_def)
  have "q + of_nat i - (p + 16) = q + of_nat i - p - 16" by simp
  also have "unat \<dots> = unat (q + of_nat i - p) - unat (16 :: ptr)"
    using ge by (intro unat_sub) (simp add: word_le_nat_alt)
  finally show "8 \<le> unat (q + of_nat i - (p + 16))" using ge by simp
qed

lemma class_image_object:
  fixes u :: "'w client" and x :: "'w transfer"
  defines "p \<equiv> class_recv_data (class_info u)" and "q \<equiv> class_recv_buf (class_info u)"
    and "ra \<equiv> tc_remote_addr (class_info u)"
  assumes "apart p 32 q 400" and "apart q 400 p 32"
  shows "rdma_test_at (class_image x u mm) p = (rdma_test_at (remote x) ra)\<lparr>rt_data_buf := q\<rparr>"
    and "i < 100 \<Longrightarrow> word32_at (class_image x u mm) q i = word32_at (remote x) (ra + 32) i"
proof -
  let ?A = "read_bytes (remote x) ra 32" and ?B = "read_bytes (remote x) (ra + 32) 400"
  let ?M = "write_bytes (write_bytes mm p ?A) q ?B"
  have img: "class_image x u mm = store_word ?M (p + 16) q"
    by (simp add: class_image_def deliver_def class_segments_def p_def q_def ra_def)
  have "read_bytes ?M p 32 = ?A"
    using assms(5) read_write_bytes [of ?A mm p] by (simp add: read_write_apart)
  then have "rdma_test_at ?M p = rdma_test_at (remote x) ra"
    using rdma_test_of_read by metis
  then show "rdma_test_at (class_image x u mm) p = (rdma_test_at (remote x) ra)\<lparr>rt_data_buf := q\<rparr>"
    unfolding img by (simp add: rdma_test_at_def load_store_offsets)
  assume i: "i < 100"
  have "read_bytes (class_image x u mm) q 400 = ?B"
    unfolding img store_word_def
    using apart_inner [OF assms(4)] read_write_bytes [of ?B "write_bytes mm p ?A" q]
    by (simp add: read_write_apart)
  then show "word32_at (class_image x u mm) q i = word32_at (remote x) (ra + 32) i"
    using word32_at_read [of "class_image x u mm" q 100 ?B i] word32_at_read [of "remote x" "ra + 32" 100 ?B i] i
    by simp
qed


lemma read_class_rebuilt:
  assumes "transfers P d x" and "reliable P d" and "runs_beside (client_env_step P (dev_step d)) env"
    and "adverts_stable env" and "at_rest d x s"
    and "away x (class_recv_data (class_info s)) 32" and "away x (class_recv_buf (class_info s)) 400"
    and "apart (class_recv_data (class_info s)) 32 (class_recv_buf (class_info s)) 400"
    and "apart (class_recv_buf (class_info s)) 400 (class_recv_data (class_info s)) 32"
    and "read_class P env (\<lambda>_. skip) s = Some (Inr t)"
  shows "rdma_test_at (mem (mach t)) (class_recv_data (class_info s)) =
      (rdma_test_at (remote x) (tc_remote_addr (class_info s)))\<lparr>rt_data_buf := class_recv_buf (class_info s)\<rparr> \<and>
    map (word32_at (mem (mach t)) (class_recv_buf (class_info s))) [0..<100] =
      map (word32_at (remote x) (tc_remote_addr (class_info s) + 32)) [0..<100]"
proof -
  let ?p = "class_recv_data (class_info s)" and ?q = "class_recv_buf (class_info s)"
  note c = assms(1-4)
  let ?post = "\<lambda>t. \<exists>mm u. resting d x (class_image x u mm) u t \<and> adverts u = adverts s \<and>
      class_recv_data (class_info u) = ?p \<and> class_recv_buf (class_info u) = ?q"
  have clr: "clear x (class_segments x u)" if "class_recv_data (class_info u) = ?p"
    "class_recv_buf (class_info u) = ?q" for u
    using assms(6-8) that by (auto simp: clear_def separate_def class_segments_def cells_def away_def)
  have "triple (resting_class d x s) (read_class P env (\<lambda>_. skip)) ?post"
    unfolding read_class_def
    by (rule triple_thread_Cons [OF env_resting_class [OF c] class_objects_rest(1) [OF assms(1)]
          triple_thread_Cons [OF env_resting_class [OF c] class_objects_rest(2) [OF assms(1)]
          resting_class_start]], assumption+)
      (rule triple_weaken [OF read_class_tail [OF c clr]], assumption+, blast)
  moreover have "resting_class d x s s"
    using at_rest_resting [OF assms(5)] by (rule resting_classI) simp_all
  ultimately have "?post t" using assms(10) by (rule tripleD)
  then obtain mm u where t: "resting d x (class_image x u mm) u t" and u: "adverts u = adverts s"
    "class_recv_data (class_info u) = ?p" "class_recv_buf (class_info u) = ?q"
    by blast
  have ra: "tc_remote_addr (class_info u) = tc_remote_addr (class_info s)" using u(1) by (simp add: adverts_def)
  note image = class_image_object [where u = u and x = x and mm = mm, unfolded u(2,3) ra, OF assms(8,9)]
  have same: "read_bytes (mem (mach t)) r n = read_bytes (class_image x u mm) r n"
    if "away x r n" "n \<le> 2 ^ 64" for r n
    using t by (intro read_bytes_away [OF that]) (simp add: resting_def lands_def)
  have "rdma_test_at (mem (mach t)) ?p = rdma_test_at (class_image x u mm) ?p"
    using same [OF assms(6)] rdma_test_of_read [of "mem (mach t)" ?p]
      rdma_test_of_read [of "class_image x u mm" ?p] by simp
  moreover have "word32_at (mem (mach t)) ?q i = word32_at (class_image x u mm) ?q i" if "i < 100" for i
    using same [OF assms(7)] that word32_at_read [OF refl, of i 100 "mem (mach t)" ?q]
      word32_at_read [OF refl, of i 100 "class_image x u mm" ?q] by simp
  ultimately show ?thesis using image by simp
qed

text \<open>
  C13: \<open>read_class\<close> rebuilds the object: when it returns, \<open>class_recv_data\<close> holds the object at the advertised
  address, except that its array pointer points to \<open>class_recv_buf\<close>, which holds the first 100 words
  that follow the object on the server, whatever the object's own size.
\<close>

theorem read_class_rebuilds:
  assumes "transfers P d x" and "reliable P d" and "runs_beside (client_env_step P (dev_step d)) env"
    and "adverts_stable env" and "at_rest d x s"
    and "away x (class_recv_data (class_info s)) 32" and "away x (class_recv_buf (class_info s)) 400"
    and "apart (class_recv_data (class_info s)) 32 (class_recv_buf (class_info s)) 400"
    and "apart (class_recv_buf (class_info s)) 400 (class_recv_data (class_info s)) 32"
    and "read_class P env (\<lambda>_. skip) s = Some (Inr t)"
  shows "rdma_test_at (mem (mach t)) (class_recv_data (class_info s)) =
      (rdma_test_at (remote x) (tc_remote_addr (class_info s)))\<lparr>rt_data_buf := class_recv_buf (class_info s)\<rparr> \<and>
    map (word32_at (mem (mach t)) (class_recv_buf (class_info s))) [0..<100] =
      map (word32_at (remote x) (tc_remote_addr (class_info s) + 32)) [0..<100]"
  using assms by (rule read_class_rebuilt)

end
