(* ===== verification/Copies_Example.thy ===== *)
theory Copies_Example
  imports Copies Platform_Example
begin

section \<open>A device that copies\<close>

text \<open>
  A concrete device for applying the properties of \<open>Copies\<close>: the world is the READ in flight, if
  any; polling takes its completion and writes its segments.  Byte \<open>a\<close> of the server is the low byte
  of the address \<open>a\<close>.
\<close>

definition tx_context :: ibv_context where
  "tx_context = undefined\<lparr>ctx_ops := undefined
     \<lparr>ops_poll_cq := 1, ops_post_send := 2, ops_post_recv := 3, ops_req_notify_cq := 3\<rparr>\<rparr>"

definition tx_remote :: memory where
  "tx_remote a = ucast a"

definition tx_write :: "segments \<Rightarrow> memory \<Rightarrow> memory" where
  "tx_write F mm = foldr (\<lambda>(p, bs) mm. write_bytes mm p bs) F mm"

definition tx_flight :: "memory \<Rightarrow> 'w machine \<Rightarrow> ptr \<Rightarrow> segments" where
  "tx_flight R m wr = (case send_wr_wr (send_wr_at m wr) of
     Wr_rdma ra rk \<Rightarrow> scatter (local_ranges m wr) ra R | _ \<Rightarrow> [])"

definition tx_code :: "memory \<Rightarrow> segments option code" where
  "tx_code R f args m =
     (if f = 1 then
        (case world m of None \<Rightarrow> (0, m)
         | Some F \<Rightarrow> (1, m\<lparr>world := None, mem := tx_write F (mem m), wc_at := (wc_at m)(args ! 2 :=
             (wc_at m (args ! 2))\<lparr>wc_opcode := IBV_WC_RDMA_READ, wc_status := IBV_WC_SUCCESS\<rparr>)\<rparr>))
      else if f = 2 then
        (0, m\<lparr>world := if send_wr_opcode (send_wr_at m (args ! 1)) = IBV_WR_RDMA_READ
                       then Some (tx_flight R m (args ! 1)) else None\<rparr>)
      else (0, m))"

definition tx_platform :: "memory \<Rightarrow> segments option platform" where
  "tx_platform R = quiet_platform\<lparr>code := tx_code R\<rparr>"

definition tx_device :: "segments option device" where
  "tx_device = \<lparr>dev_step = (\<lambda>_ _. False), dev_reads = (\<lambda>w. if w = None then 0 else 1),
     dev_sends = (\<lambda>_. []), dev_sent = (\<lambda>_. []), dev_private = (\<lambda>_. True),
     dev_tables = (\<lambda>_. tx_context, \<lambda>_. undefined, \<lambda>_. undefined)\<rparr>"

definition tx_transfer :: "memory \<Rightarrow> segments option transfer" where
  "tx_transfer R = \<lparr>flight = (\<lambda>w. case w of None \<Rightarrow> [] | Some F \<Rightarrow> F), remote = R,
     receives = (\<lambda>a. a < 16)\<rparr>"

lemma tx_write_outside: "\<not> cells F a \<Longrightarrow> tx_write F mm a = mm a"
  by (induction F) (auto simp: tx_write_def cells_def write_bytes_def split: prod.splits)

lemma tx_write_landed: "separate F \<Longrightarrow> landed F (tx_write F mm)"
proof (induction F)
  case Nil
  show ?case by simp
next
  case (Cons g F)
  obtain p bs where g: "g = (p, bs)" by fastforce
  have F: "landed F (tx_write F mm)" using Cons by (simp add: separate_def)
  have "read_bytes (tx_write (g # F) mm) q (length cs) = cs" if "(q, cs) \<in> set F" for q cs
  proof -
    have "apart p (length bs) q (length cs)" using Cons.prems that by (auto simp: separate_def g)
    then have "read_bytes (tx_write (g # F) mm) q (length cs) = read_bytes (tx_write F mm) q (length cs)"
      by (simp add: tx_write_def g read_write_apart)
    also have "\<dots> = cs" using F that by (auto simp: landed_def)
    finally show ?thesis .
  qed
  moreover have "read_bytes (tx_write (g # F) mm) p (length bs) = bs"
    using Cons.prems read_write_bytes [of bs] by (simp add: tx_write_def g separate_def)
  ultimately show ?case by (auto simp: landed_def g)
qed

lemma tx_in_place:
  "in_place tx_device m \<longleftrightarrow> context_at m = (\<lambda>_. tx_context) \<and> cq_at m = (\<lambda>_. undefined) \<and> qp_at m = (\<lambda>_. undefined)"
  by (simp add: in_place_def tables_def tx_device_def)

lemma tx_views:
  "outstanding tx_device m = (if world m = None then 0 else 1)"
  "flight (tx_transfer R) w = (case w of None \<Rightarrow> [] | Some F \<Rightarrow> F)" "remote (tx_transfer R) = R"
  by (simp_all add: outstanding_def tx_device_def tx_transfer_def)

lemma tx_verbs:
  assumes "context_at m = (\<lambda>_. tx_context)"
  shows "ibv_poll_cq (tx_platform R) q n wc m =
      (case world m of None \<Rightarrow> (0, m)
       | Some F \<Rightarrow> (1, m\<lparr>world := None, mem := tx_write F (mem m), wc_at := (wc_at m)(wc :=
             (wc_at m wc)\<lparr>wc_opcode := IBV_WC_RDMA_READ, wc_status := IBV_WC_SUCCESS\<rparr>)\<rparr>))"
    and "ibv_post_send (tx_platform R) q wr bad m =
      (0, m\<lparr>world := if send_wr_opcode (send_wr_at m wr) = IBV_WR_RDMA_READ then Some (tx_flight R m wr) else None\<rparr>)"
    and "ibv_post_recv (tx_platform R) q wr bad m = (0, m)"
    and "ibv_req_notify_cq (tx_platform R) q fl m = (0, m)"
  using assms
  by (simp_all add: ibv_poll_cq_def ibv_post_send_def ibv_post_recv_def ibv_req_notify_cq_def call_int_def
      tx_platform_def tx_code_def tx_context_def c_int_def split: option.split)

lemma tx_libs:
  "lib_get_cm_event (tx_platform R) ch m = ((0, 9), m)" "lib_ack_cm_event (tx_platform R) e m = (0, m)"
  "lib_resolve_route (tx_platform R) i ms m = (0, m)" "lib_get_cq_event (tx_platform R) ch m = ((0, 3, 0), m)"
  "lib_ack_cq_events (tx_platform R) q k m = ((), m)" "lib_malloc (tx_platform R) sz m = (4096, m)"
  by (simp_all add: tx_platform_def quiet_platform_def)

lemma tx_reads: "reads_contract (tx_platform R) tx_device"
proof -
  have "polls_read (tx_platform R) tx_device" "posts_read (tx_platform R) tx_device"
    by (auto simp: polls_read_def posts_read_def tx_in_place tx_verbs tables_def tx_views
        split: if_splits option.splits)
  moreover have "keeps tx_device (lib_get_cm_event (tx_platform R) ch)" "keeps tx_device (lib_ack_cm_event (tx_platform R) e)"
    "keeps tx_device (lib_resolve_route (tx_platform R) i ms)" "keeps tx_device (lib_get_cq_event (tx_platform R) ch)"
    "keeps tx_device (lib_ack_cq_events (tx_platform R) q n)" "keeps tx_device (lib_malloc (tx_platform R) k)"
    for ch e i ms q n k
    by (auto simp: keeps_def same_reads_def tx_libs)
  moreover have "verb_keeps tx_device (ibv_req_notify_cq (tx_platform R) q fl)"
    "verb_keeps tx_device (ibv_post_recv (tx_platform R) q wr bad)" for q fl wr bad
    by (auto simp: verb_keeps_def same_reads_def tx_in_place tx_verbs)
  ultimately show ?thesis by (simp add: reads_contract_def) (simp add: tx_device_def)
qed

lemma tx_transfers: "transfers (tx_platform R) tx_device (tx_transfer R)"
proof -
  have "calls_keep (tx_platform R) tx_device (same_data tx_device (tx_transfer R))"
    by (auto simp: calls_keep_def relates_def verb_relates_def tx_libs tx_in_place tx_verbs same_data_def read_taken_def
        split: option.splits) (simp_all add: tx_device_def)
  moreover have "polls_landed (tx_platform R) tx_device (tx_transfer R)"
    by (auto simp: polls_landed_def tx_in_place tx_verbs tx_views tx_write_outside tx_write_landed read_taken_def
        split: option.splits)
  moreover have "posts_flight (tx_platform R) tx_device (tx_transfer R)"
    by (auto simp: posts_flight_def tx_in_place tx_verbs tx_views tx_flight_def)
  ultimately show ?thesis using tx_reads by (simp add: transfers_def)
qed

lemma tx_reliable: "reliable (tx_platform R) tx_device"
  by (auto simp: reliable_def tx_in_place tx_verbs split: option.splits)

text \<open>While a READ is pending the completion thread takes a step, otherwise nothing happens.\<close>

definition tx_env :: "memory \<Rightarrow> segments option client \<Rightarrow> fatal + segments option client" where
  "tx_env R s =
     (if 0 < pendingReads s \<and> context_at (mach s) = (\<lambda>_. tx_context) \<and> (cq_pc s = Cq_poll \<or> cq_pc s = Cq_dec)
      then (case client_cq_thread (tx_platform R) s of None \<Rightarrow> Inl Wrong_cq | Some r \<Rightarrow> r)
      else Inr s)"

lemma tx_runs_beside: "runs_beside (client_env_step (tx_platform R) (dev_step tx_device)) (tx_env R)"
  by (auto simp: runs_beside_def tx_env_def split: if_splits option.splits
      intro!: r_into_rtranclp client_env_step.cq)

lemma tx_idle: "pendingReads s \<le> 0 \<Longrightarrow> tx_env R s = Inr s"
  by (simp add: tx_env_def)

lemma tx_turn:
  assumes "context_at (mach s) = (\<lambda>_. tx_context)" and "0 < pendingReads s"
  shows "cq_pc s = Cq_dec \<Longrightarrow> tx_env R s = Inr (s\<lparr>pendingReads := pendingReads s - 1, cq_pc := Cq_poll\<rparr>)"
    and "cq_pc s = Cq_poll \<Longrightarrow> world (mach s) = Some F \<Longrightarrow> tx_env R s =
      Inr (s\<lparr>mach := (mach s)\<lparr>world := None, mem := tx_write F (mem (mach s)), wc_at := (wc_at (mach s))
          (wc_addr s := (wc_at (mach s) (wc_addr s))\<lparr>wc_opcode := IBV_WC_RDMA_READ, wc_status := IBV_WC_SUCCESS\<rparr>)\<rparr>,
        RDMA_READ_COMPLETE := True, cq_pc := Cq_dec\<rparr>)"
  using assms
  by (auto simp: tx_env_def client_cq_thread_def client_poll_def lib_run assign_run tx_verbs put_mach_def
      client_completion_def)

lemma tx_stable: "adverts_stable (tx_env R)"
  unfolding adverts_stable_def
proof (intro allI impI)
  fix s t assume env: "tx_env R s = Inr t"
  show "adverts t = adverts s"
  proof (cases "0 < pendingReads s \<and> context_at (mach s) = (\<lambda>_. tx_context) \<and> (cq_pc s = Cq_poll \<or> cq_pc s = Cq_dec)")
    case False
    then show ?thesis using env by (auto simp: tx_env_def)
  next
    case True
    then show ?thesis
      using env
      by (cases "world (mach s)")
        (auto simp: tx_turn adverts_def tx_env_def client_cq_thread_def client_poll_def lib_run tx_verbs cq_ack_def
          block_Cons block_Nil seq_def assign_run skip_run tx_libs put_mach_def
          client_completion_def)
  qed
qed

definition tx_client :: "segments option client" where
  "tx_client = undefined\<lparr>mach := undefined\<lparr>world := None, context_at := \<lambda>_. tx_context,
       cq_at := \<lambda>_. undefined, qp_at := \<lambda>_. undefined, mem := \<lambda>_. 0\<rparr>,
     GET_RDMA_ADDR := True, GET_CLASS_ADDR := True, GET_SKETCH_ADDR := True,
     RDMA_READ_COMPLETE := False, pendingReads := 0, cq_pc := Cq_poll, rdma_buf := 0x2000, remote_addr := 0x9000, remote_len := 1000, rdma_sgl_addr := 0x3000,
     class_info := undefined\<lparr>class_recv_data := 0x4000, class_recv_buf := 0x4400, tc_remote_addr := 0x9400,
       tc_remote_rkey := 7, tc_remote_len := 32\<rparr>,
     sketch_info := undefined\<lparr>sk_data_size := 2, sk_data_buf := 0x5000, sk_remote_addr := 0x9800,
       sk_remote_rkey := 8, sk_remote_len := 2\<rparr>\<rparr>"

lemma tx_at_rest: "at_rest tx_device (tx_transfer R) tx_client"
  by (simp add: at_rest_def settled_def tx_in_place tx_client_def tx_views)

lemma tx_await:
  "await (tx_env R) b s = (if b s then Some (Inr s) else case tx_env R s of Inl e \<Rightarrow> Some (Inl e) | Inr t \<Rightarrow> await (tx_env R) b t)"
  by (rule await.simps)

lemmas tx_run = stmt_simps tx_idle tx_turn tx_verbs set_send_wr_def set_sge_def post_send_def
  tx_client_def tx_await tx_libs

lemma tx_rdma_read: "\<exists>t. client_rdma_read (tx_platform R) (tx_env R) tx_client = Some (Inr t)"
  by (simp add: client_rdma_read_def rdma_request_def tx_run)

lemma tx_ow_read: "\<exists>t. ow_read (tx_platform R) (tx_env R) tx_client = Some (Inr t)"
proof -
  have two: "[0..<2] = [0, Suc 0]" by (simp add: upt_rec)
  show ?thesis by (simp add: ow_read_def ow_read_element_def sketch_request_def tx_run two)
qed

lemma tx_read_class: "\<exists>t. read_class (tx_platform R) (tx_env R) (\<lambda>_. skip) tx_client = Some (Inr t)"
  by (simp add: read_class_def class_request_def RdmaTest_ctor_def operator_new_def Let_def tx_run)

lemma tx_away:
  assumes "16 \<le> unat p" and "unat p + n < 2 ^ 64"
  shows "away (tx_transfer R) p n"
proof -
  have False if a: "a < 16" and d: "unat (a - p) < n" for a
  proof -
    have "unat p + unat (a - p) < 2 ^ LENGTH(64)" using d assms(2) by simp
    then have "unat (p + (a - p)) = unat p + unat (a - p)" by (simp only: unat_add_lem)
    then have "unat p \<le> unat a" by simp
    moreover have "unat a < 16" using a by (simp add: word_less_nat_alt)
    ultimately show False using assms(1) by simp
  qed
  then show ?thesis by (auto simp: away_def tx_transfer_def)
qed

lemma rdma_read_copies_witness:
  "\<exists>t. client_rdma_read (tx_platform tx_remote) (tx_env tx_remote) tx_client = Some (Inr t) \<and> mem (mach t) 0x2003 = 3"
proof -
  obtain t where t: "client_rdma_read (tx_platform tx_remote) (tx_env tx_remote) tx_client = Some (Inr t)" using tx_rdma_read by blast
  have "away (tx_transfer tx_remote) (rdma_buf tx_client) (unat (remote_len tx_client))"
    by (rule tx_away) (simp_all add: tx_client_def)
  from rdma_read_copies [OF tx_transfers tx_reliable tx_runs_beside tx_stable tx_at_rest this t, of "0x2003"] t
  show ?thesis
    by (auto simp: tx_client_def write_bytes_def read_bytes_def tx_views tx_transfer_def tx_remote_def)
qed

lemma ow_read_copies_witness:
  "\<exists>t. ow_read (tx_platform tx_remote) (tx_env tx_remote) tx_client = Some (Inr t) \<and> mem (mach t) 0x5005 = 5"
proof -
  obtain t where t: "ow_read (tx_platform tx_remote) (tx_env tx_remote) tx_client = Some (Inr t)" using tx_ow_read by blast
  have n: "nat (sk_data_size (sketch_info tx_client)) = 2" by (simp add: tx_client_def)
  have a: "away (tx_transfer tx_remote) (sk_data_buf (sketch_info tx_client)) (4 * 2)"
    by (rule tx_away) (simp_all add: tx_client_def)
  from ow_read_copies [OF tx_transfers tx_reliable tx_runs_beside tx_stable tx_at_rest n a _ t, of "0x5005"] t
  show ?thesis
    by (auto simp: tx_client_def write_bytes_def read_bytes_def tx_views tx_transfer_def tx_remote_def)
qed

lemma read_class_rebuilds_witness:
  "\<exists>t. read_class (tx_platform tx_remote) (tx_env tx_remote) (\<lambda>_. skip) tx_client = Some (Inr t) \<and>
     rdma_test_at (mem (mach t)) 0x4000 = (rdma_test_at tx_remote 0x9400)\<lparr>rt_data_buf := 0x4400\<rparr>"
proof -
  obtain t where t: "read_class (tx_platform tx_remote) (tx_env tx_remote) (\<lambda>_. skip) tx_client = Some (Inr t)"
    using tx_read_class by blast
  have a: "away (tx_transfer tx_remote) (class_recv_data (class_info tx_client)) 32"
    "away (tx_transfer tx_remote) (class_recv_buf (class_info tx_client)) 400"
    by (rule tx_away; simp add: tx_client_def)+
  have b: "apart (class_recv_data (class_info tx_client)) 32 (class_recv_buf (class_info tx_client)) 400"
    "apart (class_recv_buf (class_info tx_client)) 400 (class_recv_data (class_info tx_client)) 32"
    by (rule apart_by_distance; simp add: tx_client_def)+
  from read_class_rebuilds [OF tx_transfers tx_reliable tx_runs_beside tx_stable tx_at_rest a b t] t
  show ?thesis by (simp add: tx_views) (simp add: tx_client_def)
qed

end
