(* ===== verification/Simulation.thy ===== *)
theory Simulation
  imports Main
begin

section \<open>Simulation\<close>

text \<open>
  The interface of a refinement: \<open>cstep l s t\<close> is a concrete step with the label \<open>l\<close>, \<open>astep l\<close> what it
  does to the abstract state.
\<close>

inductive many :: "('l \<Rightarrow> 's \<Rightarrow> 's \<Rightarrow> bool) \<Rightarrow> 'l list \<Rightarrow> 's \<Rightarrow> 's \<Rightarrow> bool" for step where
  none: "many step [] s s"
| more: "step l s t \<Longrightarrow> many step ls t u \<Longrightarrow> many step (l # ls) s u"

inductive_cases many_NilE: "many step [] s t"
inductive_cases many_ConsE: "many step (l # ls) s t"

text \<open>Steps that take the next label of a list run through the whole of it.\<close>

lemma many_takes:
  assumes "\<And>s l ls. left s = l # ls \<Longrightarrow> \<exists>t. step (f l) s t \<and> left t = ls"
  shows "left s = ls \<Longrightarrow> \<exists>t. many step (map f ls) s t"
proof (induction ls arbitrary: s)
  case Nil
  show ?case using many.none by force
next
  case (Cons l ls)
  obtain u where "step (f l) s u" "left u = ls" using assms [OF Cons.prems] by blast
  with Cons.IH [of u] show ?case by (auto intro: many.more)
qed

locale simulation =
  fixes abs :: "'c \<Rightarrow> 'a"
    and cstep :: "'l \<Rightarrow> 'c \<Rightarrow> 'c \<Rightarrow> bool"
    and astep :: "'l \<Rightarrow> 'a \<Rightarrow> 'a"
  assumes simulates: "cstep l s t \<Longrightarrow> abs t = astep l (abs s)"
begin

lemma runs: "many cstep ls s t \<Longrightarrow> abs t = fold astep ls (abs s)"
  by (induction rule: many.induct) (simp_all add: simulates)

lemma ignored:
  assumes "\<And>a. astep l a = a" and "many cstep ls s t"
  shows "abs t = fold astep (removeAll l ls) (abs s)"
  using assms(2) by (induction rule: many.induct) (auto simp: simulates assms(1))

end

end
