(* ===== verification/Session.thy ===== *)
theory Session
  imports Simulation Sends Copies
begin

section \<open>The exchange of addresses\<close>

text \<open>
  What the two processes know of each other's buffers.  The abstract view of the client is a map from
  the three buffers of the server to their advertisements; the client's completion thread implements
  the update of that map, and the messages of the server's \<open>start\<close> fill it.
\<close>

subsection \<open>What the client knows\<close>

datatype (plugins only: code) buffer = Start_buffer | Class_buffer | Sketch_buffer

type_synonym advert = "u64 \<times> u32 \<times> u32"

definition client_knows :: "'w client \<Rightarrow> buffer \<Rightarrow> advert option" where
  "client_knows s k = (case k of
     Start_buffer \<Rightarrow> if GET_RDMA_ADDR s then Some (remote_addr s, remote_rkey s, remote_len s) else None
   | Class_buffer \<Rightarrow> if GET_CLASS_ADDR s
       then Some (tc_remote_addr (class_info s), tc_remote_rkey (class_info s), tc_remote_len (class_info s)) else None
   | Sketch_buffer \<Rightarrow> if GET_SKETCH_ADDR s
       then Some (sk_remote_addr (sketch_info s), sk_remote_rkey (sketch_info s), sk_remote_len (sketch_info s)) else None)"

text \<open>The immediate value names the buffer; a message is the immediate value on the wire and 16 bytes.\<close>

definition buffer_of :: "u32 \<Rightarrow> buffer option" where
  "buffer_of imm = (if imm = 1122 then Some Start_buffer else if imm = 1123 then Some Class_buffer
     else if imm = 1124 then Some Sketch_buffer else None)"

definition advert_of :: "u8 list \<Rightarrow> advert" where
  "advert_of bs = (le_word (rev (take 8 bs)), le_word (rev (take 4 (drop 8 bs))), le_word (rev (take 4 (drop 12 bs))))"

type_synonym message = "u32 \<times> u8 list"

fun learn :: "message option \<Rightarrow> (buffer \<Rightarrow> advert option) \<Rightarrow> (buffer \<Rightarrow> advert option)" where
  "learn None f = f"
| "learn (Some (imm, bs)) f = (case buffer_of (be32toh imm) of None \<Rightarrow> f | Some k \<Rightarrow> f(k \<mapsto> advert_of bs))"

lemma advert_of_bytes: "advert_of (advert_bytes addr rkey sz) = (addr, rkey, sz)"
  by (simp add: advert_of_def advert_bytes_def le_word_le_bytes)

lemma rdma_info_advert:
  assumes "read_bytes mm p 16 = bs"
  shows "(be64toh (info_buf (rdma_info_at mm p)), be32toh (info_rkey (rdma_info_at mm p)),
     be32toh (info_size (rdma_info_at mm p))) = advert_of bs"
proof -
  have part: "i + k \<le> 16 \<Longrightarrow> read_bytes mm (p + of_nat i) k = take k (drop i bs)" for i k
    using pm.rd_part [of i k 16 mm p] assms by simp
  have swap8: "be64toh (le_word xs) = le_word (rev xs)" if "length xs = 8" for xs
    using le_bytes_le_word [of xs, where 'a = 64] that by (simp add: be64toh_def bswap_def)
  have swap4: "be32toh (le_word xs) = le_word (rev xs)" if "length xs = 4" for xs
    using le_bytes_le_word [of xs, where 'a = 32] that by (simp add: be32toh_def bswap_def)
  have len: "length bs = 16" using assms by auto
  show ?thesis
    using part [of 0 8] part [of 8 4] part [of 12 4]
    by (simp add: rdma_info_at_def load_word_def advert_of_def swap8 swap4 len)
qed

text \<open>A receive completion of the message, which the device has put into the receive buffer.\<close>

definition delivers :: "message \<Rightarrow> ibv_wc \<Rightarrow> 'w machine \<Rightarrow> ptr \<Rightarrow> bool" where
  "delivers msg wc m p \<longleftrightarrow> wc_opcode wc = IBV_WC_RECV \<and> wc_byte_len wc = of_nat (length (snd msg)) \<and>
     has_flag (ibv_wc_flags_bit IBV_WC_WITH_IMM) (wc_wc_flags wc) \<and> wc_imm_data wc = fst msg \<and>
     read_bytes (mem m) p (length (snd msg)) = snd msg \<and> length (snd msg) = 16"

definition receives_now :: "'w platform \<Rightarrow> 'w client \<Rightarrow> bool" where
  "receives_now P s \<longleftrightarrow> cq_pc s = Cq_poll \<and> (case ibv_poll_cq P (cq s) 1 (wc_addr s) (mach s) of
     (r, m) \<Rightarrow> r = 1 \<and> wc_opcode (wc_at m (wc_addr s)) = IBV_WC_RECV)"

text \<open>A step of the other threads of the client, labelled with the message that it receives, if any.\<close>

inductive client_hears ::
    "'w platform \<Rightarrow> ('w machine \<Rightarrow> 'w machine \<Rightarrow> bool) \<Rightarrow> message option \<Rightarrow> 'w client \<Rightarrow> 'w client \<Rightarrow> bool"
  for P dev where
  message: "cq_pc s = Cq_poll \<Longrightarrow> ibv_poll_cq P (cq s) 1 (wc_addr s) (mach s) = (1, m) \<Longrightarrow>
     delivers msg (wc_at m (wc_addr s)) m (recv_buf_addr s) \<Longrightarrow> client_cq_thread P s = Some (Inr t) \<Longrightarrow>
     client_hears P dev (Some msg) s t"
| other: "client_env_step P dev s t \<Longrightarrow> \<not> receives_now P s \<Longrightarrow> client_hears P dev None s t"

definition gets :: "'w client \<Rightarrow> bool \<times> bool \<times> bool" where
  "gets s = (GET_RDMA_ADDR s, GET_CLASS_ADDR s, GET_SKETCH_ADDR s)"

lemma client_knows_cong: "gets s = gets t \<Longrightarrow> adverts s = adverts t \<Longrightarrow> client_knows s = client_knows t"
  by (auto simp: fun_eq_iff client_knows_def gets_def adverts_def split: buffer.split)

definition same_knowledge :: "'w client \<Rightarrow> 'w client \<Rightarrow> bool" where
  "same_knowledge s t \<longleftrightarrow> gets t = gets s \<and> adverts t = adverts s"

lemma same_knowledge_simps [simp]:
  "same_knowledge s s" "same_knowledge s (put_mach m t) \<longleftrightarrow> same_knowledge s t"
  "same_knowledge s (t\<lparr>mach := m\<rparr>) \<longleftrightarrow> same_knowledge s t"
  "same_knowledge s (t\<lparr>cq_pc := c\<rparr>) \<longleftrightarrow> same_knowledge s t"
  "same_knowledge s (t\<lparr>cstate := st\<rparr>) \<longleftrightarrow> same_knowledge s t"
  "same_knowledge s (t\<lparr>RDMA_READ_COMPLETE := b\<rparr>) \<longleftrightarrow> same_knowledge s t"
  "same_knowledge s (t\<lparr>RDMA_WRITE_COMPLETE := b\<rparr>) \<longleftrightarrow> same_knowledge s t"
  "same_knowledge s (t\<lparr>pendingReads := k\<rparr>) \<longleftrightarrow> same_knowledge s t"
  by (simp_all add: same_knowledge_def gets_def adverts_def put_mach_def)

lemma same_knowledge_trans: "same_knowledge s t \<Longrightarrow> same_knowledge t u \<Longrightarrow> same_knowledge s u"
  by (simp add: same_knowledge_def)

lemma put_keeps: "triple (same_knowledge s) (ep_lib f (\<lambda>r. exit_if (b r) e)) (same_knowledge s)"
  by (auto simp: triple_def lib_run exit_if_def split: prod.splits if_splits intro: same_knowledge_trans)

lemma cm_knowledge:
  assumes "client_cm_thread P s = Some (Inr t)"
  shows "same_knowledge s t"
proof -
  have ev: "triple (same_knowledge s) (client_cm_event P ev) (same_knowledge s)" for ev
    by (auto simp: triple_def client_cm_event_def block_Cons_run block_Nil_run assign_run skip_run lib_run exit_if_def
        split: rdma_cm_event_type.splits prod.splits if_splits intro: same_knowledge_trans)
  have mid: "triple (same_knowledge s) (\<lambda>s. client_cm_event P (cm_event_at (mach s) event) s) (same_knowledge s)"
    for event
    using ev unfolding triple_def by blast
  have body: "triple (same_knowledge s) (block
     [exit_if (\<lambda>_. ret \<noteq> 0) Get_cm_event_error,
      (\<lambda>s. client_cm_event P (cm_event_at (mach s) event) s),
      ep_lib (\<lambda>s. lib_ack_cm_event P event) (\<lambda>ret. exit_if (\<lambda>_. ret \<noteq> 0) Ack_cm_event_error)]) (same_knowledge s)"
    for ret event
    by (rule triple_block_Cons [OF triple_exit_if triple_block_Cons [OF mid triple_block_Cons [OF put_keeps
          triple_block_Nil]]])
  obtain ret event m where e: "lib_get_cm_event P (cm_channel s) (mach s) = ((ret, event), m)" by (metis prod.exhaust)
  show ?thesis
    by (rule tripleD [OF body, of "put_mach m s" ret event])
      (use assms e in \<open>simp_all add: client_cm_thread_def lib_run [where f = "\<lambda>s. lib_get_cm_event P (cm_channel s)"]\<close>)
qed

lemma cq_wait_knowledge:
  assumes "cq_wait P s = Some (Inr t)"
  shows "same_knowledge s t"
proof -
  from assms obtain m1 m2 where "t = (put_mach m2 (put_mach m1 s))\<lparr>cq_pc := Cq_poll\<rparr>"
    by (auto simp: cq_wait_def request_notify_def lib_run block_Cons block_Nil seq_def exit_if_def assign_run
        split: prod.splits if_splits option.splits sum.splits)
  then show ?thesis by simp
qed

lemma cq_ack_knowledge: "cq_ack P s = Some (Inr t) \<Longrightarrow> same_knowledge s t"
  by (auto simp: cq_ack_def lib_run block_Cons block_Nil seq_def assign_run skip_run split: prod.splits)

lemma other_knowledge:
  assumes "client_env_step P dev s t" and "\<not> receives_now P s"
  shows "same_knowledge s t"
  using assms(1)
proof (cases rule: client_env_step.cases)
  case cm
  then show ?thesis by (rule cm_knowledge)
next
  case (device m)
  then show ?thesis by simp
next
  case cq
  show ?thesis
  proof (cases "cq_pc s")
    case Cq_none
    with cq show ?thesis by (simp add: client_cq_thread_def skip_run)
  next
    case Cq_wait
    with cq cq_wait_knowledge show ?thesis by (simp add: client_cq_thread_def)
  next
    case Cq_dec
    with cq show ?thesis by (auto simp: client_cq_thread_def assign_run)
  next
    case Cq_poll
    obtain r m where poll: "ibv_poll_cq P (cq s) 1 (wc_addr s) (mach s) = (r, m)" by fastforce
    with cq Cq_poll have run: "(if r = 1 then client_completion P (wc_at m (wc_addr s)) (put_mach m s)
        else cq_ack P (put_mach m s)) = Some (Inr t)"
      by (simp add: client_cq_thread_def client_poll_def lib_run put_mach_def split: if_splits)
    have "r = 1 \<longrightarrow> wc_opcode (wc_at m (wc_addr s)) \<noteq> IBV_WC_RECV"
      using assms(2) Cq_poll poll by (simp add: receives_now_def)
    with run have "same_knowledge (put_mach m s) t"
      by (auto simp: client_completion_def assign_run skip_run intro: cq_ack_knowledge
          split: if_splits ibv_wc_opcode.splits)
    then show ?thesis by (simp add: same_knowledge_def gets_def adverts_def put_mach_def)
  qed
qed


text \<open>The update that \<open>recv_handler\<close> makes is \<open>learn\<close>.\<close>

lemma handler_learns:
  assumes msg: "delivers msg wc (mach s) (recv_buf_addr s)" and run: "recv_handler P wc s = Some (Inr t)"
  shows "client_knows t = learn (Some msg) (client_knows s)"
proof -
  obtain imm bs where m: "msg = (imm, bs)" by fastforce
  obtain addr rkey sz where a: "advert_of bs = (addr, rkey, sz)" by (metis prod.exhaust)
  have "read_bytes (mem (mach s)) (recv_buf_addr s) 16 = bs" using msg by (auto simp: delivers_def m)
  note info = rdma_info_advert [OF this, unfolded a]
  have fields: "be64toh (info_buf (rdma_info_at (mem (mach s)) (recv_buf_addr s))) = addr"
    "be32toh (info_rkey (rdma_info_at (mem (mach s)) (recv_buf_addr s))) = rkey"
    "be32toh (info_size (rdma_info_at (mem (mach s)) (recv_buf_addr s))) = sz"
    using info by simp_all
  have wc: "wc_byte_len wc = of_nat sizeof_rdma_info" "has_flag (ibv_wc_flags_bit IBV_WC_WITH_IMM) (wc_wc_flags wc)"
    "wc_imm_data wc = imm"
    using msg by (simp_all add: delivers_def m sizeof_rdma_info_def)
  have "\<exists>m. t = put_mach m
     (if be32toh imm = 1122 then
        s\<lparr>remote_addr := addr, remote_len := sz, remote_rkey := rkey, GET_RDMA_ADDR := True\<rparr>
      else if be32toh imm = 1123 then
        s\<lparr>class_info := (class_info s)\<lparr>tc_remote_addr := addr, tc_remote_len := sz, tc_remote_rkey := rkey\<rparr>,
          GET_CLASS_ADDR := True\<rparr>
      else if be32toh imm = 1124 then
        s\<lparr>sketch_info := (sketch_info s)\<lparr>sk_remote_addr := addr, sk_remote_len := sz, sk_remote_rkey := rkey\<rparr>,
          GET_SKETCH_ADDR := True\<rparr>
      else s)" (is "\<exists>m. t = put_mach m ?u")
    using run
    by (simp add: recv_handler_def block_Cons block_Nil seq_def exit_if_def cond_def assign_run lib_run skip_run
        wc fields Let_def case_prod_unfold del: ibv_wc_flags_bit.simps)
      (auto simp: fields split: if_splits)
  then obtain m where t: "t = put_mach m ?u" by blast
  have "client_knows (put_mach m u) = client_knows u" for u :: "'a client"
    by (rule client_knows_cong) (simp_all add: gets_def adverts_def put_mach_def)
  then show ?thesis
    by (auto simp: t m a buffer_of_def client_knows_def fun_eq_iff split: buffer.split)
qed

lemma client_hears_learns:
  assumes "client_hears P dev l s t"
  shows "client_knows t = learn l (client_knows s)"
  using assms
proof cases
  case (message m msg)
  have run: "recv_handler P (wc_at m (wc_addr s)) (put_mach m s) = Some (Inr t)"
    using message
    by (simp add: client_cq_thread_def client_poll_def lib_run client_completion_def delivers_def)
      (simp add: put_mach_def)
  have "client_knows t = learn (Some msg) (client_knows (put_mach m s))"
    by (rule handler_learns [OF _ run]) (use message in \<open>simp add: put_mach_def\<close>)
  moreover have "client_knows (put_mach m s) = client_knows s"
    by (rule client_knows_cong) (simp_all add: gets_def adverts_def put_mach_def)
  ultimately show ?thesis using message(1) by simp
next
  case other
  then show ?thesis
    using other_knowledge by (metis client_knows_cong same_knowledge_def learn.simps(1))
qed

interpretation client_session: simulation client_knows "client_hears P dev" learn
  by unfold_locales (rule client_hears_learns)



subsection \<open>What the server offers\<close>

definition server_offers :: "'w server \<Rightarrow> buffer \<Rightarrow> advert" where
  "server_offers s k = (case k of
     Start_buffer \<Rightarrow> (start_buf s, mr_rkey (mr_at (mach s) (start_mr s)), word_of_int (start_size s))
   | Class_buffer \<Rightarrow> (class_send_buf (class_info s), mr_rkey (mr_at (mach s) (class_send_mr (class_info s))), 32)
   | Sketch_buffer \<Rightarrow> (sk_data_buf (sketch_info s), mr_rkey (mr_at (mach s) (sketch_mr (sketch_info s))),
       word_of_int (sk_data_size (sketch_info s))))"

lemma learn_offers:
  "fold learn (map Some [(htobe32 1122, start_advert s), (htobe32 1123, class_advert s), (htobe32 1124, sketch_advert s)]) f =
     (\<lambda>k. Some (server_offers s k))"
  by (auto simp: fun_eq_iff buffer_of_def server_offers_def start_advert_def class_advert_def sketch_advert_def
      advert_of_bytes sizeof_rdma_test_def split: buffer.split)

text \<open>
  C1: The composition of the two processes: when the end of the server's \<open>start\<close> returns, and the client
  has received the server's messages in the order in which they were sent, the client knows for each
  of the three buffers exactly the address, key and size that the server offers.
\<close>

theorem client_learns_offers:
  assumes "sends_contract P d" and "runs_beside (server_env_step P (dev_step d)) env"
    and "may_advertise d w s" and "(ucast w :: u32) = 0" and "sent d (mach s) = []"
    and "server_advertise P env s = Some (Inr t)"
    and "many (client_hears P' dev) ls c c'" and "removeAll None ls = map Some (sent d (mach t))"
  shows "client_knows c' = (\<lambda>k. Some (server_offers s k))"
proof -
  have "sent d (mach t) = [(htobe32 1122, start_advert s), (htobe32 1123, class_advert s), (htobe32 1124, sketch_advert s)]"
    using server_sends_three [OF assms(1-4,6)] assms(5) by simp
  with client_session.ignored [OF learn.simps(1) assms(7)] assms(8) show ?thesis
    by (simp only: learn_offers)
qed

text \<open>
  C15: The other direction: the 16 bytes that the client stores in its send buffer, received by the
  server in a completion of that length, become the server's view of the client's buffer.
\<close>

theorem server_learns_client:
  assumes "read_bytes (mem (mach s)) (recv_buf_addr s) 16 = read_bytes (store_rdma_info p addr rkey sz mm) p 16"
    and "wc_byte_len wc = 16"
  shows "server_recv_handler wc s = Some (Inr (s\<lparr>remote_addr := addr, remote_len := sz, remote_rkey := rkey,
    SERVER_GET_REMOTE_ADDR := True\<rparr>))"
proof -
  note info = rdma_info_at_bytes [OF assms(1) [unfolded store_rdma_info_bytes]]
  show ?thesis
    using assms(2)
    by (simp add: server_recv_handler_def block_Cons block_Nil seq_def exit_if_def assign_run sizeof_rdma_info_def
        Let_def info)
qed

end
