(* ===== verification/Session_Example.thy ===== *)
theory Session_Example
  imports Session Sends_Example
begin

section \<open>A network that delivers in order\<close>

text \<open>
  A concrete client side for applying the properties of \<open>Session\<close>: the world is the list of messages
  on their way; polling puts the next one into the receive buffer, at address \<open>0x1000\<close>.
\<close>

definition nx_context :: ibv_context where
  "nx_context = undefined\<lparr>ctx_ops := undefined\<lparr>ops_poll_cq := 1, ops_post_recv := 3\<rparr>\<rparr>"

definition nx_wc :: "message \<Rightarrow> ibv_wc \<Rightarrow> ibv_wc" where
  "nx_wc msg wc = wc\<lparr>wc_opcode := IBV_WC_RECV, wc_byte_len := of_nat (length (snd msg)),
     wc_imm_data := fst msg, wc_wc_flags := flags_or ibv_wc_flags_bit [IBV_WC_WITH_IMM]\<rparr>"

definition nx_code :: "message list code" where
  "nx_code f args m =
     (if f = 1 then
        (case world m of [] \<Rightarrow> (0, m)
         | msg # msgs \<Rightarrow> (1, m\<lparr>world := msgs, mem := write_bytes (mem m) 0x1000 (snd msg),
             wc_at := (wc_at m)(args ! 2 := nx_wc msg (wc_at m (args ! 2)))\<rparr>))
      else (0, m))"

definition nx_platform :: "message list platform" where
  "nx_platform = quiet_platform\<lparr>code := nx_code\<rparr>"

definition nx_ready :: "message list \<Rightarrow> message list client \<Rightarrow> bool" where
  "nx_ready msgs s \<longleftrightarrow> world (mach s) = msgs \<and> context_at (mach s) = (\<lambda>_. nx_context) \<and>
     cq_pc s = Cq_poll \<and> recv_buf_addr s = 0x1000"

lemma nx_verbs:
  assumes "context_at m = (\<lambda>_. nx_context)" and "world m = msg # msgs"
  shows "ibv_poll_cq nx_platform q n wc m = (1, m\<lparr>world := msgs, mem := write_bytes (mem m) 0x1000 (snd msg),
             wc_at := (wc_at m)(wc := nx_wc msg (wc_at m wc))\<rparr>)"
  using assms by (simp add: ibv_poll_cq_def call_int_def nx_platform_def nx_code_def nx_context_def c_int_def)

lemma nx_post_recv:
  "context_at m = (\<lambda>_. nx_context) \<Longrightarrow> ibv_post_recv nx_platform q wr bad m = (0, m)"
  by (simp add: ibv_post_recv_def call_int_def nx_platform_def nx_code_def nx_context_def c_int_def)

lemma nx_hears:
  assumes s: "nx_ready ((imm, bs) # msgs) s" and len: "length bs = 16"
  obtains t where "client_hears nx_platform dev (Some (imm, bs)) s t" "nx_ready msgs t"
proof -
  let ?m = "(mach s)\<lparr>world := msgs, mem := write_bytes (mem (mach s)) 0x1000 bs,
             wc_at := (wc_at (mach s))(wc_addr s := nx_wc (imm, bs) (wc_at (mach s) (wc_addr s)))\<rparr>"
  have poll: "ibv_poll_cq nx_platform (cq s) 1 (wc_addr s) (mach s) = (1, ?m)"
    using s nx_verbs [of "mach s" "(imm, bs)" msgs] by (simp add: nx_ready_def)
  have wc: "wc_at ?m (wc_addr s) = nx_wc (imm, bs) (wc_at (mach s) (wc_addr s))" by simp
  have flag: "has_flag (ibv_wc_flags_bit IBV_WC_WITH_IMM) (flags_or ibv_wc_flags_bit [IBV_WC_WITH_IMM] :: u32)"
    by (simp only: wcf.test_flags_or) simp
  have del: "delivers (imm, bs) (wc_at ?m (wc_addr s)) ?m (recv_buf_addr s)"
    using s len flag read_write_bytes [of bs "mem (mach s)" "0x1000"]
    by (simp add: delivers_def nx_wc_def nx_ready_def)
  have "\<exists>t. recv_handler nx_platform (wc_at ?m (wc_addr s)) (put_mach ?m s) = Some (Inr t) \<and> nx_ready msgs t"
    using s len flag nx_post_recv
    by (simp add: recv_handler_def block_Cons block_Nil seq_def exit_if_def cond_def assign_run lib_run skip_run
        nx_wc_def nx_ready_def put_mach_def Let_def sizeof_rdma_info_def del: ibv_wc_flags_bit.simps)
  then obtain t where t: "recv_handler nx_platform (wc_at ?m (wc_addr s)) (put_mach ?m s) = Some (Inr t)"
    and r: "nx_ready msgs t" by blast
  have "client_cq_thread nx_platform s = Some (Inr t)"
    using s poll t
    by (simp add: client_cq_thread_def client_poll_def lib_run client_completion_def nx_ready_def put_mach_def nx_wc_def)
  with r s poll del show thesis
    by (intro that client_hears.message [where m = ?m]) (simp_all add: nx_ready_def)
qed

lemma nx_run:
  assumes "nx_ready msgs s" and "\<forall>msg \<in> set msgs. length (snd msg) = 16"
  shows "\<exists>t. many (client_hears nx_platform dev) (map Some msgs) s t"
  using assms
proof (induction msgs arbitrary: s)
  case Nil
  show ?case using many.none by force
next
  case (Cons msg msgs)
  obtain imm bs where m: "msg = (imm, bs)" by fastforce
  with Cons.prems obtain u where u: "client_hears nx_platform dev (Some (imm, bs)) s u" "nx_ready msgs u"
    using nx_hears [of imm bs msgs s] by auto
  then obtain t where "many (client_hears nx_platform dev) (map Some msgs) u t"
    using Cons.IH [of u] Cons.prems(2) by auto
  with u(1) show ?case by (auto simp: m intro: many.more)
qed

definition nx_client :: "message list \<Rightarrow> message list client" where
  "nx_client msgs = undefined\<lparr>mach := undefined\<lparr>world := msgs, context_at := \<lambda>_. nx_context\<rparr>,
     cq_pc := Cq_poll, recv_buf_addr := 0x1000, GET_RDMA_ADDR := False, GET_CLASS_ADDR := False,
     GET_SKETCH_ADDR := False\<rparr>"

lemma nx_client_ready: "nx_ready msgs (nx_client msgs)"
  by (simp add: nx_ready_def nx_client_def)


lemma client_learns_offers_witness:
  "\<exists>(c :: message list client) t. server_advertise sx_platform sx_env (sx_server 0) = Some (Inr t) \<and>
     client_knows c = (\<lambda>k. Some (server_offers (sx_server 0) k))"
proof -
  let ?s = "sx_server 0"
  let ?msgs = "[(htobe32 1122, start_advert ?s), (htobe32 1123, class_advert ?s), (htobe32 1124, sketch_advert ?s)]"
  obtain t where t: "server_advertise sx_platform sx_env ?s = Some (Inr t)" using sx_advertise by blast
  have none: "sent sx_device (mach ?s) = []" by (simp add: sx_views sx_server_def)
  then have all: "sent sx_device (mach t) = ?msgs"
    using server_sends_three [OF sx_contract sx_runs_beside sx_may_advertise _ t] by simp
  have "\<forall>msg \<in> set ?msgs. length (snd msg) = 16"
    by (simp add: start_advert_def class_advert_def sketch_advert_def advert_bytes_def)
  then obtain c where c: "many (client_hears nx_platform (\<lambda>_ _. False)) (map Some ?msgs) (nx_client ?msgs) c"
    using nx_run [OF nx_client_ready] by blast
  have "removeAll None (map Some ?msgs) = map Some (sent sx_device (mach t))" by (simp add: all)
  from client_learns_offers [OF sx_contract sx_runs_beside sx_may_advertise _ none t c this] t show ?thesis
    by auto
qed

lemma server_learns_client_witness:
  "server_recv_handler (undefined\<lparr>wc_byte_len := 16\<rparr>)
     (undefined\<lparr>mach := undefined\<lparr>mem := store_rdma_info 0x1000 0x2400 9 1000 (\<lambda>_. 0)\<rparr>, recv_buf_addr := 0x1000\<rparr> :: unit server) =
   Some (Inr (undefined\<lparr>mach := undefined\<lparr>mem := store_rdma_info 0x1000 0x2400 9 1000 (\<lambda>_. 0)\<rparr>, recv_buf_addr := 0x1000,
     remote_addr := 0x2400, remote_len := 1000, remote_rkey := 9, SERVER_GET_REMOTE_ADDR := True\<rparr>))"
  by (rule server_learns_client [where p = "0x1000" and mm = "\<lambda>_. 0", THEN trans]) simp_all

end
