(* ===== verification/Lifecycle.thy ===== *)
theory Lifecycle
  imports Session
begin

section \<open>Connecting, and what goes wrong\<close>

text \<open>
  The parts of \<open>start\<close> before the exchange of addresses: the socket address, the wait for the connection
  manager, the creation of the queues; and the error paths of both processes.
\<close>

subsection \<open>The socket address\<close>

text \<open>
  C23: \<open>bindaddr\<close> puts the address that \<open>getaddrinfo\<close> found into a fresh \<open>sockaddr_storage\<close> and replaces
  its port, and nothing else, by the configured one, which the constructor has put in network order.
\<close>

theorem resolve_sin_address:
  fixes s :: "('w, 'z) endpoint_scheme"
  assumes "lib_malloc P 128 (mach s) = (p, m1)" and "p \<noteq> 0"
    and "lib_getaddrinfo P (ip s) m1 = ((0, res), m2)" and "addrinfo_at m2 res = (PF_INET, src)"
  shows "\<exists>t. resolve_sin P s = Some (Inr t) \<and> sin t = p \<and>
    read_bytes (mem (mach t)) p 16 =
      read_bytes (mem m2) src 2 @ le_bytes 2 (port s) @ read_bytes (mem m2) (src + 4) 12"
proof -
  let ?mm = "write_bytes (mem m2) p (read_bytes (mem m2) src 16)"
  let ?mm' = "store_word ?mm (p + 2) (port s)"
  have run: "resolve_sin P s = Some (Inr (s\<lparr>mach := m2\<lparr>mem := ?mm'\<rparr>, sin := p\<rparr>))"
    using assms
    by (simp add: resolve_sin_def block_Cons block_Nil seq_def lib_run assign_run exit_if_def put_mach_def
        copy_sockaddr_def on_mach_def on_mem_def cond_def memcpy_def)
  have part: "i + k \<le> 16 \<Longrightarrow> read_bytes ?mm (p + of_nat i) k = read_bytes (mem m2) (src + of_nat i) k" for i k
    using pm.rd_wr_part [of "read_bytes (mem m2) src 16" i k "mem m2" p] pm.rd_part [of i k 16 "mem m2" src]
    by simp
  have far: "apart (p + 2) 2 p 2" "apart (p + 2) 2 (p + 4) 12"
    by (rule apart_by_distance; simp)+
  have "read_bytes ?mm' p 16 = read_bytes ?mm' p 2 @ read_bytes ?mm' (p + 2) 2 @ read_bytes ?mm' (p + 4) 12"
    using read_bytes_append [of ?mm' p 2 14] read_bytes_append [of ?mm' "p + 2" 2 12] by (simp add: add.assoc)
  moreover have "read_bytes ?mm' p 2 = read_bytes (mem m2) src 2"
    using part [of 0 2] far(1) by (simp add: store_word_def read_write_apart)
  moreover have "read_bytes ?mm' (p + 2) 2 = le_bytes 2 (port s)"
    using read_write_bytes [of "le_bytes 2 (port s)" ?mm "p + 2"] by (simp add: store_word_def)
  moreover have "read_bytes ?mm' (p + 4) 12 = read_bytes (mem m2) (src + 4) 12"
    using part [of 4 12] far(2) by (simp add: store_word_def read_write_apart)
  ultimately show ?thesis using run by simp
qed

text \<open>
  C24: Every failure of the address resolution ends the process with its own message: no memory, the error
  of \<open>getaddrinfo\<close>, or a family other than IPv4 and IPv6.
\<close>

theorem resolve_sin_errors:
  fixes s :: "('w, 'z) endpoint_scheme"
  assumes "lib_malloc P 128 (mach s) = (p, m1)" and "lib_getaddrinfo P (ip s) m1 = ((ret, res), m2)"
    and "addrinfo_at m2 res = (family, src)"
  shows "resolve_sin P s = Some (Inl e) \<longleftrightarrow>
    e = (if p = 0 then Malloc_error else if ret \<noteq> 0 then Getaddrinfo_error ret else Unknown_family) \<and>
    (p = 0 \<or> ret \<noteq> 0 \<or> family \<notin> {PF_INET, PF_INET6})"
  using assms
  by (auto simp: resolve_sin_def block_Cons block_Nil seq_def lib_run assign_run exit_if_def put_mach_def
      copy_sockaddr_def on_mach_def cond_def fail_def)

subsection \<open>Waiting for the route\<close>

text \<open>The state of the client changes only in the connection thread.\<close>

lemma cq_cstate:
  assumes "client_cq_thread P s = Some (Inr t)"
  shows "cstate t = cstate s"
proof (cases "cq_pc s")
  case Cq_none
  with assms show ?thesis by (simp add: client_cq_thread_def skip_run)
next
  case Cq_dec
  with assms show ?thesis by (auto simp: client_cq_thread_def assign_run)
next
  case Cq_wait
  with assms show ?thesis
    by (auto simp: client_cq_thread_def cq_wait_def request_notify_def lib_run block_Cons block_Nil seq_def
        exit_if_def assign_run put_mach_def split: prod.splits if_splits option.splits sum.splits)
next
  case Cq_poll
  have ack: "cq_ack P u = Some (Inr t) \<Longrightarrow> cstate t = cstate u" for u :: "'a client"
    by (auto simp: cq_ack_def lib_run block_Cons block_Nil seq_def assign_run skip_run put_mach_def split: prod.splits)
  have handler: "recv_handler P wc u = Some (Inr t) \<Longrightarrow> cstate t = cstate u" for wc and u :: "'a client"
    by (auto simp: recv_handler_def block_Cons block_Nil seq_def exit_if_def cond_def assign_run lib_run skip_run
        put_mach_def Let_def split: if_splits prod.splits)
  obtain r m where poll: "ibv_poll_cq P (cq s) 1 (wc_addr s) (mach s) = (r, m)" by fastforce
  have "(if r = 1 then client_completion P (wc_at m (wc_addr s)) (put_mach m s)
      else cq_ack P (put_mach m s)) = Some (Inr t)"
    using assms Cq_poll poll
    by (simp add: client_cq_thread_def client_poll_def lib_run put_mach_def split: if_splits)
  then have "cstate t = cstate (put_mach m s)"
    using ack [of "put_mach m s"] handler [of _ "put_mach m s"]
    by (auto simp: client_completion_def assign_run skip_run split: if_splits ibv_wc_opcode.splits)
  then show ?thesis by (simp add: put_mach_def)
qed

definition event_arrives :: "'w platform \<Rightarrow> rdma_cm_event_type \<Rightarrow> bool" where
  "event_arrives P e \<longleftrightarrow> (\<exists>ch m r ev m'. lib_get_cm_event P ch m = ((r, ev), m') \<and>
     cm_event_event (cm_event_at m' ev) = e)"

lemma cm_not_resolved:
  assumes "\<not> event_arrives P RDMA_CM_EVENT_ROUTE_RESOLVED" and "cstate s \<noteq> ROUTE_RESOLVED"
    and "client_cm_thread P s = Some (Inr t)"
  shows "cstate t \<noteq> ROUTE_RESOLVED"
proof -
  obtain ret event m where e: "lib_get_cm_event P (cm_channel s) (mach s) = ((ret, event), m)" by (metis prod.exhaust)
  have ne: "cm_event_event (cm_event_at m event) \<noteq> RDMA_CM_EVENT_ROUTE_RESOLVED"
    using assms(1) e unfolding event_arrives_def by blast
  have ev: "triple (\<lambda>s. cstate s \<noteq> ROUTE_RESOLVED) (client_cm_event P ev) (\<lambda>s. cstate s \<noteq> ROUTE_RESOLVED)"
    if "cm_event_event ev \<noteq> RDMA_CM_EVENT_ROUTE_RESOLVED" for ev
    using that
    by (auto simp: triple_def client_cm_event_def block_Cons_run block_Nil_run assign_run skip_run lib_run exit_if_def
        put_mach_def split: rdma_cm_event_type.splits prod.splits if_splits)
  have ack: "triple (\<lambda>s. cstate s \<noteq> ROUTE_RESOLVED) (ep_lib (\<lambda>s. lib_ack_cm_event P event)
      (\<lambda>ret. exit_if (\<lambda>_. ret \<noteq> 0) Ack_cm_event_error)) (\<lambda>s. cstate s \<noteq> ROUTE_RESOLVED)"
    by (auto simp: triple_def lib_run exit_if_def put_mach_def split: prod.splits if_splits)
  have "triple (\<lambda>u. u = put_mach m s) (block
     [exit_if (\<lambda>_. ret \<noteq> 0) Get_cm_event_error,
      (\<lambda>s. client_cm_event P (cm_event_at (mach s) event) s),
      ep_lib (\<lambda>s. lib_ack_cm_event P event) (\<lambda>ret. exit_if (\<lambda>_. ret \<noteq> 0) Ack_cm_event_error)])
     (\<lambda>s. cstate s \<noteq> ROUTE_RESOLVED)"
  proof -
    have mid: "triple (\<lambda>u. u = put_mach m s) (\<lambda>s. client_cm_event P (cm_event_at (mach s) event) s)
        (\<lambda>s. cstate s \<noteq> ROUTE_RESOLVED)"
      unfolding triple_def
    proof (intro allI impI)
      fix u v assume u: "u = put_mach m s" and run: "client_cm_event P (cm_event_at (mach u) event) u = Some (Inr v)"
      show "cstate v \<noteq> ROUTE_RESOLVED"
        by (rule tripleD [OF ev [OF ne], of u]) (use u run assms(2) in \<open>simp_all add: put_mach_def\<close>)
    qed
    show ?thesis
      by (rule triple_block_Cons [OF triple_exit_if triple_block_Cons [OF mid triple_block_Cons [OF ack triple_block_Nil]]])
  qed
  then show ?thesis
    by (rule tripleD) (use assms(3) e in
      \<open>simp_all add: client_cm_thread_def lib_run [where f = "\<lambda>s. lib_get_cm_event P (cm_channel s)"]\<close>)
qed


lemma resolve_sin_cstate:
  fixes s :: "'w client"
  assumes "resolve_sin P s = Some (Inr t)"
  shows "cstate t = cstate s"
  using assms
  by (auto simp: resolve_sin_def block_Cons block_Nil seq_def lib_run assign_run exit_if_def put_mach_def
      copy_sockaddr_def on_mach_def cond_def fail_def split: prod.splits if_splits option.splits sum.splits)

text \<open>
  C22: \<open>bindaddr\<close> of the client waits for one event only: unless the connection manager reports a resolved
  route it does not return, whatever else is reported.  The errors (\<open>ADDR_ERROR\<close>, \<open>ROUTE_ERROR\<close>,
  \<open>UNREACHABLE\<close>, \<open>REJECTED\<close>) are not looked at, so that a failed resolution leaves the client waiting.
\<close>

theorem client_bindaddr_needs_route:
  fixes s :: "'w client"
  assumes "runs_beside (client_env_step P dev) env" and "\<not> event_arrives P RDMA_CM_EVENT_ROUTE_RESOLVED"
    and "cstate s \<noteq> ROUTE_RESOLVED"
  shows "client_bindaddr P env s \<noteq> Some (Inr t)"
proof
  assume run: "client_bindaddr P env s = Some (Inr t)"
  let ?i = "\<lambda>s :: 'w client. cstate s \<noteq> ROUTE_RESOLVED"
  have step: "?i v" if "client_env_step P dev u v" "?i u" for u v
    using that(1)
  proof cases
    case cm
    then show ?thesis using cm_not_resolved [OF assms(2) that(2)] by blast
  next
    case cq
    then show ?thesis using cq_cstate that(2) by metis
  next
    case (device m)
    then show ?thesis using that(2) by simp
  qed
  have kept: "?i v" if "?i u" "env u = Inr v" for u v
    by (rule runs_beside_inv [where i = ?i, OF assms(1) that(2,1)]) (rule step)
  have sin': "triple ?i (resolve_sin P) ?i"
    by (auto simp: triple_def dest: resolve_sin_cstate)
  have addr: "triple ?i (ep_lib (\<lambda>s. lib_resolve_addr P (cm_id s) 0 (sin s) 2000)
      (\<lambda>ret. exit_if (\<lambda>_. ret \<noteq> 0) Resolve_addr_error)) ?i"
    by (auto simp: triple_def lib_run exit_if_def put_mach_def split: prod.splits if_splits)
  have wait: "triple ?i (await env (\<lambda>s. cstate s = ROUTE_RESOLVED)) (\<lambda>_. False)"
    by (rule triple_await [OF kept]) simp_all
  have "triple ?i (client_bindaddr P env) (\<lambda>_. False)"
    unfolding client_bindaddr_def
    by (rule triple_thread_Cons [OF kept sin' triple_thread_Cons [OF kept addr
          triple_thread_Cons [OF kept wait triple_thread_Nil]]])
  from tripleD [OF this assms(3) run] show False .
qed

subsection \<open>States as numbers\<close>

text \<open>
  The server's \<open>start\<close> compares its state with an enumerator of the client: the comparison holds in
  exactly one of the server's states, the right one.
\<close>

lemma server_connected_test:
  "ServerState_val st = ClientState_val CONNECTED \<longleftrightarrow> st = SERVER_CONNECTED"
  using sst.val_eq_iff [of st SERVER_CONNECTED] by simp

subsection \<open>Errors\<close>

text \<open>
  C26: A completion queue that cannot be created ends the client in a NULL dereference: its \<open>start\<close> goes on
  to \<open>ibv_req_notify_cq\<close>; the server exits with a message at the same place.
\<close>

theorem cq_creation_fails:
  assumes "lib_alloc_pd P (cm_id_verbs (cm_id_at ma i)) ma = (p, mb)" and "p \<noteq> 0"
    and "lib_create_comp_channel P (cm_id_verbs (cm_id_at mb i)) mb = (ch, mc)" and "ch \<noteq> 0"
    and "lib_create_cq P (cm_id_verbs (cm_id_at mc i)) 32 0 ch 0 mc = (0, md)"
    and "mach s = ma" "cm_id s = i" and "mach s' = ma" "child_cm_id s' = i"
  shows "client_make_queues P Inr s = Some (Inl Null_dereference) \<and>
    server_make_queues P Inr s' = Some (Inl Create_cq_error)"
  using assms
  by (simp add: client_make_queues_def server_make_queues_def thread_Cons seq_def lib_run block_Cons block_Nil
      assign_run exit_if_def put_mach_def SQ_DEPTH_def)

text \<open>
  C25: \<open>rdma_read\<close> of the server works once: it clears the flag that it tests (the second test is an
  assignment), so that the next call exits although the address of the client is still known.
\<close>

theorem server_rdma_read_once:
  assumes "server_rdma_read P s = Some (Inr t)"
  shows "server_rdma_read P' t = Some (Inl No_remote_addr) \<and>
    (remote_addr t, remote_rkey t, remote_len t) = (remote_addr s, remote_rkey s, remote_len s)"
  using assms
  by (auto simp: server_rdma_read_def rdma_request_def post_send_def block_Cons block_Nil seq_def lib_run
      assign_run exit_if_def put_mach_def on_mach_def split: prod.splits if_splits)

end
