(* ===== verification/Lifecycle_Example.thy ===== *)
theory Lifecycle_Example
  imports Lifecycle Platform_Example
begin

section \<open>Starting on the quiet platform\<close>

text \<open>Concrete inputs for the properties of \<open>Lifecycle\<close>.\<close>

definition lx_machine :: "unit machine" where
  "lx_machine = undefined\<lparr>mem := \<lambda>a. ucast a, addrinfo_at := \<lambda>_. (2, 0x5000)\<rparr>"

lemma lx_getaddrinfo: "lib_getaddrinfo quiet_platform a m = ((0, 8192), m)"
  by (simp add: quiet_platform_def)

lemma resolve_sin_address_witness:
  "\<exists>t. resolve_sin quiet_platform (undefined\<lparr>mach := lx_machine, port := 0xDD04\<rparr> :: unit client) = Some (Inr t) \<and>
     read_bytes (mem (mach t)) 4096 16 = [0, 1, 4, 0xDD, 4, 5, 6, 7, 8, 9, 10, 11, 12, 13, 14, 15]"
proof -
  let ?s = "undefined\<lparr>mach := lx_machine, port := 0xDD04\<rparr> :: unit client"
  have bytes: "read_bytes (mem lx_machine) 0x5000 2 = [0, 1]"
    "read_bytes (mem lx_machine) (0x5000 + 4) 12 = [4, 5, 6, 7, 8, 9, 10, 11, 12, 13, 14, 15]"
    "le_bytes 2 (0xDD04 :: u16) = [4, 0xDD]"
    by (simp_all add: read_bytes_def lx_machine_def le_bytes_def upt_rec)
  have "addrinfo_at lx_machine 8192 = (PF_INET, 0x5000)" by (simp add: lx_machine_def PF_INET_def)
  from resolve_sin_address [of quiet_platform ?s 4096 lx_machine 8192 lx_machine "0x5000", OF _ _ _ this]
  obtain t where "resolve_sin quiet_platform ?s = Some (Inr t)" and "read_bytes (mem (mach t)) 4096 16 =
      read_bytes (mem lx_machine) 0x5000 2 @ le_bytes 2 (port ?s) @ read_bytes (mem lx_machine) (0x5000 + 4) 12"
    by (auto simp: lx_getaddrinfo)
  moreover have "port ?s = 0xDD04" by simp
  ultimately show ?thesis by (simp only: bytes) simp
qed

lemma resolve_sin_errors_witness:
  "resolve_sin (quiet_platform\<lparr>lib_getaddrinfo := \<lambda>ip m. ((-2, 0), m)\<rparr>)
     (undefined\<lparr>mach := lx_machine\<rparr> :: unit client) = Some (Inl (Getaddrinfo_error (-2)))"
proof -
  let ?P = "quiet_platform\<lparr>lib_getaddrinfo := \<lambda>ip m. ((-2, 0), m)\<rparr> :: unit platform"
  have "lib_malloc ?P 128 lx_machine = (4096, lx_machine)" by (simp add: quiet_platform_def)
  moreover have "lib_getaddrinfo ?P a lx_machine = ((-2, 0), lx_machine)" for a by simp
  moreover have "addrinfo_at lx_machine 0 = (2, 0x5000)" by (simp add: lx_machine_def)
  ultimately show ?thesis
    using resolve_sin_errors [of ?P "undefined\<lparr>mach := lx_machine\<rparr> :: unit client" 4096 lx_machine "-2" 0 lx_machine
        2 "0x5000" "Getaddrinfo_error (-2)"] by simp
qed

lemma client_bindaddr_needs_route_witness:
  "\<forall>t. client_bindaddr (quiet_platform\<lparr>lib_get_cm_event := \<lambda>ch m. ((0, 9), m\<lparr>cm_event_at :=
       \<lambda>_. undefined\<lparr>cm_event_event := RDMA_CM_EVENT_ADDR_ERROR\<rparr>\<rparr>)\<rparr>) Inr
     (undefined\<lparr>mach := lx_machine, cstate := INIT\<rparr>) \<noteq> Some (Inr t)"
  by (rule allI, rule client_bindaddr_needs_route [where dev = "\<lambda>_ _. False"])
    (auto simp: runs_beside_def event_arrives_def)

lemma cq_creation_fails_witness:
  "client_make_queues (quiet_platform\<lparr>lib_create_cq := \<lambda>ctx n c ch v m. (0, m)\<rparr>) Inr
     (undefined\<lparr>mach := lx_machine, cm_id := 8\<rparr>) = Some (Inl Null_dereference) \<and>
   server_make_queues (quiet_platform\<lparr>lib_create_cq := \<lambda>ctx n c ch v m. (0, m)\<rparr>) Inr
     (undefined\<lparr>mach := lx_machine, child_cm_id := 8\<rparr>) = Some (Inl Create_cq_error)"
  by (rule cq_creation_fails [where ma = lx_machine and mb = lx_machine and mc = lx_machine and
      md = lx_machine and i = 8 and p = 1 and ch = 2]) (simp_all add: quiet_platform_def)

lemma lx_post: "ibv_post_send quiet_platform q wr bad m = (0, m)"
  by (simp add: ibv_post_send_def call_int_def c_int_def)

lemma server_rdma_read_once_witness:
  "\<exists>t. server_rdma_read quiet_platform (undefined\<lparr>mach := lx_machine, SERVER_GET_REMOTE_ADDR := True\<rparr>) = Some (Inr t) \<and>
     server_rdma_read quiet_platform t = Some (Inl No_remote_addr)"
proof -
  obtain t where t: "server_rdma_read quiet_platform (undefined\<lparr>mach := lx_machine, SERVER_GET_REMOTE_ADDR := True\<rparr>)
      = Some (Inr t)"
    by (simp add: server_rdma_read_def rdma_request_def post_send_def block_Cons block_Nil seq_def lib_run
      assign_run exit_if_def put_mach_def on_mach_def lx_post)
  with server_rdma_read_once [OF t] show ?thesis by blast
qed

end
