(* ===== verification/Ibinfo.thy ===== *)
theory Ibinfo
  imports Common_Cm Platform_Example
begin

section \<open>The device printer: get_ibinfo.cpp\<close>

text \<open>
  A third program, which looks up the device of an IPv4 address, prints some of its attributes and
  tries protection domains and shared memory.  \<open>main\<close> is a statement on its local variables; a
  \<open>return 1\<close> is an error that carries the state, so that one can say what is then still held.  The
  printed text is left out; the members that are dereferenced for printing are tested.
\<close>

subsection \<open>The calls of the C library\<close>

record 'w os_platform = "'w platform" +
  os_freeaddrinfo :: "ptr \<Rightarrow> ('w, unit) lib"
  os_page_size :: "('w, u64) lib"
  os_shm_open :: "string \<Rightarrow> int \<Rightarrow> u32 \<Rightarrow> ('w, int) lib"
  os_mmap :: "ptr \<Rightarrow> u64 \<Rightarrow> int \<Rightarrow> int \<Rightarrow> int \<Rightarrow> int \<Rightarrow> ('w, ptr) lib"
  os_write :: "int \<Rightarrow> string \<Rightarrow> ('w, int) lib"
  os_munmap :: "ptr \<Rightarrow> u64 \<Rightarrow> ('w, int) lib"
  os_close :: "int \<Rightarrow> ('w, int) lib"

definition AF_INET :: int where "AF_INET = 2"

definition O_RDWR_CREAT :: int where "O_RDWR_CREAT = 0x42"

definition PROT_READ :: int where "PROT_READ = 1"

definition MAP_SHARED :: int where "MAP_SHARED = 1"

definition MAP_FAILED :: ptr where "MAP_FAILED = - 1"

subsection \<open>The program\<close>

text \<open>The reasons for the exit code 1, and the one place that crashes.\<close>

datatype (plugins only: code) ibinfo_exit =
    Usage | Unresolved | Not_ipv4 | No_channel | No_id | Not_bound | Not_queried | Null_pd
  | No_shm | Not_mapped | Not_written

record 'w ibinfo =
  ib_mach :: "'w machine"
  ib_res :: ptr
  ib_sin :: ptr
  ib_attr :: ptr
  ib_channel :: ptr
  ib_id :: ptr
  ib_pds :: "ptr list"
  ib_region :: u64
  ib_fd :: int
  ib_map :: ptr

text \<open>\<open>ib_sin\<close> and \<open>ib_attr\<close> are the addresses of the local variables \<open>sin\<close> and \<open>dev_attr\<close>.\<close>

type_synonym 'w ib_stmt = "('w ibinfo, ibinfo_exit \<times> 'w ibinfo) stmt"

definition ib_call :: "('w ibinfo \<Rightarrow> ('w, 'r) lib) \<Rightarrow> ('r \<Rightarrow> 'w ibinfo \<Rightarrow> 'w ibinfo) \<Rightarrow> 'w ib_stmt" where
  "ib_call = call ib_mach (\<lambda>m s. s\<lparr>ib_mach := m\<rparr>)"

definition return_1 :: "('w ibinfo \<Rightarrow> bool) \<Rightarrow> ibinfo_exit \<Rightarrow> 'w ib_stmt" where
  "return_1 b e s = (if b s then Some (Inl (e, s)) else Some (Inr s))"

text \<open>A call whose result only decides whether to go on.\<close>

definition ib_try :: "('w ibinfo \<Rightarrow> ('w, int) lib) \<Rightarrow> (int \<Rightarrow> bool) \<Rightarrow> ibinfo_exit \<Rightarrow> 'w ib_stmt" where
  "ib_try f bad e s = (case f s (ib_mach s) of (r, m) \<Rightarrow>
     if bad r then Some (Inl (e, s\<lparr>ib_mach := m\<rparr>)) else Some (Inr (s\<lparr>ib_mach := m\<rparr>)))"

definition ib_alloc_pd :: "'w os_platform \<Rightarrow> 'w ib_stmt" where
  "ib_alloc_pd P = block
     [ib_call (\<lambda>s m. lib_alloc_pd P (cm_id_verbs (cm_id_at m (ib_id s))) m) (\<lambda>r s. s\<lparr>ib_pds := ib_pds s @ [r]\<rparr>),
      return_1 (\<lambda>s. last (ib_pds s) = 0) Null_pd]"

definition common_platform :: "'w os_platform \<Rightarrow> 'w platform" where
  "common_platform P = platform.truncate P"

definition ibinfo_device :: "'w os_platform \<Rightarrow> string \<Rightarrow> 'w ib_stmt" where
  "ibinfo_device P ip' = block
     [(\<lambda>s. case lib_getaddrinfo P ip' (ib_mach s) of ((ret, res), m) \<Rightarrow>
         if ret \<noteq> 0 then Some (Inl (Unresolved, s\<lparr>ib_mach := m\<rparr>))
         else Some (Inr (s\<lparr>ib_mach := m, ib_res := res\<rparr>))),
      return_1 (\<lambda>s. fst (addrinfo_at (ib_mach s) (ib_res s)) \<noteq> AF_INET) Not_ipv4,
      assign (\<lambda>s. s\<lparr>ib_mach := (ib_mach s)\<lparr>mem := memcpy (mem (ib_mach s)) (ib_sin s)
        (snd (addrinfo_at (ib_mach s) (ib_res s))) 16\<rparr>\<rparr>),
      ib_call (\<lambda>s. os_freeaddrinfo P (ib_res s)) (\<lambda>_ s. s),
      ib_call (\<lambda>s. create_first_event_channel (common_platform P)) (\<lambda>(ch, msg) s. s\<lparr>ib_channel := ch\<rparr>),
      return_1 (\<lambda>s. ib_channel s = 0) No_channel,
      (\<lambda>s. case lib_create_id P (ib_channel s) 0 RDMA_PS_TCP (ib_mach s) of ((ret, i), m) \<Rightarrow>
         if ret \<noteq> 0 then Some (Inl (No_id, s\<lparr>ib_mach := m\<rparr>))
         else Some (Inr (s\<lparr>ib_mach := m, ib_id := i\<rparr>))),
      ib_try (\<lambda>s. lib_bind_addr P (ib_id s) (ib_sin s)) (\<lambda>r. r \<noteq> 0) Not_bound,
      ib_try (\<lambda>s m. lib_query_device P (cm_id_verbs (cm_id_at m (ib_id s))) (ib_attr s) m) (\<lambda>r. r \<noteq> 0) Not_queried,
      assign (\<lambda>s. s\<lparr>ib_pds := []\<rparr>),
      ib_alloc_pd P, ib_alloc_pd P, ib_alloc_pd P, ib_alloc_pd P, ib_alloc_pd P]"

definition ibinfo_shared_memory :: "'w os_platform \<Rightarrow> 'w ib_stmt" where
  "ibinfo_shared_memory P = block
     [ib_call (\<lambda>s. os_page_size P) (\<lambda>n s. s\<lparr>ib_region := n\<rparr>),
      ib_call (\<lambda>s. os_shm_open P ''sample_shm'' O_RDWR_CREAT 438) (\<lambda>fd s. s\<lparr>ib_fd := fd\<rparr>),
      return_1 (\<lambda>s. ib_fd s = - 1) No_shm,
      ib_call (\<lambda>s. os_mmap P 0 (ib_region s) PROT_READ MAP_SHARED (ib_fd s) 0) (\<lambda>p s. s\<lparr>ib_map := p\<rparr>),
      return_1 (\<lambda>s. ib_map s = MAP_FAILED) Not_mapped,
      ib_try (\<lambda>s. os_write P (ib_fd s) ''world'') (\<lambda>r. r = - 1) Not_written,
      ib_call (\<lambda>s. os_munmap P (ib_map s) (ib_region s)) (\<lambda>_ s. s),
      ib_call (\<lambda>s. os_close P (ib_fd s)) (\<lambda>_ s. s)]"

definition ibinfo_main :: "'w os_platform \<Rightarrow> string list \<Rightarrow> 'w ib_stmt" where
  "ibinfo_main P args = block
     [return_1 (\<lambda>_. length args < 2) Usage,
      ibinfo_device P (args ! 1),
      ibinfo_shared_memory P,
      ib_call (\<lambda>s. lib_destroy_id P (ib_id s)) (\<lambda>_ s. s),
      ib_call (\<lambda>s. lib_destroy_event_channel P (ib_channel s)) (\<lambda>_ s. s)]"


subsection \<open>What is held\<close>

datatype resource = Addrinfo ptr | Channel ptr | Cm_id ptr | Pd ptr | Fd int | Mapping ptr

text \<open>
  \<open>held w\<close> are the resources of the process.  A call acquires a new one, gives one back, or leaves them
  as they are.
\<close>

definition acquires :: "('w \<Rightarrow> resource set) \<Rightarrow> ('r \<Rightarrow> bool) \<Rightarrow> ('r \<Rightarrow> resource) \<Rightarrow> ('w, 'r) lib \<Rightarrow> bool" where
  "acquires held ok res f \<longleftrightarrow> (\<forall>m r m'. f m = (r, m') \<longrightarrow>
     (if ok r then res r \<notin> held (world m) \<and> held (world m') = insert (res r) (held (world m))
      else held (world m') = held (world m)))"

definition releases :: "('w \<Rightarrow> resource set) \<Rightarrow> resource \<Rightarrow> ('w, 'r) lib \<Rightarrow> bool" where
  "releases held x f \<longleftrightarrow> (\<forall>m r m'. f m = (r, m') \<longrightarrow> held (world m') = held (world m) - {x})"

definition holds_on :: "('w \<Rightarrow> resource set) \<Rightarrow> ('w, 'r) lib \<Rightarrow> bool" where
  "holds_on held f \<longleftrightarrow> (\<forall>m r m'. f m = (r, m') \<longrightarrow> held (world m') = held (world m))"

definition accounts :: "'w os_platform \<Rightarrow> ('w \<Rightarrow> resource set) \<Rightarrow> bool" where
  "accounts P held \<longleftrightarrow>
     (\<forall>a. acquires held (\<lambda>(ret, _). ret = 0) (\<lambda>(_, res). Addrinfo res) (lib_getaddrinfo P a)) \<and>
     (\<forall>r. releases held (Addrinfo r) (os_freeaddrinfo P r)) \<and>
     acquires held (\<lambda>ch. ch \<noteq> 0) Channel (lib_create_event_channel P) \<and>
     (\<forall>ch. releases held (Channel ch) (lib_destroy_event_channel P ch)) \<and>
     (\<forall>ch x ps. acquires held (\<lambda>(ret, _). ret = 0) (\<lambda>(_, i). Cm_id i) (lib_create_id P ch x ps)) \<and>
     (\<forall>i. releases held (Cm_id i) (lib_destroy_id P i)) \<and>
     (\<forall>i a. holds_on held (lib_bind_addr P i a)) \<and> (\<forall>v a. holds_on held (lib_query_device P v a)) \<and>
     (\<forall>v. acquires held (\<lambda>r. r \<noteq> 0) Pd (lib_alloc_pd P v)) \<and>
     holds_on held (os_page_size P) \<and>
     (\<forall>n fl mo. acquires held (\<lambda>fd. fd \<noteq> - 1) Fd (os_shm_open P n fl mo)) \<and>
     (\<forall>a n pr fl fd off. acquires held (\<lambda>p. p \<noteq> MAP_FAILED) Mapping (os_mmap P a n pr fl fd off)) \<and>
     (\<forall>fd bs. holds_on held (os_write P fd bs)) \<and>
     (\<forall>p n. releases held (Mapping p) (os_munmap P p n)) \<and>
     (\<forall>fd. releases held (Fd fd) (os_close P fd))"

text \<open>What each exit leaves behind, besides what the process held before.\<close>

definition open_id :: "'w ibinfo \<Rightarrow> resource set" where
  "open_id s = {Channel (ib_channel s), Cm_id (ib_id s)}"

definition open_pds :: "'w ibinfo \<Rightarrow> resource set" where
  "open_pds s = open_id s \<union> Pd ` (set (ib_pds s) - {0})"

primrec left_behind :: "ibinfo_exit \<Rightarrow> 'w ibinfo \<Rightarrow> resource set" where
  "left_behind Usage s = {}"
| "left_behind Unresolved s = {}"
| "left_behind Not_ipv4 s = {Addrinfo (ib_res s)}"
| "left_behind No_channel s = {}"
| "left_behind No_id s = {Channel (ib_channel s)}"
| "left_behind Not_bound s = open_id s"
| "left_behind Not_queried s = open_id s"
| "left_behind Null_pd s = open_pds s"
| "left_behind No_shm s = open_pds s"
| "left_behind Not_mapped s = open_pds s \<union> {Fd (ib_fd s)}"
| "left_behind Not_written s = open_pds s \<union> {Fd (ib_fd s), Mapping (ib_map s)}"

text \<open>\<open>owns held B R s\<close>: the process holds \<open>B\<close> from before and, apart from it, \<open>R s\<close>.\<close>

definition owns :: "('w \<Rightarrow> resource set) \<Rightarrow> resource set \<Rightarrow> ('w ibinfo \<Rightarrow> resource set) \<Rightarrow> 'w ibinfo \<Rightarrow> bool" where
  "owns held B R s \<longleftrightarrow> held (world (ib_mach s)) = B \<union> R s \<and> B \<inter> R s = {}"

text \<open>\<open>covers p c q r\<close>: from \<open>p\<close> the statement ends with \<open>q\<close>, or exits with \<open>r\<close>.\<close>

definition covers :: "('s \<Rightarrow> bool) \<Rightarrow> ('s, 'e) stmt \<Rightarrow> ('s \<Rightarrow> bool) \<Rightarrow> ('e \<Rightarrow> bool) \<Rightarrow> bool" where
  "covers p c q r \<longleftrightarrow> (\<forall>s. p s \<longrightarrow> (case c s of None \<Rightarrow> False | Some (Inl e) \<Rightarrow> r e | Some (Inr t) \<Rightarrow> q t))"

lemma covers_Nil: "covers p (block []) p r"
  by (simp add: covers_def block_Nil)

lemma covers_Cons: "covers p c q' r \<Longrightarrow> covers q' (block cs) q r \<Longrightarrow> covers p (block (c # cs)) q r"
  by (fastforce simp: covers_def block_Cons seq_def split: option.splits sum.splits)

lemma coversD:
  assumes "covers p c q r" and "p s"
  shows "c s = Some (Inr t) \<Longrightarrow> q t" and "c s = Some (Inl e) \<Longrightarrow> r e"
  using assms unfolding covers_def by (metis option.simps(5) sum.simps(6), metis option.simps(5) sum.simps(5))

definition leaves :: "('w \<Rightarrow> resource set) \<Rightarrow> resource set \<Rightarrow> ibinfo_exit \<times> 'w ibinfo \<Rightarrow> bool" where
  "leaves held B = (\<lambda>(e, s). owns held B (left_behind e) s)"

lemma covers_return_1:
  assumes "\<And>s. p s \<Longrightarrow> b s \<Longrightarrow> owns held B (left_behind e) s" and "\<And>s. p s \<Longrightarrow> \<not> b s \<Longrightarrow> q s"
  shows "covers p (return_1 b e) q (leaves held B)"
  using assms by (simp add: covers_def return_1_def leaves_def)

lemma covers_call:
  assumes "\<And>s r m. p s \<Longrightarrow> f s (ib_mach s) = (r, m) \<Longrightarrow> q (store r (s\<lparr>ib_mach := m\<rparr>))"
  shows "covers p (ib_call f store) q r'"
  using assms by (simp add: covers_def ib_call_def call_def split: prod.splits)

lemma covers_try:
  assumes "\<And>s r m. p s \<Longrightarrow> f s (ib_mach s) = (r, m) \<Longrightarrow>
      (if bad r then owns held B (left_behind e) (s\<lparr>ib_mach := m\<rparr>) else q (s\<lparr>ib_mach := m\<rparr>))"
  shows "covers p (ib_try f bad e) q (leaves held B)"
  using assms by (fastforce simp: covers_def ib_try_def leaves_def split: prod.splits)


lemma acquiresD:
  assumes "acquires held ok res f" and "f m = (r, m')"
  shows "ok r \<Longrightarrow> res r \<notin> held (world m) \<and> held (world m') = insert (res r) (held (world m))"
    and "\<not> ok r \<Longrightarrow> held (world m') = held (world m)"
proof -
  have "if ok r then res r \<notin> held (world m) \<and> held (world m') = insert (res r) (held (world m))
      else held (world m') = held (world m)"
    using assms unfolding acquires_def by blast
  then show "ok r \<Longrightarrow> res r \<notin> held (world m) \<and> held (world m') = insert (res r) (held (world m))"
    "\<not> ok r \<Longrightarrow> held (world m') = held (world m)"
    by simp_all
qed

lemma releasesD: "releases held x f \<Longrightarrow> f m = (r, m') \<Longrightarrow> held (world m') = held (world m) - {x}"
  by (simp add: releases_def)

lemma holds_onD: "holds_on held f \<Longrightarrow> f m = (r, m') \<Longrightarrow> held (world m') = held (world m)"
  by (simp add: holds_on_def)

lemma accountsD:
  assumes "accounts P held"
  shows "acquires held (\<lambda>(ret, _). ret = 0) (\<lambda>(_, res). Addrinfo res) (lib_getaddrinfo P a)"
    and "releases held (Addrinfo r) (os_freeaddrinfo P r)"
    and "acquires held (\<lambda>ch. ch \<noteq> 0) Channel (lib_create_event_channel P)"
    and "releases held (Channel ch) (lib_destroy_event_channel P ch)"
    and "acquires held (\<lambda>(ret, _). ret = 0) (\<lambda>(_, i). Cm_id i) (lib_create_id P ch x ps)"
    and "releases held (Cm_id i) (lib_destroy_id P i)"
    and "holds_on held (lib_bind_addr P i sa)" and "holds_on held (lib_query_device P v at)"
    and "acquires held (\<lambda>r. r \<noteq> 0) Pd (lib_alloc_pd P v)"
    and "holds_on held (os_page_size P)"
    and "acquires held (\<lambda>fd. fd \<noteq> - 1) Fd (os_shm_open P nm fl mo)"
    and "acquires held (\<lambda>p. p \<noteq> MAP_FAILED) Mapping (os_mmap P ma n pr fl fd off)"
    and "holds_on held (os_write P fd bs)"
    and "releases held (Mapping p) (os_munmap P p n)"
    and "releases held (Fd fd) (os_close P fd)"
  using assms by (simp_all add: accounts_def)

text \<open>The protection domains.\<close>

definition has_pds :: "('w \<Rightarrow> resource set) \<Rightarrow> resource set \<Rightarrow> nat \<Rightarrow> 'w ibinfo \<Rightarrow> bool" where
  "has_pds held B n s \<longleftrightarrow> owns held B open_pds s \<and> length (ib_pds s) = n \<and> distinct (ib_pds s) \<and> 0 \<notin> set (ib_pds s)"

lemma open_pds_snoc:
  "open_pds (s\<lparr>ib_mach := m, ib_pds := ps @ [r]\<rparr>) =
     (if r = 0 then open_pds (s\<lparr>ib_pds := ps\<rparr>) else insert (Pd r) (open_pds (s\<lparr>ib_pds := ps\<rparr>)))"
  by (auto simp: open_pds_def open_id_def)

lemma Pd_open_pds: "Pd r \<in> open_pds s \<longleftrightarrow> r \<noteq> 0 \<and> r \<in> set (ib_pds s)"
  by (auto simp: open_pds_def open_id_def)

lemma alloc_pd_covers:
  assumes "accounts P held"
  shows "covers (has_pds held B n) (ib_alloc_pd P) (has_pds held B (Suc n)) (leaves held B)"
proof -
  let ?q = "\<lambda>s. owns held B open_pds s \<and> length (ib_pds s) = Suc n \<and>
      (last (ib_pds s) \<noteq> 0 \<longrightarrow> distinct (ib_pds s) \<and> 0 \<notin> set (ib_pds s))"
  have call: "covers (has_pds held B n) (ib_call (\<lambda>s m. lib_alloc_pd P (cm_id_verbs (cm_id_at m (ib_id s))) m)
      (\<lambda>r s. s\<lparr>ib_pds := ib_pds s @ [r]\<rparr>)) ?q (leaves held B)"
  proof (rule covers_call)
    fix s r m
    assume s: "has_pds held B n s" and f: "lib_alloc_pd P (cm_id_verbs (cm_id_at (ib_mach s) (ib_id s))) (ib_mach s) = (r, m)"
    note eff = acquiresD [OF accountsD(9) [OF assms] f]
    show "?q ((s\<lparr>ib_mach := m\<rparr>)\<lparr>ib_pds := ib_pds (s\<lparr>ib_mach := m\<rparr>) @ [r]\<rparr>)"
    proof (cases "r = 0")
      case True
      with s eff(2) show ?thesis by (simp add: has_pds_def owns_def open_pds_snoc)
    next
      case False
      then have new: "Pd r \<notin> held (world (ib_mach s))" and ins: "held (world m) = insert (Pd r) (held (world (ib_mach s)))"
        using eff(1) by simp_all
      have own: "held (world (ib_mach s)) = B \<union> open_pds s" "B \<inter> open_pds s = {}"
        and pds: "length (ib_pds s) = n" "distinct (ib_pds s)" "0 \<notin> set (ib_pds s)"
        using s by (simp_all add: has_pds_def owns_def)
      have "r \<notin> set (ib_pds s)" using new False own(1) Pd_open_pds [of r s] by blast
      moreover have "Pd r \<notin> B" using new own(1) by blast
      ultimately show ?thesis
        using False own pds ins by (simp add: owns_def open_pds_snoc)
    qed
  qed
  have check: "covers ?q (return_1 (\<lambda>s. last (ib_pds s) = 0) Null_pd) (has_pds held B (Suc n)) (leaves held B)"
    by (rule covers_return_1) (simp_all add: has_pds_def owns_def)
  show ?thesis
    unfolding ib_alloc_pd_def by (rule covers_Cons [OF call covers_Cons [OF check covers_Nil]])
qed

lemma device_covers:
  assumes acc: "accounts P held"
  shows "covers (owns held B (\<lambda>_. {})) (ibinfo_device P ip') (has_pds held B 5) (leaves held B)"
proof -
  let ?S = "owns held B"
  have 1: "covers (?S (\<lambda>_. {})) (\<lambda>s. case lib_getaddrinfo P ip' (ib_mach s) of ((ret, res), m) \<Rightarrow>
         if ret \<noteq> 0 then Some (Inl (Unresolved, s\<lparr>ib_mach := m\<rparr>))
         else Some (Inr (s\<lparr>ib_mach := m, ib_res := res\<rparr>))) (?S (\<lambda>s. {Addrinfo (ib_res s)})) (leaves held B)"
    using acquiresD [OF accountsD(1) [OF acc]]
    by (fastforce simp: covers_def leaves_def owns_def split: prod.splits)
  have 2: "covers (?S (\<lambda>s. {Addrinfo (ib_res s)}))
      (return_1 (\<lambda>s. fst (addrinfo_at (ib_mach s) (ib_res s)) \<noteq> AF_INET) Not_ipv4)
      (?S (\<lambda>s. {Addrinfo (ib_res s)})) (leaves held B)"
    by (rule covers_return_1) (simp_all add: owns_def)
  have 3: "covers (?S (\<lambda>s. {Addrinfo (ib_res s)})) (assign (\<lambda>s. s\<lparr>ib_mach := (ib_mach s)\<lparr>mem := f s\<rparr>\<rparr>))
      (?S (\<lambda>s. {Addrinfo (ib_res s)})) (leaves held B)" for f
    by (simp add: covers_def assign_run owns_def)
  have 4: "covers (?S (\<lambda>s. {Addrinfo (ib_res s)})) (ib_call (\<lambda>s. os_freeaddrinfo P (ib_res s)) (\<lambda>_ s. s))
      (?S (\<lambda>_. {})) (leaves held B)"
    by (rule covers_call) (auto simp: owns_def dest!: releasesD [OF accountsD(2) [OF acc]])
  have 5: "covers (?S (\<lambda>_. {})) (ib_call (\<lambda>s. create_first_event_channel (common_platform P))
        (\<lambda>(ch, msg) s. s\<lparr>ib_channel := ch\<rparr>))
      (?S (\<lambda>s. if ib_channel s = 0 then {} else {Channel (ib_channel s)})) (leaves held B)"
  proof (rule covers_call)
    fix s r m assume s: "?S (\<lambda>_. {}) s" and f: "create_first_event_channel (common_platform P) (ib_mach s) = (r, m)"
    have "lib_create_event_channel P (ib_mach s) = (fst r, m)"
      using f by (auto simp: create_first_event_channel_def common_platform_def platform.truncate_def split: prod.splits)
    from acquiresD [OF accountsD(3) [OF acc] this] s
    show "?S (\<lambda>s. if ib_channel s = 0 then {} else {Channel (ib_channel s)})
        ((\<lambda>(ch, msg) s. s\<lparr>ib_channel := ch\<rparr>) r (s\<lparr>ib_mach := m\<rparr>))"
      by (cases r) (auto simp: owns_def)
  qed
  have 6: "covers (?S (\<lambda>s. if ib_channel s = 0 then {} else {Channel (ib_channel s)}))
      (return_1 (\<lambda>s. ib_channel s = 0) No_channel) (?S (\<lambda>s. {Channel (ib_channel s)})) (leaves held B)"
    by (rule covers_return_1) (simp_all add: owns_def)
  have 7: "covers (?S (\<lambda>s. {Channel (ib_channel s)}))
      (\<lambda>s. case lib_create_id P (ib_channel s) 0 RDMA_PS_TCP (ib_mach s) of ((ret, i), m) \<Rightarrow>
         if ret \<noteq> 0 then Some (Inl (No_id, s\<lparr>ib_mach := m\<rparr>))
         else Some (Inr (s\<lparr>ib_mach := m, ib_id := i\<rparr>))) (?S open_id) (leaves held B)"
    using acquiresD [OF accountsD(5) [OF acc]]
    by (fastforce simp: covers_def leaves_def owns_def open_id_def split: prod.splits)
  have 8: "covers (?S open_id) (ib_try (\<lambda>s. lib_bind_addr P (ib_id s) (ib_sin s)) (\<lambda>r. r \<noteq> 0) Not_bound)
      (?S open_id) (leaves held B)"
    by (rule covers_try) (auto simp: owns_def open_id_def dest!: holds_onD [OF accountsD(7) [OF acc]])
  have 9: "covers (?S open_id) (ib_try (\<lambda>s m. lib_query_device P (cm_id_verbs (cm_id_at m (ib_id s))) (ib_attr s) m)
      (\<lambda>r. r \<noteq> 0) Not_queried) (?S open_id) (leaves held B)"
    by (rule covers_try) (auto simp: owns_def open_id_def dest!: holds_onD [OF accountsD(8) [OF acc]])
  have 10: "covers (?S open_id) (assign (\<lambda>s. s\<lparr>ib_pds := []\<rparr>)) (has_pds held B 0) (leaves held B)"
    by (simp add: covers_def assign_run has_pds_def owns_def open_pds_def open_id_def)
  note pd = alloc_pd_covers [OF acc, of B]
  have pds: "covers (has_pds held B 0) (block [ib_alloc_pd P, ib_alloc_pd P, ib_alloc_pd P, ib_alloc_pd P, ib_alloc_pd P])
      (has_pds held B 5) (leaves held B)"
    using covers_Cons [OF pd covers_Cons [OF pd covers_Cons [OF pd covers_Cons [OF pd covers_Cons [OF pd covers_Nil]]]]]
    by (simp add: eval_nat_numeral)
  show ?thesis
    unfolding ibinfo_device_def
    by (rule covers_Cons [OF 1 covers_Cons [OF 2 covers_Cons [OF 3 covers_Cons [OF 4 covers_Cons [OF 5
          covers_Cons [OF 6 covers_Cons [OF 7 covers_Cons [OF 8 covers_Cons [OF 9 covers_Cons [OF 10 pds]]]]]]]]]])
qed


lemma shared_memory_covers:
  assumes acc: "accounts P held"
  shows "covers (has_pds held B 5) (ibinfo_shared_memory P) (has_pds held B 5) (leaves held B)"
proof -
  let ?S = "\<lambda>R s. owns held B R s \<and> length (ib_pds s) = 5 \<and> distinct (ib_pds s) \<and> 0 \<notin> set (ib_pds s)"
  have start: "has_pds held B 5 = ?S open_pds" by (simp add: has_pds_def fun_eq_iff)
  have fields: "open_pds (s\<lparr>ib_mach := m, ib_fd := fd\<rparr>) = open_pds s" "open_pds (s\<lparr>ib_mach := m, ib_map := p\<rparr>) = open_pds s"
    "open_pds (s\<lparr>ib_mach := m, ib_region := n\<rparr>) = open_pds s" "open_pds (s\<lparr>ib_mach := m\<rparr>) = open_pds s"
    "Fd fd \<notin> open_pds s" "Mapping p \<notin> open_pds s" for s :: "'a ibinfo" and m fd p n
    by (auto simp: open_pds_def open_id_def)
  let ?fd = "\<lambda>s. open_pds s \<union> {Fd (ib_fd s)}" and ?map = "\<lambda>s. open_pds s \<union> {Fd (ib_fd s), Mapping (ib_map s)}"
  have 1: "covers (?S open_pds) (ib_call (\<lambda>s. os_page_size P) (\<lambda>n s. s\<lparr>ib_region := n\<rparr>)) (?S open_pds) (leaves held B)"
    by (rule covers_call) (auto simp: owns_def fields dest!: holds_onD [OF accountsD(10) [OF acc]])
  have 2: "covers (?S open_pds) (ib_call (\<lambda>s. os_shm_open P nm fl mo) (\<lambda>fd s. s\<lparr>ib_fd := fd\<rparr>))
      (?S (\<lambda>s. if ib_fd s = - 1 then open_pds s else ?fd s)) (leaves held B)" for nm fl mo
  proof (rule covers_call)
    fix s r m assume s: "?S open_pds s" and f: "os_shm_open P nm fl mo (ib_mach s) = (r, m)"
    note eff = acquiresD [OF accountsD(11) [OF acc] f]
    show "?S (\<lambda>s. if ib_fd s = - 1 then open_pds s else ?fd s) ((s\<lparr>ib_mach := m\<rparr>)\<lparr>ib_fd := r\<rparr>)"
      using s eff by (cases "r = - 1") (simp_all add: owns_def fields)
  qed
  have 3: "covers (?S (\<lambda>s. if ib_fd s = - 1 then open_pds s else ?fd s)) (return_1 (\<lambda>s. ib_fd s = - 1) No_shm)
      (?S ?fd) (leaves held B)"
    by (rule covers_return_1) (simp_all add: owns_def)
  have 4: "covers (?S ?fd) (ib_call (\<lambda>s. os_mmap P a (ib_region s) pr fl (ib_fd s) off) (\<lambda>p s. s\<lparr>ib_map := p\<rparr>))
      (?S (\<lambda>s. if ib_map s = MAP_FAILED then ?fd s else ?map s)) (leaves held B)" for a pr fl off
  proof (rule covers_call)
    fix s r m assume s: "?S ?fd s" and f: "os_mmap P a (ib_region s) pr fl (ib_fd s) off (ib_mach s) = (r, m)"
    note eff = acquiresD [OF accountsD(12) [OF acc] f]
    show "?S (\<lambda>s. if ib_map s = MAP_FAILED then ?fd s else ?map s) ((s\<lparr>ib_mach := m\<rparr>)\<lparr>ib_map := r\<rparr>)"
      using s eff by (cases "r = MAP_FAILED") (simp_all add: owns_def fields insert_commute)
  qed
  have 5: "covers (?S (\<lambda>s. if ib_map s = MAP_FAILED then ?fd s else ?map s)) (return_1 (\<lambda>s. ib_map s = MAP_FAILED) Not_mapped)
      (?S ?map) (leaves held B)"
    by (rule covers_return_1) (simp_all add: owns_def)
  have 6: "covers (?S ?map) (ib_try (\<lambda>s. os_write P (ib_fd s) bs) (\<lambda>r. r = - 1) Not_written) (?S ?map) (leaves held B)" for bs
    by (rule covers_try) (auto simp: owns_def fields dest!: holds_onD [OF accountsD(13) [OF acc]])
  have 7: "covers (?S ?map) (ib_call (\<lambda>s. os_munmap P (ib_map s) (ib_region s)) (\<lambda>_ s. s)) (?S ?fd) (leaves held B)"
  proof (rule covers_call)
    fix s r m assume s: "?S ?map s" and f: "os_munmap P (ib_map s) (ib_region s) (ib_mach s) = (r, m)"
    note eff = releasesD [OF accountsD(14) [OF acc] f]
    have "Mapping (ib_map s) \<notin> B" using s by (auto simp: owns_def)
    then show "?S ?fd (s\<lparr>ib_mach := m\<rparr>)"
      using s eff by (simp add: owns_def fields Un_Diff insert_Diff_if)
  qed
  have 8: "covers (?S ?fd) (ib_call (\<lambda>s. os_close P (ib_fd s)) (\<lambda>_ s. s)) (?S open_pds) (leaves held B)"
  proof (rule covers_call)
    fix s r m assume s: "?S ?fd s" and f: "os_close P (ib_fd s) (ib_mach s) = (r, m)"
    note eff = releasesD [OF accountsD(15) [OF acc] f]
    have "Fd (ib_fd s) \<notin> B" using s by (auto simp: owns_def)
    then show "?S open_pds (s\<lparr>ib_mach := m\<rparr>)"
      using s eff by (simp add: owns_def fields Un_Diff insert_Diff_if)
  qed
  show ?thesis
    unfolding start ibinfo_shared_memory_def
    by (rule covers_Cons [OF 1 covers_Cons [OF 2 covers_Cons [OF 3 covers_Cons [OF 4 covers_Cons [OF 5
          covers_Cons [OF 6 covers_Cons [OF 7 covers_Cons [OF 8 covers_Nil]]]]]]]])
qed

lemma ibinfo_main_covers:
  assumes acc: "accounts P held"
  shows "covers (owns held B (\<lambda>_. {})) (ibinfo_main P args)
    (\<lambda>s. owns held B (\<lambda>s. Pd ` set (ib_pds s)) s \<and> length (ib_pds s) = 5 \<and> distinct (ib_pds s)) (leaves held B)"
proof -
  let ?ok = "\<lambda>s. length (ib_pds s) = 5 \<and> distinct (ib_pds s) \<and> 0 \<notin> set (ib_pds s)"
  let ?ch = "\<lambda>s. insert (Channel (ib_channel s)) (Pd ` set (ib_pds s))"
  have 1: "covers (owns held B (\<lambda>_. {})) (return_1 (\<lambda>_. length args < 2) Usage) (owns held B (\<lambda>_. {})) (leaves held B)"
    by (rule covers_return_1) (simp_all add: owns_def)
  have 2: "covers (has_pds held B 5) (ib_call (\<lambda>s. lib_destroy_id P (ib_id s)) (\<lambda>_ s. s))
      (\<lambda>s. owns held B ?ch s \<and> ?ok s) (leaves held B)"
  proof (rule covers_call)
    fix s r m assume s: "has_pds held B 5 s" and f: "lib_destroy_id P (ib_id s) (ib_mach s) = (r, m)"
    note eff = releasesD [OF accountsD(6) [OF acc] f]
    have "Cm_id (ib_id s) \<notin> B" using s by (auto simp: has_pds_def owns_def open_pds_def open_id_def)
    moreover have "open_pds s - {Cm_id (ib_id s)} = ?ch s"
      using s by (auto simp: has_pds_def open_pds_def open_id_def)
    moreover have "open_pds s \<supseteq> ?ch s" using calculation(2) by blast
    ultimately show "owns held B ?ch (s\<lparr>ib_mach := m\<rparr>) \<and> ?ok (s\<lparr>ib_mach := m\<rparr>)"
      using s eff by (auto simp: has_pds_def owns_def)
  qed
  have 3: "covers (\<lambda>s. owns held B ?ch s \<and> ?ok s) (ib_call (\<lambda>s. lib_destroy_event_channel P (ib_channel s)) (\<lambda>_ s. s))
      (\<lambda>s. owns held B (\<lambda>s. Pd ` set (ib_pds s)) s \<and> length (ib_pds s) = 5 \<and> distinct (ib_pds s)) (leaves held B)"
    by (rule covers_call) (auto simp: owns_def dest!: releasesD [OF accountsD(4) [OF acc]])
  show ?thesis
    unfolding ibinfo_main_def
    by (rule covers_Cons [OF 1 covers_Cons [OF device_covers [OF acc] covers_Cons [OF shared_memory_covers [OF acc]
          covers_Cons [OF 2 covers_Cons [OF 3 covers_Nil]]]]])
qed


text \<open>
  C38: A run of \<open>get_ibinfo\<close> to its end has given back the address list, the channel, the identifier, the
  mapping and the descriptor, each once, and still holds exactly the five protection domains.
\<close>

theorem ibinfo_releases:
  assumes "accounts P held" and "ibinfo_main P args s = Some (Inr t)"
  shows "held (world (ib_mach t)) = held (world (ib_mach s)) \<union> Pd ` set (ib_pds t) \<and>
    held (world (ib_mach s)) \<inter> Pd ` set (ib_pds t) = {} \<and> length (ib_pds t) = 5 \<and> distinct (ib_pds t)"
proof -
  have "owns held (held (world (ib_mach s))) (\<lambda>_. {}) s" by (simp add: owns_def)
  from coversD(1) [OF ibinfo_main_covers [OF assms(1)] this assms(2)] show ?thesis by (simp add: owns_def)
qed

text \<open>
  C39: Every early exit of \<open>get_ibinfo\<close> leaves open what it has opened so far, in particular the list of
  \<open>getaddrinfo\<close> when the address is not IPv4, and the channel and the identifier on all later exits.
\<close>

theorem ibinfo_exits:
  assumes "accounts P held" and "ibinfo_main P args s = Some (Inl (e, t))"
  shows "held (world (ib_mach t)) = held (world (ib_mach s)) \<union> left_behind e t \<and>
    held (world (ib_mach s)) \<inter> left_behind e t = {}"
proof -
  have "owns held (held (world (ib_mach s))) (\<lambda>_. {}) s" by (simp add: owns_def)
  from coversD(2) [OF ibinfo_main_covers [OF assms(1)] this assms(2)] show ?thesis by (simp add: leaves_def owns_def)
qed

subsection \<open>A small system\<close>

text \<open>The world is the set of resources; every resource has one name, protection domains have five.\<close>

definition ox_get :: "'r \<Rightarrow> 'r \<Rightarrow> resource \<Rightarrow> (resource set, 'r) lib" where
  "ox_get good bad x m =
     (if x \<in> world m then (bad, m) else (good, m\<lparr>world := insert x (world m)\<rparr>))"

definition ox_put :: "'r \<Rightarrow> resource \<Rightarrow> (resource set, 'r) lib" where
  "ox_put r x m = (r, m\<lparr>world := world m - {x}\<rparr>)"

definition ox_pd :: "(resource set, ptr) lib" where
  "ox_pd m = (case find (\<lambda>r. Pd r \<notin> world m) [1, 2, 3, 4, 5] of
     None \<Rightarrow> (0, m) | Some r \<Rightarrow> (r, m\<lparr>world := insert (Pd r) (world m)\<rparr>))"

definition ox_platform :: "resource set os_platform" where
  "ox_platform = platform.extend (quiet_platform
       \<lparr>lib_getaddrinfo := \<lambda>a. ox_get (0, 1) (1, 0) (Addrinfo 1), lib_create_event_channel := ox_get 2 0 (Channel 2),
        lib_destroy_event_channel := \<lambda>ch. ox_put () (Channel ch),
        lib_create_id := \<lambda>ch x ps. ox_get (0, 3) (1, 0) (Cm_id 3), lib_destroy_id := \<lambda>i. ox_put 0 (Cm_id i),
        lib_alloc_pd := \<lambda>v. ox_pd\<rparr>)
     (os_platform.fields (\<lambda>r. ox_put () (Addrinfo r)) (\<lambda>m. (4096, m)) (\<lambda>n fl mo. ox_get 4 (- 1) (Fd 4))
        (\<lambda>a n pr fl fd off. ox_get 0x7000 MAP_FAILED (Mapping 0x7000)) (\<lambda>fd bs m. (5, m))
        (\<lambda>p n. ox_put 0 (Mapping p)) (\<lambda>fd. ox_put 0 (Fd fd)))"

lemmas ox_defs = ox_platform_def platform.defs os_platform.defs quiet_platform_def

lemma ox_accounts: "accounts ox_platform (\<lambda>w. w)"
proof -
  have get: "acquires (\<lambda>w. w) ok res (ox_get good bad x)" if "ok good" "\<not> ok bad" "res good = x" for ok res good bad x
    using that by (auto simp: acquires_def ox_get_def)
  have put: "releases (\<lambda>w. w) x (ox_put r x)" for r x by (auto simp: releases_def ox_put_def)
  have pd: "acquires (\<lambda>w. w) (\<lambda>r. r \<noteq> 0) Pd ox_pd"
    by (auto simp: acquires_def ox_pd_def split: if_splits)
  show ?thesis
    by (simp add: accounts_def ox_defs get put pd holds_on_def MAP_FAILED_def)
qed

definition ox_start :: "resource set ibinfo" where
  "ox_start = undefined\<lparr>ib_mach := undefined\<lparr>world := {}, mem := \<lambda>_. 0, addrinfo_at := \<lambda>_. (2, 0x5000)\<rparr>\<rparr>"

lemma ox_run: "\<exists>t. ibinfo_main ox_platform [''get_ibinfo'', ''10.0.0.20''] ox_start = Some (Inr t)"
  by (simp add: ibinfo_main_def ibinfo_device_def ibinfo_shared_memory_def ib_alloc_pd_def ib_call_def ib_try_def
      return_1_def stmt_simps ox_defs ox_get_def ox_put_def ox_pd_def ox_start_def create_first_event_channel_def
      common_platform_def AF_INET_def MAP_FAILED_def)

lemma ibinfo_releases_witness:
  "\<exists>t. ibinfo_main ox_platform [''get_ibinfo'', ''10.0.0.20''] ox_start = Some (Inr t) \<and>
     world (ib_mach t) = Pd ` set (ib_pds t) \<and> length (ib_pds t) = 5"
proof -
  obtain t where t: "ibinfo_main ox_platform [''get_ibinfo'', ''10.0.0.20''] ox_start = Some (Inr t)"
    using ox_run by blast
  with ibinfo_releases [OF ox_accounts t] show ?thesis by (auto simp: ox_start_def)
qed

definition ox_start6 :: "resource set ibinfo" where
  "ox_start6 = ox_start\<lparr>ib_mach := undefined\<lparr>world := {}, addrinfo_at := \<lambda>_. (10, 0x5000)\<rparr>\<rparr>"

lemma ibinfo_exits_witness:
  "\<exists>t. ibinfo_main ox_platform [''get_ibinfo'', ''::1''] ox_start6 = Some (Inl (Not_ipv4, t)) \<and>
     world (ib_mach t) = {Addrinfo (ib_res t)}"
proof -
  obtain t where t: "ibinfo_main ox_platform [''get_ibinfo'', ''::1''] ox_start6 = Some (Inl (Not_ipv4, t))"
    by (simp add: ibinfo_main_def ibinfo_device_def return_1_def stmt_simps ox_defs ox_get_def ox_start6_def AF_INET_def)
  with ibinfo_exits [OF ox_accounts t] show ?thesis by (auto simp: ox_start6_def)
qed

end
