(* ===== verification/Dataflow.thy ===== *)
theory Dataflow
  imports Copies Server
begin

section \<open>From the server's objects to the client's\<close>

text \<open>
  The composition of what the server puts into its buffers with what the client's functions read:
  the class and the sketch arrive.
\<close>

subsection \<open>What the server publishes\<close>

text \<open>
  The memory after the two copies at the end of \<open>init_class_recv\<close>: the object at \<open>a\<close> to the buffer at
  \<open>cs\<close>, and the object's array behind it.
\<close>

definition publish :: "memory \<Rightarrow> ptr \<Rightarrow> ptr \<Rightarrow> memory" where
  "publish mm cs a =
     (let mm1 = memcpy mm cs a sizeof_rdma_test; obj = rdma_test_at mm1 a in
      memcpy mm1 (cs + of_nat sizeof_rdma_test) (rt_data_buf obj) (unat (rt_size obj) * 4))"

text \<open>Posting a send does not write the server's memory.\<close>

definition posts_keep_memory :: "'w platform \<Rightarrow> bool" where
  "posts_keep_memory P \<longleftrightarrow> (\<forall>q wr bad m r m'. ibv_post_send P q wr bad m = (r, m') \<longrightarrow> mem m' = mem m)"

text \<open>The advertisement that the functions put into the send buffer first.\<close>

definition class_filled :: "'w server \<Rightarrow> memory" where
  "class_filled s = store_rdma_info (send_buf_addr s) (class_send_buf (class_info s))
     (mr_rkey (mr_at (mach s) (class_send_mr (class_info s)))) 32 (mem (mach s))"

definition sketch_filled :: "'w server \<Rightarrow> memory" where
  "sketch_filled s = store_rdma_info (send_buf_addr s) (sk_data_buf (sketch_info s))
     (mr_rkey (mr_at (mach s) (sketch_mr (sketch_info s)))) (word_of_int (sk_data_size (sketch_info s))) (mem (mach s))"

lemma init_class_recv_publishes:
  assumes "posts_keep_memory P" and "init_class_recv P Inr s = Some (Inr t)"
  shows "mem (mach t) = publish (class_filled s) (class_send_buf (class_info s)) (a_addr s)"
  using assms(2) assms(1) [unfolded posts_keep_memory_def, rule_format]
  by (auto simp: init_class_recv_def thread_Cons thread_Nil seq_def post_send_def lib_run exit_if_def on_mach_def
      on_mem_def put_mach_def publish_def Let_def send_request_def set_send_wr_def class_filled_def sizeof_rdma_test_def
      split: prod.splits if_splits option.splits sum.splits)

lemma init_sketch_rdma_fills:
  assumes "posts_keep_memory P" and "init_sketch_rdma P Inr s = Some (Inr t)"
  shows "mem (mach t) = fill_from 0 (nat (sk_data_size (sketch_info s))) (sk_data_buf (sketch_info s)) (sketch_filled s)"
  using assms(2) assms(1) [unfolded posts_keep_memory_def, rule_format]
  by (auto simp: init_sketch_rdma_def thread_Cons thread_Nil seq_def post_send_def lib_run exit_if_def on_mach_def
      on_mem_def put_mach_def send_request_def set_send_wr_def sketch_filled_def
      split: prod.splits if_splits option.splits sum.splits)

text \<open>The published bytes: the object with its array behind it.\<close>

lemma publish_object:
  assumes "unat (rt_size (rdma_test_at mm a)) \<le> 5000" and "apart cs 32 a 32"
    and "apart cs 32 (rt_data_buf (rdma_test_at mm a)) (4 * unat (rt_size (rdma_test_at mm a)))"
  shows "rdma_test_at (publish mm cs a) cs = rdma_test_at mm a"
    and "i < unat (rt_size (rdma_test_at mm a)) \<Longrightarrow>
      word32_at (publish mm cs a) (cs + 32) i = word32_at mm (rt_data_buf (rdma_test_at mm a)) i"
proof -
  let ?obj = "rdma_test_at mm a" and ?mm1 = "memcpy mm cs a 32"
  let ?n = "4 * unat (rt_size ?obj)" and ?d = "rt_data_buf ?obj"
  have "read_bytes ?mm1 a 32 = read_bytes mm a 32"
    using assms(2) by (simp add: memcpy_def read_write_apart)
  then have obj: "rdma_test_at ?mm1 a = ?obj" using rdma_test_of_read by metis
  have pub: "publish mm cs a = write_bytes ?mm1 (cs + 32) (read_bytes ?mm1 ?d ?n)"
    by (simp add: publish_def Let_def sizeof_rdma_test_def obj) (simp add: memcpy_def mult.commute)
  have "apart (cs + 32) ?n cs 32" using assms(1) by (intro apart_by_distance) simp_all
  then have "read_bytes (publish mm cs a) cs 32 = read_bytes mm a 32"
    using read_write_bytes [of "read_bytes mm a 32" mm cs] by (simp add: pub read_write_apart memcpy_def)
  then show "rdma_test_at (publish mm cs a) cs = ?obj" using rdma_test_of_read by metis
  assume i: "i < unat (rt_size ?obj)"
  have "read_bytes (publish mm cs a) (cs + 32) ?n = read_bytes mm ?d ?n"
    using read_write_bytes [of "read_bytes ?mm1 ?d ?n" ?mm1 "cs + 32"] assms(1,3)
    by (simp add: pub memcpy_def read_write_apart)
  then show "word32_at (publish mm cs a) (cs + 32) i = word32_at mm ?d i"
    using word32_at_read [OF refl i, of "publish mm cs a" "cs + 32"] word32_at_read [OF refl i, of mm ?d] by simp
qed

text \<open>Where the object of the server and its array may lie.\<close>

definition class_in_place :: "'w server \<Rightarrow> rdma_test \<Rightarrow> bool" where
  "class_in_place s obj \<longleftrightarrow>
     (let cs = class_send_buf (class_info s); a = a_addr s; n = 4 * unat (rt_size obj) in
      rdma_test_at (mem (mach s)) a = obj \<and> unat (rt_size obj) \<le> 100 \<and>
      apart cs 32 a 32 \<and> apart cs 32 (rt_data_buf obj) n \<and>
      apart (send_buf_addr s) 16 a 32 \<and> apart (send_buf_addr s) 16 (rt_data_buf obj) n)"

lemma class_published:
  assumes "posts_keep_memory P" and "init_class_recv P Inr s = Some (Inr t)" and "class_in_place s obj"
  shows "rdma_test_at (mem (mach t)) (class_send_buf (class_info s)) = obj"
    and "i < unat (rt_size obj) \<Longrightarrow>
      word32_at (mem (mach t)) (class_send_buf (class_info s) + 32) i = word32_at (mem (mach s)) (rt_data_buf obj) i"
proof -
  let ?a = "a_addr s" and ?d = "rt_data_buf obj" and ?n = "4 * unat (rt_size obj)"
  have "read_bytes (class_filled s) ?a 32 = read_bytes (mem (mach s)) ?a 32"
    "read_bytes (class_filled s) ?d ?n = read_bytes (mem (mach s)) ?d ?n"
    using assms(3) by (simp_all add: class_filled_def store_rdma_info_write class_in_place_def Let_def read_write_apart)
  then have obj: "rdma_test_at (class_filled s) ?a = obj"
    and arr: "i < unat (rt_size obj) \<Longrightarrow> word32_at (class_filled s) ?d i = word32_at (mem (mach s)) ?d i"
    using assms(3) rdma_test_of_read [of "class_filled s" ?a] rdma_test_of_read [of "mem (mach s)" ?a]
      word32_at_read [OF refl, of i "unat (rt_size obj)" "class_filled s" ?d]
      word32_at_read [OF refl, of i "unat (rt_size obj)" "mem (mach s)" ?d]
    by (simp_all add: class_in_place_def Let_def)
  have pre: "unat (rt_size obj) \<le> 5000" "apart (class_send_buf (class_info s)) 32 ?a 32"
    "apart (class_send_buf (class_info s)) 32 ?d ?n"
    using assms(3) by (simp_all add: class_in_place_def Let_def)
  note pub = publish_object [of "class_filled s" ?a "class_send_buf (class_info s)", unfolded obj, OF pre]
  show "rdma_test_at (mem (mach t)) (class_send_buf (class_info s)) = obj"
    unfolding init_class_recv_publishes [OF assms(1,2)] by (rule pub(1))
  show "i < unat (rt_size obj) \<Longrightarrow>
      word32_at (mem (mach t)) (class_send_buf (class_info s) + 32) i = word32_at (mem (mach s)) (rt_data_buf obj) i"
    unfolding init_class_recv_publishes [OF assms(1,2)] using pub(2) arr by simp
qed

text \<open>
  The class arrives: when the server's memory is what \<open>init_class_recv\<close> has left and the client reads
  from the address that it advertises, \<open>read_class\<close> returns with an object that has the same members as the
  server's, but its own array, and the array has the elements of the server's object, of which there
  may be at most 100.
\<close>

lemma class_arrives:
  assumes "transfers P d x" and "reliable P d" and "runs_beside (client_env_step P (dev_step d)) env"
    and "adverts_stable env" and "at_rest d x c"
    and "away x (class_recv_data (class_info c)) 32" and "away x (class_recv_buf (class_info c)) 400"
    and "apart (class_recv_data (class_info c)) 32 (class_recv_buf (class_info c)) 400"
    and "apart (class_recv_buf (class_info c)) 400 (class_recv_data (class_info c)) 32"
    and "read_class P env (\<lambda>_. skip) c = Some (Inr c')"
    and "posts_keep_memory P'" and "init_class_recv P' Inr s = Some (Inr s')" and "class_in_place s obj"
    and "remote x = mem (mach s')" and "tc_remote_addr (class_info c) = class_send_buf (class_info s)"
  shows "rdma_test_at (mem (mach c')) (class_recv_data (class_info c)) =
      obj\<lparr>rt_data_buf := class_recv_buf (class_info c)\<rparr> \<and>
    map (word32_at (mem (mach c')) (class_recv_buf (class_info c))) [0..<unat (rt_size obj)] =
      map (word32_at (mem (mach s)) (rt_data_buf obj)) [0..<unat (rt_size obj)]"
proof -
  note copied = read_class_rebuilt [OF assms(1-10), unfolded assms(14,15)]
  note pub = class_published [OF assms(11-13)]
  have "unat (rt_size obj) \<le> 100" using assms(13) by (simp add: class_in_place_def Let_def)
  with copied pub show ?thesis by auto
qed

lemma sketch_read:
  assumes "transfers P d x" and "reliable P d" and "runs_beside (client_env_step P (dev_step d)) env"
    and "adverts_stable env" and "at_rest d x c" and "nat (sk_data_size (sketch_info c)) = n"
    and "away x (sk_data_buf (sketch_info c)) (4 * n)" and "4 * n \<le> 2 ^ 64"
    and "ow_read P env c = Some (Inr c')"
    and "read_bytes (remote x) (sk_remote_addr (sketch_info c)) (4 * n) = iota_bytes n"
  shows "map (word32_at (mem (mach c')) (sk_data_buf (sketch_info c))) [0..<n] = map of_nat [0..<n]"
proof -
  let ?p = "sk_data_buf (sketch_info c)"
  have "mem (mach c') a = write_bytes (mem (mach c)) ?p (iota_bytes n) a" if "\<not> receives x a" for a
    using ow_read_copied [OF assms(1-9) that] assms(10) by simp
  then have "read_bytes (mem (mach c')) ?p (4 * n) = read_bytes (write_bytes (mem (mach c)) ?p (iota_bytes n)) ?p (4 * n)"
    using read_bytes_away [OF assms(7,8)] by blast
  then have "read_bytes (mem (mach c')) ?p (4 * n) = iota_bytes n"
    using read_write_bytes [of "iota_bytes n" "mem (mach c)" ?p] assms(8) by simp
  then show ?thesis
    using word32_at_read [of "mem (mach c')" ?p n "iota_bytes n"] by (auto simp: iota_bytes_nth le_word_le_bytes)
qed

text \<open>
  The sketch arrives: when the server's memory is what \<open>init_sketch_rdma\<close> has left and the client reads
  from the address that it advertises, \<open>ow_read\<close> leaves the numbers 0, 1, 2, ... in the client's sketch.
\<close>

lemma sketch_arrives:
  assumes "transfers P d x" and "reliable P d" and "runs_beside (client_env_step P (dev_step d)) env"
    and "adverts_stable env" and "at_rest d x c" and "nat (sk_data_size (sketch_info c)) = n"
    and "away x (sk_data_buf (sketch_info c)) (4 * n)" and "4 * n \<le> 2 ^ 64"
    and "ow_read P env c = Some (Inr c')"
    and "posts_keep_memory P'" and "init_sketch_rdma P' Inr s = Some (Inr s')"
    and "remote x = mem (mach s')" and "sk_remote_addr (sketch_info c) = sk_data_buf (sketch_info s)"
    and "sk_data_size (sketch_info s) = sk_data_size (sketch_info c)"
  shows "map (word32_at (mem (mach c')) (sk_data_buf (sketch_info c))) [0..<n] = map of_nat [0..<n]"
proof (rule sketch_read [OF assms(1-9)])
  have "remote x = write_bytes (sketch_filled s) (sk_remote_addr (sketch_info c)) (iota_bytes n)"
    using init_sketch_rdma_fills [OF assms(10,11)] assms(6,8,12-14) by (simp add: fill_from_0)
  then show "read_bytes (remote x) (sk_remote_addr (sketch_info c)) (4 * n) = iota_bytes n"
    using read_write_bytes [of "iota_bytes n" "sketch_filled s"] assms(8) by simp
qed

end
