(* ===== verification/Dataflow_Example.thy ===== *)
theory Dataflow_Example
  imports Dataflow Copies_Example
begin

section \<open>A class and a sketch that arrive\<close>

text \<open>
  The properties of \<open>Dataflow\<close> applied: a server on the quiet platform whose object \<open>a\<close> has two
  elements, 5 and 6, and a sketch of two numbers; the client reads through the copying device from the
  memory that the server has left.
\<close>

definition dx_server :: "unit server" where
  "dx_server = undefined\<lparr>mach := undefined\<lparr>mem := \<lambda>a.
       if a = 0x100 then 2 else if a = 0x111 then 2 else if a = 0x200 then 5 else if a = 0x204 then 6 else 0\<rparr>,
     a_addr := 0x100, send_buf_addr := 0x800,
     class_info := undefined\<lparr>class_send_buf := 0x9400\<rparr>,
     sketch_info := undefined\<lparr>sk_data_size := 2, sk_data_buf := 0x9800\<rparr>\<rparr>"

definition dx_object :: rdma_test where
  "dx_object = \<lparr>rt_size = 2, rt_a = 0, rt_b = 0, rt_data_buf = 0x200, rt_next = 0\<rparr>"

lemma quiet_posts: "ibv_post_send quiet_platform q wr bad m = (0, m)"
  by (simp add: ibv_post_send_def call_int_def c_int_def)

lemma quiet_posts_keep: "posts_keep_memory quiet_platform"
  by (simp add: posts_keep_memory_def quiet_posts)

lemmas dx_run = thread_Cons thread_Nil seq_def post_send_def lib_run exit_if_def on_mach_def quiet_posts

lemma dx_init_class: "\<exists>t. init_class_recv quiet_platform Inr dx_server = Some (Inr t)"
  by (simp add: init_class_recv_def dx_run)

lemma dx_init_sketch: "\<exists>t. init_sketch_rdma quiet_platform Inr dx_server = Some (Inr t)"
  by (simp add: init_sketch_rdma_def dx_run)

lemma dx_upto: "[0..<8] = [0, 1, 2, 3, 4, 5, 6, 7::nat]" "[0..<4] = [0, 1, 2, 3::nat]" "[0..<2] = [0, 1::nat]"
  by (simp_all add: upt_rec)

lemmas dx_bytes = load_word_def word32_at_def read_bytes_def dx_upto

lemma dx_object: "rdma_test_at (mem (mach dx_server)) (a_addr dx_server) = dx_object"
  by (simp add: rdma_test_at_def dx_bytes dx_server_def dx_object_def)

lemma dx_array: "map (word32_at (mem (mach dx_server)) 0x200) [0..<2] = [5, 6]"
  by (simp add: dx_bytes dx_server_def)

lemma dx_in_place: "class_in_place dx_server dx_object"
  using dx_object
  by (simp add: class_in_place_def) (simp add: dx_server_def dx_object_def apart_by_distance)

lemma class_arrives_witness:
  "\<exists>s t. init_class_recv quiet_platform Inr dx_server = Some (Inr s) \<and>
     read_class (tx_platform (mem (mach s))) (tx_env (mem (mach s))) (\<lambda>_. skip) tx_client = Some (Inr t) \<and>
     map (word32_at (mem (mach t)) 0x4400) [0..<2] = [5, 6]"
proof -
  obtain s where s: "init_class_recv quiet_platform Inr dx_server = Some (Inr s)" using dx_init_class by blast
  let ?R = "mem (mach s)"
  obtain t where t: "read_class (tx_platform ?R) (tx_env ?R) (\<lambda>_. skip) tx_client = Some (Inr t)"
    using tx_read_class by blast
  have a: "away (tx_transfer ?R) (class_recv_data (class_info tx_client)) 32"
    "away (tx_transfer ?R) (class_recv_buf (class_info tx_client)) 400"
    by (rule tx_away; simp add: tx_client_def)+
  have b: "apart (class_recv_data (class_info tx_client)) 32 (class_recv_buf (class_info tx_client)) 400"
    "apart (class_recv_buf (class_info tx_client)) 400 (class_recv_data (class_info tx_client)) 32"
    by (rule apart_by_distance; simp add: tx_client_def)+
  have c: "remote (tx_transfer ?R) = ?R"
    "tc_remote_addr (class_info tx_client) = class_send_buf (class_info dx_server)"
    by (simp_all add: tx_views tx_client_def dx_server_def)
  from class_arrives [OF tx_transfers tx_reliable tx_runs_beside tx_stable tx_at_rest a b t
      quiet_posts_keep s dx_in_place c] s t dx_array
  show ?thesis by (simp add: dx_object_def) (simp add: tx_client_def)
qed

lemma sketch_arrives_witness:
  "\<exists>s t. init_sketch_rdma quiet_platform Inr dx_server = Some (Inr s) \<and>
     ow_read (tx_platform (mem (mach s))) (tx_env (mem (mach s))) tx_client = Some (Inr t) \<and>
     map (word32_at (mem (mach t)) 0x5000) [0..<2] = [0, 1]"
proof -
  obtain s where s: "init_sketch_rdma quiet_platform Inr dx_server = Some (Inr s)" using dx_init_sketch by blast
  let ?R = "mem (mach s)"
  obtain t where t: "ow_read (tx_platform ?R) (tx_env ?R) tx_client = Some (Inr t)" using tx_ow_read by blast
  have n: "nat (sk_data_size (sketch_info tx_client)) = 2" by (simp add: tx_client_def)
  have a: "away (tx_transfer ?R) (sk_data_buf (sketch_info tx_client)) (4 * 2)"
    by (rule tx_away) (simp_all add: tx_client_def)
  have c: "remote (tx_transfer ?R) = ?R"
    "sk_remote_addr (sketch_info tx_client) = sk_data_buf (sketch_info dx_server)"
    "sk_data_size (sketch_info dx_server) = sk_data_size (sketch_info tx_client)"
    by (simp_all add: tx_views tx_client_def dx_server_def)
  from sketch_arrives [OF tx_transfers tx_reliable tx_runs_beside tx_stable tx_at_rest n a _ t
      quiet_posts_keep s c] s t
  show ?thesis by (simp add: tx_client_def dx_upto)
qed

end
