(* ===== verification/Transmission.thy ===== *)
theory Transmission
  imports Session Dataflow
begin

section \<open>What the server's start leaves in its buffers\<close>

text \<open>
  The end of the server's \<open>start\<close> puts its object, the array and the sketch into the buffers that it
  offers, while the other threads and the device run; the client then reads them.
\<close>

subsection \<open>Ranges that hold bytes\<close>

text \<open>The bytes \<open>bs\<close> are at \<open>p\<close>, and the device does not write there.\<close>

definition private_range :: "'w device \<Rightarrow> ptr \<Rightarrow> nat \<Rightarrow> bool" where
  "private_range d p n \<longleftrightarrow> (\<forall>i < n. dev_private d (p + of_nat i))"

definition holds :: "'w device \<Rightarrow> ptr \<times> u8 list \<Rightarrow> 'w server \<Rightarrow> bool" where
  "holds d x s \<longleftrightarrow> (case x of (p, bs) \<Rightarrow>
     read_bytes (mem (mach s)) p (length bs) = bs \<and> private_range d p (length bs))"

text \<open>The server between two statements: the tables in place, its data as in \<open>s0\<close>, and the ranges \<open>xs\<close>.\<close>

definition keeping :: "'w device \<Rightarrow> 'w server \<Rightarrow> (ptr \<times> u8 list) list \<Rightarrow> 'w server \<Rightarrow> bool" where
  "keeping d s0 xs s \<longleftrightarrow> in_place d (mach s) \<and> own s = own s0 \<and> (\<forall>x \<in> set xs. holds d x s)"

definition apart_all :: "ptr \<Rightarrow> nat \<Rightarrow> (ptr \<times> u8 list) list \<Rightarrow> bool" where
  "apart_all q n xs \<longleftrightarrow> (\<forall>(p, bs) \<in> set xs. apart q n p (length bs))"

lemma keeping_weaken: "keeping d s0 xs s \<Longrightarrow> set ys \<subseteq> set xs \<Longrightarrow> keeping d s0 ys s"
  by (auto simp: keeping_def)

lemma keepingD:
  assumes "keeping d s0 xs s" and "(p, bs) \<in> set xs"
  shows "read_bytes (mem (mach s)) p (length bs) = bs"
  using assms by (auto simp: keeping_def holds_def)

lemma untouched_holds:
  assumes "untouched d s t" and "holds d x s"
  shows "holds d x t"
proof -
  obtain p bs where x: "x = (p, bs)" by fastforce
  have "read_bytes (mem (mach t)) p (length bs) = read_bytes (mem (mach s)) p (length bs)"
    by (rule read_bytes_private) (use assms in \<open>simp add: x untouched_def holds_def private_range_def\<close>)
  with assms(2) show ?thesis by (simp add: x holds_def)
qed

lemma untouched_keeping: "untouched d s t \<Longrightarrow> keeping d s0 xs s \<Longrightarrow> keeping d s0 xs t"
  using untouched_holds untouched_place untouched_keeps(1) by (fastforce simp: keeping_def)

lemma env_keeping:
  assumes "sends_contract P d" and "runs_beside (server_env_step P (dev_step d)) env"
    and "keeping d s0 xs s" and "env s = Inr t"
  shows "keeping d s0 xs t"
  by (rule untouched_keeping [OF env_sends(1) [OF assms(1,2,4)] assms(3)]) (use assms(3) in \<open>simp add: keeping_def\<close>)

subsection \<open>Statements of the main thread\<close>

text \<open>Posting a send writes neither private memory nor the caller's data.\<close>

definition posts_keep_local :: "'w platform \<Rightarrow> 'w device \<Rightarrow> bool" where
  "posts_keep_local P d \<longleftrightarrow> (\<forall>q wr bad m r m'. ibv_post_send P q wr bad m = (r, m') \<longrightarrow> in_place d m \<longrightarrow> same_local d m m')"

lemma post_keeping:
  assumes "posts_keep_local P d"
  shows "triple (keeping d s0 xs) (post_send P wr) (keeping d s0 xs)"
proof (unfold triple_def, intro allI impI)
  fix s t
  assume s: "keeping d s0 xs s" and "post_send P wr s = Some (Inr t)"
  then obtain m where "ibv_post_send P (qp s) (wr s) (bad_wr_addr s) (mach s) = (0, m)" and t: "t = s\<lparr>mach := m\<rparr>"
    by (auto simp: post_send_def lib_run exit_if_def put_mach_def split: prod.splits if_splits)
  with assms s have local: "same_local d (mach s) m" by (auto simp: posts_keep_local_def keeping_def)
  have "holds d x t" if "holds d x s" for x
  proof -
    obtain p bs where x: "x = (p, bs)" by fastforce
    have "read_bytes (mem m) p (length bs) = read_bytes (mem (mach s)) p (length bs)"
      by (rule read_bytes_private) (use local that in \<open>simp add: x same_local_def holds_def private_range_def\<close>)
    with that show ?thesis by (simp add: x holds_def t)
  qed
  with s local show "keeping d s0 xs t"
    by (auto simp: keeping_def t same_local_def in_place_def own_def)
qed

lemma request_keeping: "triple (keeping d s0 xs) (on_mach (\<lambda>s. set_send_wr (p s) (f s))) (keeping d s0 xs)"
  by (auto simp: triple_def on_mach_def set_send_wr_def keeping_def in_place_def own_def holds_def split: prod.splits)

text \<open>A store of \<open>bs\<close> at \<open>p\<close> keeps what is apart from it, and is a new range if it is private.\<close>

lemma write_keeping:
  assumes g: "\<And>s. keeping d s0 zs s \<Longrightarrow> g s (mach s) = (mach s)\<lparr>mem := write_bytes (mem (mach s)) p bs\<rparr>"
    and xs: "apart_all p (length bs) xs" "set xs \<subseteq> set zs"
  shows "triple (keeping d s0 zs) (on_mach g) (keeping d s0 xs)"
    and "length bs \<le> 2 ^ 64 \<Longrightarrow> private_range d p (length bs) \<Longrightarrow>
      triple (keeping d s0 zs) (on_mach g) (keeping d s0 ((p, bs) # xs))"
proof -
  have kept: "keeping d s0 xs (s\<lparr>mach := (mach s)\<lparr>mem := write_bytes (mem (mach s)) p bs\<rparr>\<rparr>)"
    if "keeping d s0 zs s" for s
    using keeping_weaken [OF that xs(2)] xs(1)
    by (fastforce simp: keeping_def in_place_def own_def holds_def apart_all_def read_write_apart)
  then show "triple (keeping d s0 zs) (on_mach g) (keeping d s0 xs)"
    using g by (auto simp: triple_def on_mach_def)
  show "triple (keeping d s0 zs) (on_mach g) (keeping d s0 ((p, bs) # xs))"
    if "length bs \<le> 2 ^ 64" "private_range d p (length bs)"
    using g kept read_write_bytes [OF that(1)] that(2)
    by (auto simp: triple_def on_mach_def) (simp add: keeping_def holds_def)
qed

subsection \<open>The class\<close>

text \<open>
  Where the buffers of the server may lie: what \<open>class_in_place\<close> says, the advertisements apart from the
  class buffer, the sketch apart from it, and none of them written by the device or the peer.
\<close>

definition class_ranges :: "'w server \<Rightarrow> rdma_test \<Rightarrow> (ptr \<times> u8 list) list" where
  "class_ranges s obj =
     [(a_addr s, read_bytes (mem (mach s)) (a_addr s) 32),
      (rt_data_buf obj, read_bytes (mem (mach s)) (rt_data_buf obj) (4 * unat (rt_size obj)))]"

definition published_ranges :: "'w server \<Rightarrow> rdma_test \<Rightarrow> (ptr \<times> u8 list) list" where
  "published_ranges s obj =
     [(class_send_buf (class_info s) + 32, read_bytes (mem (mach s)) (rt_data_buf obj) (4 * unat (rt_size obj))),
      (class_send_buf (class_info s), read_bytes (mem (mach s)) (a_addr s) 32)]"

definition buffers_in_place :: "'w device \<Rightarrow> 'w server \<Rightarrow> rdma_test \<Rightarrow> bool" where
  "buffers_in_place d s obj \<longleftrightarrow> class_in_place s obj \<and>
     (let k = 4 * unat (rt_size obj); n = 4 * nat (sk_data_size (sketch_info s));
          cs = class_send_buf (class_info s); sk = sk_data_buf (sketch_info s); sb = send_buf_addr s in
      n \<le> 2 ^ 64 \<and> private_range d (a_addr s) 32 \<and> private_range d (rt_data_buf obj) k \<and>
      private_range d cs 32 \<and> private_range d (cs + 32) k \<and> private_range d sk n \<and>
      apart sb 16 cs 32 \<and> apart sb 16 (cs + 32) k \<and> apart sk n cs 32 \<and> apart sk n (cs + 32) k)"

lemma buffers_apart:
  assumes "buffers_in_place d s obj"
  shows "apart_all (send_buf_addr s) 16 (class_ranges s obj)" "apart_all (send_buf_addr s) 16 (published_ranges s obj)"
    "apart_all (class_send_buf (class_info s)) 32 (class_ranges s obj)"
    "apart_all (sk_data_buf (sketch_info s)) (4 * nat (sk_data_size (sketch_info s))) (published_ranges s obj)"
    "apart_all (class_send_buf (class_info s) + 32) (4 * unat (rt_size obj))
       [(class_send_buf (class_info s), read_bytes (mem (mach s)) (a_addr s) 32)]"
proof -
  have "unat (rt_size obj) \<le> 100" using assms by (simp add: buffers_in_place_def class_in_place_def Let_def)
  then have "apart (class_send_buf (class_info s) + 32) (4 * unat (rt_size obj)) (class_send_buf (class_info s)) 32"
    by (intro apart_by_distance) simp_all
  with assms show "apart_all (send_buf_addr s) 16 (class_ranges s obj)" "apart_all (send_buf_addr s) 16 (published_ranges s obj)"
    "apart_all (class_send_buf (class_info s)) 32 (class_ranges s obj)"
    "apart_all (sk_data_buf (sketch_info s)) (4 * nat (sk_data_size (sketch_info s))) (published_ranges s obj)"
    "apart_all (class_send_buf (class_info s) + 32) (4 * unat (rt_size obj))
       [(class_send_buf (class_info s), read_bytes (mem (mach s)) (a_addr s) 32)]"
    by (simp_all add: buffers_in_place_def class_in_place_def Let_def apart_all_def class_ranges_def published_ranges_def)
qed

lemma advert_keeping:
  assumes "apart_all (send_buf_addr s0) 16 xs"
  shows "triple (keeping d s0 xs) (on_mach (\<lambda>s m. on_mem (store_rdma_info (send_buf_addr s) (f s m) (g s m) (h s m)) m))
    (keeping d s0 xs)"
proof (unfold triple_def, intro allI impI)
  fix s t
  assume s: "keeping d s0 xs s"
    and t: "on_mach (\<lambda>s m. on_mem (store_rdma_info (send_buf_addr s) (f s m) (g s m) (h s m)) m) s = Some (Inr t :: 'b + _)"
  have "send_buf_addr s = send_buf_addr s0" using s own_fields(1) by (auto simp: keeping_def)
  then have "triple (keeping d s0 xs) (on_mach (\<lambda>_ m. m\<lparr>mem := write_bytes (mem m) (send_buf_addr s)
      (advert_bytes (f s (mach s)) (g s (mach s)) (h s (mach s)))\<rparr>) :: (_, 'b) stmt) (keeping d s0 xs)"
    by (intro write_keeping(1), simp, simp only: length_advert_bytes assms, simp)
  then show "keeping d s0 xs t"
    using s t by (auto simp: triple_def on_mach_def on_mem_def store_rdma_info_write)
qed

lemma init_class_keeping:
  assumes c: "sends_contract P d" and env: "runs_beside (server_env_step P (dev_step d)) env"
    and keep: "posts_keep_local P d" and b: "buffers_in_place d s0 obj"
  shows "triple (keeping d s0 (class_ranges s0 obj)) (init_class_recv P env) (keeping d s0 (published_ranges s0 obj))"
proof -
  let ?cs = "class_send_buf (class_info s0)" and ?B = "read_bytes (mem (mach s0)) (a_addr s0) 32"
  let ?D = "rt_data_buf obj" and ?k = "4 * unat (rt_size obj)"
  let ?A = "read_bytes (mem (mach s0)) ?D ?k"
  let ?xs = "class_ranges s0 obj"
  note stay = env_keeping [OF c env]
  note place = b [unfolded buffers_in_place_def class_in_place_def Let_def]
  have fields: "a_addr s = a_addr s0" "class_info s = class_info s0" if "keeping d s0 ys s" for ys s
    using that own_fields [of s s0] by (simp_all add: keeping_def)
  have object: "rdma_test_at (mem (mach s)) (a_addr s0) = obj" if "keeping d s0 ys s" "(a_addr s0, ?B) \<in> set ys" for ys s
    using keepingD [OF that] place rdma_test_of_read by (metis length_read_bytes)
  have copy1: "triple (keeping d s0 ?xs) (on_mach (\<lambda>s. on_mem (\<lambda>mm. memcpy mm (class_send_buf (class_info s)) (a_addr s) sizeof_rdma_test)) :: (_, fatal) stmt)
      (keeping d s0 ((?cs, ?B) # ?xs))"
  proof (rule write_keeping(2))
    fix s assume s: "keeping d s0 ?xs s"
    then show "on_mem (\<lambda>mm. memcpy mm (class_send_buf (class_info s)) (a_addr s) sizeof_rdma_test) (mach s) =
        (mach s)\<lparr>mem := write_bytes (mem (mach s)) ?cs ?B\<rparr>"
      using keepingD [OF s, of "a_addr s0" ?B] fields [OF s]
      by (simp add: on_mem_def memcpy_def sizeof_rdma_test_def class_ranges_def)
  qed (use buffers_apart(3) [OF b] place in simp_all)
  let ?ys = "(?cs, ?B) # ?xs"
  have copy2: "triple (keeping d s0 ?ys) (on_mach (\<lambda>s. on_mem (\<lambda>mm. let obj = rdma_test_at mm (a_addr s) in
        memcpy mm (class_send_buf (class_info s) + of_nat sizeof_rdma_test) (rt_data_buf obj) (unat (rt_size obj) * 4))) :: (_, fatal) stmt)
      (keeping d s0 (published_ranges s0 obj))"
  proof -
    have "on_mem (\<lambda>mm. let obj = rdma_test_at mm (a_addr s) in
        memcpy mm (class_send_buf (class_info s) + of_nat sizeof_rdma_test) (rt_data_buf obj) (unat (rt_size obj) * 4)) (mach s) =
        (mach s)\<lparr>mem := write_bytes (mem (mach s)) (?cs + 32) ?A\<rparr>" if s: "keeping d s0 ?ys s" for s
      using keepingD [OF s, of ?D ?A] fields [OF s] object [OF s]
      by (simp add: on_mem_def memcpy_def sizeof_rdma_test_def class_ranges_def Let_def mult.commute)
    then show ?thesis
      unfolding published_ranges_def
      by (rule write_keeping(2)) (use buffers_apart(5) [OF b] place in \<open>simp_all\<close>)
  qed
  show ?thesis
    unfolding init_class_recv_def send_request_def
    by (rule triple_thread_Cons [OF stay advert_keeping [OF buffers_apart(1) [OF b]]]
        triple_thread_Cons [OF stay request_keeping] triple_thread_Cons [OF stay post_keeping [OF keep]]
        triple_thread_Cons [OF stay copy1] triple_thread_Cons [OF stay copy2] triple_thread_Nil | assumption)+
qed

subsection \<open>The sketch\<close>

definition sketch_range :: "'w server \<Rightarrow> ptr \<times> u8 list" where
  "sketch_range s = (sk_data_buf (sketch_info s), iota_bytes (nat (sk_data_size (sketch_info s))))"

lemma init_sketch_keeping:
  assumes c: "sends_contract P d" and env: "runs_beside (server_env_step P (dev_step d)) env"
    and keep: "posts_keep_local P d" and b: "buffers_in_place d s0 obj"
  shows "triple (keeping d s0 (published_ranges s0 obj)) (init_sketch_rdma P env)
    (keeping d s0 (sketch_range s0 # published_ranges s0 obj))"
proof -
  let ?n = "nat (sk_data_size (sketch_info s0))"
  note stay = env_keeping [OF c env]
  have place: "4 * ?n \<le> 2 ^ 64" "private_range d (sk_data_buf (sketch_info s0)) (4 * ?n)"
    using b by (simp_all add: buffers_in_place_def Let_def)
  have fill: "triple (keeping d s0 (published_ranges s0 obj)) (on_mach (\<lambda>s. on_mem (fill_from 0 (nat (sk_data_size (sketch_info s)))
      (sk_data_buf (sketch_info s)))) :: (_, fatal) stmt) (keeping d s0 (sketch_range s0 # published_ranges s0 obj))"
    unfolding sketch_range_def
  proof (rule write_keeping(2))
    fix s assume "keeping d s0 (published_ranges s0 obj) s"
    then have "sketch_info s = sketch_info s0" using own_fields [of s s0] by (simp add: keeping_def)
    then show "on_mem (fill_from 0 (nat (sk_data_size (sketch_info s))) (sk_data_buf (sketch_info s))) (mach s) =
        (mach s)\<lparr>mem := write_bytes (mem (mach s)) (sk_data_buf (sketch_info s0)) (iota_bytes ?n)\<rparr>"
      using fill_from_0 [OF place(1)] by (simp add: on_mem_def)
  qed (use buffers_apart(4) [OF b] place in simp_all)
  show ?thesis
    unfolding init_sketch_rdma_def send_request_def
    by (rule triple_thread_Cons [OF stay advert_keeping [OF buffers_apart(2) [OF b]]]
        triple_thread_Cons [OF stay request_keeping] triple_thread_Cons [OF stay fill]
        triple_thread_Cons [OF stay post_keeping [OF keep] triple_thread_Nil] | assumption)+
qed

subsection \<open>All of it\<close>

text \<open>
  What the buffers of the server hold when its \<open>start\<close> has returned, whatever ran beside it: the object
  and its array as they were before, and the numbers of the sketch.
\<close>

lemma server_advertise_publishes:
  assumes c: "sends_contract P d" and env: "runs_beside (server_env_step P (dev_step d)) env"
    and keep: "posts_keep_local P d" and b: "buffers_in_place d s obj" and T: "in_place d (mach s)"
    and run: "server_advertise P env s = Some (Inr t)"
  shows "keeping d s (sketch_range s # published_ranges s obj) t"
proof -
  note stay = env_keeping [OF c env] and post = post_keeping [OF keep]
  have wait: "triple (keeping d s xs) (await env f) (keeping d s xs)" for xs f
    by (rule triple_await [OF stay])
  have "triple (keeping d s (class_ranges s obj)) (server_advertise P env) (keeping d s (sketch_range s # published_ranges s obj))"
    unfolding server_advertise_def
    by (rule triple_thread_Cons [OF stay advert_keeping [OF buffers_apart(1) [OF b]]]
        triple_thread_Cons [OF stay request_keeping] triple_thread_Cons [OF stay post] triple_thread_Cons [OF stay wait]
        triple_thread_Cons [OF stay init_class_keeping [OF c env keep b]]
        triple_thread_Cons [OF stay init_sketch_keeping [OF c env keep b]] triple_thread_Nil | assumption)+
  moreover have "keeping d s (class_ranges s obj) s"
    using b T by (simp add: keeping_def class_ranges_def holds_def buffers_in_place_def Let_def)
  ultimately show ?thesis using run by (rule tripleD)
qed

text \<open>The object, its array and the sketch as a reader of the server's memory finds them.\<close>

lemma published_object:
  assumes "keeping d s (sketch_range s # published_ranges s obj) t" and "buffers_in_place d s obj"
  shows "rdma_test_at (mem (mach t)) (class_send_buf (class_info s)) = obj"
    and "i < unat (rt_size obj) \<Longrightarrow>
      word32_at (mem (mach t)) (class_send_buf (class_info s) + 32) i = word32_at (mem (mach s)) (rt_data_buf obj) i"
    and "read_bytes (mem (mach t)) (sk_data_buf (sketch_info s)) (4 * nat (sk_data_size (sketch_info s))) =
      iota_bytes (nat (sk_data_size (sketch_info s)))"
proof -
  let ?mm = "mem (mach t)" and ?k = "4 * unat (rt_size obj)" and ?cs = "class_send_buf (class_info s)"
  have obj: "rdma_test_at (mem (mach s)) (a_addr s) = obj"
    using assms(2) by (simp add: buffers_in_place_def class_in_place_def Let_def)
  have bytes: "read_bytes ?mm ?cs 32 = read_bytes (mem (mach s)) (a_addr s) 32"
    "read_bytes ?mm (?cs + 32) ?k = read_bytes (mem (mach s)) (rt_data_buf obj) ?k"
    using keepingD [OF assms(1), of ?cs "read_bytes (mem (mach s)) (a_addr s) 32"]
      keepingD [OF assms(1), of "?cs + 32" "read_bytes (mem (mach s)) (rt_data_buf obj) ?k"]
    by (simp_all add: published_ranges_def)
  show "rdma_test_at ?mm ?cs = obj" using bytes(1) obj rdma_test_of_read by metis
  show "word32_at ?mm (?cs + 32) i = word32_at (mem (mach s)) (rt_data_buf obj) i" if "i < unat (rt_size obj)"
    using word32_at_read [OF bytes(2) that] word32_at_read [OF refl that, of "mem (mach s)" "rt_data_buf obj"] by simp
  show "read_bytes ?mm (sk_data_buf (sketch_info s)) (4 * nat (sk_data_size (sketch_info s))) =
      iota_bytes (nat (sk_data_size (sketch_info s)))"
    using keepingD [OF assms(1), of "sk_data_buf (sketch_info s)" "iota_bytes (nat (sk_data_size (sketch_info s)))"]
    by (simp add: sketch_range_def)
qed

text \<open>
  C2: The class is transmitted: the server's \<open>start\<close> has returned after its three messages, with its other
  threads running meanwhile, and the client knows the class buffer that the server offers.  When
  \<open>read_class\<close> of the client then returns, with its other threads running too, the client has an
  object with the members of the server's, but its own array, and the array has the elements of the
  server's object, of which there may be at most 100.
\<close>

theorem class_transmitted:
  assumes "transfers P d x" and "reliable P d" and "runs_beside (client_env_step P (dev_step d)) env"
    and "adverts_stable env" and "at_rest d x c"
    and "away x (class_recv_data (class_info c)) 32" and "away x (class_recv_buf (class_info c)) 400"
    and "apart (class_recv_data (class_info c)) 32 (class_recv_buf (class_info c)) 400"
    and "apart (class_recv_buf (class_info c)) 400 (class_recv_data (class_info c)) 32"
    and "read_class P env (\<lambda>_. skip) c = Some (Inr c')"
    and "sends_contract Q e" and "runs_beside (server_env_step Q (dev_step e)) env'" and "posts_keep_local Q e"
    and "buffers_in_place e s obj" and "in_place e (mach s)" and "server_advertise Q env' s = Some (Inr s')"
    and "remote x = mem (mach s')" and "client_knows c Class_buffer = Some (server_offers s Class_buffer)"
  shows "rdma_test_at (mem (mach c')) (class_recv_data (class_info c)) =
      obj\<lparr>rt_data_buf := class_recv_buf (class_info c)\<rparr> \<and>
    map (word32_at (mem (mach c')) (class_recv_buf (class_info c))) [0..<unat (rt_size obj)] =
      map (word32_at (mem (mach s)) (rt_data_buf obj)) [0..<unat (rt_size obj)]"
proof -
  have addr: "tc_remote_addr (class_info c) = class_send_buf (class_info s)"
    using assms(18) by (simp add: client_knows_def server_offers_def split: if_splits)
  note copied = read_class_rebuilt [OF assms(1-10), unfolded assms(17) addr]
  note pub = published_object [OF server_advertise_publishes [OF assms(11-16)] assms(14)]
  have "unat (rt_size obj) \<le> 100" using assms(14) by (simp add: buffers_in_place_def class_in_place_def Let_def)
  with copied pub(1,2) show ?thesis by auto
qed

text \<open>
  C3: The sketch is transmitted: after the server's \<open>start\<close> and with the client knowing the sketch that it
  offers, \<open>ow_read\<close> leaves the numbers 0, 1, 2, ... in the client's sketch.
\<close>

theorem sketch_transmitted:
  assumes "transfers P d x" and "reliable P d" and "runs_beside (client_env_step P (dev_step d)) env"
    and "adverts_stable env" and "at_rest d x c" and "nat (sk_data_size (sketch_info c)) = n"
    and "away x (sk_data_buf (sketch_info c)) (4 * n)" and "4 * n \<le> 2 ^ 64"
    and "ow_read P env c = Some (Inr c')"
    and "sends_contract Q e" and "runs_beside (server_env_step Q (dev_step e)) env'" and "posts_keep_local Q e"
    and "buffers_in_place e s obj" and "in_place e (mach s)" and "server_advertise Q env' s = Some (Inr s')"
    and "remote x = mem (mach s')" and "client_knows c Sketch_buffer = Some (server_offers s Sketch_buffer)"
    and "sk_data_size (sketch_info s) = sk_data_size (sketch_info c)"
  shows "map (word32_at (mem (mach c')) (sk_data_buf (sketch_info c))) [0..<n] = map of_nat [0..<n]"
proof -
  have addr: "sk_remote_addr (sketch_info c) = sk_data_buf (sketch_info s)"
    using assms(17) by (simp add: client_knows_def server_offers_def split: if_splits)
  note pub = published_object(3) [OF server_advertise_publishes [OF assms(10-15)] assms(13)]
  show ?thesis
    by (rule sketch_read [OF assms(1-9)]) (use pub assms(6) in \<open>simp add: addr assms(16,18)\<close>)
qed

end
