(* ===== verification/Transmission_Example.thy ===== *)
theory Transmission_Example
  imports Transmission Sends_Example Copies_Example
begin

section \<open>A class and a sketch that are transmitted\<close>

text \<open>
  The properties of \<open>Transmission\<close> applied: the server with the send queue of \<open>Sends_Example\<close>, whose object
  \<open>a\<close> has the two elements 5 and 6, and the client of \<open>Copies_Example\<close> that reads from the memory that the
  server has left.
\<close>

definition ux_server :: "sx_world server" where
  "ux_server = (sx_server 0)\<lparr>mach := (mach (sx_server 0))\<lparr>mem := \<lambda>a.
         if a = 0x100 then 2 else if a = 0x111 then 2 else if a = 0x200 then 5 else if a = 0x204 then 6 else 0,
       mr_at := \<lambda>r. undefined\<lparr>mr_rkey := if r = 1 then 7 else 8\<rparr>\<rparr>,
     a_addr := 0x100,
     class_info := undefined\<lparr>class_send_buf := 0x9400, class_send_mr := 1\<rparr>,
     sketch_info := undefined\<lparr>sk_data_size := 2, sk_data_buf := 0x9800, sketch_mr := 2\<rparr>\<rparr>"

definition ux_object :: rdma_test where
  "ux_object = \<lparr>rt_size = 2, rt_a = 0, rt_b = 0, rt_data_buf = 0x200, rt_next = 0\<rparr>"

lemma ux_advertise: "\<exists>t. server_advertise sx_platform sx_env ux_server = Some (Inr t)"
  by (simp add: server_advertise_def init_class_recv_def init_sketch_rdma_def ux_server_def sx_server_def sx_run)

lemma ux_upto: "[0..<8] = [0, 1, 2, 3, 4, 5, 6, 7::nat]" "[0..<4] = [0, 1, 2, 3::nat]" "[0..<2] = [0, 1::nat]"
  by (simp_all add: upt_rec)

lemmas ux_bytes = load_word_def word32_at_def read_bytes_def ux_upto

lemma ux_array: "map (word32_at (mem (mach ux_server)) 0x200) [0..<2] = [5, 6]"
  by (simp add: ux_bytes ux_server_def)

lemma ux_private: "private_range sx_device p n"
  by (simp add: private_range_def sx_device_def)

lemma ux_in_place: "buffers_in_place sx_device ux_server ux_object"
proof -
  have "rdma_test_at (mem (mach ux_server)) (a_addr ux_server) = ux_object"
    by (simp add: rdma_test_at_def ux_bytes ux_server_def ux_object_def)
  then show ?thesis
    by (simp add: buffers_in_place_def class_in_place_def ux_private)
      (simp add: ux_server_def sx_server_def ux_object_def apart_by_distance)
qed

lemma ux_posts: "posts_keep_local sx_platform sx_device"
  by (auto simp: posts_keep_local_def sx_in_place sx_verbs same_local_def tables_def Let_def)

lemma ux_placed: "in_place sx_device (mach ux_server)"
  by (simp add: sx_in_place ux_server_def sx_server_def)

lemma ux_known: "client_knows tx_client k = Some (server_offers ux_server k)" if "k \<noteq> Start_buffer"
  using that by (cases k) (simp_all add: client_knows_def server_offers_def tx_client_def ux_server_def)

lemma class_transmitted_witness:
  "\<exists>s t. server_advertise sx_platform sx_env ux_server = Some (Inr s) \<and>
     read_class (tx_platform (mem (mach s))) (tx_env (mem (mach s))) (\<lambda>_. skip) tx_client = Some (Inr t) \<and>
     map (word32_at (mem (mach t)) 0x4400) [0..<2] = [5, 6]"
proof -
  obtain s where s: "server_advertise sx_platform sx_env ux_server = Some (Inr s)" using ux_advertise by blast
  let ?R = "mem (mach s)"
  obtain t where t: "read_class (tx_platform ?R) (tx_env ?R) (\<lambda>_. skip) tx_client = Some (Inr t)"
    using tx_read_class by blast
  have a: "away (tx_transfer ?R) (class_recv_data (class_info tx_client)) 32"
    "away (tx_transfer ?R) (class_recv_buf (class_info tx_client)) 400"
    by (rule tx_away; simp add: tx_client_def)+
  have b: "apart (class_recv_data (class_info tx_client)) 32 (class_recv_buf (class_info tx_client)) 400"
    "apart (class_recv_buf (class_info tx_client)) 400 (class_recv_data (class_info tx_client)) 32"
    by (rule apart_by_distance; simp add: tx_client_def)+
  have r: "remote (tx_transfer ?R) = ?R" by (simp add: tx_views)
  from class_transmitted [OF tx_transfers tx_reliable tx_runs_beside tx_stable tx_at_rest a b t sx_contract
      sx_runs_beside ux_posts ux_in_place ux_placed s r ux_known] s t ux_array
  show ?thesis by (simp add: ux_object_def) (simp add: tx_client_def)
qed

lemma sketch_transmitted_witness:
  "\<exists>s t. server_advertise sx_platform sx_env ux_server = Some (Inr s) \<and>
     ow_read (tx_platform (mem (mach s))) (tx_env (mem (mach s))) tx_client = Some (Inr t) \<and>
     map (word32_at (mem (mach t)) 0x5000) [0..<2] = [0, 1]"
proof -
  obtain s where s: "server_advertise sx_platform sx_env ux_server = Some (Inr s)" using ux_advertise by blast
  let ?R = "mem (mach s)"
  obtain t where t: "ow_read (tx_platform ?R) (tx_env ?R) tx_client = Some (Inr t)" using tx_ow_read by blast
  have n: "nat (sk_data_size (sketch_info tx_client)) = 2" by (simp add: tx_client_def)
  have a: "away (tx_transfer ?R) (sk_data_buf (sketch_info tx_client)) (4 * 2)"
    by (rule tx_away) (simp_all add: tx_client_def)
  have r: "remote (tx_transfer ?R) = ?R" by (simp add: tx_views)
  have z: "sk_data_size (sketch_info ux_server) = sk_data_size (sketch_info tx_client)"
    by (simp add: ux_server_def tx_client_def)
  from sketch_transmitted [OF tx_transfers tx_reliable tx_runs_beside tx_stable tx_at_rest n a _ t sx_contract
      sx_runs_beside ux_posts ux_in_place ux_placed s r ux_known z] s t
  show ?thesis by (simp add: tx_client_def ux_upto)
qed

end
