(* ===== verification/Starts.thy ===== *)
theory Starts
  imports Threads Regions
begin

section \<open>What both processes do at their start\<close>

text \<open>
  The functions of \<open>rdma-utils.h\<close> and the parts of \<open>start\<close> that both processes share, against any frame
  that does not look at memory, at the address of the socket or at the registered regions.
\<close>

context frame
begin

lemma within_lib_exit:
  assumes "\<And>s r m. f s (mach s) = (r, m) \<Longrightarrow> same s (put_mach m s)"
  shows "within same (ep_lib f (\<lambda>ret. exit_if (b ret) e))"
  by (rule within_lib [OF assms]) (auto intro: within_exit_if)

lemma within_lib_store:
  assumes "\<And>s r m. f s (mach s) = (r, m) \<Longrightarrow> same s (put_mach m s)" and "\<And>r s. same s (store r s)"
  shows "within same (ep_lib f (\<lambda>r. block [assign (store r), exit_if (b r) e]))"
    and "within same (ep_lib f (\<lambda>r. assign (store r)))"
  by (rule within_lib [OF assms(1)]; auto intro!: within_block within_exit_if within_assign assms(2))+

end

locale start_frame = frame +
  assumes same_mem: "same s (s\<lparr>mach := (mach s)\<lparr>mem := mm\<rparr>\<rparr>)"
    and same_sin: "same s (s\<lparr>sin := p\<rparr>)"
    and same_mr: "same s (s\<lparr>recv_mr := r\<rparr>)" "same s (s\<lparr>send_mr := r\<rparr>)" "same s (s\<lparr>rdma_mr := r\<rparr>)" "same s (s\<lparr>start_mr := r\<rparr>)"
begin

lemma within_on_mem: "within same (on_mach (\<lambda>s. on_mem (g s)))"
  by (rule within_on_mach) (simp add: on_mem_def same_mem)

lemma resolve_sin_within:
  assumes "\<And>n s r m. lib_malloc P n (mach s) = (r, m) \<Longrightarrow> same s (put_mach m s)"
    and "\<And>a s r m. lib_getaddrinfo P a (mach s) = (r, m) \<Longrightarrow> same s (put_mach m s)"
  shows "within same (resolve_sin P)"
proof -
  have copy: "within same (copy_sockaddr family src)" for family src
    by (simp add: copy_sockaddr_def within_on_mem within_fail)
  have lookup: "within same (\<lambda>s. case addrinfo_at (mach s) res of (family, src) \<Rightarrow> copy_sockaddr family src s)" for res
    using copy by (auto simp: within_def split: prod.splits)
  have malloc: "within same (ep_lib (\<lambda>s. lib_malloc P n) k)" if "\<And>r. within same (k r)" for n k
    by (rule within_lib [OF assms(1) that])
  have getaddrinfo: "within same (ep_lib (\<lambda>s. lib_getaddrinfo P (ip s)) k)" if "\<And>r. within same (k r)" for k
    by (rule within_lib [OF assms(2) that])
  show ?thesis
    unfolding resolve_sin_def
    by (auto simp: same_sin split: prod.splits
        intro!: malloc getaddrinfo within_exit_if within_block within_cond lookup within_assign within_on_mem)
qed

lemma register_within:
  assumes "access_optional_range P = optional_range" and "and acc optional_range = 0"
    and "\<And>p a n ac s r m. lib_reg_mr P p a n ac (mach s) = (r, m) \<Longrightarrow> same s (put_mach m s)"
    and "\<And>r s. same s (store r s)"
  shows "within same (register P addr len acc store)"
  unfolding register_def
  by (rule within_lib_store(1) [OF _ assms(4)]) (use assms(1-3) in \<open>simp add: ibv_reg_mr_def\<close>)

lemma register_buffers_within:
  assumes "access_optional_range P = optional_range"
    and "\<And>p a n ac s r m. lib_reg_mr P p a n ac (mach s) = (r, m) \<Longrightarrow> same s (put_mach m s)"
  shows "within same (register_buffers P)"
  unfolding register_buffers_def
  by (auto intro!: within_block register_within [OF assms(1) _ assms(2)] no_optional simp: same_mr)

end

end
