(* ===== verification/Client_Start.thy ===== *)
theory Client_Start
  imports Reads Starts
begin

section \<open>The client from its start\<close>

text \<open>
  The functions that read from the server rely on a state without outstanding READs.  Here is that
  \<open>start\<close> of the client establishes it, whatever the connection thread does meanwhile, so that the
  whole of \<open>main\<close> keeps the accounts of its READs.
\<close>

subsection \<open>The calls of the start\<close>

text \<open>
  Before its queue pair exists the process cannot have an outstanding READ: none of the calls makes
  one.  When \<open>rdma_create_qp\<close> has succeeded the provider's tables are in place; the calls after it leave
  them there.
\<close>

definition counts :: "'w device \<Rightarrow> ('w, 'r) lib \<Rightarrow> bool" where
  "counts d f \<longleftrightarrow> (\<forall>m r m'. f m = (r, m') \<longrightarrow> outstanding d m' = outstanding d m)"

definition stays_put :: "'w device \<Rightarrow> ('w, 'r) lib \<Rightarrow> bool" where
  "stays_put d f \<longleftrightarrow> (\<forall>m r m'. f m = (r, m') \<longrightarrow> outstanding d m' = outstanding d m \<and> tables m' = tables m)"

definition starts_contract :: "'w platform \<Rightarrow> 'w device \<Rightarrow> bool" where
  "starts_contract P d \<longleftrightarrow>
     counts d (lib_create_event_channel P) \<and> (\<forall>ch x ps. counts d (lib_create_id P ch x ps)) \<and>
     (\<forall>a. counts d (lib_getaddrinfo P a)) \<and> (\<forall>i a b ms. counts d (lib_resolve_addr P i a b ms)) \<and>
     (\<forall>v. counts d (lib_alloc_pd P v)) \<and> (\<forall>v. counts d (lib_create_comp_channel P v)) \<and>
     (\<forall>v n x ch k. counts d (lib_create_cq P v n x ch k)) \<and> (\<forall>q f. counts d (ibv_req_notify_cq P q f)) \<and>
     (\<forall>i p a. counts d (lib_rdma_create_qp P i p a)) \<and>
     (\<forall>i p a m m'. lib_rdma_create_qp P i p a m = (0, m') \<longrightarrow> in_place d m') \<and>
     access_optional_range P = optional_range \<and>
     (\<forall>p a n acc. stays_put d (lib_reg_mr P p a n acc)) \<and> (\<forall>i par. stays_put d (lib_connect P i par))"

subsection \<open>Two frames\<close>

definition same_counts :: "'w device \<Rightarrow> 'w client \<Rightarrow> 'w client \<Rightarrow> bool" where
  "same_counts d s t \<longleftrightarrow> outstanding d (mach t) = outstanding d (mach s) \<and>
     pendingReads t = pendingReads s \<and> cq_pc t = cq_pc s"

definition same_ready :: "'w device \<Rightarrow> 'w client \<Rightarrow> 'w client \<Rightarrow> bool" where
  "same_ready d s t \<longleftrightarrow> same_counts d s t \<and> tables (mach t) = tables (mach s)"

interpretation counting: start_frame "same_counts d"
  by unfold_locales (simp_all add: same_counts_def)

interpretation staying: start_frame "same_ready d"
  by unfold_locales (simp_all add: same_ready_def same_counts_def)

lemma counts_lib: "(\<And>s. counts d (f s)) \<Longrightarrow> (\<And>r. within (same_counts d) (k r)) \<Longrightarrow> within (same_counts d) (ep_lib f k)"
  by (rule counting.within_lib) (auto simp: counts_def same_counts_def put_mach_def)

lemma stays_put_lib:
  "(\<And>s. stays_put d (f s)) \<Longrightarrow> (\<And>r. within (same_ready d) (k r)) \<Longrightarrow> within (same_ready d) (ep_lib f k)"
  by (rule staying.within_lib) (auto simp: stays_put_def same_ready_def same_counts_def put_mach_def)

lemma keeps_counts: "keeps d f \<Longrightarrow> stays_put d f" "keeps d f \<Longrightarrow> counts d f"
  by (auto simp: keeps_def stays_put_def counts_def same_reads_def)

lemma starts_contractD:
  assumes "starts_contract P d"
  shows "counts d (lib_create_event_channel P)" "counts d (lib_create_id P ch x ps)" "counts d (lib_getaddrinfo P a)"
    "counts d (lib_resolve_addr P i src dst ms)" "counts d (lib_alloc_pd P v)" "counts d (lib_create_comp_channel P v)"
    "counts d (lib_create_cq P v n y ch k)" "counts d (ibv_req_notify_cq P q f)" "counts d (lib_rdma_create_qp P i p qa)"
    "lib_rdma_create_qp P i p qa m = (0, m') \<Longrightarrow> in_place d m'" "access_optional_range P = optional_range"
    "stays_put d (lib_reg_mr P p ad len acc)" "stays_put d (lib_connect P i par)"
  using assms unfolding starts_contract_def by simp_all

subsection \<open>The statements of the start\<close>

lemma counts_state: "(\<And>x. counts d (f x)) \<Longrightarrow> counts d (\<lambda>m. f (g m) m)"
  by (simp add: counts_def)

lemma same_put:
  "counts d f \<Longrightarrow> f (mach s) = (r, m) \<Longrightarrow> same_counts d s (put_mach m s)"
  "stays_put d f \<Longrightarrow> f (mach s) = (r, m) \<Longrightarrow> same_ready d s (put_mach m s)"
  by (auto simp: counts_def stays_put_def same_ready_def same_counts_def put_mach_def)

lemma resolve_sin_counts:
  assumes "reads_contract P d" and "starts_contract P d"
  shows "within (same_counts d) (resolve_sin P)"
  by (rule counting.resolve_sin_within)
    (auto elim: same_put(1) [rotated]
      intro: starts_contractD(3) [OF assms(2)] keeps_counts(2) [OF contract_keeps(6) [OF assms(1)]])

lemma client_setup_buffer_stays:
  assumes "reads_contract P d" and "starts_contract P d"
  shows "within (same_ready d) (client_setup_buffer P)"
proof -
  have prepare: "within (same_ready d) (prepare_requests op)" for op
    unfolding prepare_requests_def
    by (auto intro!: staying.within_rules within_on_mach
        simp: same_ready_def same_counts_def set_sge_def set_send_wr_def set_recv_wr_def outstanding_def tables_def)
  have malloc: "within (same_ready d) (ep_lib (\<lambda>s. lib_malloc P n) (\<lambda>r. assign (f r)))"
    if "\<And>r s. same_ready d s (f r s)" for n f
    by (rule staying.within_lib_store(2) [OF _ that], erule same_put(2) [rotated])
      (rule keeps_counts(1) [OF contract_keeps(6) [OF assms(1)]])
  note regions = starts_contractD(11) [OF assms(2)] same_put(2) [OF starts_contractD(12) [OF assms(2)]]
  have class_mr: "within (same_ready d) (register P addr len rw_access store)"
    if "\<And>r s. same_ready d s (store r s)" for addr len store
    by (rule staying.register_within [OF regions(1) no_optional(3) _ that]) (rule regions(2))
  note set = same_ready_def same_counts_def
  have buffers: "within (same_ready d) (register_buffers P)"
    by (rule staying.register_buffers_within [OF regions(1)]) (rule regions(2))
  show ?thesis
    unfolding client_setup_buffer_def
    by (auto simp: set intro!: staying.within_block buffers prepare malloc class_mr)
qed

subsection \<open>The phases of the start\<close>

text \<open>
  \<open>fresh\<close>: there is no completion thread yet and no READ.  The connection thread and the device keep that.
\<close>

definition fresh :: "'w device \<Rightarrow> 'w client \<Rightarrow> bool" where
  "fresh d s \<longleftrightarrow> outstanding d (mach s) = 0 \<and> pendingReads s = 0 \<and> cq_pc s = Cq_none"

definition ready :: "'w device \<Rightarrow> 'w client \<Rightarrow> bool" where
  "ready d s \<longleftrightarrow> fresh d s \<and> in_place d (mach s)"

lemma fresh_counts: "same_counts d s t \<Longrightarrow> fresh d s \<Longrightarrow> fresh d t"
  and ready_stays: "same_ready d s t \<Longrightarrow> ready d s \<Longrightarrow> ready d t"
  by (simp_all add: fresh_def ready_def same_ready_def same_counts_def in_place_def)

lemma client_cm_thread_stays:
  assumes "reads_contract P d"
  shows "within (same_ready d) (client_cm_thread P)"
proof -
  note k = contract_keeps [OF assms, THEN keeps_counts(1)]
  have event: "within (same_ready d) (client_cm_event P ev)" for ev
    unfolding client_cm_event_def
    by (auto simp: same_ready_def same_counts_def k split: rdma_cm_event_type.split
        intro!: staying.within_rules stays_put_lib within_assign)
  show ?thesis
    unfolding client_cm_thread_def
    by (auto simp: k split: prod.splits intro!: stays_put_lib staying.within_block staying.within_exit_if within_state [OF event])
qed

lemma start_step:
  assumes "reads_contract P d" and "client_env_step P (dev_step d) s t" and "cq_pc s = Cq_none"
  shows "same_ready d s t"
  using assms(2)
proof cases
  case cm
  then show ?thesis by (rule withinD [OF client_cm_thread_stays [OF assms(1)]])
next
  case cq
  then show ?thesis using assms(3) by (simp add: client_cq_thread_def skip_run staying.same_refl)
next
  case (device m)
  with contract_device [OF assms(1)] show ?thesis
    by (auto simp: same_reads_def same_ready_def same_counts_def)
qed

lemma start_kept:
  assumes "reads_contract P d" and "runs_beside (client_env_step P (dev_step d)) env" and "env s = Inr t"
  shows "fresh d s \<Longrightarrow> fresh d t" and "ready d s \<Longrightarrow> ready d t"
proof -
  have step: "fresh d u \<Longrightarrow> fresh d v" "ready d u \<Longrightarrow> ready d v" if "client_env_step P (dev_step d) u v" for u v
    using start_step [OF assms(1) that] fresh_counts [of d u v] ready_stays [of d u v]
    by (auto simp: fresh_def ready_def same_ready_def)
  show "fresh d s \<Longrightarrow> fresh d t" "ready d s \<Longrightarrow> ready d t"
    using runs_beside_inv [OF assms(2,3), of "fresh d"] runs_beside_inv [OF assms(2,3), of "ready d"] step by blast+
qed

text \<open>The queues: the completion queue and the queue pair are made, then the buffers are registered.\<close>

lemma client_bindaddr_fresh:
  assumes "reads_contract P d" and "starts_contract P d" and "runs_beside (client_env_step P (dev_step d)) env"
  shows "triple (fresh d) (client_bindaddr P env) (fresh d)"
proof -
  note kept = start_kept(1) [OF assms(1,3)]
  have resolve: "triple (fresh d) (resolve_sin P) (fresh d)"
    by (rule within_triple [OF resolve_sin_counts [OF assms(1,2)]]) (rule fresh_counts)
  have request: "triple (fresh d) (ep_lib (\<lambda>s. lib_resolve_addr P (cm_id s) 0 (sin s) 2000)
      (\<lambda>ret. exit_if (\<lambda>_. ret \<noteq> 0) Resolve_addr_error)) (fresh d)"
    by (rule within_triple [OF counts_lib]) (auto intro: starts_contractD [OF assms(2)] counting.within_exit_if fresh_counts)
  have wait: "triple (fresh d) (await env (\<lambda>s. cstate s = ROUTE_RESOLVED)) (fresh d)"
    by (rule triple_await [OF kept])
  show ?thesis
    unfolding client_bindaddr_def
    by (rule triple_thread_Cons [OF kept resolve] triple_thread_Cons [OF kept request]
        triple_thread_Cons [OF kept wait] triple_thread_Nil | assumption)+
qed

lemma client_make_queues_ready:
  assumes c: "reads_contract P d" and st: "starts_contract P d"
    and env: "runs_beside (client_env_step P (dev_step d)) env"
  shows "triple (fresh d) (client_make_queues P env) (ready d)"
proof -
  note calls = starts_contractD [OF st]
  have kept: "fresh d s \<Longrightarrow> env s = Inr t \<Longrightarrow> fresh d t" "ready d s \<Longrightarrow> env s = Inr t \<Longrightarrow> ready d t" for s t
    by (erule (1) start_kept [OF c env, rotated])+
  have early: "triple (fresh d) (thread env (e # cs)) q"
    if "within (same_counts d) e" "triple (fresh d) (thread env cs) q" for e cs q
    by (rule triple_thread_Cons [OF kept(1) within_triple [OF that(1)] that(2)]) (auto intro: fresh_counts)
  have late: "triple (ready d) (thread env (e # cs)) q"
    if "within (same_ready d) e" "triple (ready d) (thread env cs) q" for e cs q
    by (rule triple_thread_Cons [OF kept(2) within_triple [OF that(1)] that(2)]) (auto intro: ready_stays)
  have store: "within (same_counts d) (block [assign f, exit_if b e])" if "\<And>s. same_counts d s (f s)" for f b e
    using that by (auto intro!: counting.within_block counting.within_exit_if within_assign)
  have pair: "triple (fresh d) (ep_lib (\<lambda>s. lib_rdma_create_qp P (cm_id s) (pd s) (init_attr 10 (cq s)))
      (\<lambda>ret. exit_if (\<lambda>_. ret \<noteq> 0) Create_qp_error)) (ready d)"
  proof (unfold triple_def, intro allI impI)
    fix s t
    assume s: "fresh d s" and run: "ep_lib (\<lambda>s. lib_rdma_create_qp P (cm_id s) (pd s) (init_attr 10 (cq s)))
      (\<lambda>ret. exit_if (\<lambda>_. ret \<noteq> 0) Create_qp_error) s = Some (Inr t)"
    then obtain m where "lib_rdma_create_qp P (cm_id s) (pd s) (init_attr 10 (cq s)) (mach s) = (0, m)" "t = put_mach m s"
      by (auto simp: lib_run exit_if_def split: prod.splits if_splits)
    then show "ready d t"
      using s calls(9) [of "cm_id s" "pd s" "init_attr 10 (cq s)"] calls(10)
      by (auto simp: ready_def fresh_def counts_def put_mach_def)
  qed
  have receive: "triple (ready d) (ep_lib (\<lambda>s. ibv_post_recv P (qp s) (rq_wr_addr s) (bad_wr_addr s)) (\<lambda>ret. skip)) (ready d)"
    using contract_verbs(2) [OF c]
    by (auto simp: triple_def lib_run skip_run put_mach_def ready_def fresh_def same_reads_def in_place_def split: prod.splits)
  note on_device = counts_state [of d "lib_alloc_pd P", OF calls(5)]
    counts_state [of d "lib_create_comp_channel P", OF calls(6)]
    counts_state [of d "\<lambda>v. lib_create_cq P v n 0 ch 0" for n ch, OF calls(7)]
  show ?thesis
    unfolding client_make_queues_def request_notify_def
    by (rule early triple_thread_Cons [OF kept(1) pair] late triple_thread_Cons [OF kept(2) receive triple_thread_Nil]
        counts_lib counting.within_exit_if client_setup_buffer_stays [OF c st] on_device calls(8) store within_assign
      | simp add: same_counts_def same_ready_def)+
qed

subsection \<open>The whole of main\<close>

lemma client_advertise_settled:
  assumes c: "reads_contract P d" and env: "runs_beside (client_env_step P (dev_step d)) env"
  shows "triple (settled d) (client_advertise P env) (settled d)"
proof -
  note kept = quiet_kept(3) [OF c env]
  let ?own = "\<lambda>s. settled d s \<and> send_wr_opcode (send_wr_at (mach s) (sq_wr_addr s)) = IBV_WR_SEND"
  have own_kept: "?own t" if "?own s" "env s = Inr t" for s t
  proof -
    have "in_place d (mach s)" using that(1) by (simp add: settled_def)
    from env_keeps(3,6) [OF c env that(2) this] that(1) show ?thesis by (simp add: requests_def)
  qed
  have store: "triple (settled d) (on_mach (\<lambda>s m. on_mem (store_rdma_info (send_buf_addr s) (start_buf s)
      (mr_rkey (mr_at m (start_mr s))) (word_of_int (start_size s))) m)) (settled d)"
    by (simp add: triple_def on_mach_def on_mem_def settled_def in_place_def)
  have request: "triple (settled d) (on_mach (\<lambda>s. set_send_wr (sq_wr_addr s) (\<lambda>w. w\<lparr>send_wr_opcode := IBV_WR_SEND\<rparr>))) ?own"
    by (simp add: triple_def on_mach_def set_send_wr_def settled_def in_place_def)
  have post: "triple ?own (post_send P sq_wr_addr) (settled d)"
    using contract_post [OF c]
    by (auto simp: triple_def post_send_def lib_run exit_if_def settled_def in_place_def put_mach_def
        split: prod.splits if_splits)
  have wait: "triple (settled d) (await env GET_RDMA_ADDR) (settled d)"
    by (rule triple_await [OF kept])
  show ?thesis
    unfolding client_advertise_def
    by (rule triple_thread_Cons [OF kept store] triple_thread_Cons [OF kept request]
        triple_thread_Cons [OF own_kept post] triple_thread_Cons [OF kept wait] triple_thread_Nil | assumption)+
qed

text \<open>The calls of \<open>start\<close> itself.\<close>

lemma start_calls:
  assumes "starts_contract P d"
  shows "triple (fresh d) (ep_lib (\<lambda>s. create_first_event_channel P) (\<lambda>(ch, msg). assign (\<lambda>s. s\<lparr>cm_channel := ch\<rparr>))) (fresh d)"
    and "triple (fresh d) (ep_lib (\<lambda>s. lib_create_id P (cm_channel s) 0 RDMA_PS_TCP) (\<lambda>(ret, i). block
      [assign (\<lambda>s. s\<lparr>cm_id := i\<rparr>), exit_if (\<lambda>_. ret \<noteq> 0) Create_id_error])) (fresh d)"
    and "triple (settled d) (ep_lib (\<lambda>s. lib_connect P (cm_id s) client_conn_param)
      (\<lambda>ret. exit_if (\<lambda>_. ret \<noteq> 0) Connect_error)) (settled d)"
proof -
  show "triple (fresh d) (ep_lib (\<lambda>s. create_first_event_channel P) (\<lambda>(ch, msg). assign (\<lambda>s. s\<lparr>cm_channel := ch\<rparr>))) (fresh d)"
    using starts_contractD(1) [OF assms]
    by (auto simp: triple_def lib_run assign_run create_first_event_channel_def counts_def fresh_def put_mach_def
        split: prod.splits)
  show "triple (fresh d) (ep_lib (\<lambda>s. lib_create_id P (cm_channel s) 0 RDMA_PS_TCP) (\<lambda>(ret, i). block
      [assign (\<lambda>s. s\<lparr>cm_id := i\<rparr>), exit_if (\<lambda>_. ret \<noteq> 0) Create_id_error])) (fresh d)"
    using starts_contractD(2) [OF assms]
    by (auto simp: triple_def lib_run assign_run exit_if_def block_Cons block_Nil seq_def counts_def fresh_def put_mach_def
        split: prod.splits if_splits)
  show "triple (settled d) (ep_lib (\<lambda>s. lib_connect P (cm_id s) client_conn_param)
      (\<lambda>ret. exit_if (\<lambda>_. ret \<noteq> 0) Connect_error)) (settled d)"
    using starts_contractD(13) [OF assms]
    by (auto simp: triple_def lib_run exit_if_def settled_def stays_put_def in_place_def put_mach_def
        split: prod.splits if_splits)
qed

lemma client_start_settled:
  assumes c: "reads_contract P d" and st: "starts_contract P d"
    and env: "runs_beside (client_env_step P (dev_step d)) env"
  shows "triple (fresh d) (client_start P env) (settled d)"
proof -
  note kept = quiet_kept(3) [OF c env]
  have thread: "triple (ready d) (assign (\<lambda>s. s\<lparr>cq_pc := Cq_wait\<rparr>)) (settled d)"
    by (rule triple_assign) (simp add: ready_def fresh_def settled_def)
  have wait: "triple (settled d) (await env (\<lambda>s. cstate s = CONNECTED)) (settled d)"
    by (rule triple_await [OF kept])
  have connected: "triple (settled d) (thread env
      [ep_lib (\<lambda>s. lib_connect P (cm_id s) client_conn_param) (\<lambda>ret. exit_if (\<lambda>_. ret \<noteq> 0) Connect_error),
       await env (\<lambda>s. cstate s = CONNECTED)]) (settled d)"
    by (rule triple_thread_Cons [OF kept start_calls(3) [OF st]] triple_thread_Cons [OF kept wait] triple_thread_Nil | assumption)+
  show ?thesis
    unfolding client_start_def
    by (rule triple_block_Cons [OF start_calls(1) [OF st] triple_block_Cons [OF start_calls(2) [OF st]
        triple_block_Cons [OF client_bindaddr_fresh [OF c st env]
        triple_block_Cons [OF client_make_queues_ready [OF c st env]
        triple_block_Cons [OF thread triple_block_Cons [OF connected
        triple_block_Cons [OF client_advertise_settled [OF c env] triple_block_Nil]]]]]]])
qed


end
