(* ===== verification/Client_Start_Example.thy ===== *)
theory Client_Start_Example
  imports Client_Start Platform_Example
begin

section \<open>A session of the client\<close>

text \<open>
  A concrete device and connection manager for running the client from its start: the world counts
  the outstanding READs, the events of the connection manager (first a resolved route, then the
  connection) and the messages of the server that have been received.
\<close>

type_synonym cx_world = "nat \<times> nat \<times> nat"

definition cx_context :: ibv_context where
  "cx_context = undefined\<lparr>ctx_ops := undefined
     \<lparr>ops_poll_cq := 1, ops_post_send := 2, ops_post_recv := 3, ops_req_notify_cq := 3\<rparr>\<rparr>"

definition cx_wc :: "nat \<Rightarrow> ibv_wc" where
  "cx_wc k = undefined\<lparr>wc_opcode := IBV_WC_RECV, wc_byte_len := 16,
     wc_wc_flags := flags_or ibv_wc_flags_bit [IBV_WC_WITH_IMM], wc_imm_data := htobe32 (1122 + of_nat k)\<rparr>"

text \<open>Polling takes the completion of a READ, if there is one, else one of the first two messages.\<close>

definition cx_code :: "cx_world code" where
  "cx_code f args m = (case world m of (reads, events, msgs) \<Rightarrow>
     if f = 1 \<and> length args = 3 then
       (if 0 < reads
        then (1, m\<lparr>world := (reads - 1, events, msgs), wc_at := (wc_at m)(args ! 2 := (undefined :: ibv_wc)\<lparr>wc_opcode := IBV_WC_RDMA_READ\<rparr>)\<rparr>)
        else if msgs < 2
        then (1, m\<lparr>world := (0, events, Suc msgs), wc_at := (wc_at m)(args ! 2 := cx_wc msgs)\<rparr>)
        else (0, m))
     else if f = 2 \<and> length args = 3 then
       (0, m\<lparr>world := (if send_wr_opcode (send_wr_at m (args ! 1)) = IBV_WR_RDMA_READ then 1 else 0, events, msgs)\<rparr>)
     else (0, m))"

definition cx_event :: "nat \<Rightarrow> rdma_cm_event" where
  "cx_event k = undefined\<lparr>cm_event_event := if k = 0 then RDMA_CM_EVENT_ROUTE_RESOLVED else RDMA_CM_EVENT_ESTABLISHED\<rparr>"

definition cx_platform :: "cx_world platform" where
  "cx_platform = quiet_platform\<lparr>code := cx_code,
     lib_get_cm_event := \<lambda>ch m. ((0, 9), case world m of (reads, events, msgs) \<Rightarrow>
       m\<lparr>world := (reads, Suc events, msgs), cm_event_at := (cm_event_at m)(9 := cx_event events)\<rparr>),
     lib_rdma_create_qp := \<lambda>i p a m. (0, m\<lparr>context_at := \<lambda>_. cx_context, cq_at := \<lambda>_. undefined, qp_at := \<lambda>_. undefined\<rparr>)\<rparr>"

definition cx_device :: "cx_world device" where
  "cx_device = \<lparr>dev_step = (\<lambda>_ _. False), dev_reads = fst, dev_sends = (\<lambda>_. []), dev_sent = (\<lambda>_. []),
     dev_private = (\<lambda>_. True), dev_tables = (\<lambda>_. cx_context, \<lambda>_. undefined, \<lambda>_. undefined)\<rparr>"

lemma cx_in_place:
  "in_place cx_device m \<longleftrightarrow> context_at m = (\<lambda>_. cx_context) \<and> cq_at m = (\<lambda>_. undefined) \<and> qp_at m = (\<lambda>_. undefined)"
  by (simp add: in_place_def tables_def cx_device_def)

lemma cx_outstanding: "outstanding cx_device m = fst (world m)"
  by (simp add: outstanding_def cx_device_def)

lemma cx_libs:
  "lib_get_cm_event cx_platform ch m = ((0, 9), case world m of (reads, events, msgs) \<Rightarrow>
       m\<lparr>world := (reads, Suc events, msgs), cm_event_at := (cm_event_at m)(9 := cx_event events)\<rparr>)"
  "lib_ack_cm_event cx_platform e m = (0, m)" "lib_resolve_route cx_platform i ms m = (0, m)"
  "lib_get_cq_event cx_platform ch m = ((0, 3, 0), m)" "lib_ack_cq_events cx_platform q k m = ((), m)"
  "lib_malloc cx_platform sz m = (4096, m)" "lib_create_event_channel cx_platform m = (7, m)"
  "lib_create_id cx_platform ch x ps m = ((0, 8), m)" "lib_getaddrinfo cx_platform a m = ((0, 8192), m)"
  "lib_resolve_addr cx_platform i src dst ms m = (0, m)" "lib_alloc_pd cx_platform v m = (1, m)"
  "lib_create_comp_channel cx_platform v m = (2, m)" "lib_create_cq cx_platform v n y ch vec m = (3, m)"
  "lib_rdma_create_qp cx_platform i p qa m =
     (0, m\<lparr>context_at := \<lambda>_. cx_context, cq_at := \<lambda>_. undefined, qp_at := \<lambda>_. undefined\<rparr>)"
  "lib_reg_mr cx_platform p ad len acc m = (4, m)" "lib_connect cx_platform i par m = (0, m)"
  "access_optional_range cx_platform = 0x3FF00000" "code cx_platform = cx_code"
  by (simp_all add: cx_platform_def quiet_platform_def)

lemma cx_notify: "ibv_req_notify_cq cx_platform q fl m = (0, m)"
  by (simp add: ibv_req_notify_cq_def call_int_def cx_libs cx_code_def c_int_def split: prod.splits)

lemma cx_verbs:
  assumes "context_at m = (\<lambda>_. cx_context)"
  shows "ibv_poll_cq cx_platform q n wc m = (case world m of (reads, events, msgs) \<Rightarrow>
      if 0 < reads
      then (1, m\<lparr>world := (reads - 1, events, msgs), wc_at := (wc_at m)(wc := (undefined :: ibv_wc)\<lparr>wc_opcode := IBV_WC_RDMA_READ\<rparr>)\<rparr>)
      else if msgs < 2 then (1, m\<lparr>world := (0, events, Suc msgs), wc_at := (wc_at m)(wc := cx_wc msgs)\<rparr>)
      else (0, m))"
    and "ibv_post_send cx_platform q wr bad m = (case world m of (reads, events, msgs) \<Rightarrow>
      (0, m\<lparr>world := (if send_wr_opcode (send_wr_at m wr) = IBV_WR_RDMA_READ then 1 else 0, events, msgs)\<rparr>))"
    and "ibv_post_recv cx_platform q wr bad m = (0, m)"
  using assms
  by (simp_all add: ibv_poll_cq_def ibv_post_send_def ibv_post_recv_def call_int_def cx_libs cx_code_def cx_context_def c_int_def
      split: prod.split)

lemma cx_reads: "reads_contract cx_platform cx_device"
proof -
  have "polls_read cx_platform cx_device" "posts_read cx_platform cx_device"
    by (auto simp: polls_read_def posts_read_def cx_in_place cx_verbs tables_def cx_outstanding cx_wc_def
        split: if_splits prod.splits)
  moreover have "keeps cx_device (lib_get_cm_event cx_platform ch)" "keeps cx_device (lib_ack_cm_event cx_platform e)"
    "keeps cx_device (lib_resolve_route cx_platform i ms)" "keeps cx_device (lib_get_cq_event cx_platform ch)"
    "keeps cx_device (lib_ack_cq_events cx_platform q n)" "keeps cx_device (lib_malloc cx_platform k)"
    for ch e i ms q n k
    by (auto simp: keeps_def same_reads_def cx_libs cx_outstanding tables_def split: prod.splits)
  moreover have "verb_keeps cx_device (ibv_req_notify_cq cx_platform q fl)"
    "verb_keeps cx_device (ibv_post_recv cx_platform q wr bad)" for q fl wr bad
    by (auto simp: verb_keeps_def same_reads_def cx_in_place cx_verbs(3) cx_notify)
  ultimately show ?thesis by (simp add: reads_contract_def) (simp add: cx_device_def)
qed

lemma cx_starts: "starts_contract cx_platform cx_device"
  by (simp add: starts_contract_def counts_def stays_put_def cx_libs cx_notify cx_outstanding tables_def cx_in_place optional_range_value)

subsection \<open>The other threads\<close>

text \<open>
  The connection thread takes its two events, the second one when the queue pair exists; then the
  completion thread works as long as a READ or a message is awaited.
\<close>

definition cx_step :: "fatal + 'a \<Rightarrow> (fatal + 'a) option \<Rightarrow> fatal + 'a" where
  "cx_step d r = (case r of None \<Rightarrow> d | Some x \<Rightarrow> x)"

definition cx_env :: "cx_world client \<Rightarrow> fatal + cx_world client" where
  "cx_env s = (
     if cstate s = INIT \<or> cstate s \<noteq> CONNECTED \<and> cq_pc s \<noteq> Cq_none
     then cx_step (Inr s) (client_cm_thread cx_platform s)
     else if cstate s = CONNECTED \<and> (cq_pc s \<noteq> Cq_poll \<or> 0 < pendingReads s \<or> \<not> GET_CLASS_ADDR s)
     then cx_step (Inr s) (client_cq_thread cx_platform s)
     else Inr s)"

lemma cx_runs_beside: "runs_beside (client_env_step cx_platform (dev_step cx_device)) cx_env"
proof -
  have step: "r = Some (Inr t) \<or> t = s" if "cx_step (Inr s) r = Inr t" for r and s t :: "cx_world client"
    using that by (auto simp: cx_step_def split: option.splits)
  have "client_cm_thread cx_platform s = Some (Inr t) \<or> client_cq_thread cx_platform s = Some (Inr t) \<or> t = s"
    if "cx_env s = Inr t" for s t
    using that step by (auto simp: cx_env_def split: if_splits)
  then show ?thesis
    unfolding runs_beside_def by (metis client_env_step.cm client_env_step.cq r_into_rtranclp rtranclp.rtrancl_refl)
qed

text \<open>Before the queue pair, and with the completion thread.\<close>

definition cx_early :: "cx_world client \<Rightarrow> bool" where
  "cx_early s \<longleftrightarrow> cq_pc s = Cq_none \<and> pendingReads s = 0 \<and> \<not> GET_RDMA_ADDR s \<and> \<not> GET_CLASS_ADDR s \<and>
     addrinfo_at (mach s) = (\<lambda>_. (2, 0x5000)) \<and>
     (cstate s = INIT \<and> world (mach s) = (0, 0, 0) \<or> cstate s = ROUTE_RESOLVED \<and> world (mach s) = (0, 1, 0))"

definition cx_late :: "int \<Rightarrow> bool \<Rightarrow> cx_world client \<Rightarrow> bool" where
  "cx_late k fin s \<longleftrightarrow> in_place cx_device (mach s) \<and> cq s = 3 \<and>
     (cq_pc s = Cq_wait \<or> cq_pc s = Cq_poll \<or> cq_pc s = Cq_dec) \<and>
     (\<exists>reads events msgs. world (mach s) = (reads, events, msgs) \<and> reads \<le> 1 \<and> msgs \<le> 2 \<and>
        (cstate s = CONNECTED \<or> cstate s = ROUTE_RESOLVED \<and> events = 1 \<and> cq_pc s \<noteq> Cq_dec) \<and>
        (GET_RDMA_ADDR s \<longleftrightarrow> 1 \<le> msgs) \<and> (GET_CLASS_ADDR s \<longleftrightarrow> 2 \<le> msgs) \<and>
        pendingReads s = int reads + (if cq_pc s = Cq_dec then 1 else 0) + k \<and>
        (fin \<longrightarrow> reads = 0 \<longrightarrow> RDMA_READ_COMPLETE s))"

definition cx_work :: "cx_world client \<Rightarrow> nat" where
  "cx_work s = (case world (mach s) of (reads, events, msgs) \<Rightarrow>
     (if cstate s = CONNECTED then 0 else 1) + (if cq_pc s = Cq_wait then 1 else 0) +
     (if cq_pc s = Cq_dec then 1 else 0) + 2 * reads + (2 - msgs))"

lemma cx_cm:
  assumes "world (mach s) = (reads, events, msgs)"
  shows "client_cm_thread cx_platform s = Some (Inr (s\<lparr>mach := (mach s)\<lparr>world := (reads, Suc events, msgs),
      cm_event_at := (cm_event_at (mach s))(9 := cx_event events)\<rparr>,
    cstate := if events = 0 then ROUTE_RESOLVED else CONNECTED\<rparr>))"
  using assms
  by (simp add: client_cm_thread_def client_cm_event_def lib_run block_Cons block_Nil seq_def exit_if_def assign_run
      cx_libs cx_event_def put_mach_def)

lemma cx_early_turn: "cx_early s \<Longrightarrow> \<exists>t. cx_env s = Inr t \<and> cx_early t \<and> cstate t = ROUTE_RESOLVED"
  by (auto simp: cx_early_def cx_env_def cx_cm cx_step_def)

lemma cx_recv:
  assumes "context_at (mach s) = (\<lambda>_. cx_context)" and "k < 2"
  shows "\<exists>t. recv_handler cx_platform (cx_wc k) s = Some (Inr t) \<and> mach t = mach s \<and> cq_pc t = cq_pc s \<and> cq t = cq s \<and>
    cstate t = cstate s \<and> pendingReads t = pendingReads s \<and> RDMA_READ_COMPLETE t = RDMA_READ_COMPLETE s \<and>
    GET_RDMA_ADDR t = (GET_RDMA_ADDR s \<or> k = 0) \<and> GET_CLASS_ADDR t = (GET_CLASS_ADDR s \<or> k = 1)"
proof -
  have flag: "has_flag (ibv_wc_flags_bit IBV_WC_WITH_IMM) (flags_or ibv_wc_flags_bit [IBV_WC_WITH_IMM] :: u32)"
    by (simp only: wcf.test_flags_or) simp
  have "k = 0 \<or> k = 1" using assms(2) by auto
  then show ?thesis
    using assms(1) flag
    by (auto simp: recv_handler_def block_Cons block_Nil seq_def exit_if_def cond_def assign_run lib_run skip_run
        cx_wc_def put_mach_def Let_def sizeof_rdma_info_def cx_verbs simp del: ibv_wc_flags_bit.simps)
qed

lemma cx_late_turn:
  assumes s: "cx_late k fin s"
    and busy: "cstate s \<noteq> CONNECTED \<or> cq_pc s \<noteq> Cq_poll \<or> 0 < pendingReads s \<or> \<not> GET_CLASS_ADDR s" and k: "k \<le> 0"
  shows "\<exists>t. cx_env s = Inr t \<and> cx_late k fin t \<and> (GET_RDMA_ADDR s \<longrightarrow> GET_RDMA_ADDR t) \<and> cx_work t < cx_work s"
proof -
  obtain reads events msgs where w: "world (mach s) = (reads, events, msgs)" by (cases "world (mach s)")
  have st: "cstate s = CONNECTED \<or> cstate s = ROUTE_RESOLVED" and ctx: "context_at (mach s) = (\<lambda>_. cx_context)"
    and pc: "cq_pc s \<noteq> Cq_none" using s by (auto simp: cx_late_def cx_in_place)
  show ?thesis
  proof (cases "cstate s = CONNECTED")
    case False
    with s w cx_cm [OF w] pc show ?thesis
      by (auto simp: cx_late_def cx_in_place cx_env_def cx_step_def cx_work_def)
  next
    case conn: True
    have env: "cx_env s = cx_step (Inr s) (client_cq_thread cx_platform s)"
      using conn busy by (auto simp: cx_env_def)
    consider (wait) "cq_pc s = Cq_wait" | (dec) "cq_pc s = Cq_dec" | (poll) "cq_pc s = Cq_poll" using s by (auto simp: cx_late_def cx_in_place)
    then show ?thesis
    proof cases
      case wait
      with s w conn show ?thesis
        by (simp add: env cx_step_def client_cq_thread_def cq_wait_def request_notify_def lib_run block_Cons block_Nil seq_def
            exit_if_def assign_run cx_libs cx_notify cx_late_def cx_in_place put_mach_def cx_work_def)
    next
      case dec
      with s w conn show ?thesis
        by (simp add: env cx_step_def client_cq_thread_def assign_run cx_late_def cx_in_place cx_work_def)
    next
      case poll
      show ?thesis
      proof (cases "0 < reads")
        case True
        then have "reads = 1" using s w by (auto simp: cx_late_def)
        with s w conn poll ctx show ?thesis
          by (simp add: env cx_step_def client_cq_thread_def client_poll_def lib_run assign_run client_completion_def
              cx_verbs cx_late_def cx_in_place put_mach_def cx_work_def)
      next
        case False
        with s busy w conn poll k have m: "msgs < 2" by (auto simp: cx_late_def cx_in_place)
        let ?m = "(mach s)\<lparr>world := (0, events, Suc msgs), wc_at := (wc_at (mach s))(wc_addr s := cx_wc msgs)\<rparr>"
        have "wc_opcode (cx_wc msgs) = IBV_WC_RECV" by (simp add: cx_wc_def)
        then have "client_cq_thread cx_platform s = recv_handler cx_platform (cx_wc msgs) (put_mach ?m s)"
          using w poll ctx m False
          by (simp add: client_cq_thread_def client_poll_def lib_run client_completion_def cx_verbs put_mach_def)
        moreover obtain t where "recv_handler cx_platform (cx_wc msgs) (put_mach ?m s) = Some (Inr t)"
          and t: "mach t = ?m" "cq_pc t = cq_pc s" "cq t = cq s" "cstate t = cstate s" "pendingReads t = pendingReads s"
            "RDMA_READ_COMPLETE t = RDMA_READ_COMPLETE s" "GET_RDMA_ADDR t = (GET_RDMA_ADDR s \<or> msgs = 0)"
            "GET_CLASS_ADDR t = (GET_CLASS_ADDR s \<or> msgs = 1)"
          using cx_recv [of "put_mach ?m s" msgs] ctx m by (auto simp: put_mach_def)
        ultimately have "cx_env s = Inr t" by (simp add: env cx_step_def)
        moreover have "cx_late k fin t"
          using s w False m conn poll by (auto simp: cx_late_def cx_in_place t)
        moreover have "cx_work t < cx_work s" using w m conn poll False by (simp add: cx_work_def t)
        moreover have "GET_RDMA_ADDR s \<longrightarrow> GET_RDMA_ADDR t" by (simp add: t)
        ultimately show ?thesis by blast
      qed
    qed
  qed
qed

lemma cx_late_quiet:
  assumes "cx_late k fin s" and "k \<le> 0"
  shows "\<exists>t. cx_env s = Inr t \<and> cx_late k fin t \<and> (GET_RDMA_ADDR s \<longrightarrow> GET_RDMA_ADDR t)"
proof (cases "cstate s \<noteq> CONNECTED \<or> cq_pc s \<noteq> Cq_poll \<or> 0 < pendingReads s \<or> \<not> GET_CLASS_ADDR s")
  case True
  from cx_late_turn [OF assms(1) this assms(2)] show ?thesis by blast
next
  case False
  then have "cx_env s = Inr s" by (auto simp: cx_env_def)
  with assms(1) show ?thesis by blast
qed

text \<open>Waits of the main thread: the other threads work until the completion thread has nothing to do.\<close>

lemma cx_await:
  assumes late: "\<And>s. p s \<Longrightarrow> cx_late 0 fin s"
    and kept: "\<And>s t. p s \<Longrightarrow> cx_env s = Inr t \<Longrightarrow> cx_late 0 fin t \<Longrightarrow> GET_RDMA_ADDR s \<longrightarrow> GET_RDMA_ADDR t \<Longrightarrow> p t"
    and b: "\<And>s. p s \<Longrightarrow> cstate s = CONNECTED \<Longrightarrow> pendingReads s \<le> 0 \<Longrightarrow> GET_RDMA_ADDR s \<Longrightarrow> GET_CLASS_ADDR s \<Longrightarrow> b s"
  shows "runs p (await cx_env b) (\<lambda>s. p s \<and> b s)"
proof (rule runs_await [where measure' = cx_work])
  fix s assume s: "p s" "\<not> b s"
  have "GET_CLASS_ADDR s \<Longrightarrow> GET_RDMA_ADDR s" using late [OF s(1)] by (auto simp: cx_late_def)
  then have "cstate s \<noteq> CONNECTED \<or> cq_pc s \<noteq> Cq_poll \<or> 0 < pendingReads s \<or> \<not> GET_CLASS_ADDR s"
    using b [OF s(1)] s(2) by auto
  from cx_late_turn [OF late [OF s(1)] this] obtain t where t: "cx_env s = Inr t" "cx_late 0 fin t"
    "GET_RDMA_ADDR s \<longrightarrow> GET_RDMA_ADDR t" "cx_work t < cx_work s" by auto
  with kept [OF s(1) t(1,2,3)] show "\<exists>t. cx_env s = Inr t \<and> p t \<and> cx_work t < cx_work s" by blast
qed

subsection \<open>The run\<close>

lemmas cx_exec = runs_def lib_run block_Cons block_Nil seq_def exit_if_def cond_def assign_run skip_run on_mach_def
  put_mach_def cx_libs

lemma cx_bindaddr: "runs cx_early (client_bindaddr cx_platform cx_env) (\<lambda>s. cx_early s \<and> cstate s = ROUTE_RESOLVED)"
proof -
  have turn: "\<exists>t. cx_env s = Inr t \<and> cx_early t" if "cx_early s" for s using cx_early_turn [OF that] by blast
  have resolve: "runs cx_early (resolve_sin cx_platform) cx_early"
    by (auto simp: resolve_sin_def copy_sockaddr_def cx_exec cx_early_def PF_INET_def on_mem_def)
  have request: "runs cx_early (ep_lib (\<lambda>s. lib_resolve_addr cx_platform (cm_id s) 0 (sin s) 2000)
      (\<lambda>ret. exit_if (\<lambda>_. ret \<noteq> 0) Resolve_addr_error)) cx_early"
    by (simp add: cx_exec cx_early_def)
  have wait: "runs cx_early (await cx_env (\<lambda>s. cstate s = ROUTE_RESOLVED)) (\<lambda>s. cx_early s \<and> cstate s = ROUTE_RESOLVED)"
    by (rule runs_await [where measure' = "\<lambda>s. if cstate s = ROUTE_RESOLVED then 0 else 1"]) (use cx_early_turn in fastforce)
  show ?thesis
    unfolding client_bindaddr_def
    by (rule runs_thread_Cons [OF turn resolve] runs_thread_Cons [OF turn request]
        runs_thread_Cons [OF turn wait] runs_thread_Nil | assumption)+
qed

definition cx_made :: "cx_world client \<Rightarrow> bool" where
  "cx_made s \<longleftrightarrow> cx_early s \<and> cstate s = ROUTE_RESOLVED \<and> cq s = 3"

lemma cx_register:
  assumes "and acc optional_range = 0" and "\<And>r s. p s \<Longrightarrow> p (store r s)"
  shows "runs p (register cx_platform addr len acc store) p"
  using assms by (simp add: register_def ibv_reg_mr_def optional_range_value cx_exec)

definition cx_paired :: "cx_world client \<Rightarrow> bool" where
  "cx_paired s \<longleftrightarrow> cx_made s \<and> in_place cx_device (mach s)"

lemma cx_idle: "cx_made s \<Longrightarrow> cx_env s = Inr s"
  by (auto simp: cx_made_def cx_early_def cx_env_def)

lemma cx_setup_buffer: "runs cx_paired (client_setup_buffer cx_platform) cx_paired"
proof -
  note defs = cx_paired_def cx_in_place cx_made_def cx_early_def
  have prepare: "runs cx_paired (prepare_requests op) cx_paired" for op
    by (auto simp: prepare_requests_def cx_exec defs set_sge_def set_send_wr_def set_recv_wr_def)
  have malloc: "runs cx_paired (ep_lib (\<lambda>s. lib_malloc cx_platform n) (\<lambda>r. assign (f r))) cx_paired"
    if "\<And>r s. cx_paired s \<Longrightarrow> cx_paired (f r s)" for n f
    using that by (simp add: cx_exec)
  show ?thesis
    unfolding client_setup_buffer_def register_buffers_def
    by (rule runs_block_Nil runs_block_Cons [where r = cx_paired] prepare malloc cx_register no_optional | (auto simp: defs) [1])+
qed

lemma cx_make_queues: "runs (\<lambda>s. cx_early s \<and> cstate s = ROUTE_RESOLVED) (client_make_queues cx_platform cx_env) cx_paired"
proof -
  let ?p = "\<lambda>s. cx_early s \<and> cstate s = ROUTE_RESOLVED"
  have turn: "\<exists>t. cx_env s = Inr t \<and> ?p t" if "?p s" for s using cx_early_turn that by blast
  have turn_made: "\<exists>t. cx_env s = Inr t \<and> cx_made t" if "cx_made s" for s using cx_idle [OF that] that by simp
  have turn_paired: "\<exists>t. cx_env s = Inr t \<and> cx_paired t" if "cx_paired s" for s
    using cx_idle that by (simp add: cx_paired_def)
  have early: "runs ?p (thread cx_env (c # cs)) q" if "runs ?p c r" "runs r (thread cx_env cs) q" for c cs r q
    by (rule runs_thread_Cons [OF turn that])
  have made: "runs cx_made (thread cx_env (c # cs)) q" if "runs cx_made c r" "runs r (thread cx_env cs) q" for c cs r q
    by (rule runs_thread_Cons [OF turn_made that])
  have paired: "runs cx_paired (thread cx_env (c # cs)) q" if "runs cx_paired c r" "runs r (thread cx_env cs) q" for c cs r q
    by (rule runs_thread_Cons [OF turn_paired that])
  show ?thesis
    unfolding client_make_queues_def
    by (rule early [where r = ?p], (auto simp: cx_exec cx_early_def) [1],
       rule early [where r = ?p], (auto simp: cx_exec cx_early_def) [1],
       rule early [where r = cx_made], (auto simp: cx_exec cx_early_def cx_made_def) [1],
       rule made [where r = cx_made], (auto simp: cx_exec cx_made_def) [1],
       rule made [where r = cx_made], (auto simp: cx_exec request_notify_def cx_notify) [1],
       rule made [where r = cx_paired], (auto simp: cx_exec cx_in_place cx_paired_def cx_made_def cx_early_def) [1],
       rule paired [where r = cx_paired], (auto simp: cx_exec cx_in_place cx_paired_def cx_made_def cx_early_def) [1],
       rule paired [OF cx_setup_buffer], rule paired [where r = cx_paired],
       (auto simp: cx_exec cx_verbs cx_in_place cx_paired_def) [1], rule runs_thread_Nil)
qed

text \<open>Between two functions of the session.\<close>

definition cx_calm :: "cx_world client \<Rightarrow> bool" where
  "cx_calm s \<longleftrightarrow> cx_late 0 False s \<and> quiet cx_device s \<and> GET_RDMA_ADDR s"

lemma cx_kept:
  assumes "cx_late k fin s" and "k \<le> 0" and "A (requests s)"
  shows "\<exists>t. cx_env s = Inr t \<and> cx_late k fin t \<and> (GET_RDMA_ADDR s \<longrightarrow> GET_RDMA_ADDR t) \<and> A (requests t)"
proof -
  obtain t where t: "cx_env s = Inr t" "cx_late k fin t" "GET_RDMA_ADDR s \<longrightarrow> GET_RDMA_ADDR t"
    using cx_late_quiet [OF assms(1,2)] by blast
  moreover have "requests t = requests s"
    using env_keeps(3) [OF cx_reads cx_runs_beside t(1)] assms(1) by (simp add: cx_late_def)
  ultimately show ?thesis using assms(3) by auto
qed

lemma cx_calm_kept:
  assumes "cx_calm s" and "A (requests s)"
  shows "\<exists>t. cx_env s = Inr t \<and> cx_calm t \<and> A (requests t)"
  using cx_kept [of 0 False s A] quiet_kept(1) [OF cx_reads cx_runs_beside, of s] assms
  by (auto simp: cx_calm_def)

lemma cx_calm_turn: "cx_calm s \<Longrightarrow> \<exists>t. cx_env s = Inr t \<and> cx_calm t"
  using cx_calm_kept [of s "\<lambda>_. True"] by blast

definition cx_armed :: "(cx_world client \<Rightarrow> ptr) \<Rightarrow> cx_world client \<Rightarrow> bool" where
  "cx_armed wr s \<longleftrightarrow> cx_calm s \<and> send_wr_opcode (send_wr_at (mach s) (wr s)) = IBV_WR_RDMA_READ"

lemma cx_armed_turn:
  assumes "own_request wr" and "cx_armed wr s"
  shows "\<exists>t. cx_env s = Inr t \<and> cx_armed wr t"
proof -
  obtain t where t: "cx_env s = Inr t" "cx_calm t" "requests t = requests s"
    using cx_calm_kept [of s "\<lambda>r. r = requests s"] assms(2) by (auto simp: cx_armed_def)
  then have "wr t = wr s" using assms(1) t(3) unfolding own_request_def by blast
  moreover have "send_wr_at (mach t) = send_wr_at (mach s)" using t(3) by (simp add: requests_def)
  ultimately show ?thesis using t assms(2) by (auto simp: cx_armed_def)
qed

text \<open>A READ that is posted, counted and awaited.\<close>

lemma cx_counted:
  assumes wr: "own_request wr"
    and b: "\<And>s. cx_late 0 True s \<Longrightarrow> pendingReads s \<le> 0 \<Longrightarrow> b s"
    and rest: "runs (\<lambda>s. cx_late 0 True s \<and> GET_RDMA_ADDR s \<and> b s) (thread cx_env cs) q"
  shows "runs (cx_armed wr) (thread cx_env (post_send cx_platform wr #
    assign (\<lambda>s. s\<lparr>pendingReads := pendingReads s + 1\<rparr>) # await cx_env b # cs)) q"
proof -
  let ?p = "\<lambda>k s. cx_late k True s \<and> GET_RDMA_ADDR s"
  have turn: "\<exists>t. cx_env s = Inr t \<and> ?p k t" if "?p k s" "k \<le> 0" for k s
    using cx_late_quiet [of k True s] that by blast
  have post: "runs (cx_armed wr) (post_send cx_platform wr) (?p (- 1))"
  proof (unfold runs_def, intro allI impI)
    fix s assume s: "cx_armed wr s"
    then obtain events msgs where w: "world (mach s) = (0, events, msgs)"
      by (cases "world (mach s)") (auto simp: cx_armed_def cx_calm_def quiet_def cx_outstanding)
    have ctx: "context_at (mach s) = (\<lambda>_. cx_context)" using s by (simp add: cx_armed_def cx_calm_def cx_late_def cx_in_place)
    have "post_send cx_platform wr s = Some (Inr (s\<lparr>mach := (mach s)\<lparr>world := (1, events, msgs)\<rparr>\<rparr>))"
      using s w ctx by (simp add: post_send_def lib_run exit_if_def cx_verbs put_mach_def cx_armed_def)
    moreover have "?p (- 1) (s\<lparr>mach := (mach s)\<lparr>world := (1, events, msgs)\<rparr>\<rparr>)"
      using s w by (auto simp: cx_armed_def cx_calm_def cx_late_def cx_in_place)
    ultimately show "\<exists>t. post_send cx_platform wr s = Some (Inr t) \<and> ?p (- 1) t" by blast
  qed
  have count: "runs (?p (- 1)) (assign (\<lambda>s. s\<lparr>pendingReads := pendingReads s + 1\<rparr>)) (?p 0)"
    by (auto simp: cx_exec cx_late_def)
  have "runs (?p 0) (await cx_env b) (\<lambda>s. ?p 0 s \<and> b s)"
    by (rule cx_await [where fin = True]) (use b in auto)
  then have wait: "runs (?p 0) (await cx_env b) (\<lambda>s. cx_late 0 True s \<and> GET_RDMA_ADDR s \<and> b s)"
    by (simp add: conj_assoc)
  show ?thesis
    by (rule runs_thread_Cons [OF cx_armed_turn [OF wr] post runs_thread_Cons [OF turn count
          runs_thread_Cons [OF turn wait rest]]]) simp_all
qed

definition cx_rest :: "cx_world client \<Rightarrow> bool" where
  "cx_rest s \<longleftrightarrow> cx_calm s \<and> settled cx_device s"

lemma cx_restI:
  assumes "runs cx_rest c (\<lambda>s. cx_late 0 fin s \<and> GET_RDMA_ADDR s)" and "triple (settled cx_device) c (settled cx_device)"
  shows "runs cx_rest c cx_rest"
  by (rule runs_weaken [OF runs_triple [OF assms]]) (auto simp: cx_rest_def cx_calm_def cx_late_def settled_iff)

lemma cx_rest_turn: "cx_rest s \<Longrightarrow> \<exists>t. cx_env s = Inr t \<and> cx_rest t"
  using cx_calm_turn [of s] quiet_kept(3) [OF cx_reads cx_runs_beside, of s] by (auto simp: cx_rest_def)

lemma cx_clear: "runs cx_calm (assign (\<lambda>s. s\<lparr>RDMA_READ_COMPLETE := False\<rparr>)) cx_calm"
  by (auto simp: runs_def assign_run cx_calm_def cx_late_def quiet_def balance_def)

lemma cx_requests:
  "runs cx_calm (rdma_request IBV_WR_RDMA_READ) (cx_armed rdma_sq_wr_addr)"
  "runs cx_calm class_request (cx_armed (\<lambda>s. test_class_wr_addr (class_info s)))"
  "runs cx_calm (sketch_request i) (cx_armed (\<lambda>s. sketch_wr_addr (sketch_info s)))"
  by (auto simp: cx_exec rdma_request_def class_request_def sketch_request_def cx_armed_def cx_calm_def cx_late_def
      cx_in_place quiet_def balance_def cx_outstanding set_send_wr_def set_sge_def)

lemma cx_rdma_read: "runs cx_rest (client_rdma_read cx_platform cx_env) cx_rest"
proof (rule cx_restI)
  have test: "runs cx_calm (exit_if (\<lambda>s. \<not> GET_RDMA_ADDR s) No_remote_addr) cx_calm"
    by (simp add: runs_def exit_if_def cx_calm_def)
  have "runs cx_calm (client_rdma_read cx_platform cx_env)
      (\<lambda>s. cx_late 0 True s \<and> GET_RDMA_ADDR s \<and> \<not> 0 < pendingReads s)"
    unfolding client_rdma_read_def
    by (rule runs_thread_Cons [OF cx_calm_turn test] runs_thread_Cons [OF cx_calm_turn cx_clear]
        runs_thread_Cons [OF cx_calm_turn cx_requests(1)] cx_counted [OF own_requests(1)] runs_thread_Nil
      | assumption | simp)+
  then show "runs cx_rest (client_rdma_read cx_platform cx_env) (\<lambda>s. cx_late 0 True s \<and> GET_RDMA_ADDR s)"
    by (rule runs_weaken) (simp_all add: cx_rest_def)
  show "triple (settled cx_device) (client_rdma_read cx_platform cx_env) (settled cx_device)"
    by (rule triple_weaken [OF rdma_read_triple [OF cx_reads cx_runs_beside]]) (auto simp: settled_iff)
qed

lemma cx_ow_read: "runs cx_rest (ow_read cx_platform cx_env) cx_rest"
proof (rule cx_restI)
  have reset: "runs cx_rest (assign (\<lambda>s. s\<lparr>pendingReads := 0\<rparr>)) cx_calm"
    by (auto simp: runs_def assign_run cx_rest_def cx_calm_def cx_late_def settled_def quiet_def balance_def)
  have element: "runs cx_calm (ow_read_element cx_platform cx_env i) cx_calm" for i
  proof -
    have "runs cx_calm (ow_read_element cx_platform cx_env i)
        (\<lambda>s. cx_late 0 True s \<and> GET_RDMA_ADDR s \<and> RDMA_READ_COMPLETE s)"
      unfolding ow_read_element_def
      by (rule runs_thread_Cons [OF cx_calm_turn cx_clear] runs_thread_Cons [OF cx_calm_turn cx_requests(3)]
          cx_counted [OF own_requests(3)] runs_thread_Nil
        | assumption | (auto simp: cx_late_def) [1])+
    from runs_triple [OF this ow_read_element_quiet [OF cx_reads cx_runs_beside]]
    show ?thesis by (rule runs_weaken) (auto simp: cx_calm_def cx_late_def)
  qed
  have each: "runs cx_calm (for_each xs (ow_read_element cx_platform cx_env)) cx_calm" for xs
    by (rule runs_for_each [OF element])
  have loop: "runs cx_calm (\<lambda>s. for_each [0..<nat (sk_data_size (sketch_info s))] (ow_read_element cx_platform cx_env) s) cx_calm"
    unfolding runs_def using each unfolding runs_def by blast
  have last: "runs cx_calm (await cx_env (\<lambda>s. \<not> 0 < pendingReads s)) (\<lambda>s. cx_calm s \<and> \<not> 0 < pendingReads s)"
    by (rule cx_await [where fin = False]) (use quiet_kept(1) [OF cx_reads cx_runs_beside] in \<open>auto simp: cx_calm_def\<close>)
  have "runs cx_rest (ow_read cx_platform cx_env) (\<lambda>s. cx_calm s \<and> \<not> 0 < pendingReads s)"
    unfolding ow_read_def
    by (rule runs_thread_Cons [OF cx_rest_turn reset] runs_thread_Cons [OF cx_calm_turn loop]
        runs_thread_Cons [OF cx_calm_turn last] runs_thread_Nil | assumption)+
  then show "runs cx_rest (ow_read cx_platform cx_env) (\<lambda>s. cx_late 0 False s \<and> GET_RDMA_ADDR s)"
    by (rule runs_weaken) (simp_all add: cx_calm_def)
  show "triple (settled cx_device) (ow_read cx_platform cx_env) (settled cx_device)"
    by (rule ow_read_triple [OF cx_reads cx_runs_beside])
qed

lemma cx_read_class: "runs cx_rest (read_class cx_platform cx_env (\<lambda>_. skip)) cx_rest"
proof (rule cx_restI)
  let ?late = "\<lambda>s. cx_late 0 True s \<and> GET_RDMA_ADDR s"
  let ?store = "on_mach (\<lambda>s. on_mem (\<lambda>mm. store_word mm (class_recv_data (class_info s) + 16) (class_recv_buf (class_info s))))"
  note calm = cx_calm_def cx_late_def cx_in_place quiet_def balance_def cx_outstanding
  have late_turn: "\<exists>t. cx_env s = Inr t \<and> ?late t" if "?late s" for s
    using cx_late_quiet [of 0 True s] that by blast
  have object: "runs cx_calm (ep_lib (\<lambda>s. operator_new cx_platform sizeof_rdma_test) (\<lambda>r. block
        [exit_if (\<lambda>_. r = 0) Bad_alloc,
         (\<lambda>s. case RdmaTest_ctor cx_platform r 0 0 0 (mach s) of None \<Rightarrow> fail Bad_alloc s | Some m \<Rightarrow> skip (put_mach m s))])) cx_calm"
    by (auto simp: cx_exec operator_new_def RdmaTest_ctor_def calm)
  have entries: "runs cx_calm (ep_lib (\<lambda>s. lib_malloc cx_platform (2 * 16))
      (\<lambda>r. assign (\<lambda>s. s\<lparr>class_info := (class_info s)\<lparr>test_sgl := r\<rparr>\<rparr>))) cx_calm"
    by (auto simp: cx_exec calm)
  have store: "runs ?late ?store ?late"
    by (auto simp: cx_exec on_mem_def cx_late_def cx_in_place)
  have result: "runs ?late (\<lambda>s. (\<lambda>_. skip) (rdma_test_at (mem (mach s)) (class_recv_data (class_info s))) s) ?late"
    by (simp add: cx_exec)
  have last: "runs (\<lambda>s. cx_late 0 True s \<and> GET_RDMA_ADDR s \<and> \<not> 0 < pendingReads s) (thread cx_env
      [?store, (\<lambda>s. (\<lambda>_. skip) (rdma_test_at (mem (mach s)) (class_recv_data (class_info s))) s)]) ?late"
    by (rule runs_weaken [OF runs_thread_Cons [OF late_turn store
          runs_thread_Cons [OF late_turn result runs_thread_Nil]]]) simp_all
  have "runs cx_calm (read_class cx_platform cx_env (\<lambda>_. skip)) ?late"
    unfolding read_class_def
    by (rule runs_thread_Cons [OF cx_calm_turn object] runs_thread_Cons [OF cx_calm_turn entries]
        runs_thread_Cons [OF cx_calm_turn cx_clear] runs_thread_Cons [OF cx_calm_turn cx_requests(2)]
        cx_counted [OF own_requests(2)] last | assumption | simp)+
  then show "runs cx_rest (read_class cx_platform cx_env (\<lambda>_. skip)) ?late"
    by (rule runs_weaken) (simp_all add: cx_rest_def)
  show "triple (settled cx_device) (read_class cx_platform cx_env (\<lambda>_. skip)) (settled cx_device)"
    by (rule triple_weaken [OF read_class_triple [OF cx_reads cx_runs_beside]]) (auto simp: settled_iff)
qed

subsection \<open>From the start to the end\<close>

text \<open>The completion thread waits; the queue pair exists.\<close>

definition cx_sound :: "cx_world client \<Rightarrow> bool" where
  "cx_sound s \<longleftrightarrow> cx_late 0 False s \<and> settled cx_device s"

lemma cx_sound_turn: "cx_sound s \<Longrightarrow> \<exists>t. cx_env s = Inr t \<and> cx_sound t"
  using cx_late_quiet [of 0 False s] quiet_kept(3) [OF cx_reads cx_runs_beside, of s] by (auto simp: cx_sound_def)

lemma cx_sound_wait:
  assumes "\<And>s. cstate s = CONNECTED \<Longrightarrow> GET_RDMA_ADDR s \<Longrightarrow> b s"
  shows "runs cx_sound (await cx_env b) (\<lambda>s. cx_sound s \<and> b s)"
  by (rule cx_await [where fin = False])
    (use assms quiet_kept(3) [OF cx_reads cx_runs_beside] in \<open>auto simp: cx_sound_def\<close>)

lemma cx_advertise: "runs cx_sound (client_advertise cx_platform cx_env) cx_rest"
proof -
  let ?armed = "\<lambda>s. cx_sound s \<and> send_wr_opcode (send_wr_at (mach s) (sq_wr_addr s)) = IBV_WR_SEND"
  note sound = cx_sound_def cx_late_def cx_in_place settled_def cx_outstanding
  have armed_turn: "\<exists>t. cx_env s = Inr t \<and> ?armed t" if "?armed s" for s
  proof -
    from that obtain t where t: "cx_env s = Inr t" "cx_sound t" using cx_sound_turn by blast
    moreover have "requests t = requests s"
      using env_keeps(3) [OF cx_reads cx_runs_beside t(1)] that by (simp add: cx_sound_def cx_late_def)
    ultimately show ?thesis using that by (auto simp: requests_def)
  qed
  have info: "runs cx_sound (on_mach (\<lambda>s m. on_mem (store_rdma_info (send_buf_addr s) (start_buf s)
      (mr_rkey (mr_at m (start_mr s))) (word_of_int (start_size s))) m)) cx_sound"
    by (auto simp: cx_exec on_mem_def sound)
  have request: "runs cx_sound (on_mach (\<lambda>s. set_send_wr (sq_wr_addr s) (\<lambda>w. w\<lparr>send_wr_opcode := IBV_WR_SEND\<rparr>))) ?armed"
    by (auto simp: cx_exec set_send_wr_def sound)
  have post: "runs ?armed (post_send cx_platform sq_wr_addr) cx_sound"
  proof (unfold runs_def, intro allI impI)
    fix s assume s: "?armed s"
    then obtain events msgs where w: "world (mach s) = (0, events, msgs)"
      by (cases "world (mach s)") (auto simp: cx_sound_def settled_def cx_outstanding)
    have ctx: "context_at (mach s) = (\<lambda>_. cx_context)" using s by (simp add: cx_sound_def cx_late_def cx_in_place)
    have "mach s\<lparr>world := (0, events, msgs)\<rparr> = mach s" using w by simp
    then have "post_send cx_platform sq_wr_addr s = Some (Inr s)"
      using s w ctx by (simp add: post_send_def lib_run exit_if_def cx_verbs put_mach_def)
    with s show "\<exists>t. post_send cx_platform sq_wr_addr s = Some (Inr t) \<and> cx_sound t" by blast
  qed
  have wait: "runs cx_sound (await cx_env GET_RDMA_ADDR) (\<lambda>s. cx_sound s \<and> GET_RDMA_ADDR s)"
    by (rule cx_sound_wait)
  have last: "runs (\<lambda>s. cx_sound s \<and> GET_RDMA_ADDR s) (thread cx_env []) cx_rest"
    by (rule runs_weaken [OF runs_thread_Nil, where q' = cx_rest])
      (auto simp: cx_rest_def cx_calm_def cx_sound_def settled_iff)
  show ?thesis
    unfolding client_advertise_def
    by (rule runs_thread_Cons [OF cx_sound_turn info runs_thread_Cons [OF cx_sound_turn request
          runs_thread_Cons [OF armed_turn post runs_thread_Cons [OF cx_sound_turn wait last]]]])
qed

lemma cx_start:
  "runs (\<lambda>s. cx_early s \<and> cstate s = INIT) (client_start cx_platform cx_env) cx_rest"
proof -
  let ?init = "\<lambda>s. cx_early s \<and> cstate s = INIT"
  have channel: "runs ?init (ep_lib (\<lambda>s. create_first_event_channel cx_platform) (\<lambda>(ch, msg). assign (\<lambda>s. s\<lparr>cm_channel := ch\<rparr>))) ?init"
    by (auto simp: cx_exec create_first_event_channel_def cx_early_def)
  have ident: "runs ?init (ep_lib (\<lambda>s. lib_create_id cx_platform (cm_channel s) 0 RDMA_PS_TCP) (\<lambda>(ret, i). block
      [assign (\<lambda>s. s\<lparr>cm_id := i\<rparr>), exit_if (\<lambda>_. ret \<noteq> 0) Create_id_error])) cx_early"
    by (auto simp: cx_exec cx_early_def)
  have thread: "runs cx_paired (assign (\<lambda>s. s\<lparr>cq_pc := Cq_wait\<rparr>)) cx_sound"
    by (auto simp: cx_exec cx_paired_def cx_made_def cx_early_def cx_sound_def cx_late_def settled_def cx_outstanding)
  have connect: "runs cx_sound (ep_lib (\<lambda>s. lib_connect cx_platform (cm_id s) client_conn_param)
      (\<lambda>ret. exit_if (\<lambda>_. ret \<noteq> 0) Connect_error)) cx_sound"
    by (auto simp: cx_exec cx_sound_def cx_late_def cx_in_place settled_def)
  have wait: "runs cx_sound (await cx_env (\<lambda>s. cstate s = CONNECTED)) cx_sound"
    by (rule runs_weaken [OF cx_sound_wait]) simp_all
  have connected: "runs cx_sound (thread cx_env
      [ep_lib (\<lambda>s. lib_connect cx_platform (cm_id s) client_conn_param) (\<lambda>ret. exit_if (\<lambda>_. ret \<noteq> 0) Connect_error),
       await cx_env (\<lambda>s. cstate s = CONNECTED)]) cx_sound"
    by (rule runs_thread_Cons [OF cx_sound_turn connect runs_thread_Cons [OF cx_sound_turn wait runs_thread_Nil]])
  show ?thesis
    unfolding client_start_def
    by (rule runs_block_Cons [OF channel runs_block_Cons [OF ident
        runs_block_Cons [OF cx_bindaddr
        runs_block_Cons [OF cx_make_queues
        runs_block_Cons [OF thread runs_block_Cons [OF connected
        runs_block_Cons [OF cx_advertise runs_block_Nil]]]]]]])
qed

lemma cx_session: "runs (\<lambda>s. cx_early s \<and> cstate s = INIT) (client_session cx_platform cx_env) cx_rest"
proof -
  have rounds: "runs cx_rest (for_each [0..<10] (\<lambda>_. ow_read cx_platform cx_env)) cx_rest"
    by (rule runs_for_each [OF cx_ow_read])
  have wait: "runs cx_rest (await cx_env GET_CLASS_ADDR) cx_rest"
  proof (rule runs_weaken [OF cx_await [where fin = False]])
    show "cx_rest t" if "cx_rest s" "cx_env s = Inr t" for s t using cx_rest_turn [OF that(1)] that(2) by auto
  qed (auto simp: cx_rest_def cx_calm_def)
  have pause: "runs cx_rest (interleave cx_env) cx_rest"
    using cx_rest_turn by (auto simp: runs_def interleave_def)
  show ?thesis
    unfolding client_session_def
    by (rule runs_block_Cons [OF cx_start] runs_block_Cons [OF cx_rdma_read] runs_block_Cons [OF wait]
        runs_block_Cons [OF cx_read_class] runs_block_Cons [OF pause] runs_block_Cons [OF rounds] runs_block_Nil)+
qed

subsection \<open>The property at this device\<close>

definition cx_client :: "cx_world client" where
  "cx_client = (undefined :: cx_world client)\<lparr>cq_pc := Cq_none, cstate := INIT, pendingReads := 0,
     GET_RDMA_ADDR := False, GET_CLASS_ADDR := False,
     mach := (undefined :: cx_world machine)\<lparr>world := (0, 0, 0), addrinfo_at := \<lambda>_. (2, 0x5000)\<rparr>\<rparr>"


end
