(* ===== verification/Server_Start.thy ===== *)
theory Server_Start
  imports Sends Starts
begin

section \<open>The server from its start\<close>

text \<open>
  \<open>server_advertises\<close> speaks of a server that is ready to send.  Here is that \<open>start\<close> makes it ready: no call
  before sends anything, and \<open>setup_buffer\<close> prepares the request and the entry that the messages use.
\<close>

subsection \<open>The calls of the start\<close>

text \<open>
  Without a queue pair nothing can be sent, and no call writes the work requests of the process.  A
  successful \<open>rdma_create_qp\<close> puts the provider's tables in place; later calls leave them there.
\<close>

definition silent :: "'w device \<Rightarrow> ('w, 'r) lib \<Rightarrow> bool" where
  "silent d f \<longleftrightarrow> (\<forall>m r m'. f m = (r, m') \<longrightarrow>
     pending_sends d m' = pending_sends d m \<and> sent d m' = sent d m \<and> send_wr_at m' = send_wr_at m)"

definition silent_put :: "'w device \<Rightarrow> ('w, 'r) lib \<Rightarrow> bool" where
  "silent_put d f \<longleftrightarrow> silent d f \<and> (\<forall>m r m'. f m = (r, m') \<longrightarrow> tables m' = tables m)"

definition server_starts_contract :: "'w platform \<Rightarrow> 'w device \<Rightarrow> bool" where
  "server_starts_contract P d \<longleftrightarrow>
     silent d (lib_create_event_channel P) \<and> (\<forall>ch x ps. silent d (lib_create_id P ch x ps)) \<and>
     (\<forall>a. silent d (lib_getaddrinfo P a)) \<and> (\<forall>i a. silent d (lib_bind_addr P i a)) \<and>
     (\<forall>i n. silent d (lib_listen P i n)) \<and> (\<forall>ch. silent d (lib_get_cm_event P ch)) \<and>
     (\<forall>e. silent d (lib_ack_cm_event P e)) \<and> (\<forall>v. silent d (lib_alloc_pd P v)) \<and>
     (\<forall>v. silent d (lib_create_comp_channel P v)) \<and> (\<forall>v n x ch k. silent d (lib_create_cq P v n x ch k)) \<and>
     (\<forall>q f. silent d (ibv_req_notify_cq P q f)) \<and> (\<forall>i p a. silent d (lib_rdma_create_qp P i p a)) \<and>
     (\<forall>i p a m m'. lib_rdma_create_qp P i p a m = (0, m') \<longrightarrow> in_place d m') \<and>
     access_optional_range P = optional_range \<and>
     (\<forall>n. silent_put d (lib_malloc P n)) \<and> (\<forall>p a n acc. silent_put d (lib_reg_mr P p a n acc)) \<and>
     (\<forall>q wr bad. no_send d (ibv_post_recv P q wr bad)) \<and> (\<forall>i par. no_send d (lib_accept P i par))"

lemma server_startsD:
  assumes "server_starts_contract P d"
  shows "silent d (lib_create_event_channel P)" "silent d (lib_create_id P ch x ps)" "silent d (lib_getaddrinfo P a)"
    "silent d (lib_bind_addr P i src)" "silent d (lib_listen P i k)" "silent d (lib_get_cm_event P ch)"
    "silent d (lib_ack_cm_event P e)" "silent d (lib_alloc_pd P v)" "silent d (lib_create_comp_channel P v)"
    "silent d (lib_create_cq P v n y ch vec)" "silent d (ibv_req_notify_cq P q f)"
    "silent d (lib_rdma_create_qp P i p qa)" "lib_rdma_create_qp P i p qa m = (0, m') \<Longrightarrow> in_place d m'"
    "access_optional_range P = optional_range" "silent_put d (lib_malloc P sz)"
    "silent_put d (lib_reg_mr P p ad len acc)" "no_send d (ibv_post_recv P q wr bad)" "no_send d (lib_accept P i par)"
  using assms unfolding server_starts_contract_def by simp_all

subsection \<open>Two frames\<close>

text \<open>
  What the main thread's start relies on: the sends, the flags, the addresses of its requests and
  buffers, and the identifier in \<open>sq_wr\<close>, which nobody sets.
\<close>

definition layout :: "'w server \<Rightarrow> ptr list \<times> int" where
  "layout s = ([recv_sgl_addr s, send_sgl_addr s, rdma_sgl_addr s, sq_wr_addr s, rdma_sq_wr_addr s,
     send_buf_addr s, sk_data_buf (sketch_info s)], sk_data_size (sketch_info s))"

definition same_start :: "'w device \<Rightarrow> 'w server \<Rightarrow> 'w server \<Rightarrow> bool" where
  "same_start d s t \<longleftrightarrow> pending_sends d (mach t) = pending_sends d (mach s) \<and> sent d (mach t) = sent d (mach s) \<and>
     flags t = flags s \<and> cq_pc t = cq_pc s \<and> layout t = layout s \<and>
     send_wr_wr_id (send_wr_at (mach t) (sq_wr_addr s)) = send_wr_wr_id (send_wr_at (mach s) (sq_wr_addr s))"

definition same_paired :: "'w device \<Rightarrow> 'w server \<Rightarrow> 'w server \<Rightarrow> bool" where
  "same_paired d s t \<longleftrightarrow> same_start d s t \<and> tables (mach t) = tables (mach s)"

lemma layout_sq_wr: "layout t = layout s \<Longrightarrow> sq_wr_addr t = sq_wr_addr s"
  by (simp add: layout_def)

lemmas same_defs = same_paired_def same_start_def layout_def flags_def

interpretation starting: start_frame "same_start d"
  by unfold_locales (simp_all add: same_start_def layout_def flags_def)

interpretation pairing: start_frame "same_paired d"
  by unfold_locales (auto simp: same_paired_def starting.same_mem starting.same_sin starting.same_mr
    intro: starting.same_refl starting.same_trans)

lemma silent_same: "silent d f \<Longrightarrow> f (mach s) = (r, m) \<Longrightarrow> same_start d s (put_mach m s)"
  by (auto simp: silent_def put_mach_def same_defs)

lemma silent_put_same: "silent_put d f \<Longrightarrow> f (mach s) = (r, m) \<Longrightarrow> same_paired d s (put_mach m s)"
  by (auto simp: silent_put_def silent_def put_mach_def same_defs)

lemma silent_putD: "silent_put d f \<Longrightarrow> silent d f"
  by (simp add: silent_put_def)

lemma silent_lib:
  "(\<And>s. silent d (f s)) \<Longrightarrow> (\<And>r. within (same_start d) (k r)) \<Longrightarrow> within (same_start d) (ep_lib f k)"
  by (rule starting.within_lib) (auto elim: silent_same [rotated])

lemma silent_state: "(\<And>x. silent d (f x)) \<Longrightarrow> silent d (\<lambda>m. f (g m) m)"
  by (simp add: silent_def)

subsection \<open>Before the queue pair\<close>

definition idle :: "'w device \<Rightarrow> (u32 \<times> u8 list) list \<Rightarrow> u64 \<Rightarrow> ptr list \<times> int \<Rightarrow> 'w server \<Rightarrow> bool" where
  "idle d L w x s \<longleftrightarrow> pending_sends d (mach s) = [] \<and> sent d (mach s) = L \<and> flags s = (False, False, False) \<and>
     cq_pc s = Cq_none \<and> layout s = x \<and> send_wr_wr_id (send_wr_at (mach s) (sq_wr_addr s)) = w"

definition paired :: "'w device \<Rightarrow> (u32 \<times> u8 list) list \<Rightarrow> u64 \<Rightarrow> ptr list \<times> int \<Rightarrow> 'w server \<Rightarrow> bool" where
  "paired d L w x s \<longleftrightarrow> idle d L w x s \<and> in_place d (mach s)"

lemma idle_same: "same_start d s t \<Longrightarrow> idle d L w x s \<Longrightarrow> idle d L w x t"
  and paired_same: "same_paired d s t \<Longrightarrow> paired d L w x s \<Longrightarrow> paired d L w x t"
  using layout_sq_wr [of t s]
  by (auto simp: idle_def paired_def same_paired_def same_start_def in_place_def)

lemma cm_thread_silent:
  assumes "server_starts_contract P d"
  shows "within (same_start d) (server_cm_thread P)"
proof -
  have event: "within (same_start d) (server_cm_event ev)" for ev
    unfolding server_cm_event_def
    by (auto simp: same_defs split: rdma_cm_event_type.split intro!: starting.within_rules within_assign)
  show ?thesis
    unfolding server_cm_thread_def
    by (auto split: prod.splits intro!: silent_lib server_startsD [OF assms] starting.within_block
        starting.within_exit_if within_state [OF event])
qed

lemma server_start_step:
  assumes "sends_contract P d" and "server_starts_contract P d"
    and "server_env_step P (dev_step d) s t" and "cq_pc s = Cq_none"
  shows "same_start d s t"
  using assms(3)
proof cases
  case cm
  then show ?thesis by (rule withinD [OF cm_thread_silent [OF assms(2)]])
next
  case cq
  then show ?thesis using assms(4) by (simp add: server_cq_thread_def skip_run starting.same_refl)
next
  case (device m)
  with assms(1) show ?thesis
    by (auto simp: sends_contract_def same_sends_def same_local_def same_defs)
qed

lemma server_start_kept:
  assumes c: "sends_contract P d" and st: "server_starts_contract P d"
    and env: "runs_beside (server_env_step P (dev_step d)) env" and e: "env s = Inr t"
  shows "idle d L w x s \<Longrightarrow> idle d L w x t" and "paired d L w x s \<Longrightarrow> paired d L w x t"
proof -
  have step: "idle d L w x v" if "server_env_step P (dev_step d) u v" "idle d L w x u" for u v
    by (rule idle_same [OF server_start_step [OF c st that(1)] that(2)]) (use that(2) in \<open>simp add: idle_def\<close>)
  show "idle d L w x s \<Longrightarrow> idle d L w x t"
    by (rule runs_beside_inv [OF env e, where i = "idle d L w x"]) (use step in blast)+
  then show "paired d L w x s \<Longrightarrow> paired d L w x t"
    using env_sends(2) [OF c env e] by (simp add: paired_def)
qed

subsection \<open>The phases of the start\<close>

lemma server_bindaddr_idle:
  assumes c: "sends_contract P d" and st: "server_starts_contract P d"
    and env: "runs_beside (server_env_step P (dev_step d)) env"
  shows "triple (idle d L w x) (server_bindaddr P env) (idle d L w x)"
proof -
  note kept = server_start_kept(1) [OF c st env]
  have silent: "triple (idle d L w x) e (idle d L w x)" if "within (same_start d) e" for e
    by (rule within_triple [OF that]) (auto intro: idle_same)
  have resolve: "within (same_start d) (resolve_sin P)"
    by (rule starting.resolve_sin_within; erule silent_same [rotated])
      (rule silent_putD [OF server_startsD(15) [OF st]] server_startsD(3) [OF st])+
  have bind: "within (same_start d) (ep_lib (\<lambda>s. lib_bind_addr P (cm_id s) (sin s)) (\<lambda>ret. exit_if (\<lambda>_. ret \<noteq> 0) Bind_addr_error))"
    and listen: "within (same_start d) (ep_lib (\<lambda>s. lib_listen P (cm_id s) 3) (\<lambda>ret. exit_if (\<lambda>_. ret \<noteq> 0) Listen_error))"
    by (auto intro!: silent_lib server_startsD [OF st] starting.within_exit_if)
  have wait: "triple (idle d L w x) (await env (\<lambda>s. sstate s = REQUEST_GET)) (idle d L w x)"
    by (rule triple_await [OF kept])
  show ?thesis
    unfolding server_bindaddr_def
    by (rule triple_thread_Cons [OF kept silent [OF resolve]] triple_thread_Cons [OF kept silent [OF bind]]
        triple_thread_Cons [OF kept silent [OF listen]] triple_thread_Cons [OF kept wait] triple_thread_Nil | assumption)+
qed

text \<open>What the caller has to give: distinct requests and entries, a private send buffer apart from the sketch.\<close>

definition laid_out :: "'w device \<Rightarrow> 'w server \<Rightarrow> bool" where
  "laid_out d s \<longleftrightarrow> distinct [recv_sgl_addr s, send_sgl_addr s, rdma_sgl_addr s] \<and> sq_wr_addr s \<noteq> rdma_sq_wr_addr s \<and>
     (\<forall>i < 16. dev_private d (send_buf_addr s + of_nat i)) \<and>
     apart (sk_data_buf (sketch_info s)) (4 * nat (sk_data_size (sketch_info s))) (send_buf_addr s) 16 \<and>
     4 * nat (sk_data_size (sketch_info s)) \<le> 2 ^ 64"

lemma laid_out_layout: "layout t = layout s \<Longrightarrow> laid_out d t = laid_out d s"
  by (simp add: laid_out_def layout_def)

definition ready_to_send :: "'w device \<Rightarrow> (u32 \<times> u8 list) list \<Rightarrow> u64 \<Rightarrow> 'w server \<Rightarrow> bool" where
  "ready_to_send d L w s \<longleftrightarrow> may_advertise d w s \<and> sent d (mach s) = L"

lemma prepare_requests_ready:
  assumes "laid_out d s0"
  shows "triple (paired d L w (layout s0)) (prepare_requests op) (ready_to_send d L w)"
proof (unfold triple_def, intro allI impI)
  fix s t :: "'a server"
  assume s: "paired d L w (layout s0) s" and run: "prepare_requests op s = Some (Inr t)"
  have l: "laid_out d s" using s assms laid_out_layout [of s s0 d] by (simp add: paired_def idle_def)
  have same_tables: "tables (mach t) = tables (mach s)"
    using run by (auto simp: prepare_requests_def block_Cons_run block_Nil_run on_mach_def tables_def
        set_sge_def set_send_wr_def set_recv_wr_def)
  from run show "ready_to_send d L w t"
  proof (rule prepare_requests_run, goal_cases)
    case 1
    obtain m where t: "t = put_mach m s" using 1(1) by blast
    have g: "sge_at m (send_sgl_addr s) = \<lparr>sge_addr = send_buf_addr s, sge_length = 16,
        sge_lkey = mr_lkey (mr_at (mach s) (send_mr s))\<rparr>"
      using fun_cong [OF 1(4), of "send_sgl_addr s"] l by (simp add: t put_mach_def laid_out_def)
    have wr: "send_wr_at m (sq_wr_addr s) = (send_wr_at (mach s) (sq_wr_addr s))\<lparr>send_wr_num_sge := 1,
        send_wr_sg_list := send_sgl_addr s, send_wr_send_flags := SIGNALED, send_wr_opcode := op\<rparr>"
      using fun_cong [OF 1(7), of "sq_wr_addr s"] l by (simp add: t put_mach_def laid_out_def)
    show ?case
      using s l 1(3) same_tables
      by (simp add: t put_mach_def ready_to_send_def may_advertise_def paired_def idle_def in_place_def
          pending_sends_def sent_def flags_def send_ready_def send_wr_ready_def laid_out_def g wr)
  qed
qed

lemma server_setup_buffer_ready:
  assumes st: "server_starts_contract P d" and l: "laid_out d s0"
  shows "triple (paired d L w (layout s0)) (server_setup_buffer P) (ready_to_send d L w)"
proof -
  note regions = server_startsD(14) [OF st] silent_put_same [OF server_startsD(16) [OF st]]
  have buffers: "within (same_paired d) (register_buffers P)"
    by (rule pairing.register_buffers_within [OF regions(1)]) (rule regions(2))
  have region: "within (same_paired d) (register P addr len rw_access store)"
    if "\<And>r s. same_paired d s (store r s)" for addr len store
    by (rule pairing.register_within [OF regions(1) no_optional(3) _ that]) (rule regions(2))
  have malloc: "within (same_paired d) (ep_lib (\<lambda>s. lib_malloc P n) (\<lambda>r. assign (f r)))"
    if "\<And>r s. same_paired d s (f r s)" for n f
    by (rule pairing.within_lib_store(2) [OF _ that]) (rule silent_put_same [OF server_startsD(15) [OF st]])
  have late: "triple (paired d L w (layout s0)) (block (e # cs)) q"
    if "within (same_paired d) e" "triple (paired d L w (layout s0)) (block cs) q" for e cs q
    by (rule triple_block_Cons [OF within_triple [OF that(1)] that(2)]) (auto intro: paired_same)
  show ?thesis
    unfolding server_setup_buffer_def
    by (rule triple_block_Cons [OF prepare_requests_ready [OF l] triple_block_Nil] late buffers malloc region
      | (simp add: same_defs) [1])+
qed

lemma same_sending_ready:
  assumes "same_sending d s t" and "ready_to_send d L w s"
  shows "ready_to_send d L w t"
proof -
  have u: "untouched d s t" using assms(1) by (simp add: same_sending_def)
  with assms untouched_keeps(2,4) [OF u] untouched_place [OF u] own_fields [OF untouched_keeps(1) [OF u]]
  show ?thesis by (auto simp: ready_to_send_def may_advertise_def same_sending_def untouched_def)
qed

lemma ready_kept:
  assumes c: "sends_contract P d" and env: "runs_beside (server_env_step P (dev_step d)) env"
    and s: "ready_to_send d L w s" and e: "env s = Inr t"
  shows "ready_to_send d L w t"
proof (rule runs_beside_inv [where i = "ready_to_send d L w", OF env e s])
  fix u v assume step: "server_env_step P (dev_step d) u v" and u: "ready_to_send d L w u"
  then have "in_place d (mach u)" "pending_sends d (mach u) = []"
    by (simp_all add: ready_to_send_def may_advertise_def)
  with server_env_step_sends [OF c this(1) step] have "same_sending d u v" by (auto simp: same_sending_def)
  then show "ready_to_send d L w v" using u by (rule same_sending_ready)
qed

lemma stays_ready: "stays d c \<Longrightarrow> triple (ready_to_send d L w) c (ready_to_send d L w)"
proof (erule within_triple)
  fix s t assume s: "ready_to_send d L w s" and same: "sends_frame d s t"
  then have "same_sending d s t" by (simp add: sends_frame_def ready_to_send_def may_advertise_def)
  then show "ready_to_send d L w t" using s by (rule same_sending_ready)
qed

lemma server_make_queues_ready:
  assumes c: "sends_contract P d" and st: "server_starts_contract P d"
    and env: "runs_beside (server_env_step P (dev_step d)) env" and l: "laid_out d s0"
  shows "triple (idle d L w (layout s0)) (server_make_queues P env) (ready_to_send d L w)"
proof -
  let ?x = "layout s0"
  note calls = server_startsD [OF st]
  note kept = server_start_kept [OF c st env] and ready = ready_kept [OF c env]
  have early: "triple (idle d L w ?x) (thread env (e # cs)) q"
    if "within (same_start d) e" "triple (idle d L w ?x) (thread env cs) q" for e cs q
    by (rule triple_thread_Cons [OF kept(1) within_triple [OF that(1)] that(2)]) (auto intro: idle_same)
  have late: "triple (paired d L w ?x) (thread env (e # cs)) q"
    if "within (same_paired d) e" "triple (paired d L w ?x) (thread env cs) q" for e cs q
    by (rule triple_thread_Cons [OF kept(2) within_triple [OF that(1)] that(2)]) (auto intro: paired_same)
  have store: "within (same_start d) (block [assign f, exit_if b e])" if "\<And>s. same_start d s (f s)" for f b e
    using that by (auto intro!: starting.within_block starting.within_exit_if within_assign)
  have pair: "triple (idle d L w ?x) (ep_lib (\<lambda>s. lib_rdma_create_qp P (child_cm_id s) (pd s) (init_attr 1 (cq s)))
      (\<lambda>ret. exit_if (\<lambda>_. ret \<noteq> 0) Create_qp_error)) (paired d L w ?x)"
  proof (unfold triple_def, intro allI impI)
    fix s t
    assume s: "idle d L w ?x s" and run: "ep_lib (\<lambda>s. lib_rdma_create_qp P (child_cm_id s) (pd s) (init_attr 1 (cq s)))
      (\<lambda>ret. exit_if (\<lambda>_. ret \<noteq> 0) Create_qp_error) s = Some (Inr t)"
    then obtain m where qp: "lib_rdma_create_qp P (child_cm_id s) (pd s) (init_attr 1 (cq s)) (mach s) = (0, m)" "t = put_mach m s"
      by (auto simp: lib_run exit_if_def split: prod.splits if_splits)
    have "idle d L w ?x t" unfolding qp(2) by (rule idle_same [OF silent_same [OF calls(12) qp(1)] s])
    then show "paired d L w ?x t" using calls(13) [OF qp(1)] qp(2) by (simp add: paired_def put_mach_def)
  qed
  have receive: "triple (ready_to_send d L w) (ep_lib (\<lambda>s. ibv_post_recv P (qp s) (rq_wr_addr s) (bad_wr_addr s))
      (\<lambda>ret. exit_if (\<lambda>_. ret \<noteq> 0) Post_recv_error)) (ready_to_send d L w)"
    by (rule stays_ready [OF stays_lib [OF calls(17) sending.within_exit_if]])
  note on_device = silent_state [of d "lib_alloc_pd P", OF calls(8)]
    silent_state [of d "lib_create_comp_channel P", OF calls(9)]
    silent_state [of d "\<lambda>v. lib_create_cq P v n 0 ch 0" for n ch, OF calls(10)]
  show ?thesis
    unfolding server_make_queues_def request_notify_def
    by (rule triple_thread_Cons [OF kept(1) pair] triple_thread_Cons [OF kept(2) server_setup_buffer_ready [OF st l]]
        triple_thread_Cons [OF ready receive triple_thread_Nil] early late
        silent_lib starting.within_exit_if on_device calls(11) store within_assign
      | assumption | (simp add: same_defs) [1])+
qed

lemma server_start_ready:
  assumes c: "sends_contract P d" and st: "server_starts_contract P d"
    and env: "runs_beside (server_env_step P (dev_step d)) env" and l: "laid_out d s0"
    and rest: "triple (ready_to_send d L w) (server_advertise P env) q"
  shows "triple (idle d L w (layout s0)) (server_start P env) q"
proof -
  note calls = server_startsD [OF st] and ready = ready_kept [OF c env]
  have silent: "triple (idle d L w (layout s0)) e (idle d L w (layout s0))" if "within (same_start d) e" for e
    by (rule within_triple [OF that]) (auto intro: idle_same)
  have channel: "within (same_start d) (ep_lib (\<lambda>s. create_first_event_channel P) (\<lambda>(ch, msg). block
        [assign (\<lambda>s. s\<lparr>cm_channel := ch\<rparr>), exit_if (\<lambda>_. ch = 0) Event_channel_error]))"
  proof (rule silent_lib)
    show "silent d (create_first_event_channel P)"
      using calls(1) by (auto simp: silent_def create_first_event_channel_def split: prod.splits)
  qed (auto simp: same_defs split: prod.split intro!: starting.within_block starting.within_exit_if within_assign)
  have ident: "within (same_start d) (ep_lib (\<lambda>s. lib_create_id P (cm_channel s) 0 RDMA_PS_TCP) (\<lambda>(ret, i). block
        [assign (\<lambda>s. s\<lparr>cm_id := i\<rparr>), exit_if (\<lambda>_. ret \<noteq> 0) Create_id_error]))"
    by (auto simp: same_defs split: prod.split
        intro!: silent_lib calls(2) starting.within_block starting.within_exit_if within_assign)
  have thread: "triple (ready_to_send d L w) (assign (\<lambda>s. s\<lparr>cq_pc := Cq_wait\<rparr>) :: (_, fatal) stmt) (ready_to_send d L w)"
    by (rule stays_ready [OF stays_assign]) (rule same_members)
  have accept: "triple (ready_to_send d L w) (ep_lib (\<lambda>s. lib_accept P (child_cm_id s) None)
      (\<lambda>ret. exit_if (\<lambda>_. ret \<noteq> 0) Accept_error)) (ready_to_send d L w)"
    by (rule stays_ready [OF stays_lib [OF calls(18) sending.within_exit_if]])
  have wait: "triple (ready_to_send d L w) (await env b) (ready_to_send d L w)" for b
    by (rule triple_await [OF ready])
  have connected: "triple (ready_to_send d L w) (thread env
        [ep_lib (\<lambda>s. lib_accept P (child_cm_id s) None) (\<lambda>ret. exit_if (\<lambda>_. ret \<noteq> 0) Accept_error),
         await env (\<lambda>s. ServerState_val (sstate s) = ClientState_val CONNECTED),
         await env SERVER_GET_REMOTE_ADDR]) (ready_to_send d L w)"
    by (rule triple_thread_Cons [OF ready accept triple_thread_Cons [OF ready wait
          triple_thread_Cons [OF ready wait triple_thread_Nil]]])
  show ?thesis
    unfolding server_start_def
    by (rule triple_block_Cons [OF silent [OF channel] triple_block_Cons [OF silent [OF ident]
        triple_block_Cons [OF server_bindaddr_idle [OF c st env]
        triple_block_Cons [OF server_make_queues_ready [OF c st env l]
        triple_block_Cons [OF thread triple_block_Cons [OF connected
        triple_block_Cons [OF rest triple_block_Nil]]]]]]])
qed

text \<open>
  C4: The whole of \<open>start\<close> of the server, from a process that has sent nothing and whose completion
  thread does not exist: when it returns, exactly three messages have left the server, in this
  order: the advertisements of \<open>start_buf\<close> with the immediate value 1122, of the class buffer
  with 1123 and of the sketch with 1124, whatever the other threads and the device did, before and
  after the connection.  It relies on the \<open>wr_id\<close> that \<open>sq_wr\<close> happens to have being 0 in its low 32 bits.
\<close>

theorem server_start_advertises:
  assumes "sends_contract P d" and "server_starts_contract P d"
    and "runs_beside (server_env_step P (dev_step d)) env"
    and "pending_sends d (mach s) = []" and "flags s = (False, False, False)" and "cq_pc s = Cq_none"
    and "laid_out d s" and "(ucast (send_wr_wr_id (send_wr_at (mach s) (sq_wr_addr s))) :: u32) = 0"
    and "server_start P env s = Some (Inr t)"
  shows "sent d (mach t) = sent d (mach s) @
      [(htobe32 1122, start_advert t), (htobe32 1123, class_advert t), (htobe32 1124, sketch_advert t)]
    \<and> pending_sends d (mach t) = [] \<and> flags t = (True, True, True)"
proof -
  let ?w = "send_wr_wr_id (send_wr_at (mach s) (sq_wr_addr s))"
  let ?q = "\<lambda>t. sent d (mach t) = sent d (mach s) @
      [(htobe32 1122, start_advert t), (htobe32 1123, class_advert t), (htobe32 1124, sketch_advert t)]
    \<and> pending_sends d (mach t) = [] \<and> flags t = (True, True, True)"
  have "triple (ready_to_send d (sent d (mach s)) ?w) (server_advertise P env) ?q"
  proof (unfold triple_def, intro allI impI)
    fix u v assume u: "ready_to_send d (sent d (mach s)) ?w u" and run: "server_advertise P env u = Some (Inr v)"
    have may: "may_advertise d ?w u" using u by (simp add: ready_to_send_def)
    note three = server_sends_three [OF assms(1,3) may assms(8) run]
    have own: "own v = own u" using three by blast
    have "start_advert v = start_advert u \<and> class_advert v = class_advert u \<and> sketch_advert v = sketch_advert u"
      using own_fields [OF own] by (simp add: start_advert_def class_advert_def sketch_advert_def)
    with three u show "?q v" by (simp add: ready_to_send_def)
  qed
  from server_start_ready [OF assms(1-3,7) this] have "triple (idle d (sent d (mach s)) ?w (layout s)) (server_start P env) ?q" .
  moreover have "idle d (sent d (mach s)) ?w (layout s) s" using assms(4-6) by (simp add: idle_def)
  ultimately show ?thesis using assms(9) by (rule tripleD)
qed

end
