(* ===== verification/Server_Start_Example.thy ===== *)
theory Server_Start_Example
  imports Server_Start Platform_Example
begin

section \<open>A start of the server\<close>

text \<open>
  A concrete device and connection manager for running \<open>start\<close> of the server: the world is the list of
  pending sends, the messages sent, the events of the connection manager (first a connection
  request, then the connection) and whether the client's advertisement has been received.
\<close>

type_synonym vx_world = "u64 list \<times> (u32 \<times> u8 list) list \<times> nat \<times> bool"

definition vx_context :: ibv_context where
  "vx_context = undefined\<lparr>ctx_ops := undefined
     \<lparr>ops_poll_cq := 1, ops_post_send := 2, ops_post_recv := 3, ops_req_notify_cq := 3\<rparr>\<rparr>"

definition vx_sent :: "u64 \<Rightarrow> ibv_wc" where
  "vx_sent w = undefined\<lparr>wc_opcode := IBV_WC_SEND, wc_wr_id := w\<rparr>"

definition vx_received :: ibv_wc where
  "vx_received = undefined\<lparr>wc_opcode := IBV_WC_RECV, wc_byte_len := 16\<rparr>"

text \<open>Polling takes the completion of a send, if there is one, else the client's message.\<close>

definition vx_code :: "vx_world code" where
  "vx_code f args m = (case world m of (sends, msgs, events, got) \<Rightarrow>
     if f = 1 \<and> length args = 3 then
       (case sends of
          w # ws \<Rightarrow> (1, m\<lparr>world := (ws, msgs, events, got), wc_at := (wc_at m)(args ! 2 := vx_sent w)\<rparr>)
        | [] \<Rightarrow> if got then (0, m)
                else (1, m\<lparr>world := ([], msgs, events, True), wc_at := (wc_at m)(args ! 2 := vx_received)\<rparr>))
     else if f = 2 \<and> length args = 3 then
       (let w = send_wr_at m (args ! 1) in
        (0, m\<lparr>world := (sends @ [send_wr_wr_id w],
           msgs @ [(send_wr_imm_data w, gathered m (send_wr_sg_list w))], events, got)\<rparr>))
     else (0, m))"

definition vx_event :: "nat \<Rightarrow> rdma_cm_event" where
  "vx_event k = undefined\<lparr>cm_event_event := if k = 0 then RDMA_CM_EVENT_CONNECT_REQUEST else RDMA_CM_EVENT_ESTABLISHED,
     cm_event_id := 11\<rparr>"

definition vx_platform :: "vx_world platform" where
  "vx_platform = quiet_platform\<lparr>code := vx_code,
     lib_get_cm_event := \<lambda>ch m. ((0, 9), case world m of (sends, msgs, events, got) \<Rightarrow>
       m\<lparr>world := (sends, msgs, Suc events, got), cm_event_at := (cm_event_at m)(9 := vx_event events)\<rparr>),
     lib_rdma_create_qp := \<lambda>i p a m. (0, m\<lparr>context_at := \<lambda>_. vx_context, cq_at := \<lambda>_. undefined, qp_at := \<lambda>_. undefined\<rparr>)\<rparr>"

definition vx_device :: "vx_world device" where
  "vx_device = \<lparr>dev_step = (\<lambda>_ _. False), dev_reads = (\<lambda>_. 0), dev_sends = fst, dev_sent = (\<lambda>w. fst (snd w)),
     dev_private = (\<lambda>_. True), dev_tables = (\<lambda>_. vx_context, \<lambda>_. undefined, \<lambda>_. undefined)\<rparr>"

lemma vx_in_place:
  "in_place vx_device m \<longleftrightarrow> context_at m = (\<lambda>_. vx_context) \<and> cq_at m = (\<lambda>_. undefined) \<and> qp_at m = (\<lambda>_. undefined)"
  by (simp add: in_place_def tables_def vx_device_def)

lemma vx_views: "pending_sends vx_device m = fst (world m)" "sent vx_device m = fst (snd (world m))"
  by (simp_all add: pending_sends_def sent_def vx_device_def)

lemma vx_libs:
  "lib_get_cm_event vx_platform ch m = ((0, 9), case world m of (sends, msgs, events, got) \<Rightarrow>
       m\<lparr>world := (sends, msgs, Suc events, got), cm_event_at := (cm_event_at m)(9 := vx_event events)\<rparr>)"
  "lib_ack_cm_event vx_platform e m = (0, m)" "lib_get_cq_event vx_platform cc m = ((0, 3, 0), m)"
  "lib_ack_cq_events vx_platform q k m = ((), m)" "lib_malloc vx_platform sz m = (4096, m)"
  "lib_create_event_channel vx_platform m = (7, m)" "lib_create_id vx_platform ch x ps m = ((0, 8), m)"
  "lib_getaddrinfo vx_platform a m = ((0, 8192), m)" "lib_bind_addr vx_platform i src m = (0, m)"
  "lib_listen vx_platform i n m = (0, m)" "lib_alloc_pd vx_platform v m = (1, m)"
  "lib_create_comp_channel vx_platform v m = (2, m)" "lib_create_cq vx_platform v n y cc vec m = (3, m)"
  "lib_rdma_create_qp vx_platform i p qa m =
     (0, m\<lparr>context_at := \<lambda>_. vx_context, cq_at := \<lambda>_. undefined, qp_at := \<lambda>_. undefined\<rparr>)"
  "lib_reg_mr vx_platform p ad len acc m = (4, m)" "lib_accept vx_platform i par m = (0, m)"
  "access_optional_range vx_platform = 0x3FF00000" "code vx_platform = vx_code"
  by (simp_all add: vx_platform_def quiet_platform_def)

lemma vx_notify: "ibv_req_notify_cq vx_platform q fl m = (0, m)"
  by (simp add: ibv_req_notify_cq_def call_int_def vx_libs vx_code_def c_int_def split: prod.splits)

lemma vx_verbs:
  assumes "context_at m = (\<lambda>_. vx_context)"
  shows "ibv_poll_cq vx_platform q n wc m = (case world m of (sends, msgs, events, got) \<Rightarrow>
      (case sends of
         w # ws \<Rightarrow> (1, m\<lparr>world := (ws, msgs, events, got), wc_at := (wc_at m)(wc := vx_sent w)\<rparr>)
       | [] \<Rightarrow> if got then (0, m)
               else (1, m\<lparr>world := ([], msgs, events, True), wc_at := (wc_at m)(wc := vx_received)\<rparr>)))"
    and "ibv_post_send vx_platform q wr bad m = (case world m of (sends, msgs, events, got) \<Rightarrow>
      (0, m\<lparr>world := (sends @ [send_wr_wr_id (send_wr_at m wr)], msgs @ [(send_wr_imm_data (send_wr_at m wr),
         gathered m (send_wr_sg_list (send_wr_at m wr)))], events, got)\<rparr>))"
    and "ibv_post_recv vx_platform q rw bad m = (0, m)"
  using assms
  by (simp_all add: ibv_poll_cq_def ibv_post_send_def ibv_post_recv_def call_int_def vx_libs vx_code_def vx_context_def
      c_int_def Let_def split: prod.split list.split)

lemma vx_contract: "sends_contract vx_platform vx_device"
proof -
  note defs = same_sends_def same_local_def vx_in_place vx_views tables_def
  have lib: "no_send vx_device (lib_get_cm_event vx_platform ch)" "no_send vx_device (lib_ack_cm_event vx_platform e)"
    "no_send vx_device (lib_get_cq_event vx_platform ch)" "no_send vx_device (lib_ack_cq_events vx_platform q n)"
    "no_send vx_device (ibv_req_notify_cq vx_platform q fl)" for ch e q n fl
    by (auto simp: no_send_def defs vx_libs vx_notify split: prod.splits)
  have "polls_send vx_platform vx_device"
    by (auto simp: polls_send_def defs vx_verbs vx_sent_def vx_received_def split: prod.splits list.splits if_splits)
  moreover have "posts_send vx_platform vx_device"
    by (auto simp: posts_send_def defs vx_verbs split: prod.splits)
  ultimately show ?thesis
    using lib by (simp add: sends_contract_def) (simp add: vx_device_def)
qed

lemma vx_starts: "server_starts_contract vx_platform vx_device"
proof -
  have "silent vx_device (lib_get_cm_event vx_platform ch)" for ch
    by (auto simp: silent_def vx_libs vx_views split: prod.splits)
  moreover have "no_send vx_device (ibv_post_recv vx_platform q rw bad)" for q rw bad
    by (auto simp: no_send_def same_sends_def same_local_def vx_in_place vx_verbs(3))
  ultimately show ?thesis
    by (simp add: server_starts_contract_def silent_def silent_put_def no_send_def same_sends_def same_local_def
        vx_libs(2-) vx_notify vx_views tables_def vx_in_place optional_range_value)
qed

subsection \<open>The other threads\<close>

text \<open>
  The connection thread takes its two events, the second one when the queue pair exists; then the
  completion thread works as long as a send is pending or the client's message is awaited.
\<close>

definition vx_step :: "fatal + 'a \<Rightarrow> (fatal + 'a) option \<Rightarrow> fatal + 'a" where
  "vx_step d r = (case r of None \<Rightarrow> d | Some x \<Rightarrow> x)"

definition vx_busy :: "vx_world server \<Rightarrow> bool" where
  "vx_busy s \<longleftrightarrow> cq_pc s \<noteq> Cq_poll \<or> fst (world (mach s)) \<noteq> [] \<or> \<not> SERVER_GET_REMOTE_ADDR s"

definition vx_env :: "vx_world server \<Rightarrow> fatal + vx_world server" where
  "vx_env s = (
     if sstate s = SERVER_INIT \<or> sstate s \<noteq> SERVER_CONNECTED \<and> cq_pc s \<noteq> Cq_none
     then vx_step (Inr s) (server_cm_thread vx_platform s)
     else if sstate s = SERVER_CONNECTED \<and> vx_busy s then vx_step (Inr s) (server_cq_thread vx_platform s)
     else Inr s)"

lemma vx_runs_beside: "runs_beside (server_env_step vx_platform (dev_step vx_device)) vx_env"
proof -
  have step: "r = Some (Inr t) \<or> t = s" if "vx_step (Inr s) r = Inr t" for r and s t :: "vx_world server"
    using that by (auto simp: vx_step_def split: option.splits)
  have "server_cm_thread vx_platform s = Some (Inr t) \<or> server_cq_thread vx_platform s = Some (Inr t) \<or> t = s"
    if "vx_env s = Inr t" for s t
    using that step by (auto simp: vx_env_def split: if_splits)
  then show ?thesis
    unfolding runs_beside_def by (metis server_env_step.cm server_env_step.cq r_into_rtranclp rtranclp.rtrancl_refl)
qed

text \<open>Before the queue pair, and with the completion thread.\<close>

definition vx_early :: "vx_world server \<Rightarrow> bool" where
  "vx_early s \<longleftrightarrow> cq_pc s = Cq_none \<and> \<not> SERVER_GET_REMOTE_ADDR s \<and> flags s = (False, False, False) \<and>
     send_wr_wr_id (send_wr_at (mach s) (sq_wr_addr s)) = 0 \<and> addrinfo_at (mach s) = (\<lambda>_. (2, 0x5000)) \<and>
     (sstate s = SERVER_INIT \<and> world (mach s) = ([], [], 0, False) \<or>
      sstate s = REQUEST_GET \<and> world (mach s) = ([], [], 1, False))"

definition vx_late :: "vx_world server \<Rightarrow> bool" where
  "vx_late s \<longleftrightarrow> in_place vx_device (mach s) \<and> cq s = 3 \<and> (cq_pc s = Cq_wait \<or> cq_pc s = Cq_poll) \<and>
     (\<exists>sends msgs events got. world (mach s) = (sends, msgs, events, got) \<and> (SERVER_GET_REMOTE_ADDR s \<longleftrightarrow> got) \<and>
        (sstate s = SERVER_CONNECTED \<or> sstate s = REQUEST_GET \<and> events = 1))"

definition vx_work :: "vx_world server \<Rightarrow> nat" where
  "vx_work s = (if sstate s = SERVER_CONNECTED then 0 else 1) + (if cq_pc s = Cq_wait then 1 else 0) +
     length (fst (world (mach s))) + (if SERVER_GET_REMOTE_ADDR s then 0 else 1)"

lemma vx_cm:
  assumes "world (mach s) = (sends, msgs, events, got)"
  shows "\<exists>t. server_cm_thread vx_platform s = Some (Inr t) \<and> cq_pc t = cq_pc s \<and> cq t = cq s \<and>
    SERVER_GET_REMOTE_ADDR t = SERVER_GET_REMOTE_ADDR s \<and> flags t = flags s \<and> sq_wr_addr t = sq_wr_addr s \<and>
    send_wr_at (mach t) = send_wr_at (mach s) \<and> addrinfo_at (mach t) = addrinfo_at (mach s) \<and>
    tables (mach t) = tables (mach s) \<and> world (mach t) = (sends, msgs, Suc events, got) \<and>
    sstate t = (if events = 0 then REQUEST_GET else SERVER_CONNECTED)"
  using assms
  by (simp add: server_cm_thread_def server_cm_event_def lib_run block_Cons block_Nil seq_def exit_if_def assign_run
      vx_libs vx_event_def put_mach_def flags_def tables_def)

lemma vx_early_turn: "vx_early s \<Longrightarrow> \<exists>t. vx_env s = Inr t \<and> vx_early t \<and> sstate t = REQUEST_GET"
proof (cases "sstate s = SERVER_INIT")
  case True
  assume s: "vx_early s"
  with True vx_cm [of s "[]" "[]" 0 False] show ?thesis by (auto simp: vx_early_def vx_env_def vx_step_def)
next
  case False
  assume "vx_early s"
  with False show ?thesis by (auto simp: vx_early_def vx_env_def)
qed

lemma vx_completion:
  "\<exists>t. server_completion (vx_sent w) s = Some (Inr t) \<and> mach t = mach s \<and> cq_pc t = cq_pc s \<and> cq t = cq s \<and>
     sstate t = sstate s \<and> SERVER_GET_REMOTE_ADDR t = SERVER_GET_REMOTE_ADDR s"
  "\<exists>t. server_completion vx_received s = Some (Inr t) \<and> mach t = mach s \<and> cq_pc t = cq_pc s \<and> cq t = cq s \<and>
     sstate t = sstate s \<and> SERVER_GET_REMOTE_ADDR t"
  by (simp add: server_completion_def vx_sent_def assign_run skip_run Let_def)
    (simp add: server_completion_def vx_received_def server_recv_handler_def assign_run Let_def block_Cons block_Nil
      seq_def exit_if_def sizeof_rdma_info_def)

lemma vx_late_turn:
  assumes s: "vx_late s" and busy: "sstate s \<noteq> SERVER_CONNECTED \<or> vx_busy s"
  shows "\<exists>t. vx_env s = Inr t \<and> vx_late t \<and> vx_work t < vx_work s"
proof -
  obtain sends msgs events got where w: "world (mach s) = (sends, msgs, events, got)" by (cases "world (mach s)")
  have ctx: "context_at (mach s) = (\<lambda>_. vx_context)" using s by (simp add: vx_late_def vx_in_place)
  show ?thesis
  proof (cases "sstate s = SERVER_CONNECTED")
    case False
    with s w have st: "sstate s = REQUEST_GET" "events = 1" "cq_pc s \<noteq> Cq_none" by (auto simp: vx_late_def)
    obtain t where run: "server_cm_thread vx_platform s = Some (Inr t)" and t: "cq_pc t = cq_pc s" "cq t = cq s"
      "SERVER_GET_REMOTE_ADDR t = SERVER_GET_REMOTE_ADDR s" "tables (mach t) = tables (mach s)"
      "world (mach t) = (sends, msgs, 2, got)" "sstate t = SERVER_CONNECTED"
      using vx_cm [OF w] st(2) by auto
    have "vx_env s = Inr t" using st run by (simp add: vx_env_def vx_step_def)
    moreover have "vx_late t \<and> vx_work t < vx_work s"
      using s w st by (simp add: vx_late_def in_place_def vx_work_def t)
    ultimately show ?thesis by blast
  next
    case conn: True
    have env: "vx_env s = vx_step (Inr s) (server_cq_thread vx_platform s)"
      using conn busy by (auto simp: vx_env_def)
    show ?thesis
    proof (cases "cq_pc s = Cq_wait")
      case True
      with s w conn ctx show ?thesis
        by (simp add: env vx_step_def server_cq_thread_def cq_wait_def request_notify_def lib_run block_Cons block_Nil
            seq_def exit_if_def assign_run vx_libs vx_notify vx_late_def put_mach_def vx_work_def)
    next
      case False
      with s have poll: "cq_pc s = Cq_poll" by (auto simp: vx_late_def)
      have run: "vx_env s = Inr t" if "ibv_poll_cq vx_platform (cq s) 1 (wc_addr s) (mach s) = (1, m)"
        and "server_completion (wc_at m (wc_addr s)) (put_mach m s) = Some (Inr t)" for m t
        using that poll by (simp add: env vx_step_def server_cq_thread_def server_poll_def lib_run put_mach_def)
      show ?thesis
      proof (cases sends)
        case (Cons x xs)
        let ?m = "(mach s)\<lparr>world := (xs, msgs, events, got), wc_at := (wc_at (mach s))(wc_addr s := vx_sent x)\<rparr>"
        obtain t where t: "server_completion (vx_sent x) (put_mach ?m s) = Some (Inr t)" "mach t = ?m"
          "cq_pc t = cq_pc s" "cq t = cq s" "sstate t = sstate s" "SERVER_GET_REMOTE_ADDR t = SERVER_GET_REMOTE_ADDR s"
          using vx_completion(1) [of x "put_mach ?m s"] by (auto simp: put_mach_def)
        have "vx_env s = Inr t" by (rule run [of ?m]) (use t(1) w ctx Cons in \<open>simp_all add: vx_verbs\<close>)
        moreover have "vx_late t \<and> vx_work t < vx_work s"
          using s w conn poll Cons by (simp add: vx_late_def vx_in_place vx_work_def t)
        ultimately show ?thesis by blast
      next
        case Nil
        with busy w conn poll s have got: "\<not> got" by (auto simp: vx_busy_def vx_late_def)
        let ?m = "(mach s)\<lparr>world := ([], msgs, events, True), wc_at := (wc_at (mach s))(wc_addr s := vx_received)\<rparr>"
        obtain t where t: "server_completion vx_received (put_mach ?m s) = Some (Inr t)" "mach t = ?m"
          "cq_pc t = cq_pc s" "cq t = cq s" "sstate t = sstate s" "SERVER_GET_REMOTE_ADDR t"
          using vx_completion(2) [of "put_mach ?m s"] by (auto simp: put_mach_def)
        have "vx_env s = Inr t" by (rule run [of ?m]) (use t(1) w ctx Nil got in \<open>simp_all add: vx_verbs\<close>)
        moreover have "vx_late t \<and> vx_work t < vx_work s"
          using s w conn poll Nil got by (auto simp: vx_late_def vx_in_place vx_work_def t)
        ultimately show ?thesis by blast
      qed
    qed
  qed
qed

lemma vx_late_quiet:
  assumes "vx_late s"
  shows "\<exists>t. vx_env s = Inr t \<and> vx_late t"
proof (cases "sstate s \<noteq> SERVER_CONNECTED \<or> vx_busy s")
  case True
  from vx_late_turn [OF assms this] show ?thesis by blast
next
  case False
  then have "vx_env s = Inr s" by (auto simp: vx_env_def)
  with assms show ?thesis by blast
qed

text \<open>Waits of the main thread: the other threads work until the completion thread has nothing to do.\<close>

lemma vx_await:
  assumes late: "\<And>s. p s \<Longrightarrow> vx_late s"
    and kept: "\<And>s t. p s \<Longrightarrow> vx_env s = Inr t \<Longrightarrow> vx_late t \<Longrightarrow> p t"
    and b: "\<And>s. p s \<Longrightarrow> sstate s = SERVER_CONNECTED \<Longrightarrow> fst (world (mach s)) = [] \<Longrightarrow> SERVER_GET_REMOTE_ADDR s \<Longrightarrow> b s"
  shows "runs p (await vx_env b) (\<lambda>s. p s \<and> b s)"
proof (rule runs_await [where measure' = vx_work])
  fix s assume s: "p s" "\<not> b s"
  then have "sstate s \<noteq> SERVER_CONNECTED \<or> vx_busy s" using b by (auto simp: vx_busy_def)
  from vx_late_turn [OF late [OF s(1)] this] obtain t
    where "vx_env s = Inr t" "vx_late t" "vx_work t < vx_work s" by blast
  with kept [OF s(1)] show "\<exists>t. vx_env s = Inr t \<and> p t \<and> vx_work t < vx_work s" by blast
qed

subsection \<open>Up to the queues\<close>

lemmas vx_exec = runs_def lib_run block_Cons block_Nil seq_def exit_if_def cond_def assign_run skip_run on_mach_def
  put_mach_def vx_libs(2-)

lemma vx_bindaddr: "runs vx_early (server_bindaddr vx_platform vx_env) (\<lambda>s. vx_early s \<and> sstate s = REQUEST_GET)"
proof -
  have turn: "\<exists>t. vx_env s = Inr t \<and> vx_early t" if "vx_early s" for s using vx_early_turn [OF that] by blast
  have resolve: "runs vx_early (resolve_sin vx_platform) vx_early"
    by (auto simp: resolve_sin_def copy_sockaddr_def vx_exec vx_early_def PF_INET_def on_mem_def flags_def)
  have bind: "runs vx_early (ep_lib (\<lambda>s. lib_bind_addr vx_platform (cm_id s) (sin s)) (\<lambda>ret. exit_if (\<lambda>_. ret \<noteq> 0) Bind_addr_error)) vx_early"
    and listen: "runs vx_early (ep_lib (\<lambda>s. lib_listen vx_platform (cm_id s) 3) (\<lambda>ret. exit_if (\<lambda>_. ret \<noteq> 0) Listen_error)) vx_early"
    by (simp_all add: vx_exec)
  have wait: "runs vx_early (await vx_env (\<lambda>s. sstate s = REQUEST_GET)) (\<lambda>s. vx_early s \<and> sstate s = REQUEST_GET)"
    by (rule runs_await [where measure' = "\<lambda>s. if sstate s = REQUEST_GET then 0 else 1"]) (use vx_early_turn in fastforce)
  show ?thesis
    unfolding server_bindaddr_def
    by (rule runs_thread_Cons [OF turn resolve] runs_thread_Cons [OF turn bind] runs_thread_Cons [OF turn listen]
        runs_thread_Cons [OF turn wait] runs_thread_Nil | assumption)+
qed

definition vx_paired :: "vx_world server \<Rightarrow> bool" where
  "vx_paired s \<longleftrightarrow> vx_early s \<and> sstate s = REQUEST_GET \<and> cq s = 3 \<and> in_place vx_device (mach s)"

lemma vx_register:
  assumes "and acc optional_range = 0" and "\<And>r s. p s \<Longrightarrow> p (store r s)"
  shows "runs p (register vx_platform addr len acc store) p"
  using assms by (simp add: register_def ibv_reg_mr_def optional_range_value vx_exec)

lemma vx_setup_buffer: "runs vx_paired (server_setup_buffer vx_platform) vx_paired"
proof -
  note defs = vx_paired_def vx_in_place vx_early_def flags_def
  have prepare: "runs vx_paired (prepare_requests op) vx_paired" for op
    by (auto simp: prepare_requests_def vx_exec defs set_sge_def set_send_wr_def set_recv_wr_def)
  have malloc: "runs vx_paired (ep_lib (\<lambda>s. lib_malloc vx_platform n) (\<lambda>r. assign (f r))) vx_paired"
    if "\<And>r s. vx_paired s \<Longrightarrow> vx_paired (f r s)" for n f
    using that by (simp add: vx_exec)
  show ?thesis
    unfolding server_setup_buffer_def register_buffers_def
    by (rule runs_block_Nil runs_block_Cons [where r = vx_paired] prepare malloc vx_register no_optional | (auto simp: defs) [1])+
qed

lemma vx_make_queues: "runs (\<lambda>s. vx_early s \<and> sstate s = REQUEST_GET) (server_make_queues vx_platform vx_env) vx_paired"
proof -
  let ?p = "\<lambda>s. vx_early s \<and> sstate s = REQUEST_GET"
  let ?q = "\<lambda>s. vx_early s \<and> sstate s = REQUEST_GET \<and> cq s = 3"
  have "vx_env s = Inr s" if "?p s" for s using that by (auto simp: vx_early_def vx_env_def)
  then have turn: "\<exists>t. vx_env s = Inr t \<and> a t" if "a s" "?p s" for a s using that by blast
  have early: "runs ?p (thread vx_env (c # cs)) q" if "runs ?p c r" "runs r (thread vx_env cs) q" for c cs r q
    by (rule runs_thread_Cons [OF turn that]) auto
  have made: "runs ?q (thread vx_env (c # cs)) q" if "runs ?q c r" "runs r (thread vx_env cs) q" for c cs r q
    by (rule runs_thread_Cons [OF turn that]) auto
  have paired: "runs vx_paired (thread vx_env (c # cs)) q" if "runs vx_paired c r" "runs r (thread vx_env cs) q" for c cs r q
    by (rule runs_thread_Cons [OF turn that]) (auto simp: vx_paired_def)
  note defs = vx_exec vx_early_def flags_def
  show ?thesis
    unfolding server_make_queues_def
    by (rule early [where r = ?p], (auto simp: defs) [1],
       rule early [where r = ?p], (auto simp: defs) [1],
       rule early [where r = ?q], (auto simp: defs) [1],
       rule made [where r = ?q], (auto simp: defs request_notify_def vx_notify) [1],
       rule made [where r = vx_paired], (auto simp: defs vx_in_place vx_paired_def) [1],
       rule paired [where r = vx_paired], (auto simp: defs vx_in_place vx_paired_def) [1],
       rule paired [OF vx_setup_buffer], rule paired [where r = vx_paired],
       (auto simp: vx_exec vx_verbs vx_in_place vx_paired_def) [1], rule runs_thread_Nil)
qed

subsection \<open>The messages\<close>

definition vx_calm :: "bool \<times> bool \<times> bool \<Rightarrow> vx_world server \<Rightarrow> bool" where
  "vx_calm f s \<longleftrightarrow> vx_late s \<and> calm vx_device f (sent vx_device (mach s)) s"

definition vx_armed :: "(vx_world server \<Rightarrow> ptr) \<Rightarrow> u64 \<Rightarrow> bool \<times> bool \<times> bool \<Rightarrow> vx_world server \<Rightarrow> bool" where
  "vx_armed wr w f s \<longleftrightarrow> vx_calm f s \<and> send_wr_wr_id (send_wr_at (mach s) (wr s)) = w"

definition vx_waiting :: "u64 \<Rightarrow> bool \<times> bool \<times> bool \<Rightarrow> vx_world server \<Rightarrow> bool" where
  "vx_waiting w f s \<longleftrightarrow> vx_late s \<and> waiting vx_device w f (sent vx_device (mach s)) s"

lemma vx_kept:
  assumes "vx_env s = Inr t" and "vx_late s" and "vx_late t"
  shows "vx_calm f s \<Longrightarrow> vx_calm f t" and "vx_waiting w f s \<Longrightarrow> vx_waiting w f t"
    and "vx_armed sq_wr_addr w f s \<Longrightarrow> vx_armed sq_wr_addr w f t"
    and "vx_armed wr_addr w f s \<Longrightarrow> vx_armed wr_addr w f t"
proof -
  have "in_place vx_device (mach s)" using assms(2) by (simp add: vx_late_def)
  note kept = env_sends [OF vx_contract vx_runs_beside assms(1) this]
  have same: "sent vx_device (mach t) = sent vx_device (mach s)" "send_wr_at (mach t) = send_wr_at (mach s)"
    "sq_wr_addr t = sq_wr_addr s" "wr_addr t = wr_addr s"
    using kept(1) by (simp_all add: untouched_def own_def)
  show calm: "vx_calm f s \<Longrightarrow> vx_calm f t" and "vx_waiting w f s \<Longrightarrow> vx_waiting w f t"
    using assms(3) kept(3,4) same(1) by (simp_all add: vx_calm_def vx_waiting_def)
  show "vx_armed sq_wr_addr w f s \<Longrightarrow> vx_armed sq_wr_addr w f t" "vx_armed wr_addr w f s \<Longrightarrow> vx_armed wr_addr w f t"
    using calm same by (simp_all add: vx_armed_def)
qed

lemma vx_turns:
  "vx_calm f s \<Longrightarrow> \<exists>t. vx_env s = Inr t \<and> vx_calm f t" "vx_waiting w f s \<Longrightarrow> \<exists>t. vx_env s = Inr t \<and> vx_waiting w f t"
  "vx_armed sq_wr_addr w f s \<Longrightarrow> \<exists>t. vx_env s = Inr t \<and> vx_armed sq_wr_addr w f t"
  "vx_armed wr_addr w f s \<Longrightarrow> \<exists>t. vx_env s = Inr t \<and> vx_armed wr_addr w f t"
proof -
  have turn: "\<exists>t. vx_env s = Inr t \<and> A t" if "A s" "vx_late s" "\<And>t. vx_env s = Inr t \<Longrightarrow> vx_late s \<Longrightarrow> vx_late t \<Longrightarrow> A s \<Longrightarrow> A t" for A
    using vx_late_quiet [OF that(2)] that by blast
  have late: "vx_calm f s \<Longrightarrow> vx_late s" "vx_waiting w f s \<Longrightarrow> vx_late s" "vx_armed wr w f s \<Longrightarrow> vx_late s" for wr
    by (simp_all add: vx_calm_def vx_waiting_def vx_armed_def)
  show "vx_calm f s \<Longrightarrow> \<exists>t. vx_env s = Inr t \<and> vx_calm f t" by (rule turn [OF _ late(1) vx_kept(1)])
  show "vx_waiting w f s \<Longrightarrow> \<exists>t. vx_env s = Inr t \<and> vx_waiting w f t" by (rule turn [OF _ late(2) vx_kept(2)])
  show "vx_armed sq_wr_addr w f s \<Longrightarrow> \<exists>t. vx_env s = Inr t \<and> vx_armed sq_wr_addr w f t"
    by (rule turn [OF _ late(3) vx_kept(3)])
  show "vx_armed wr_addr w f s \<Longrightarrow> \<exists>t. vx_env s = Inr t \<and> vx_armed wr_addr w f t"
    by (rule turn [OF _ late(3) vx_kept(4)])
qed

lemma vx_same_world:
  assumes "tables m = tables (mach s)" and "world m = world (mach s)"
  shows "vx_calm f (s\<lparr>mach := m\<rparr>) = vx_calm f s" and "vx_waiting w f (s\<lparr>mach := m\<rparr>) = vx_waiting w f s"
proof -
  have "vx_late (s\<lparr>mach := m\<rparr>) = vx_late s" by (simp add: vx_late_def in_place_def assms)
  then show "vx_calm f (s\<lparr>mach := m\<rparr>) = vx_calm f s" "vx_waiting w f (s\<lparr>mach := m\<rparr>) = vx_waiting w f s"
    by (simp_all add: vx_calm_def vx_waiting_def calm_def waiting_def in_place_def flags_def vx_views assms)
qed

lemma vx_stores:
  "runs (vx_calm f) (on_mach (\<lambda>s m. on_mem (g s m) m)) (vx_calm f)"
  "runs (vx_waiting w f) (on_mach (\<lambda>s m. on_mem (g s m) m)) (vx_waiting w f)"
  "runs (vx_armed wr_addr w f) (on_mach (\<lambda>s m. on_mem (g s m) m)) (vx_armed wr_addr w f)"
  "runs (vx_armed sq_wr_addr w f) (on_mach (\<lambda>s m. on_mem (g s m) m)) (vx_armed sq_wr_addr w f)"
  by (simp_all add: runs_def on_mach_def on_mem_def vx_armed_def vx_same_world)

lemma vx_request: "runs (vx_calm f) (on_mach (send_request imm w)) (vx_armed wr_addr w f)"
  by (simp add: runs_def on_mach_def send_request_def set_send_wr_def vx_armed_def vx_same_world)

lemma vx_first_request: "runs (vx_armed sq_wr_addr w f) (on_mach (\<lambda>s. set_send_wr (sq_wr_addr s)
    (\<lambda>w. w\<lparr>send_wr_opcode := op, send_wr_send_flags := fl, send_wr_imm_data := imm\<rparr>))) (vx_armed sq_wr_addr w f)"
  by (simp add: runs_def on_mach_def set_send_wr_def vx_armed_def vx_same_world)

lemma vx_post: "runs (vx_armed wr w f) (post_send vx_platform wr) (vx_waiting w f)"
proof (unfold runs_def, intro allI impI)
  fix s assume s: "vx_armed wr w f s"
  obtain msgs events got where world: "world (mach s) = ([], msgs, events, got)"
    using s by (cases "world (mach s)") (auto simp: vx_armed_def vx_calm_def calm_def vx_views)
  have ctx: "context_at (mach s) = (\<lambda>_. vx_context)" using s by (simp add: vx_armed_def vx_calm_def vx_late_def vx_in_place)
  let ?wr = "send_wr_at (mach s) (wr s)"
  let ?t = "s\<lparr>mach := (mach s)\<lparr>world := ([w], msgs @ [(send_wr_imm_data ?wr, gathered (mach s) (send_wr_sg_list ?wr))], events, got)\<rparr>\<rparr>"
  have "post_send vx_platform wr s = Some (Inr ?t)"
    using s world ctx by (simp add: post_send_def lib_run exit_if_def vx_verbs put_mach_def vx_armed_def)
  moreover have "vx_waiting w f ?t"
    using s world by (simp add: vx_armed_def vx_calm_def vx_waiting_def vx_late_def calm_def waiting_def vx_in_place vx_views flags_def)
  ultimately show "\<exists>t. post_send vx_platform wr s = Some (Inr t) \<and> vx_waiting w f t" by blast
qed

lemma vx_completed:
  assumes "\<And>s. flags s = mark w f \<Longrightarrow> b s" and "\<And>s. b s \<Longrightarrow> flags s \<noteq> f"
  shows "runs (vx_waiting w f) (await vx_env b) (vx_calm (mark w f))"
proof (rule runs_weaken [OF vx_await])
  show "vx_late s" if "vx_waiting w f s" for s using that by (simp add: vx_waiting_def)
  show "vx_waiting w f t" if "vx_waiting w f s" "vx_env s = Inr t" "vx_late t" for s t
    using vx_kept(2) [OF that(2) _ that(3,1)] that(1) by (simp add: vx_waiting_def)
  show "b s" if "vx_waiting w f s" "sstate s = SERVER_CONNECTED" "fst (world (mach s)) = []" "SERVER_GET_REMOTE_ADDR s" for s
    using that assms(1) [of s] by (auto simp: vx_waiting_def waiting_def vx_views)
  show "vx_calm (mark w f) s" if "vx_waiting w f s \<and> b s" for s
    using that assms(2) [of s] by (auto simp: vx_waiting_def waiting_def vx_calm_def calm_def)
qed

lemma vx_init_class: "runs (vx_calm f) (init_class_recv vx_platform vx_env) (vx_waiting 1123 f)"
proof -
  have copy: "runs (vx_waiting 1123 f) (on_mach (\<lambda>s. on_mem (g s))) (vx_waiting 1123 f)" for g
    by (rule vx_stores(2))
  show ?thesis
    unfolding init_class_recv_def
    by (rule runs_thread_Cons [OF vx_turns(1) vx_stores(1) runs_thread_Cons [OF vx_turns(1) vx_request
          runs_thread_Cons [OF vx_turns(4) vx_post runs_thread_Cons [OF vx_turns(2) copy
          runs_thread_Cons [OF vx_turns(2) copy runs_thread_Nil]]]]])
qed

lemma vx_init_sketch: "runs (vx_calm f) (init_sketch_rdma vx_platform vx_env) (vx_waiting 1124 f)"
proof -
  have fill: "runs (vx_armed wr_addr 1124 f) (on_mach (\<lambda>s. on_mem (g s))) (vx_armed wr_addr 1124 f)" for g
    by (rule vx_stores(3))
  show ?thesis
    unfolding init_sketch_rdma_def
    by (rule runs_thread_Cons [OF vx_turns(1) vx_stores(1) runs_thread_Cons [OF vx_turns(1) vx_request
          runs_thread_Cons [OF vx_turns(4) fill runs_thread_Cons [OF vx_turns(4) vx_post runs_thread_Nil]]]])
qed

lemma vx_advertise:
  "runs (vx_armed sq_wr_addr 0 (False, False, False)) (server_advertise vx_platform vx_env) (\<lambda>_. True)"
proof -
  have wait: "runs (vx_waiting 0 (False, False, False)) (await vx_env rdma_addr_send_complete) (vx_calm (True, False, False))"
    "runs (vx_waiting 1123 (True, False, False)) (await vx_env class_addr_send_complete) (vx_calm (True, True, False))"
    "runs (vx_waiting 1124 (True, True, False)) (await vx_env sketch_addr_send_complete) (vx_calm (True, True, True))"
    using vx_completed [of 0 "(False, False, False)" rdma_addr_send_complete]
      vx_completed [of 1123 "(True, False, False)" class_addr_send_complete]
      vx_completed [of 1124 "(True, True, False)" sketch_addr_send_complete]
    by (simp_all add: mark_def flags_def)
  have "runs (vx_armed sq_wr_addr 0 (False, False, False)) (server_advertise vx_platform vx_env) (vx_calm (True, True, True))"
    unfolding server_advertise_def
    by (rule runs_thread_Cons [OF vx_turns(3) vx_stores(4) runs_thread_Cons [OF vx_turns(3) vx_first_request
          runs_thread_Cons [OF vx_turns(3) vx_post runs_thread_Cons [OF vx_turns(2) wait(1)
          runs_thread_Cons [OF vx_turns(1) vx_init_class runs_thread_Cons [OF vx_turns(2) wait(2)
          runs_thread_Cons [OF vx_turns(1) vx_init_sketch runs_thread_Cons [OF vx_turns(2) wait(3)
          runs_thread_Nil]]]]]]]])
  then show ?thesis by (rule runs_weaken) simp_all
qed

lemma vx_start:
  "runs (\<lambda>s. vx_early s \<and> sstate s = SERVER_INIT) (server_start vx_platform vx_env) (\<lambda>_. True)"
proof -
  let ?init = "\<lambda>s. vx_early s \<and> sstate s = SERVER_INIT"
  let ?armed = "vx_armed sq_wr_addr 0 (False, False, False)"
  have channel: "runs ?init (ep_lib (\<lambda>s. create_first_event_channel vx_platform) (\<lambda>(ch, msg). block
      [assign (\<lambda>s. s\<lparr>cm_channel := ch\<rparr>), exit_if (\<lambda>_. ch = 0) Event_channel_error])) ?init"
    by (auto simp: vx_exec create_first_event_channel_def vx_early_def flags_def)
  have ident: "runs ?init (ep_lib (\<lambda>s. lib_create_id vx_platform (cm_channel s) 0 RDMA_PS_TCP) (\<lambda>(ret, i). block
      [assign (\<lambda>s. s\<lparr>cm_id := i\<rparr>), exit_if (\<lambda>_. ret \<noteq> 0) Create_id_error])) vx_early"
    by (auto simp: vx_exec vx_early_def flags_def)
  have thread: "runs vx_paired (assign (\<lambda>s. s\<lparr>cq_pc := Cq_wait\<rparr>)) ?armed"
    by (auto simp: vx_exec vx_paired_def vx_early_def vx_armed_def vx_calm_def vx_late_def calm_def vx_views flags_def)
  have accept: "runs ?armed (ep_lib (\<lambda>s. lib_accept vx_platform (child_cm_id s) None)
      (\<lambda>ret. exit_if (\<lambda>_. ret \<noteq> 0) Accept_error)) ?armed"
    by (simp add: vx_exec)
  have wait: "runs ?armed (await vx_env b) ?armed"
    if "\<And>s. sstate s = SERVER_CONNECTED \<Longrightarrow> SERVER_GET_REMOTE_ADDR s \<Longrightarrow> b s" for b
    by (rule runs_weaken [OF vx_await [where p = ?armed]])
      (use vx_kept(3) that in \<open>auto simp: vx_armed_def vx_calm_def\<close>)
  have connected: "runs ?armed (thread vx_env
      [ep_lib (\<lambda>s. lib_accept vx_platform (child_cm_id s) None) (\<lambda>ret. exit_if (\<lambda>_. ret \<noteq> 0) Accept_error),
       await vx_env (\<lambda>s. ServerState_val (sstate s) = ClientState_val CONNECTED),
       await vx_env SERVER_GET_REMOTE_ADDR]) ?armed"
    by (rule runs_thread_Cons [OF vx_turns(3) accept runs_thread_Cons [OF vx_turns(3) wait
          runs_thread_Cons [OF vx_turns(3) wait runs_thread_Nil]]]) simp_all
  show ?thesis
    unfolding server_start_def
    by (rule runs_block_Cons [OF channel runs_block_Cons [OF ident runs_block_Cons [OF vx_bindaddr
        runs_block_Cons [OF vx_make_queues runs_block_Cons [OF thread runs_block_Cons [OF connected
        runs_block_Cons [OF vx_advertise runs_block_Nil]]]]]]])
qed

subsection \<open>The property at this device\<close>

definition vx_server :: "vx_world server" where
  "vx_server = (undefined :: vx_world server)\<lparr>cq_pc := Cq_none, sstate := SERVER_INIT, SERVER_GET_REMOTE_ADDR := False,
     rdma_addr_send_complete := False, class_addr_send_complete := False, sketch_addr_send_complete := False,
     recv_sgl_addr := 0x1100, send_sgl_addr := 0x1120, rdma_sgl_addr := 0x1140, sq_wr_addr := 0x1200,
     rdma_sq_wr_addr := 0x1300, send_buf_addr := 0x1000,
     sketch_info := (undefined :: sketch_rdma_info)\<lparr>sk_data_size := 2, sk_data_buf := 0x2000\<rparr>,
     mach := (undefined :: vx_world machine)\<lparr>world := ([], [], 0, False), addrinfo_at := \<lambda>_. (2, 0x5000),
       send_wr_at := \<lambda>_. zero_send_wr\<rparr>\<rparr>"

lemma server_start_advertises_witness:
  "\<exists>t. server_start vx_platform vx_env vx_server = Some (Inr t) \<and>
     sent vx_device (mach t) = [(htobe32 1122, start_advert t), (htobe32 1123, class_advert t), (htobe32 1124, sketch_advert t)]"
proof -
  have early: "vx_early vx_server" "sstate vx_server = SERVER_INIT"
    by (simp_all add: vx_server_def vx_early_def flags_def zero_send_wr_def)
  then obtain t where t: "server_start vx_platform vx_env vx_server = Some (Inr t)"
    using runsD [OF vx_start, of vx_server] by blast
  have "laid_out vx_device vx_server"
    by (simp add: laid_out_def vx_server_def apart_by_distance) (simp add: vx_device_def)
  with server_start_advertises [OF vx_contract vx_starts vx_runs_beside, of vx_server t] t early show ?thesis
    by (auto simp: vx_early_def vx_views)
qed

end
