(* ===== verification/Connection.thy ===== *)
theory Connection
  imports Simulation Lifecycle Sends
begin

section \<open>The state of the connection\<close>

text \<open>
  Each process keeps its view of the connection in one member, which its connection thread changes
  by the events of the connection manager and its main thread waits for.  The abstract state machine
  is what each event does to the view; the threads of each process implement it.
\<close>

subsection \<open>The client\<close>

fun client_after :: "rdma_cm_event option \<Rightarrow> ClientState \<Rightarrow> ClientState" where
  "client_after None st = st"
| "client_after (Some ev) st = (case cm_event_event ev of
     RDMA_CM_EVENT_ADDR_RESOLVED \<Rightarrow> ADDR_RESOLVED
   | RDMA_CM_EVENT_ROUTE_RESOLVED \<Rightarrow> ROUTE_RESOLVED
   | RDMA_CM_EVENT_ESTABLISHED \<Rightarrow> CONNECTED
   | _ \<Rightarrow> st)"

text \<open>A step of the other threads, labelled with the event that the connection thread takes, if any.\<close>

inductive client_meets ::
    "'w platform \<Rightarrow> ('w machine \<Rightarrow> 'w machine \<Rightarrow> bool) \<Rightarrow> rdma_cm_event option \<Rightarrow> 'w client \<Rightarrow> 'w client \<Rightarrow> bool"
  for P dev where
  event: "lib_get_cm_event P (cm_channel s) (mach s) = ((0, e), m) \<Longrightarrow> client_cm_thread P s = Some (Inr t) \<Longrightarrow>
     client_meets P dev (Some (cm_event_at m e)) s t"
| completion: "client_cq_thread P s = Some (Inr t) \<Longrightarrow> client_meets P dev None s t"
| device: "dev (mach s) m \<Longrightarrow> client_meets P dev None s (s\<lparr>mach := m\<rparr>)"

lemma client_env_meets: "client_env_step P dev s t \<longleftrightarrow> (\<exists>l. client_meets P dev l s t)"
proof
  assume "client_env_step P dev s t"
  then show "\<exists>l. client_meets P dev l s t"
  proof cases
    case cm
    obtain ret e m where "lib_get_cm_event P (cm_channel s) (mach s) = ((ret, e), m)" by (metis prod.exhaust)
    moreover from this cm have "ret = 0"
      by (auto simp: client_cm_thread_def lib_run block_Cons seq_def exit_if_def split: if_splits)
    ultimately show ?thesis using cm by (auto intro: client_meets.event)
  qed (auto intro: client_meets.completion client_meets.device)
next
  assume "\<exists>l. client_meets P dev l s t"
  then show "client_env_step P dev s t"
    by (auto elim!: client_meets.cases intro: client_env_step.intros)
qed

subsection \<open>The server\<close>

fun server_after :: "rdma_cm_event option \<Rightarrow> ServerState \<times> ptr \<Rightarrow> ServerState \<times> ptr" where
  "server_after None st = st"
| "server_after (Some ev) (st, child) = (case cm_event_event ev of
     RDMA_CM_EVENT_CONNECT_REQUEST \<Rightarrow> (REQUEST_GET, cm_event_id ev)
   | RDMA_CM_EVENT_CONNECT_RESPONSE \<Rightarrow> (SERVER_CONNECTED, child)
   | RDMA_CM_EVENT_ESTABLISHED \<Rightarrow> (SERVER_CONNECTED, child)
   | _ \<Rightarrow> (st, child))"

inductive server_meets ::
    "'w platform \<Rightarrow> ('w machine \<Rightarrow> 'w machine \<Rightarrow> bool) \<Rightarrow> rdma_cm_event option \<Rightarrow> 'w server \<Rightarrow> 'w server \<Rightarrow> bool"
  for P dev where
  event: "lib_get_cm_event P (cm_channel s) (mach s) = ((0, e), m) \<Longrightarrow> server_cm_thread P s = Some (Inr t) \<Longrightarrow>
     server_meets P dev (Some (cm_event_at m e)) s t"
| completion: "server_cq_thread P s = Some (Inr t) \<Longrightarrow> server_meets P dev None s t"
| device: "dev (mach s) m \<Longrightarrow> server_meets P dev None s (s\<lparr>mach := m\<rparr>)"

text \<open>The server's view: its state and the identifier of the connection that it takes as its own.\<close>

definition server_link :: "'w server \<Rightarrow> ServerState \<times> ptr" where
  "server_link s = (sstate s, child_cm_id s)"

subsection \<open>The threads implement the state machines\<close>

definition same_link :: "'w server \<Rightarrow> 'w server \<Rightarrow> bool" where
  "same_link s t \<longleftrightarrow> server_link t = server_link s"

interpretation linking: frame same_link
  by unfold_locales (simp_all add: same_link_def)

lemmas link_defs = same_link_def server_link_def put_mach_def

lemma server_cq_links: "within same_link (server_cq_thread P)"
proof -
  have tail: "within same_link (cq_wait P)" "within same_link (cq_ack P)"
    unfolding cq_wait_def cq_ack_def request_notify_def
    by (auto simp: link_defs split: prod.splits intro!: linking.within_rules within_assign)
  have completion: "within same_link (server_completion wc)" for wc
    unfolding server_completion_def server_recv_handler_def
    by (auto simp: link_defs Let_def split: ibv_wc_opcode.split intro!: linking.within_rules within_assign)
  have poll: "within same_link (server_poll P)"
    unfolding server_poll_def
    by (auto simp: link_defs tail intro!: linking.within_lib within_state [OF completion])
  show ?thesis
    using tail(1) poll linking.within_skip
    by (auto simp: within_def server_cq_thread_def split: cq_pc.splits)
qed

lemma server_meets_link:
  assumes "server_meets P dev l s t"
  shows "server_link t = server_after l (server_link s)"
  using assms
proof cases
  case (event e m)
  have ev: "server_cm_event (cm_event_at m e) u = Some (Inr v) \<Longrightarrow>
      server_link v = server_after (Some (cm_event_at m e)) (server_link u)" for u v :: "'a server"
    by (cases "cm_event_event (cm_event_at m e)")
      (auto simp: server_cm_event_def block_Cons block_Nil seq_def assign_run skip_run server_link_def)
  from event obtain u where u: "server_cm_event (cm_event_at m e) (put_mach m s) = Some (Inr u)" "server_link t = server_link u"
    by (auto simp: server_cm_thread_def lib_run block_Cons block_Nil seq_def exit_if_def link_defs
        split: option.splits sum.splits prod.splits if_splits)
  with ev [OF u(1)] event(1) show ?thesis by (simp add: server_link_def put_mach_def)
next
  case completion
  then show ?thesis using withinD [OF server_cq_links] by (auto simp: same_link_def)
next
  case (device m)
  then show ?thesis by (simp add: server_link_def)
qed

lemma client_meets_state:
  assumes "client_meets P dev l s t"
  shows "cstate t = client_after l (cstate s)"
  using assms
proof cases
  case (event e m)
  have ev: "client_cm_event P (cm_event_at m e) u = Some (Inr v) \<Longrightarrow>
      cstate v = client_after (Some (cm_event_at m e)) (cstate u)" for u v
    by (cases "cm_event_event (cm_event_at m e)")
      (auto simp: client_cm_event_def block_Cons block_Nil seq_def assign_run skip_run lib_run exit_if_def
        split: prod.splits if_splits)
  from event obtain u where u: "client_cm_event P (cm_event_at m e) (put_mach m s) = Some (Inr u)" "cstate t = cstate u"
    by (auto simp: client_cm_thread_def lib_run block_Cons block_Nil seq_def exit_if_def put_mach_def
        split: option.splits sum.splits prod.splits if_splits)
  with ev [OF u(1)] event(1) show ?thesis by (simp add: put_mach_def)
next
  case completion
  then show ?thesis using cq_cstate by auto
next
  case (device m)
  then show ?thesis by simp
qed

interpretation client_connection: simulation cstate "client_meets P dev" client_after
  by unfold_locales (rule client_meets_state)

interpretation server_connection: simulation server_link "server_meets P dev" server_after
  by unfold_locales (rule server_meets_link)

text \<open>
  C9: Both connection threads implement their state machines: after any run of the other threads that takes
  the events in \<open>ls\<close>, the state of the client is what the events make of it, and so are the server's
  state and its connection.
\<close>

theorem connection_states:
  assumes "many (client_meets P dev) ls c c'" and "many (server_meets Q dev') ks s s'"
  shows "cstate c' = fold client_after ls (cstate c) \<and>
    (sstate s', child_cm_id s') = fold server_after ks (sstate s, child_cm_id s)"
  using client_connection.runs [OF assms(1)] server_connection.runs [OF assms(2)] by (simp_all add: server_link_def)

subsection \<open>A second request\<close>

text \<open>An event that does not concern the server's view.\<close>

fun unlinked :: "rdma_cm_event option \<Rightarrow> bool" where
  "unlinked None \<longleftrightarrow> True"
| "unlinked (Some ev) \<longleftrightarrow> cm_event_event ev \<noteq> RDMA_CM_EVENT_CONNECT_REQUEST \<and>
     cm_event_event ev \<noteq> RDMA_CM_EVENT_CONNECT_RESPONSE \<and> cm_event_event ev \<noteq> RDMA_CM_EVENT_ESTABLISHED"

lemma unlinked_after: "unlinked l \<Longrightarrow> server_after l st = st"
  by (cases l; cases st) (auto split: rdma_cm_event_type.split)

lemma unlinked_fold: "\<forall>l \<in> set ls. unlinked l \<Longrightarrow> fold server_after ls st = st"
  by (induction ls) (simp_all add: unlinked_after)

text \<open>
  C10: A connection request takes the server over in every state, connected or not: afterwards the server
  has the identifier of the last requester as its connection and is not connected, so that \<open>start\<close>, if it
  has not passed its wait for the connection, goes on to accept, and wait for, a connection other than
  the one that its queues were made for.
\<close>

theorem server_taken_over:
  assumes "many (server_meets P dev) (ls @ Some ev # ks) s t"
    and "cm_event_event ev = RDMA_CM_EVENT_CONNECT_REQUEST" and "\<forall>l \<in> set ks. unlinked l"
  shows "child_cm_id t = cm_event_id ev \<and> sstate t = REQUEST_GET \<and> ServerState_val (sstate t) \<noteq> ClientState_val CONNECTED"
proof -
  obtain st child where "fold server_after ls (server_link s) = (st, child)" by fastforce
  with server_connection.runs [OF assms(1)] have "server_link t = (REQUEST_GET, cm_event_id ev)"
    using assms(2,3) by (simp add: unlinked_fold)
  then show ?thesis by (simp add: server_link_def server_connected_test)
qed

end
