(* ===== verification/Connection_Example.thy ===== *)
theory Connection_Example
  imports Connection Platform_Example
begin

section \<open>A connection manager with a list of events\<close>

text \<open>
  A platform whose world is the list of events that are still to come; the connection threads take them
  one by one.
\<close>

definition kx_platform :: "rdma_cm_event list platform" where
  "kx_platform = quiet_platform\<lparr>lib_get_cm_event := \<lambda>ch m. (case world m of
       [] \<Rightarrow> ((1, 9), m)
     | ev # evs \<Rightarrow> ((0, 9), m\<lparr>world := evs, cm_event_at := (cm_event_at m)(9 := ev)\<rparr>))\<rparr>"

lemma kx_libs:
  "world m = ev # evs \<Longrightarrow> lib_get_cm_event kx_platform ch m = ((0, 9), m\<lparr>world := evs, cm_event_at := (cm_event_at m)(9 := ev)\<rparr>)"
  "lib_ack_cm_event kx_platform e m = (0, m)" "lib_resolve_route kx_platform i n m = (0, m)"
  by (simp_all add: kx_platform_def quiet_platform_def)

lemmas kx_run = lib_run block_Cons block_Nil seq_def exit_if_def assign_run skip_run put_mach_def kx_libs

lemma kx_server_step:
  assumes "world (mach s) = ev # evs"
  shows "\<exists>t. server_meets kx_platform dev (Some ev) s t \<and> world (mach t) = evs"
proof -
  let ?m = "(mach s)\<lparr>world := evs, cm_event_at := (cm_event_at (mach s))(9 := ev)\<rparr>"
  have "\<exists>t. server_cm_thread kx_platform s = Some (Inr t) \<and> world (mach t) = evs"
    using assms by (simp add: server_cm_thread_def server_cm_event_def kx_run split: rdma_cm_event_type.split)
  then obtain t where "server_cm_thread kx_platform s = Some (Inr t)" "world (mach t) = evs" by blast
  with server_meets.event [OF kx_libs(1) [OF assms] this(1), of dev] show ?thesis by auto
qed

lemma kx_client_step:
  assumes "world (mach s) = ev # evs"
  shows "\<exists>t. client_meets kx_platform dev (Some ev) s t \<and> world (mach t) = evs"
proof -
  have "\<exists>t. client_cm_thread kx_platform s = Some (Inr t) \<and> world (mach t) = evs"
    using assms by (simp add: client_cm_thread_def client_cm_event_def kx_run split: rdma_cm_event_type.split)
  then obtain t where "client_cm_thread kx_platform s = Some (Inr t)" "world (mach t) = evs" by blast
  with client_meets.event [OF kx_libs(1) [OF assms] this(1), of dev] show ?thesis by auto
qed

lemma kx_client_runs:
  "\<exists>t. many (client_meets kx_platform dev) (map Some (world (mach s))) s t"
  by (rule many_takes [where left = "\<lambda>s. world (mach s)"]) (use kx_client_step in auto)

lemma kx_server_runs:
  "\<exists>t. many (server_meets kx_platform dev) (map Some (world (mach s))) s t"
  by (rule many_takes [where left = "\<lambda>s. world (mach s)"]) (use kx_server_step in auto)

definition kx_event :: "rdma_cm_event_type \<Rightarrow> ptr \<Rightarrow> rdma_cm_event" where
  "kx_event ty i = (undefined :: rdma_cm_event)\<lparr>cm_event_event := ty, cm_event_id := i\<rparr>"

definition kx_client :: "rdma_cm_event list \<Rightarrow> rdma_cm_event list client" where
  "kx_client evs = (undefined :: rdma_cm_event list client)\<lparr>cstate := INIT,
     mach := (undefined :: rdma_cm_event list machine)\<lparr>world := evs\<rparr>\<rparr>"

definition kx_server :: "rdma_cm_event list \<Rightarrow> rdma_cm_event list server" where
  "kx_server evs = (undefined :: rdma_cm_event list server)\<lparr>sstate := SERVER_INIT, child_cm_id := 0,
     mach := (undefined :: rdma_cm_event list machine)\<lparr>world := evs\<rparr>\<rparr>"

definition kx_resolution :: "rdma_cm_event list" where
  "kx_resolution = [kx_event RDMA_CM_EVENT_ADDR_RESOLVED 8, kx_event RDMA_CM_EVENT_ROUTE_RESOLVED 8]"

definition kx_request :: "rdma_cm_event list" where
  "kx_request = [kx_event RDMA_CM_EVENT_CONNECT_REQUEST 11, kx_event RDMA_CM_EVENT_ESTABLISHED 11]"

definition kx_second :: rdma_cm_event where
  "kx_second = kx_event RDMA_CM_EVENT_CONNECT_REQUEST 12"

lemma connection_states_witness:
  "\<exists>c s. many (client_meets kx_platform (\<lambda>_ _. False)) (map Some kx_resolution) (kx_client kx_resolution) c \<and>
     many (server_meets kx_platform (\<lambda>_ _. False)) (map Some kx_request) (kx_server kx_request) s \<and>
     cstate c = ROUTE_RESOLVED \<and> sstate s = SERVER_CONNECTED \<and> child_cm_id s = 11"
proof -
  obtain c where c: "many (client_meets kx_platform (\<lambda>_ _. False)) (map Some kx_resolution) (kx_client kx_resolution) c"
    using kx_client_runs [of _ "kx_client kx_resolution"] by (auto simp: kx_client_def)
  obtain s where s: "many (server_meets kx_platform (\<lambda>_ _. False)) (map Some kx_request) (kx_server kx_request) s"
    using kx_server_runs [of _ "kx_server kx_request"] by (auto simp: kx_server_def)
  have "cstate c = ROUTE_RESOLVED \<and> (sstate s, child_cm_id s) = (SERVER_CONNECTED, 11)"
    unfolding connection_states [OF c s, THEN conjunct1] connection_states [OF c s, THEN conjunct2]
    by (simp add: kx_client_def kx_server_def kx_resolution_def kx_request_def kx_event_def)
  with c s show ?thesis by blast
qed

lemma server_taken_over_witness:
  "\<exists>s. many (server_meets kx_platform (\<lambda>_ _. False)) (map Some kx_request @ Some kx_second # [])
        (kx_server (kx_request @ [kx_second])) s \<and>
     child_cm_id s = 12 \<and> sstate s = REQUEST_GET"
proof -
  obtain s where s: "many (server_meets kx_platform (\<lambda>_ _. False)) (map Some kx_request @ Some kx_second # [])
      (kx_server (kx_request @ [kx_second])) s"
    using kx_server_runs [of _ "kx_server (kx_request @ [kx_second])"] by (auto simp: kx_server_def)
  from server_taken_over [OF this] s show ?thesis by (auto simp: kx_second_def kx_event_def)
qed

end
