(* ===== verification/Well_Formed.thy ===== *)
theory Well_Formed
  imports Client_Start
begin

section \<open>Well-formed requests do not go wrong\<close>

text \<open>
  The type discipline of the device: a request is well-formed when each of its entries lies in a
  registered region and carries the key of that region.  The state of the client has a type, too: its
  regions, and what it has learnt of the peer.  Here is that \<open>main\<close> keeps this type and posts
  well-formed requests only, so that a device that accepts such requests never makes it exit with
  \<open>ibv_post_send\<close> failed.
\<close>

subsection \<open>Statements that do not fail\<close>

text \<open>\<open>never e c\<close>: the statement does not end with the error \<open>e\<close>.\<close>

definition never :: "'e \<Rightarrow> ('s, 'e) stmt \<Rightarrow> bool" where
  "never e c \<longleftrightarrow> (\<forall>s. c s \<noteq> Some (Inl e))"

lemma never_basic:
  "never e skip" "never e (assign f)" "never e (on_mach g)" "e' \<noteq> e \<Longrightarrow> never e (exit_if b e')"
  "e' \<noteq> e \<Longrightarrow> never e (fail e')"
  by (auto simp: never_def stmt_simps)

lemma never_block: "(\<And>c. c \<in> set cs \<Longrightarrow> never e c) \<Longrightarrow> never e (block cs)"
proof (induction cs)
  case (Cons c cs)
  then have "never e c" "never e (block cs)" by simp_all
  then show ?case by (auto simp: never_def block_Cons seq_def split: option.splits sum.splits)
qed (simp add: never_def block_Nil)

lemma never_cond: "never e c \<Longrightarrow> never e d \<Longrightarrow> never e (cond b c d)"
  by (simp add: never_def cond_def)

lemma never_lib: "(\<And>r. never e (k r)) \<Longrightarrow> never e (lib get put f k)"
  by (auto simp: never_def lib_def split: prod.splits)

lemma never_state: "(\<And>x. never e (c x)) \<Longrightarrow> never e (\<lambda>s. c (g s) s)"
  by (simp add: never_def)

lemmas never_rules = never_basic never_block never_cond never_lib

text \<open>
  \<open>sound e p c q\<close>: from a state with \<open>p\<close> the statement does not end with the error \<open>e\<close>, and if it ends
  well then in a state with \<open>q\<close>.
\<close>

definition sound :: "'e \<Rightarrow> ('s \<Rightarrow> bool) \<Rightarrow> ('s, 'e) stmt \<Rightarrow> ('s \<Rightarrow> bool) \<Rightarrow> bool" where
  "sound e p c q \<longleftrightarrow> triple p c q \<and> (\<forall>s. p s \<longrightarrow> c s \<noteq> Some (Inl e))"

lemma sound_never: "triple p c q \<Longrightarrow> never e c \<Longrightarrow> sound e p c q"
  by (simp add: sound_def never_def)

lemma sound_weaken: "sound e p c q \<Longrightarrow> (\<And>s. p' s \<Longrightarrow> p s) \<Longrightarrow> (\<And>s. q s \<Longrightarrow> q' s) \<Longrightarrow> sound e p' c q'"
  by (auto simp: sound_def triple_def)

lemma sound_conj: "sound e p c q \<Longrightarrow> triple p' c q' \<Longrightarrow> sound e (\<lambda>s. p' s \<and> p s) c (\<lambda>s. q' s \<and> q s)"
  by (auto simp: sound_def triple_def)

lemma sound_block_Nil: "sound e p (block []) p"
  by (simp add: sound_def triple_def block_Nil)

lemma sound_block_Cons: "sound e p c r \<Longrightarrow> sound e r (block cs) q \<Longrightarrow> sound e p (block (c # cs)) q"
  by (fastforce simp: sound_def triple_def block_Cons seq_def split: option.splits sum.splits)

lemma sound_thread_Nil: "(\<And>s. p s \<Longrightarrow> q s) \<Longrightarrow> sound e p (thread env []) q"
  by (simp add: sound_def triple_def thread_Nil)

lemma sound_thread_Cons:
  assumes "\<And>s. env s \<noteq> Inl e" and "\<And>s t. p s \<Longrightarrow> env s = Inr t \<Longrightarrow> p t"
    and "sound e p c r" and "sound e r (thread env cs) q"
  shows "sound e p (thread env (c # cs)) q"
  using assms by (fastforce simp: sound_def triple_def thread_Cons seq_def split: option.splits sum.splits)

lemma sound_for_each: "(\<And>i. i \<in> set xs \<Longrightarrow> sound e p (body i) p) \<Longrightarrow> sound e p (for_each xs body) p"
  by (induction xs) (auto simp: for_each_def intro: sound_block_Nil sound_block_Cons)

lemma never_await:
  fixes env :: "'s \<Rightarrow> 'e + 's"
  assumes "\<And>s. env s \<noteq> Inl e"
  shows "never e (await env b)"
proof -
  have "r \<noteq> Inl e" if run: "await env b s = Some r" for s r
  proof -
    have "env = env \<longrightarrow> r \<noteq> Inl e"
      by (rule await.raw_induct [where P = "\<lambda>oth q s r. oth = env \<longrightarrow> r \<noteq> Inl e", OF _ run])
        (use assms in \<open>auto split: if_splits sum.splits\<close>)
    then show ?thesis by simp
  qed
  then show ?thesis by (auto simp: never_def)
qed

lemma never_thread:
  assumes "\<And>s. env s \<noteq> Inl e" and "\<And>c. c \<in> set cs \<Longrightarrow> never e c"
  shows "never e (thread env cs)"
  using assms(2)
proof (induction cs)
  case (Cons c cs)
  then have "never e c" "never e (thread env cs)" by simp_all
  then show ?case using assms(1) by (auto simp: never_def thread_Cons seq_def split: option.splits sum.splits)
qed (simp add: never_def thread_Nil)

lemma sound_await:
  assumes "\<And>s. env s \<noteq> Inl e" and "\<And>s t. p s \<Longrightarrow> env s = Inr t \<Longrightarrow> p t"
  shows "sound e p (await env b) (\<lambda>s. p s \<and> b s)"
  by (rule sound_never [OF triple_await never_await [OF assms(1)]]) (use assms(2) in auto)

subsection \<open>Well-formed requests\<close>

definition well_formed :: "('w \<Rightarrow> ptr set) \<Rightarrow> 'w machine \<Rightarrow> ptr \<Rightarrow> bool" where
  "well_formed live m wr \<longleftrightarrow> (\<forall>g \<in> set (local_ranges m wr). \<exists>r \<in> live (world m). covered m g r)"

text \<open>What being well-formed depends on, and the provider's tables.\<close>

definition regs :: "('w \<Rightarrow> ptr set) \<Rightarrow> 'w machine \<Rightarrow> ptr set \<times> (ptr \<Rightarrow> ibv_mr) \<times> (ptr \<Rightarrow> ibv_sge) \<times>
    (ptr \<Rightarrow> ibv_send_wr) \<times> op_tables" where
  "regs live m = (live (world m), mr_at m, sge_at m, send_wr_at m, tables m)"

definition leaves :: "'w device \<Rightarrow> ('w \<Rightarrow> ptr set) \<Rightarrow> ('w, 'r) lib \<Rightarrow> bool" where
  "leaves d live f \<longleftrightarrow> (\<forall>m r m'. f m = (r, m') \<longrightarrow> in_place d m \<longrightarrow> regs live m' = regs live m)"

text \<open>
  The device accepts a well-formed request while no READ is outstanding (whatever it does with
  others), and neither it nor any call of the threads registers, invalidates or changes a region or
  writes the caller's entries and requests.
\<close>

definition takes :: "'w platform \<Rightarrow> 'w device \<Rightarrow> ('w \<Rightarrow> ptr set) \<Rightarrow> bool" where
  "takes P d live \<longleftrightarrow>
     (\<forall>q wr bad m r m'. ibv_post_send P q wr bad m = (r, m') \<longrightarrow> in_place d m \<longrightarrow>
        outstanding d m = 0 \<longrightarrow> well_formed live m wr \<longrightarrow> r = 0)"

definition dev_leaves :: "'w device \<Rightarrow> ('w \<Rightarrow> ptr set) \<Rightarrow> bool" where
  "dev_leaves d live \<longleftrightarrow> (\<forall>m m'. dev_step d m m' \<longrightarrow> in_place d m \<longrightarrow> regs live m' = regs live m)"

definition accepts :: "'w platform \<Rightarrow> 'w device \<Rightarrow> ('w \<Rightarrow> ptr set) \<Rightarrow> bool" where
  "accepts P d live \<longleftrightarrow> takes P d live \<and> dev_leaves d live \<and>
     (\<forall>ch. leaves d live (lib_get_cm_event P ch)) \<and> (\<forall>e. leaves d live (lib_ack_cm_event P e)) \<and>
     (\<forall>i ms. leaves d live (lib_resolve_route P i ms)) \<and> (\<forall>ch. leaves d live (lib_get_cq_event P ch)) \<and>
     (\<forall>q n. leaves d live (lib_ack_cq_events P q n)) \<and> (\<forall>n. leaves d live (lib_malloc P n)) \<and>
     (\<forall>i par. leaves d live (lib_connect P i par)) \<and> (\<forall>q f. leaves d live (ibv_req_notify_cq P q f)) \<and>
     (\<forall>q n wc. leaves d live (ibv_poll_cq P q n wc)) \<and> (\<forall>q wr bad. leaves d live (ibv_post_recv P q wr bad)) \<and>
     (\<forall>q wr bad. leaves d live (ibv_post_send P q wr bad))"

lemma accepts_post:
  assumes "accepts P d live" and "ibv_post_send P q wr bad m = (r, m')" and "in_place d m"
    and "outstanding d m = 0" and "well_formed live m wr"
  shows "r = 0"
proof -
  have "takes P d live" using assms(1) by (simp add: accepts_def)
  from this [unfolded takes_def, rule_format, OF assms(2-)] show ?thesis .
qed

lemma accepts_device: "accepts P d live \<Longrightarrow> dev_step d m m' \<Longrightarrow> in_place d m \<Longrightarrow> regs live m' = regs live m"
  by (simp add: accepts_def dev_leaves_def)

lemma accepts_leaves:
  assumes "accepts P d live"
  shows "leaves d live (lib_get_cm_event P ch)" "leaves d live (lib_ack_cm_event P e)" "leaves d live (lib_resolve_route P i ms)"
    "leaves d live (lib_get_cq_event P ch)" "leaves d live (lib_ack_cq_events P q n)" "leaves d live (lib_malloc P sz)"
    "leaves d live (lib_connect P i par)" "leaves d live (ibv_req_notify_cq P q f)" "leaves d live (ibv_poll_cq P q k wc)"
    "leaves d live (ibv_post_recv P q wr bad)" "leaves d live (ibv_post_send P q wr bad)"
  using assms unfolding accepts_def by simp_all

lemma well_formed_regs:
  "regs live m' = regs live m \<Longrightarrow> well_formed live m' wr = well_formed live m wr"
  by (simp add: regs_def well_formed_def local_ranges_def covered_def)

subsection \<open>The type of the client's state\<close>

text \<open>
  The members that say where things are: the main thread sets them up before the completion thread
  starts and no thread changes them afterwards.
\<close>

definition wires :: "'w client \<Rightarrow> (ptr \<times> ptr \<times> ptr \<times> ptr \<times> ptr) \<times> int \<times> int" where
  "wires s = ((recv_sgl_addr s, send_sgl_addr s, rdma_sgl_addr s, sq_wr_addr s, rdma_sq_wr_addr s),
     rdma_size s, sk_data_size (sketch_info s))"

definition members :: "'w client \<Rightarrow> ptr list \<times> int" where
  "members s = ([recv_mr s, send_mr s, rdma_mr s, start_mr s, recv_buf_addr s, send_buf_addr s, rdma_buf s, start_buf s,
      class_recv_data (class_info s), class_recv_buf (class_info s), test_class_mr (class_info s), class_buf_mr (class_info s),
      sk_data_buf (sketch_info s), sketch_mr (sketch_info s)], start_size s)"

definition laid_out :: "int \<Rightarrow> 'w client \<Rightarrow> bool" where
  "laid_out n s \<longleftrightarrow> distinct [recv_sgl_addr s, send_sgl_addr s, rdma_sgl_addr s] \<and> sq_wr_addr s \<noteq> rdma_sq_wr_addr s \<and>
     0 \<le> rdma_size s \<and> rdma_size s < 2 ^ 31 \<and> sk_data_size (sketch_info s) = n \<and> n < 2 ^ 31"

text \<open>The peer has not advertised a plain buffer larger than the own one.\<close>

definition modest :: "'w client \<Rightarrow> bool" where
  "modest s \<longleftrightarrow> (GET_RDMA_ADDR s \<longrightarrow> uint (remote_len s) \<le> rdma_size s)"

definition typed :: "('w \<Rightarrow> ptr set) \<Rightarrow> int \<Rightarrow> 'w client \<Rightarrow> bool" where
  "typed live n s \<longleftrightarrow> client_regions live s \<and> laid_out n s \<and> modest s"

definition same_types :: "'w device \<Rightarrow> ('w \<Rightarrow> ptr set) \<Rightarrow> 'w client \<Rightarrow> 'w client \<Rightarrow> bool" where
  "same_types d live s t \<longleftrightarrow> (in_place d (mach s) \<longrightarrow>
     regs live (mach t) = regs live (mach s) \<and> wires t = wires s \<and> members t = members s \<and>
     (GET_RDMA_ADDR s \<longrightarrow> GET_RDMA_ADDR t))"

lemma regs_in_place: "regs live m' = regs live m \<Longrightarrow> in_place d m' = in_place d m"
  by (simp add: regs_def in_place_def)

interpretation typing: frame "same_types d live"
proof
  show "same_types d live s s" for s by (simp add: same_types_def)
  show "same_types d live s u" if "same_types d live s t" "same_types d live t u" for s t u
    using that regs_in_place [of live "mach t" "mach s" d] by (simp add: same_types_def)
qed

lemma laid_out_wires: "wires t = wires s \<Longrightarrow> laid_out n t = laid_out n s"
  by (auto simp: wires_def laid_out_def)

lemma regions_members:
  "regs live (mach t) = regs live (mach s) \<Longrightarrow> wires t = wires s \<Longrightarrow> members t = members s \<Longrightarrow>
   client_regions live t = client_regions live s"
  by (simp add: regs_def wires_def members_def regions_defs region_def)

lemma same_types_typed:
  assumes "same_types d live s t" and "in_place d (mach s)" and "typed live n s" and "modest t"
  shows "typed live n t"
  using assms regions_members [of live t s] laid_out_wires [of t s n] by (simp add: same_types_def typed_def)

subsection \<open>The other threads keep the type\<close>

lemmas same_types_simps = same_types_def wires_def members_def regs_def put_mach_def

lemma leaves_lib:
  "(\<And>s. leaves d live (f s)) \<Longrightarrow> (\<And>r. within (same_types d live) (k r)) \<Longrightarrow> within (same_types d live) (ep_lib f k)"
  by (rule typing.within_lib) (auto simp: leaves_def same_types_def wires_def members_def put_mach_def)

lemma cm_thread_typed:
  assumes "accepts P d live"
  shows "within (same_types d live) (client_cm_thread P)"
proof -
  note k = accepts_leaves [OF assms]
  have event: "within (same_types d live) (client_cm_event P ev)" for ev
    unfolding client_cm_event_def
    by (auto simp: same_types_simps k split: rdma_cm_event_type.split
        intro!: typing.within_rules leaves_lib within_assign)
  show ?thesis
    unfolding client_cm_thread_def
    by (auto simp: k split: prod.splits
        intro!: leaves_lib typing.within_block typing.within_exit_if within_state [OF event])
qed

lemma cq_thread_typed:
  assumes "accepts P d live"
  shows "within (same_types d live) (client_cq_thread P)"
proof -
  note k = accepts_leaves [OF assms]
  have wait: "within (same_types d live) (cq_wait P)" and ack: "within (same_types d live) (cq_ack P)"
    unfolding cq_wait_def cq_ack_def request_notify_def
    by (auto simp: same_types_simps k split: prod.splits
        intro!: typing.within_skip typing.within_exit_if typing.within_block leaves_lib within_assign)
  have handler: "within (same_types d live) (recv_handler P wc)" for wc
    unfolding recv_handler_def
    by (auto simp: same_types_simps k Let_def
        intro!: typing.within_skip typing.within_exit_if typing.within_block typing.within_cond leaves_lib within_assign)
  have completion: "within (same_types d live) (client_completion P wc)" for wc
    unfolding client_completion_def
    by (auto simp: same_types_simps handler typing.within_skip split: ibv_wc_opcode.split intro!: within_assign)
  have poll: "within (same_types d live) (client_poll P)"
    unfolding client_poll_def
    by (auto simp: k ack intro!: leaves_lib within_state [OF completion])
  have count: "within (same_types d live) (assign (\<lambda>s. s\<lparr>pendingReads := pendingReads s - 1, cq_pc := Cq_poll\<rparr>))"
    by (rule within_assign) (simp add: same_types_simps)
  show ?thesis
    using wait poll count typing.within_skip [of d live]
    by (auto simp: within_def client_cq_thread_def split: cq_pc.splits)
qed

lemma env_step_typed:
  assumes "accepts P d live" and "client_env_step P (dev_step d) s t"
  shows "same_types d live s t"
  using assms(2)
proof cases
  case cm
  then show ?thesis by (rule withinD [OF cm_thread_typed [OF assms(1)]])
next
  case cq
  then show ?thesis by (rule withinD [OF cq_thread_typed [OF assms(1)]])
next
  case (device m)
  with accepts_device [OF assms(1)] show ?thesis
    by (auto simp: same_types_def wires_def members_def)
qed

lemma env_typed:
  assumes "accepts P d live" and "runs_beside (client_env_step P (dev_step d)) env" and "env s = Inr t"
  shows "same_types d live s t"
  by (rule runs_beside_inv [OF assms(2,3), where i = "same_types d live s"])
    (auto intro: typing.same_refl typing.same_trans env_step_typed [OF assms(1)])

text \<open>The contract of this theory, and what the other threads keep under it.\<close>

definition types_contract ::
    "'w platform \<Rightarrow> 'w device \<Rightarrow> ('w \<Rightarrow> ptr set) \<Rightarrow> ('w client \<Rightarrow> fatal + 'w client) \<Rightarrow> bool" where
  "types_contract P d live env \<longleftrightarrow>
     reads_contract P d \<and> starts_contract P d \<and> reg_contract P live \<and> accepts P d live \<and>
     runs_beside (client_env_step P (dev_step d)) env \<and> (\<forall>s. env s \<noteq> Inl Post_send_error) \<and>
     (\<forall>s t. env s = Inr t \<longrightarrow> modest s \<longrightarrow> modest t)"

lemma types_contractD:
  assumes "types_contract P d live env"
  shows "reads_contract P d" "starts_contract P d" "reg_contract P live" "accepts P d live"
    "runs_beside (client_env_step P (dev_step d)) env" "env s \<noteq> Inl Post_send_error"
    "env s = Inr t \<Longrightarrow> modest s \<Longrightarrow> modest t"
  using assms unfolding types_contract_def by blast+

lemma typed_kept:
  assumes c: "types_contract P d live env" and s: "typed live n s" "in_place d (mach s)" and t: "env s = Inr t"
  shows "typed live n t" and "in_place d (mach t)" and "GET_RDMA_ADDR s \<Longrightarrow> GET_RDMA_ADDR t"
    and "requests t = requests s" and "regs live (mach t) = regs live (mach s)"
proof -
  note D = types_contractD [OF c]
  have same: "same_types d live s t" by (rule env_typed [OF D(4,5) t])
  have m: "modest t" using s(1) D(7) [OF t] by (simp add: typed_def)
  show "typed live n t" by (rule same_types_typed [OF same s(2,1) m])
  show "in_place d (mach t)" by (rule env_keeps(1) [OF D(1,5) t s(2)])
  show "requests t = requests s" by (rule env_keeps(3) [OF D(1,5) t s(2)])
  show "GET_RDMA_ADDR s \<Longrightarrow> GET_RDMA_ADDR t" "regs live (mach t) = regs live (mach s)"
    using same s(2) by (simp_all add: same_types_def)
qed

definition fit :: "('w \<Rightarrow> ptr set) \<Rightarrow> int \<Rightarrow> ('w client \<Rightarrow> ptr) \<Rightarrow> 'w client \<Rightarrow> bool" where
  "fit live n wr s \<longleftrightarrow> typed live n s \<and> well_formed live (mach s) (wr s)"

lemma fit_kept:
  assumes "types_contract P d live env" and "own_request wr"
    and "fit live n wr s" and "in_place d (mach s)" and "env s = Inr t"
  shows "fit live n wr t"
proof -
  have s: "typed live n s" using assms(3) by (simp add: fit_def)
  note k = typed_kept [OF assms(1) s assms(4,5)]
  have wr: "wr t = wr s" using assms(2) k(4) unfolding own_request_def by blast
  then have "well_formed live (mach t) (wr t) = well_formed live (mach s) (wr s)"
    using well_formed_regs [OF k(5)] by simp
  with k(1) assms(3) show ?thesis by (simp add: fit_def)
qed

subsection \<open>The requests are well-formed\<close>

text \<open>Statements that leave the typed part alone.\<close>

lemma typed_simps [simp]:
  "typed live n (s\<lparr>RDMA_READ_COMPLETE := b\<rparr>) = typed live n s"
  "typed live n (s\<lparr>pendingReads := i\<rparr>) = typed live n s"
  "typed live n (s\<lparr>cq_pc := pc\<rparr>) = typed live n s"
  "typed live n (s\<lparr>class_info := (class_info s)\<lparr>test_sgl := p\<rparr>\<rparr>) = typed live n s"
  by (simp_all add: typed_def laid_out_def modest_def regions_defs)

lemma typed_put:
  "mr_at m = mr_at (mach s) \<Longrightarrow> live (world m) = live (world (mach s)) \<Longrightarrow> typed live n (put_mach m s) = typed live n s"
  "mr_at m = mr_at (mach s) \<Longrightarrow> live (world m) = live (world (mach s)) \<Longrightarrow> typed live n (s\<lparr>mach := m\<rparr>) = typed live n s"
  by (simp_all add: typed_def laid_out_def modest_def regions_defs region_def put_mach_def)

lemma covered_well_formed:
  assumes "list_all2 (covered m) (local_ranges m wr) rs" and "set rs \<subseteq> live (world m)"
  shows "well_formed live m wr"
  using assms by (fastforce simp: well_formed_def list_all2_conv_all_nth in_set_conv_nth)

lemma rdma_request_fit:
  "triple (\<lambda>s. typed live n s \<and> GET_RDMA_ADDR s) (rdma_request op) (fit live n rdma_sq_wr_addr)"
proof (unfold triple_def, intro allI impI)
  fix s t :: "'a client" assume s: "typed live n s \<and> GET_RDMA_ADDR s" and run: "rdma_request op s = Some (Inr t)"
  from run show "fit live n rdma_sq_wr_addr t"
  proof (rule rdma_request_run)
    assume t: "t = put_mach (mach t) s" "mr_at (mach t) = mr_at (mach s)" "world (mach t) = world (mach s)"
      and g: "local_ranges (mach t) (rdma_sq_wr_addr s) = [\<lparr>sge_addr = rdma_buf s, sge_length = remote_len s,
        sge_lkey = mr_lkey (mr_at (mach s) (rdma_mr s))\<rparr>]"
    have r: "region live (mach s) (rdma_mr s) (rdma_buf s) (word_of_int (rdma_size s))"
      and size: "0 \<le> rdma_size s" "rdma_size s < 2 ^ 31" "uint (remote_len s) \<le> rdma_size s"
      using s by (simp_all add: typed_def client_regions_def base_regions_def laid_out_def modest_def)
    have "unat (word_of_int (rdma_size s) :: u64) = nat (rdma_size s)"
      by (rule unat_word_of_int64) (use size in simp_all)
    moreover have "unat (remote_len s) \<le> nat (rdma_size s)"
      using size by (simp add: le_nat_iff)
    ultimately have "covered (mach t) \<lparr>sge_addr = rdma_buf s, sge_length = remote_len s,
        sge_lkey = mr_lkey (mr_at (mach s) (rdma_mr s))\<rparr> (rdma_mr s)"
      using r t(2) by (simp add: covered_def region_def)
    moreover have "rdma_mr s \<in> live (world (mach t))" using r t(3) by (simp add: region_def)
    ultimately have "well_formed live (mach t) (rdma_sq_wr_addr s)" using g by (simp add: well_formed_def) blast
    moreover have "typed live n t" using s typed_put(1) [of "mach t" s live n] t by simp
    moreover obtain m where "t = put_mach m s" using t(1) by blast
    then have "rdma_sq_wr_addr t = rdma_sq_wr_addr s" by (simp add: put_mach_def)
    ultimately show ?thesis by (simp add: fit_def)
  qed
qed

lemma class_request_fit:
  "triple (typed live n) class_request (fit live n (\<lambda>s. test_class_wr_addr (class_info s)))"
proof (unfold triple_def, intro allI impI)
  fix s t :: "'a client" assume s: "typed live n s" and run: "class_request s = Some (Inr t)"
  have t: "class_info t = class_info s" "typed live n t" "world (mach t) = world (mach s)"
    using s run
    by (auto simp: class_request_def block_Cons_run block_Nil_run on_mach_def set_sge_def set_send_wr_def typed_put(2))
  have r: "client_regions live s" using s by (simp add: typed_def)
  have "list_all2 (covered (mach t)) (local_ranges (mach t) (test_class_wr_addr (class_info s)))
      [test_class_mr (class_info s), class_buf_mr (class_info s)]"
    using class_request_covered [OF r run] by (simp add: Let_def)
  then have "well_formed live (mach t) (test_class_wr_addr (class_info s))"
    by (rule covered_well_formed) (use r t(3) in \<open>simp add: client_regions_def region_def\<close>)
  with t show "fit live n (\<lambda>s. test_class_wr_addr (class_info s)) t" by (simp add: fit_def)
qed

lemma sketch_request_fit:
  assumes "i < nat n"
  shows "triple (typed live n) (sketch_request i) (fit live n (\<lambda>s. sketch_wr_addr (sketch_info s)))"
proof (unfold triple_def, intro allI impI)
  fix s t :: "'a client" assume s: "typed live n s" and run: "sketch_request i s = Some (Inr t)"
  have t: "sketch_info t = sketch_info s" "typed live n t" "world (mach t) = world (mach s)"
    using s run
    by (auto simp: sketch_request_def block_Cons_run block_Nil_run on_mach_def set_sge_def set_send_wr_def typed_put(2))
  have r: "client_regions live s" and n: "sk_data_size (sketch_info s) = n" "n < 2 ^ 31"
    using s by (simp_all add: typed_def laid_out_def)
  have "list_all2 (covered (mach t)) (local_ranges (mach t) (sketch_wr_addr (sketch_info s))) [sketch_mr (sketch_info s)]"
    using sketch_request_covered [OF r run] assms n by (simp add: Let_def)
  then have "well_formed live (mach t) (sketch_wr_addr (sketch_info s))"
    by (rule covered_well_formed) (use r t(3) in \<open>simp add: client_regions_def sketch_region_def region_def\<close>)
  with t show "fit live n (\<lambda>s. sketch_wr_addr (sketch_info s)) t" by (simp add: fit_def)
qed

text \<open>A fit request is accepted.\<close>

lemma post_fit:
  assumes "types_contract P d live env"
  shows "sound Post_send_error (\<lambda>s. (in_place d (mach s) \<and> outstanding d (mach s) = 0) \<and> fit live n wr s) (post_send P wr) (typed live n)"
proof -
  note D = types_contractD [OF assms]
  have "\<exists>t. post_send P wr s = Some (Inr t) \<and> typed live n t"
    if s: "in_place d (mach s)" "outstanding d (mach s) = 0" "fit live n wr s" for s
  proof -
    obtain r m where post: "ibv_post_send P (qp s) (wr s) (bad_wr_addr s) (mach s) = (r, m)" by fastforce
    then have "r = 0" using accepts_post [OF D(4)] s by (simp add: fit_def)
    moreover have "regs live m = regs live (mach s)"
      using accepts_leaves(11) [OF D(4)] post s(1) unfolding leaves_def by blast
    ultimately show ?thesis
      using s(3) post typed_put(1) [of m s live n] by (simp add: post_send_def lib_run exit_if_def regs_def fit_def)
  qed
  then show ?thesis by (fastforce simp: sound_def triple_def)
qed

subsection \<open>The functions that read\<close>

abbreviation ok where "ok \<equiv> sound Post_send_error"

text \<open>
  A statement of the main thread: \<open>b\<close> is what the accounts of the READs know, \<open>x\<close> the type; the other
  threads keep both.
\<close>

lemma typed_step:
  assumes c: "types_contract P d live env"
    and b: "\<And>s t. b s \<Longrightarrow> env s = Inr t \<Longrightarrow> b t" "\<And>s. b s \<Longrightarrow> in_place d (mach s)"
    and x: "\<And>s t. x s \<Longrightarrow> in_place d (mach s) \<Longrightarrow> env s = Inr t \<Longrightarrow> x t"
    and step: "ok (\<lambda>s. b s \<and> x s) e r" and rest: "ok r (thread env cs) q"
  shows "ok (\<lambda>s. b s \<and> x s) (thread env (e # cs)) q"
proof -
  have kept: "b t \<and> x t" if "b s \<and> x s" "env s = Inr t" for s t
    using b(1) [of s t] b(2) [of s] x [of s t] that by simp
  show ?thesis by (rule sound_thread_Cons [OF types_contractD(6) [OF c] kept step rest])
qed

lemma typed_wait:
  assumes c: "types_contract P d live env"
    and b: "\<And>s t. b s \<Longrightarrow> env s = Inr t \<Longrightarrow> b t" "\<And>s. b s \<Longrightarrow> in_place d (mach s)"
    and q: "\<And>s. b s \<Longrightarrow> typed live n s \<Longrightarrow> u s \<Longrightarrow> q s"
  shows "ok (\<lambda>s. b s \<and> typed live n s) (await env u) q"
proof -
  have kept: "b t \<and> typed live n t" if "b s \<and> typed live n s" "env s = Inr t" for s t
    using b(1) [of s t] b(2) [of s] typed_kept(1) [OF c, of n s t] that by simp
  have "ok (\<lambda>s. b s \<and> typed live n s) (await env u) (\<lambda>s. (b s \<and> typed live n s) \<and> u s)"
    by (rule sound_await [OF types_contractD(6) [OF c] kept])
  then show ?thesis by (rule sound_weaken) (simp_all add: q)
qed

lemma counted_fit:
  assumes c: "types_contract P d live env" and wr: "own_request wr"
    and rest: "ok (\<lambda>s. (posted d 0 s \<and> b s) \<and> typed live n s) (thread env cs) q"
  shows "ok (\<lambda>s. armed d wr s \<and> fit live n wr s) (thread env
    (post_send P wr # assign (\<lambda>s. s\<lparr>pendingReads := pendingReads s + 1\<rparr>) # await env b # cs)) q"
proof -
  note D = types_contractD [OF c]
  note kept = posted_kept [OF D(1,5)] and place = posted_def [THEN iffD1, THEN conjunct1]
  have post: "ok (\<lambda>s. armed d wr s \<and> fit live n wr s) (post_send P wr) (\<lambda>s. posted d (-1) s \<and> typed live n s)"
    by (rule sound_conj [OF _ post_counts [OF D(1)], THEN sound_weaken, OF post_fit [OF c]])
      (auto simp: armed_def quiet_def fit_def)
  have incr: "ok (\<lambda>s. posted d (-1) s \<and> typed live n s) (assign (\<lambda>s. s\<lparr>pendingReads := pendingReads s + 1\<rparr>))
      (\<lambda>s. posted d 0 s \<and> typed live n s)"
    by (rule sound_never [OF triple_assign never_basic(2)]) (simp add: posted_def balance_def)
  have wait: "ok (\<lambda>s. posted d 0 s \<and> typed live n s) (await env b) (\<lambda>s. (posted d 0 s \<and> b s) \<and> typed live n s)"
    by (rule typed_wait [OF c kept place]) auto
  show ?thesis
    by (rule typed_step [OF c armed_kept [OF D(1,5) wr] _ fit_kept [OF c wr] post
          typed_step [OF c kept place typed_kept(1) [OF c] incr
          typed_step [OF c kept place typed_kept(1) [OF c] wait rest]]])
      (simp_all add: armed_def quiet_def)
qed

lemma clear_typed:
  "ok (\<lambda>s. quiet d s \<and> typed live n s) (assign (\<lambda>s. s\<lparr>RDMA_READ_COMPLETE := False\<rparr>))
     (\<lambda>s. (quiet d s \<and> \<not> RDMA_READ_COMPLETE s) \<and> typed live n s)"
  by (rule sound_never [OF triple_assign never_basic(2)]) (simp add: quiet_def balance_def)

lemma triple_conj: "triple p c q \<Longrightarrow> triple p' c q' \<Longrightarrow> triple (\<lambda>s. p s \<and> p' s) c (\<lambda>s. q s \<and> q' s)"
  by (auto simp: triple_def)

lemma never_requests: "never e (rdma_request op)" "never e class_request" "never e (sketch_request i)"
  by (auto simp: rdma_request_def class_request_def sketch_request_def intro!: never_rules)

lemma rdma_read_typed:
  assumes c: "types_contract P d live env"
  shows "ok (\<lambda>s. quiet d s \<and> typed live n s) (client_rdma_read P env) (\<lambda>s. settled d s \<and> typed live n s)"
proof -
  note D = types_contractD [OF c]
  note kept = quiet_kept [OF D(1,5)] and place = quiet_def [THEN iffD1, THEN conjunct1]
  let ?got = "\<lambda>s. typed live n s \<and> GET_RDMA_ADDR s"
  have got: "?got t" if "?got s" "in_place d (mach s)" "env s = Inr t" for s t
    using that typed_kept(1,3) [OF c] by blast
  have known: "ok (\<lambda>s. quiet d s \<and> typed live n s) (exit_if (\<lambda>s. \<not> GET_RDMA_ADDR s) No_remote_addr) (\<lambda>s. quiet d s \<and> ?got s)"
    by (rule sound_never [OF triple_exit_if never_basic(4)]) auto
  have clear: "ok (\<lambda>s. quiet d s \<and> ?got s) (assign (\<lambda>s. s\<lparr>RDMA_READ_COMPLETE := False\<rparr>))
      (\<lambda>s. (quiet d s \<and> \<not> RDMA_READ_COMPLETE s) \<and> ?got s)"
    by (rule sound_never [OF triple_assign never_basic(2)]) (simp add: quiet_def balance_def)
  have request: "ok (\<lambda>s. (quiet d s \<and> \<not> RDMA_READ_COMPLETE s) \<and> ?got s) (rdma_request IBV_WR_RDMA_READ)
      (\<lambda>s. armed d rdma_sq_wr_addr s \<and> fit live n rdma_sq_wr_addr s)"
    by (rule sound_never [OF triple_conj [OF requests_arm(1) rdma_request_fit] never_requests(1)])
  have last: "ok (\<lambda>s. (posted d 0 s \<and> \<not> 0 < pendingReads s) \<and> typed live n s) (thread env []) (\<lambda>s. settled d s \<and> typed live n s)"
    by (rule sound_thread_Nil) (use posted_settled in blast)
  show ?thesis
    unfolding client_rdma_read_def
    by (rule typed_step [OF c kept(1) place typed_kept(1) [OF c] known
          typed_step [OF c kept(1) place got clear
          typed_step [OF c kept(2) _ got request counted_fit [OF c own_requests(1) last]]]])
      (simp_all add: quiet_def)
qed

lemma ow_read_element_typed:
  assumes c: "types_contract P d live env" and i: "i < nat n"
  shows "ok (\<lambda>s. quiet d s \<and> typed live n s) (ow_read_element P env i) (\<lambda>s. quiet d s \<and> typed live n s)"
proof -
  note D = types_contractD [OF c]
  note kept = quiet_kept [OF D(1,5)] and place = quiet_def [THEN iffD1, THEN conjunct1]
  have request: "ok (\<lambda>s. (quiet d s \<and> \<not> RDMA_READ_COMPLETE s) \<and> typed live n s) (sketch_request i)
      (\<lambda>s. armed d (\<lambda>s. sketch_wr_addr (sketch_info s)) s \<and> fit live n (\<lambda>s. sketch_wr_addr (sketch_info s)) s)"
    by (rule sound_never [OF triple_conj [OF requests_arm(3) sketch_request_fit [OF i]] never_requests(3)])
  have last: "ok (\<lambda>s. (posted d 0 s \<and> RDMA_READ_COMPLETE s) \<and> typed live n s) (thread env []) (\<lambda>s. quiet d s \<and> typed live n s)"
    by (rule sound_thread_Nil) (use posted_quiet in blast)
  show ?thesis
    unfolding ow_read_element_def
    by (rule typed_step [OF c kept(1) place typed_kept(1) [OF c] clear_typed
          typed_step [OF c kept(2) _ typed_kept(1) [OF c] request counted_fit [OF c own_requests(3) last]]])
      (simp_all add: quiet_def)
qed

lemma ow_read_typed:
  assumes c: "types_contract P d live env"
  shows "ok (\<lambda>s. settled d s \<and> typed live n s) (ow_read P env) (\<lambda>s. settled d s \<and> typed live n s)"
proof -
  note D = types_contractD [OF c]
  note kept = quiet_kept [OF D(1,5)] and place = quiet_def [THEN iffD1, THEN conjunct1]
    and place' = settled_def [THEN iffD1, THEN conjunct1]
  have reset: "ok (\<lambda>s. settled d s \<and> typed live n s) (assign (\<lambda>s. s\<lparr>pendingReads := 0\<rparr>)) (\<lambda>s. quiet d s \<and> typed live n s)"
    by (rule sound_never [OF triple_assign never_basic(2)]) (auto simp: settled_def quiet_def balance_def)
  have each: "ok (\<lambda>s. quiet d s \<and> typed live n s) (for_each [0..<nat n] (ow_read_element P env)) (\<lambda>s. quiet d s \<and> typed live n s)"
    by (rule sound_for_each) (simp add: ow_read_element_typed [OF c])
  have size: "typed live n s \<Longrightarrow> sk_data_size (sketch_info s) = n" for s by (simp add: typed_def laid_out_def)
  have loop: "ok (\<lambda>s. quiet d s \<and> typed live n s)
      (\<lambda>s. for_each [0..<nat (sk_data_size (sketch_info s))] (ow_read_element P env) s) (\<lambda>s. quiet d s \<and> typed live n s)"
    using each size unfolding sound_def triple_def by metis
  have final: "ok (\<lambda>s. quiet d s \<and> typed live n s) (await env (\<lambda>s. \<not> 0 < pendingReads s)) (\<lambda>s. settled d s \<and> typed live n s)"
    by (rule typed_wait [OF c kept(1) place]) (auto simp: settled_def quiet_def balance_def split: if_splits)
  show ?thesis
    unfolding ow_read_def
    by (rule typed_step [OF c kept(3) place' typed_kept(1) [OF c] reset
          typed_step [OF c kept(1) place typed_kept(1) [OF c] loop
          typed_step [OF c kept(1) place typed_kept(1) [OF c] final sound_thread_Nil]]])
qed

lemma malloc_types:
  assumes "reg_contract P live" and "lib_malloc P k m = (r, m')"
  shows "mr_at m' = mr_at m" and "live (world m') = live (world m)"
  using assms unfolding reg_contract_def by blast+

lemma class_objects_typed:
  assumes c: "types_contract P d live env"
  shows "triple (typed live n)
      (ep_lib (\<lambda>s. operator_new P sizeof_rdma_test) (\<lambda>r. block
        [exit_if (\<lambda>_. r = 0) Bad_alloc,
         (\<lambda>s. case RdmaTest_ctor P r 0 0 0 (mach s) of
                None \<Rightarrow> fail Bad_alloc s
              | Some m \<Rightarrow> skip (put_mach m s))])) (typed live n)"
    and "triple (typed live n)
      (ep_lib (\<lambda>s. lib_malloc P (2 * 16))
        (\<lambda>r. assign (\<lambda>s. s\<lparr>class_info := (class_info s)\<lparr>test_sgl := r\<rparr>\<rparr>))) (typed live n)"
proof -
  note R = types_contractD(3) [OF c]
  have ctor: "mr_at m' = mr_at m \<and> live (world m') = live (world m)" if "RdmaTest_ctor P r 0 0 0 m = Some m'" for r m m'
    using that malloc_types [OF R]
    by (auto simp: RdmaTest_ctor_def operator_new_def Let_def split: prod.splits if_splits)
  show "triple (typed live n)
      (ep_lib (\<lambda>s. operator_new P sizeof_rdma_test) (\<lambda>r. block
        [exit_if (\<lambda>_. r = 0) Bad_alloc,
         (\<lambda>s. case RdmaTest_ctor P r 0 0 0 (mach s) of
                None \<Rightarrow> fail Bad_alloc s
              | Some m \<Rightarrow> skip (put_mach m s))])) (typed live n)"
  proof (unfold triple_def, intro allI impI)
    fix s t assume s: "typed live n s" and run: "ep_lib (\<lambda>s. operator_new P sizeof_rdma_test) (\<lambda>r. block
        [exit_if (\<lambda>_. r = 0) Bad_alloc,
         (\<lambda>s. case RdmaTest_ctor P r 0 0 0 (mach s) of
                None \<Rightarrow> fail Bad_alloc s
              | Some m \<Rightarrow> skip (put_mach m s))]) s = Some (Inr t)"
    then obtain k r m m' where "lib_malloc P k (mach s) = (r, m)" "RdmaTest_ctor P r 0 0 0 m = Some m'"
      "t = put_mach m' (put_mach m s)"
      by (auto simp: lib_run block_Cons block_Nil seq_def exit_if_def fail_def skip_run operator_new_def
          split: prod.splits if_splits option.splits)
    with malloc_types [OF R this(1)] ctor [OF this(2)] s typed_put(1) [of m' "put_mach m s" live n] typed_put(1) [of m s live n]
    show "typed live n t" by (simp add: put_mach_def)
  qed
  show "triple (typed live n)
      (ep_lib (\<lambda>s. lib_malloc P (2 * 16))
        (\<lambda>r. assign (\<lambda>s. s\<lparr>class_info := (class_info s)\<lparr>test_sgl := r\<rparr>\<rparr>))) (typed live n)"
    using malloc_types [OF R]
    by (auto simp: triple_def lib_run assign_run typed_put split: prod.splits)
qed

lemma never_objects:
  "never Post_send_error
      (ep_lib (\<lambda>s. operator_new P sizeof_rdma_test) (\<lambda>r. block
        [exit_if (\<lambda>_. r = 0) Bad_alloc,
         (\<lambda>s. case RdmaTest_ctor P r 0 0 0 (mach s) of
                None \<Rightarrow> fail Bad_alloc s
              | Some m \<Rightarrow> skip (put_mach m s))]))"
  by (rule never_lib, rule never_block)
    (auto simp: never_def stmt_simps split: option.splits if_splits)

lemma read_class_typed:
  assumes c: "types_contract P d live env"
  shows "ok (\<lambda>s. quiet d s \<and> typed live n s) (read_class P env (\<lambda>_. skip)) (\<lambda>s. settled d s \<and> typed live n s)"
proof -
  note D = types_contractD [OF c]
  note kept = quiet_kept [OF D(1,5)] and place = quiet_def [THEN iffD1, THEN conjunct1]
    and place' = settled_def [THEN iffD1, THEN conjunct1] and typs = typed_kept(1) [OF c]
  let ?store = "on_mach (\<lambda>s. on_mem (\<lambda>mm. store_word mm (class_recv_data (class_info s) + 16) (class_recv_buf (class_info s))))"
  have object: "ok (\<lambda>s. quiet d s \<and> typed live n s) e (\<lambda>s. quiet d s \<and> typed live n s)"
    if "triple (quiet d) e (quiet d)" "triple (typed live n) e (typed live n)" "never Post_send_error e" for e
    by (rule sound_never [OF triple_conj [OF that(1,2)] that(3)])
  have entries: "never Post_send_error (ep_lib (\<lambda>s. lib_malloc P (2 * 16))
      (\<lambda>r. assign (\<lambda>s. s\<lparr>class_info := (class_info s)\<lparr>test_sgl := r\<rparr>\<rparr>)))"
    by (rule never_lib, rule never_basic(2))
  have request: "ok (\<lambda>s. (quiet d s \<and> \<not> RDMA_READ_COMPLETE s) \<and> typed live n s) class_request
      (\<lambda>s. armed d (\<lambda>s. test_class_wr_addr (class_info s)) s \<and> fit live n (\<lambda>s. test_class_wr_addr (class_info s)) s)"
    by (rule sound_never [OF triple_conj [OF requests_arm(2) class_request_fit] never_requests(2)])
  have store: "ok (\<lambda>s. settled d s \<and> typed live n s) ?store (\<lambda>s. settled d s \<and> typed live n s)"
    by (rule sound_never [OF _ never_basic(3)]) (simp add: triple_def on_mach_def on_mem_def settled_def in_place_def typed_put(2))
  have result: "ok (\<lambda>s. settled d s \<and> typed live n s)
      (\<lambda>s. (\<lambda>_. skip) (rdma_test_at (mem (mach s)) (class_recv_data (class_info s))) s) (\<lambda>s. settled d s \<and> typed live n s)"
    by (simp add: sound_def triple_def skip_run)
  have last: "ok (\<lambda>s. (posted d 0 s \<and> \<not> 0 < pendingReads s) \<and> typed live n s) (thread env
      [?store, (\<lambda>s. (\<lambda>_. skip) (rdma_test_at (mem (mach s)) (class_recv_data (class_info s))) s)])
      (\<lambda>s. settled d s \<and> typed live n s)"
    by (rule sound_weaken [OF typed_step [OF c kept(3) place' typs store typed_step [OF c kept(3) place' typs result sound_thread_Nil]]])
      (auto dest: posted_settled)
  show ?thesis
    unfolding read_class_def
    by (rule typed_step [OF c kept(1) place typs object [OF class_objects(1) [OF D(1)] class_objects_typed(1) [OF c] never_objects]
          typed_step [OF c kept(1) place typs object [OF class_objects(2) [OF D(1)] class_objects_typed(2) [OF c] entries]
          typed_step [OF c kept(1) place typs clear_typed
          typed_step [OF c kept(2) _ typs request counted_fit [OF c own_requests(2) last]]]]])
      (simp_all add: quiet_def)
qed

text \<open>The advertisement of the client, a SEND that \<open>setup_buffer\<close> has prepared.\<close>

lemma own_sq: "own_request sq_wr_addr"
  by (auto simp: own_request_def requests_def)

lemma client_advertise_typed:
  assumes c: "types_contract P d live env"
  shows "ok (\<lambda>s. settled d s \<and> fit live n sq_wr_addr s) (client_advertise P env) (\<lambda>s. settled d s \<and> typed live n s)"
proof -
  note D = types_contractD [OF c]
  note kept = quiet_kept(3) [OF D(1,5)] and place' = settled_def [THEN iffD1, THEN conjunct1]
    and fits = fit_kept [OF c own_sq] and typs = typed_kept [OF c]
  let ?sf = "\<lambda>s. settled d s \<and> fit live n sq_wr_addr s" and ?t = "\<lambda>s. in_place d (mach s) \<and> typed live n s"
  let ?store = "on_mach (\<lambda>s m. on_mem (store_rdma_info (send_buf_addr s) (start_buf s)
      (mr_rkey (mr_at m (start_mr s))) (word_of_int (start_size s))) m)"
  let ?op = "on_mach (\<lambda>s. set_send_wr (sq_wr_addr s) (\<lambda>w. w\<lparr>send_wr_opcode := IBV_WR_SEND\<rparr>))"
  have store: "ok ?sf ?store ?sf"
    by (rule sound_never [OF _ never_basic(3)])
      (simp add: triple_def on_mach_def on_mem_def settled_def in_place_def fit_def typed_put(2) well_formed_def
        local_ranges_def covered_def)
  have request: "ok ?sf ?op ?sf"
    by (rule sound_never [OF _ never_basic(3)])
      (simp add: triple_def on_mach_def set_send_wr_def settled_def in_place_def fit_def typed_put(2) well_formed_def
        local_ranges_def covered_def)
  have post: "ok ?sf (post_send P sq_wr_addr) ?t"
  proof -
    have "triple ?sf (post_send P sq_wr_addr) (\<lambda>s. in_place d (mach s))"
      using accepts_leaves(11) [OF D(4)] regs_in_place
      by (fastforce simp: triple_def post_send_def lib_run exit_if_def leaves_def settled_def put_mach_def
          split: prod.splits if_splits)
    from sound_conj [OF post_fit [OF c, of n sq_wr_addr] this] show ?thesis
      by (rule sound_weaken) (auto simp: settled_def)
  qed
  have wait: "ok ?t (await env GET_RDMA_ADDR) (typed live n)"
    by (rule typed_wait [OF c, where b = "\<lambda>s. in_place d (mach s)"]) (use env_keeps(1) [OF D(1,5)] in auto)
  have "ok ?sf (client_advertise P env) (typed live n)"
    unfolding client_advertise_def
    by (rule typed_step [OF c kept place' fits store typed_step [OF c kept place' fits request
          typed_step [OF c kept place' fits post typed_step [where b = "\<lambda>s. in_place d (mach s)", OF c _ _ typs(1) wait sound_thread_Nil]]]])
      (use env_keeps(1) [OF D(1,5)] in auto)
  from sound_conj [OF this client_advertise_settled [OF D(1,5)]] show ?thesis
    by (rule sound_weaken) simp_all
qed

subsection \<open>The start\<close>

text \<open>Before the buffers are registered: where things are, and what is known of the peer.\<close>

definition laid :: "int \<Rightarrow> 'w client \<Rightarrow> bool" where
  "laid n s \<longleftrightarrow> laid_out n s \<and> modest s"

definition same_wires :: "'w client \<Rightarrow> 'w client \<Rightarrow> bool" where
  "same_wires s t \<longleftrightarrow> wires t = wires s"

definition same_laid :: "'w client \<Rightarrow> 'w client \<Rightarrow> bool" where
  "same_laid s t \<longleftrightarrow> wires t = wires s \<and> (modest s \<longrightarrow> modest t)"

interpretation wiring: frame same_wires
  by unfold_locales (simp_all add: same_wires_def)

interpretation laying: start_frame same_laid
proof
  show "same_laid s u" if "same_laid s t" "same_laid t u" for s t u :: "'a client"
    using that by (simp add: same_laid_def)
qed (simp_all add: same_laid_def wires_def modest_def)

lemma laid_same: "same_laid s t \<Longrightarrow> laid n s \<Longrightarrow> laid n t"
  using laid_out_wires [of t s n] by (simp add: laid_def same_laid_def)

lemma same_put_mach: "same_wires s (put_mach m s)" "same_laid s (put_mach m s)"
  by (simp_all add: same_wires_def same_laid_def wires_def modest_def put_mach_def)

lemma wires_lib: "(\<And>r. within same_wires (k r)) \<Longrightarrow> within same_wires (ep_lib f k)"
  by (rule wiring.within_lib) (simp_all add: same_put_mach)

lemma laid_lib: "(\<And>r. within same_laid (k r)) \<Longrightarrow> within same_laid (ep_lib f k)"
  by (rule laying.within_lib) (simp_all add: same_put_mach)

lemma threads_wires: "within same_wires (client_cm_thread P)" "within same_wires (client_cq_thread P)"
proof -
  note w = same_wires_def wires_def
  have event: "within same_wires (client_cm_event P ev)" for ev
    unfolding client_cm_event_def
    by (auto simp: w split: rdma_cm_event_type.split intro!: wiring.within_skip wiring.within_exit_if wiring.within_block wires_lib within_assign)
  show "within same_wires (client_cm_thread P)"
    unfolding client_cm_thread_def
    by (auto split: prod.splits intro!: wires_lib wiring.within_block wiring.within_exit_if within_state [OF event])
  have wait: "within same_wires (cq_wait P)" and ack: "within same_wires (cq_ack P)"
    unfolding cq_wait_def cq_ack_def request_notify_def
    by (auto simp: w split: prod.splits
        intro!: wiring.within_skip wiring.within_exit_if wiring.within_block wires_lib within_assign)
  have completion: "within same_wires (client_completion P wc)" for wc
    unfolding client_completion_def recv_handler_def
    by (auto simp: w Let_def split: ibv_wc_opcode.split
        intro!: wiring.within_skip wiring.within_exit_if wiring.within_block wiring.within_cond wires_lib within_assign)
  have poll: "within same_wires (client_poll P)"
    unfolding client_poll_def by (auto simp: ack intro!: wires_lib within_state [OF completion])
  have count: "within same_wires (assign (\<lambda>s. s\<lparr>pendingReads := pendingReads s - 1, cq_pc := Cq_poll\<rparr>))"
    by (rule within_assign) (simp add: w)
  show "within same_wires (client_cq_thread P)"
    using wait poll count wiring.within_skip
    by (auto simp: within_def client_cq_thread_def split: cq_pc.splits)
qed

lemma env_wires:
  assumes "client_env_step P dev s t"
  shows "same_wires s t"
  using assms
proof cases
  case (device m)
  then show ?thesis by (simp add: same_wires_def wires_def)
qed (blast intro: withinD [OF threads_wires(1)] withinD [OF threads_wires(2)])+

lemma laid_kept:
  assumes c: "types_contract P d live env" and s: "laid n s" and t: "env s = Inr t"
  shows "laid n t"
proof -
  note D = types_contractD [OF c]
  have "same_wires s t"
    by (rule runs_beside_inv [OF D(5) t, where i = "same_wires s"])
      (use wiring.same_refl wiring.same_trans env_wires in blast)+
  then have "wires t = wires s" by (simp add: same_wires_def)
  moreover have "modest t" using s D(7) [OF t] by (simp add: laid_def)
  ultimately show ?thesis using s laid_out_wires [of t s n] by (simp add: laid_def)
qed

lemma setup_laid:
  assumes "access_optional_range P = optional_range"
  shows "within same_laid (client_setup_buffer P)"
proof -
  note w = same_laid_def wires_def modest_def
  have prepare: "within same_laid (prepare_requests op)" for op
    unfolding prepare_requests_def
    by (auto intro!: laying.within_block within_on_mach simp: w)
  have malloc: "within same_laid (ep_lib (\<lambda>s. lib_malloc P k) (\<lambda>r. assign (f r)))"
    if "\<And>r s. same_laid s (f r s)" for k f
    by (rule laid_lib, rule within_assign, rule that)
  have class_mr: "within same_laid (register P addr len rw_access store)"
    if "\<And>r s. same_laid s (store r s)" for addr len store
    by (rule laying.register_within [OF assms no_optional(3) same_put_mach(2) that])
  have buffers: "within same_laid (register_buffers P)"
    by (rule laying.register_buffers_within [OF assms same_put_mach(2)])
  show ?thesis
    unfolding client_setup_buffer_def
    by (auto simp: w intro!: laying.within_block buffers prepare malloc class_mr)
qed

lemma setup_fit:
  assumes c: "types_contract P d live env"
  shows "triple (\<lambda>s. in_place d (mach s) \<and> laid n s) (client_setup_buffer P) (\<lambda>s. in_place d (mach s) \<and> fit live n sq_wr_addr s)"
proof (unfold triple_def, intro allI impI)
  note D = types_contractD [OF c]
  fix s t assume s: "in_place d (mach s) \<and> laid n s" and run: "client_setup_buffer P s = Some (Inr t)"
  have l: "distinct [recv_sgl_addr s, send_sgl_addr s, rdma_sgl_addr s]" "sq_wr_addr s \<noteq> rdma_sq_wr_addr s"
    using s by (simp_all add: laid_def laid_out_def)
  have t: "client_regions live t" "entries_ready IBV_WR_SEND t"
    using client_setup_buffer_regions [OF D(3) l run] by simp_all
  have "laid n t"
    using s laid_same [OF withinD [OF setup_laid run]] starts_contractD(11) [OF D(2)] by blast
  with t(1) have typed: "typed live n t" by (simp add: typed_def laid_def)
  have "well_formed live (mach t) (sq_wr_addr t)"
    using t unfolding well_formed_def entries_ready_def local_ranges_def client_regions_def base_regions_def region_def
    by (auto simp: Let_def)
  moreover have "in_place d (mach t)"
    using s withinD [OF client_setup_buffer_stays [OF D(1,2)] run] by (simp add: same_ready_def in_place_def)
  ultimately show "in_place d (mach t) \<and> fit live n sq_wr_addr t" using typed by (simp add: fit_def)
qed

lemma make_queues_fit:
  assumes c: "types_contract P d live env"
  shows "triple (laid n) (client_make_queues P env) (\<lambda>s. in_place d (mach s) \<and> fit live n sq_wr_addr s)"
proof -
  note D = types_contractD [OF c] and w = same_laid_def wires_def modest_def
  let ?pl = "\<lambda>s. in_place d (mach s) \<and> laid n s" and ?pf = "\<lambda>s. in_place d (mach s) \<and> fit live n sq_wr_addr s"
  have kept: "?pl t" if "?pl s" "env s = Inr t" for s t
    using that laid_kept [OF c] env_keeps(1) [OF D(1,5)] by blast
  have kept': "?pf t" if "?pf s" "env s = Inr t" for s t
    using that fit_kept [OF c own_sq] env_keeps(1) [OF D(1,5)] by blast
  have early: "triple (laid n) (thread env (e # cs)) q"
    if "within same_laid e" "triple (laid n) (thread env cs) q" for e cs q
    by (rule triple_thread_Cons [OF laid_kept [OF c] within_triple [OF that(1)] that(2)]) (auto intro: laid_same)
  have store: "within same_laid (block [assign f, exit_if b e])" if "\<And>s. same_laid s (f s)" for f b e
    using that by (auto intro!: laying.within_block laying.within_exit_if within_assign)
  have pair: "triple (laid n) (ep_lib (\<lambda>s. lib_rdma_create_qp P (cm_id s) (pd s) (init_attr 10 (cq s)))
      (\<lambda>ret. exit_if (\<lambda>_. ret \<noteq> 0) Create_qp_error)) ?pl"
    using starts_contractD(10) [OF D(2)] laid_same [OF same_put_mach(2)]
    by (auto simp: triple_def lib_run exit_if_def split: prod.splits if_splits)
  have member: "triple ?pl (assign (\<lambda>s. s\<lparr>qp := cm_id_qp (cm_id_at (mach s) (cm_id s))\<rparr>)) ?pl"
    by (rule triple_assign) (simp add: laid_def laid_out_def modest_def)
  have receive: "triple ?pf (ep_lib (\<lambda>s. ibv_post_recv P (qp s) (rq_wr_addr s) (bad_wr_addr s)) (\<lambda>ret. skip)) ?pf"
  proof (unfold triple_def, intro allI impI)
    fix s t assume s: "?pf s" and run: "ep_lib (\<lambda>s. ibv_post_recv P (qp s) (rq_wr_addr s) (bad_wr_addr s)) (\<lambda>ret. skip) s = Some (Inr t)"
    then obtain r m where post: "ibv_post_recv P (qp s) (rq_wr_addr s) (bad_wr_addr s) (mach s) = (r, m)" and t: "t = put_mach m s"
      by (auto simp: lib_run skip_run split: prod.splits)
    have r: "regs live m = regs live (mach s)"
      using accepts_leaves(10) [OF D(4)] post s unfolding leaves_def by blast
    have "typed live n t" using s r typed_put(1) [of m s live n] t by (simp add: fit_def regs_def)
    moreover have "well_formed live m (sq_wr_addr s)" using s well_formed_regs [OF r] by (simp add: fit_def)
    ultimately show "?pf t" using s r regs_in_place [OF r] t by (simp add: fit_def put_mach_def)
  qed
  show ?thesis
    unfolding client_make_queues_def request_notify_def
    by (rule early laid_lib laying.within_exit_if store within_assign triple_thread_Cons [OF laid_kept [OF c] pair]
        triple_thread_Cons [OF kept member] triple_thread_Cons [OF kept setup_fit [OF c]]
        triple_thread_Cons [OF kept' receive triple_thread_Nil] | simp add: w)+
qed

text \<open>The start posts nothing but the advertisement.\<close>

lemma never_resolve: "never Post_send_error (resolve_sin P)"
proof -
  have copy: "never Post_send_error (copy_sockaddr family src)" for family src
    by (simp add: copy_sockaddr_def never_basic)
  have lookup: "never Post_send_error (\<lambda>s. case addrinfo_at (mach s) res of (family, src) \<Rightarrow> copy_sockaddr family src s)" for res
    using copy by (auto simp: never_def split: prod.splits)
  show ?thesis
    unfolding resolve_sin_def
    by (auto split: prod.splits intro!: never_rules lookup)
qed

lemma never_setup: "never Post_send_error (client_setup_buffer P)"
  unfolding client_setup_buffer_def register_buffers_def register_def prepare_requests_def
  by (auto intro!: never_rules)

lemma never_start:
  assumes "\<And>s. env s \<noteq> Inl Post_send_error"
  shows "never Post_send_error (client_bindaddr P env)" and "never Post_send_error (client_make_queues P env)"
  unfolding client_bindaddr_def client_make_queues_def request_notify_def
  by (rule never_thread [OF assms], auto intro!: never_rules never_resolve never_setup never_await [OF assms])+

lemma bindaddr_laid:
  assumes c: "types_contract P d live env"
  shows "triple (laid n) (client_bindaddr P env) (laid n)"
proof -
  have resolve: "within same_laid (resolve_sin P)"
    by (rule laying.resolve_sin_within) (simp_all add: same_put_mach)
  have route: "within same_laid (ep_lib (\<lambda>s. lib_resolve_addr P (cm_id s) 0 (sin s) 2000) (\<lambda>ret. exit_if (\<lambda>_. ret \<noteq> 0) Resolve_addr_error))"
    by (auto intro!: laid_lib laying.within_exit_if)
  have wait: "triple (laid n) (await env (\<lambda>s. cstate s = ROUTE_RESOLVED)) (laid n)"
    by (rule triple_await [OF laid_kept [OF c]])
  show ?thesis
    unfolding client_bindaddr_def
    by (rule triple_thread_Cons [OF laid_kept [OF c] within_triple [OF resolve laid_same]]
        triple_thread_Cons [OF laid_kept [OF c] within_triple [OF route laid_same]]
        triple_thread_Cons [OF laid_kept [OF c] wait triple_thread_Nil] | assumption)+
qed

lemma connect_fit:
  assumes c: "types_contract P d live env"
  shows "triple (\<lambda>s. settled d s \<and> fit live n sq_wr_addr s) (ep_lib (\<lambda>s. lib_connect P (cm_id s) client_conn_param) (\<lambda>ret. exit_if (\<lambda>_. ret \<noteq> 0) Connect_error)) (fit live n sq_wr_addr)"
proof (unfold triple_def, intro allI impI)
  note D = types_contractD [OF c]
  fix s t assume s: "settled d s \<and> fit live n sq_wr_addr s" and run: "ep_lib (\<lambda>s. lib_connect P (cm_id s) client_conn_param) (\<lambda>ret. exit_if (\<lambda>_. ret \<noteq> 0) Connect_error) s = Some (Inr t)"
  then obtain r m where call: "lib_connect P (cm_id s) client_conn_param (mach s) = (r, m)" and t: "t = put_mach m s"
    by (auto simp: lib_run exit_if_def split: prod.splits if_splits)
  have r: "regs live m = regs live (mach s)"
    using accepts_leaves(7) [OF D(4)] call s unfolding leaves_def settled_def by blast
  show "fit live n sq_wr_addr t"
    using s r typed_put(1) [of m s live n] well_formed_regs [OF r] t by (simp add: fit_def regs_def put_mach_def)
qed

lemma client_start_typed:
  assumes c: "types_contract P d live env"
  shows "ok (\<lambda>s. fresh d s \<and> laid n s) (client_start P env) (\<lambda>s. settled d s \<and> typed live n s)"
proof -
  note D = types_contractD [OF c] and w = same_laid_def wires_def modest_def
  note kept = quiet_kept(3) [OF D(1,5)] and place' = settled_def [THEN iffD1, THEN conjunct1]
    and fits = fit_kept [OF c own_sq]
  let ?fl = "\<lambda>s. fresh d s \<and> laid n s" and ?sf = "\<lambda>s. settled d s \<and> fit live n sq_wr_addr s"
  have early: "ok ?fl e ?fl" if "triple (fresh d) e (fresh d)" "within same_laid e" "never Post_send_error e" for e
    by (rule sound_never [OF triple_conj [OF that(1) within_triple [OF that(2) laid_same]] that(3)])
  have channel: "within same_laid (ep_lib (\<lambda>s. create_first_event_channel P) (\<lambda>(ch, msg). assign (\<lambda>s. s\<lparr>cm_channel := ch\<rparr>)))"
    "never Post_send_error (ep_lib (\<lambda>s. create_first_event_channel P) (\<lambda>(ch, msg). assign (\<lambda>s. s\<lparr>cm_channel := ch\<rparr>)))"
    by (auto simp: w split: prod.splits intro!: laid_lib within_assign never_rules)
  have ident: "within same_laid (ep_lib (\<lambda>s. lib_create_id P (cm_channel s) 0 RDMA_PS_TCP) (\<lambda>(ret, i). block
      [assign (\<lambda>s. s\<lparr>cm_id := i\<rparr>), exit_if (\<lambda>_. ret \<noteq> 0) Create_id_error]))"
    "never Post_send_error (ep_lib (\<lambda>s. lib_create_id P (cm_channel s) 0 RDMA_PS_TCP) (\<lambda>(ret, i). block
      [assign (\<lambda>s. s\<lparr>cm_id := i\<rparr>), exit_if (\<lambda>_. ret \<noteq> 0) Create_id_error]))"
    by (auto simp: w split: prod.splits
        intro!: laid_lib within_assign laying.within_block laying.within_exit_if never_rules)
  from triple_conj [OF client_bindaddr_fresh [OF D(1,2,5)] bindaddr_laid [OF c]] have bind: "ok ?fl (client_bindaddr P env) ?fl"
    by (rule sound_never) (rule never_start, rule D(6))
  have queues: "ok ?fl (client_make_queues P env) (\<lambda>s. ready d s \<and> in_place d (mach s) \<and> fit live n sq_wr_addr s)"
    by (rule sound_never [OF triple_conj [OF client_make_queues_ready [OF D(1,2,5)] make_queues_fit [OF c]] never_start(2) [OF D(6)]])
  have thread: "ok (\<lambda>s. ready d s \<and> in_place d (mach s) \<and> fit live n sq_wr_addr s) (assign (\<lambda>s. s\<lparr>cq_pc := Cq_wait\<rparr>)) ?sf"
    by (rule sound_never [OF triple_assign never_basic(2)]) (simp add: ready_def fresh_def settled_def fit_def)
  have connect: "ok ?sf (ep_lib (\<lambda>s. lib_connect P (cm_id s) client_conn_param) (\<lambda>ret. exit_if (\<lambda>_. ret \<noteq> 0) Connect_error)) ?sf"
    using start_calls(3) [OF D(2)] connect_fit [OF c] by (intro sound_never never_lib never_basic(4)) (auto simp: triple_def)
  have connected: "ok ?sf (await env (\<lambda>s. cstate s = CONNECTED)) ?sf"
  proof (rule sound_weaken [OF sound_await [OF D(6), where p = ?sf]])
    show "?sf t" if "?sf s" "env s = Inr t" for s t
      using that kept [of s t] fits [of n s t] place' [of d s] by blast
  qed auto
  show ?thesis
    unfolding client_start_def
    by (rule sound_block_Cons [OF early [OF start_calls(1) [OF D(2)] channel]
        sound_block_Cons [OF early [OF start_calls(2) [OF D(2)] ident]
        sound_block_Cons [OF bind sound_block_Cons [OF queues sound_block_Cons [OF thread
        sound_block_Cons [OF typed_step [OF c kept place' fits connect typed_step [OF c kept place' fits connected sound_thread_Nil]]
        sound_block_Cons [OF client_advertise_typed [OF c] sound_block_Nil]]]]]]]) simp
qed

text \<open>
  C6: Well-formed requests do not go wrong: on a device that accepts every request whose entries lie in
  registered regions with their keys, \<open>main\<close> of the client, from its start up to its last loop, never
  exits because \<open>ibv_post_send\<close> has failed, whatever the other threads and the device do; and if it gets to
  the last loop, its seven buffers are still registered.  The peer must not advertise more than
  \<open>rdma_size\<close> bytes, and the entries and the requests of the object must not overlap.
\<close>

theorem client_session_typed:
  assumes "reads_contract P d" and "starts_contract P d" and "reg_contract P live" and "accepts P d live"
    and "runs_beside (client_env_step P (dev_step d)) env" and "\<forall>s. env s \<noteq> Inl Post_send_error"
    and "\<forall>s t. env s = Inr t \<longrightarrow> modest s \<longrightarrow> modest t"
    and "outstanding d (mach s) = 0" and "pendingReads s = 0" and "cq_pc s = Cq_none" and "\<not> GET_RDMA_ADDR s"
    and "laid_out n s"
  shows "client_session P env s \<noteq> Some (Inl Post_send_error) \<and>
    (\<forall>t. client_session P env s = Some (Inr t) \<longrightarrow> client_regions live t)"
proof -
  have c: "types_contract P d live env" using assms(1-7) by (simp add: types_contract_def)
  note D = types_contractD [OF c]
  note kept = quiet_kept(3) [OF D(1,5)] and place' = settled_def [THEN iffD1, THEN conjunct1] and typs = typed_kept(1) [OF c]
  let ?st = "\<lambda>s. settled d s \<and> typed live n s"
  have read: "ok ?st (client_rdma_read P env) ?st"
    by (rule sound_weaken [OF rdma_read_typed [OF c]]) (simp_all add: settled_iff)
  have read_class: "ok ?st (read_class P env (\<lambda>_. skip)) ?st"
    by (rule sound_weaken [OF read_class_typed [OF c]]) (simp_all add: settled_iff)
  have wait: "ok ?st (await env GET_CLASS_ADDR) ?st"
    by (rule typed_wait [OF c kept place']) auto
  have st: "?st t" if "?st s" "env s = Inr t" for s t
    using that kept [of s t] typs [of n s t] place' [of d s] by blast
  have pause: "ok ?st (interleave env) ?st"
  proof (rule sound_never)
    show "triple ?st (interleave env) ?st" by (rule triple_interleave [OF st])
    show "never Post_send_error (interleave env)" using D(6) by (simp add: never_def interleave_def)
  qed
  have rounds: "ok ?st (for_each [0..<10] (\<lambda>_. ow_read P env)) ?st"
    by (rule sound_for_each [OF ow_read_typed [OF c]])
  have "ok (\<lambda>s. fresh d s \<and> laid n s) (client_session P env) ?st"
    unfolding client_session_def
    by (rule sound_block_Cons [OF client_start_typed [OF c]] sound_block_Cons [OF read] sound_block_Cons [OF wait]
        sound_block_Cons [OF read_class] sound_block_Cons [OF pause] sound_block_Cons [OF rounds] sound_block_Nil)+
  moreover have "fresh d s \<and> laid n s" using assms(8-12) by (simp add: fresh_def laid_def modest_def)
  ultimately show ?thesis by (auto simp: sound_def triple_def typed_def)
qed

end
