(* ===== verification/Well_Formed_Example.thy ===== *)
theory Well_Formed_Example
  imports Well_Formed Regions_Example Client_Start_Example
begin

section \<open>A device that checks its requests\<close>

text \<open>
  The device of \<open>Client_Start_Example\<close> with regions as in \<open>Regions_Example\<close>: it rejects every request
  that is not well-formed.  The last part of the world is the number of regions.
\<close>

type_synonym wx_world = "nat \<times> nat \<times> nat \<times> nat"

definition wx_live :: "wx_world \<Rightarrow> ptr set" where
  "wx_live w = (case w of (reads, events, msgs, k) \<Rightarrow> rx_live k)"

definition wx_code :: "wx_world code" where
  "wx_code f args m = (case world m of (reads, events, msgs, k) \<Rightarrow>
     if f = 1 \<and> length args = 3 then
       (if 0 < reads
        then (1, m\<lparr>world := (reads - 1, events, msgs, k), wc_at := (wc_at m)(args ! 2 := (undefined :: ibv_wc)\<lparr>wc_opcode := IBV_WC_RDMA_READ\<rparr>)\<rparr>)
        else if msgs < 2
        then (1, m\<lparr>world := (0, events, Suc msgs, k), wc_at := (wc_at m)(args ! 2 := cx_wc msgs)\<rparr>)
        else (0, m))
     else if f = 2 \<and> length args = 3 then
       (if well_formed wx_live m (args ! 1)
        then (0, m\<lparr>world := (if send_wr_opcode (send_wr_at m (args ! 1)) = IBV_WR_RDMA_READ then 1 else 0, events, msgs, k)\<rparr>)
        else (22, m))
     else (0, m))"

definition wx_reg :: "ptr \<Rightarrow> u64 \<Rightarrow> (wx_world, ptr) lib" where
  "wx_reg addr len m = (case world m of (reads, events, msgs, k) \<Rightarrow>
     if k < 100
     then (of_nat (Suc k), m\<lparr>world := (reads, events, msgs, Suc k), mr_at := (mr_at m)
        (of_nat (Suc k) := (mr_at m 0)\<lparr>mr_addr := addr, mr_length := len, mr_lkey := of_nat k\<rparr>)\<rparr>)
     else (0, m))"

definition wx_platform :: "wx_world platform" where
  "wx_platform = quiet_platform\<lparr>code := wx_code, lib_reg_mr := \<lambda>pd addr len acc. wx_reg addr len,
     lib_get_cm_event := \<lambda>ch m. ((0, 9), case world m of (reads, events, msgs, k) \<Rightarrow>
       m\<lparr>world := (reads, Suc events, msgs, k), cm_event_at := (cm_event_at m)(9 := cx_event events)\<rparr>),
     lib_rdma_create_qp := \<lambda>i p a m. (0, m\<lparr>context_at := \<lambda>_. cx_context, cq_at := \<lambda>_. undefined, qp_at := \<lambda>_. undefined\<rparr>)\<rparr>"

definition wx_device :: "wx_world device" where
  "wx_device = \<lparr>dev_step = (\<lambda>_ _. False), dev_reads = fst, dev_sends = (\<lambda>_. []), dev_sent = (\<lambda>_. []),
     dev_private = (\<lambda>_. True), dev_tables = (\<lambda>_. cx_context, \<lambda>_. undefined, \<lambda>_. undefined)\<rparr>"

lemma wx_in_place:
  "in_place wx_device m \<longleftrightarrow> context_at m = (\<lambda>_. cx_context) \<and> cq_at m = (\<lambda>_. undefined) \<and> qp_at m = (\<lambda>_. undefined)"
  by (simp add: in_place_def tables_def wx_device_def)

lemma wx_outstanding: "outstanding wx_device m = fst (world m)"
  by (simp add: outstanding_def wx_device_def)

lemma wx_libs:
  "lib_get_cm_event wx_platform ch m = ((0, 9), case world m of (reads, events, msgs, k) \<Rightarrow>
       m\<lparr>world := (reads, Suc events, msgs, k), cm_event_at := (cm_event_at m)(9 := cx_event events)\<rparr>)"
  "lib_ack_cm_event wx_platform e m = (0, m)" "lib_resolve_route wx_platform i ms m = (0, m)"
  "lib_get_cq_event wx_platform ch m = ((0, 3, 0), m)" "lib_ack_cq_events wx_platform q j m = ((), m)"
  "lib_malloc wx_platform sz m = (4096, m)" "lib_create_event_channel wx_platform m = (7, m)"
  "lib_create_id wx_platform ch x ps m = ((0, 8), m)" "lib_getaddrinfo wx_platform a m = ((0, 8192), m)"
  "lib_resolve_addr wx_platform i src dst ms m = (0, m)" "lib_alloc_pd wx_platform v m = (1, m)"
  "lib_create_comp_channel wx_platform v m = (2, m)" "lib_create_cq wx_platform v n y ch vec m = (3, m)"
  "lib_rdma_create_qp wx_platform i p qa m =
     (0, m\<lparr>context_at := \<lambda>_. cx_context, cq_at := \<lambda>_. undefined, qp_at := \<lambda>_. undefined\<rparr>)"
  "lib_reg_mr wx_platform p ad len acc m = wx_reg ad len m" "lib_connect wx_platform i par m = (0, m)"
  "access_optional_range wx_platform = 0x3FF00000" "code wx_platform = wx_code"
  by (simp_all add: wx_platform_def quiet_platform_def)

lemma wx_notify: "ibv_req_notify_cq wx_platform q fl m = (0, m)"
  by (simp add: ibv_req_notify_cq_def call_int_def wx_libs wx_code_def c_int_def split: prod.splits)

lemma wx_verbs:
  assumes "context_at m = (\<lambda>_. cx_context)"
  shows "ibv_poll_cq wx_platform q n wc m = (case world m of (reads, events, msgs, k) \<Rightarrow>
      if 0 < reads
      then (1, m\<lparr>world := (reads - 1, events, msgs, k), wc_at := (wc_at m)(wc := (undefined :: ibv_wc)\<lparr>wc_opcode := IBV_WC_RDMA_READ\<rparr>)\<rparr>)
      else if msgs < 2 then (1, m\<lparr>world := (0, events, Suc msgs, k), wc_at := (wc_at m)(wc := cx_wc msgs)\<rparr>)
      else (0, m))"
    and "ibv_post_send wx_platform q wr bad m = (case world m of (reads, events, msgs, k) \<Rightarrow>
      if well_formed wx_live m wr
      then (0, m\<lparr>world := (if send_wr_opcode (send_wr_at m wr) = IBV_WR_RDMA_READ then 1 else 0, events, msgs, k)\<rparr>)
      else (22, m))"
    and "ibv_post_recv wx_platform q wr bad m = (0, m)"
  using assms
  by (simp_all add: ibv_poll_cq_def ibv_post_send_def ibv_post_recv_def call_int_def wx_libs wx_code_def cx_context_def c_int_def
      split: prod.split)

lemma wx_reads: "reads_contract wx_platform wx_device"
proof -
  have "polls_read wx_platform wx_device" "posts_read wx_platform wx_device"
    by (auto simp: polls_read_def posts_read_def wx_in_place wx_verbs tables_def wx_outstanding cx_wc_def
        split: if_splits prod.splits)
  moreover have "keeps wx_device (lib_get_cm_event wx_platform ch)" "keeps wx_device (lib_ack_cm_event wx_platform e)"
    "keeps wx_device (lib_resolve_route wx_platform i ms)" "keeps wx_device (lib_get_cq_event wx_platform ch)"
    "keeps wx_device (lib_ack_cq_events wx_platform q n)" "keeps wx_device (lib_malloc wx_platform k)"
    for ch e i ms q n k
    by (auto simp: keeps_def same_reads_def wx_libs wx_outstanding tables_def split: prod.splits)
  moreover have "verb_keeps wx_device (ibv_req_notify_cq wx_platform q fl)"
    "verb_keeps wx_device (ibv_post_recv wx_platform q wr bad)" for q fl wr bad
    by (auto simp: verb_keeps_def same_reads_def wx_in_place wx_verbs(3) wx_notify)
  ultimately show ?thesis by (simp add: reads_contract_def) (simp add: wx_device_def)
qed

lemma wx_starts: "starts_contract wx_platform wx_device"
proof -
  have "stays_put wx_device (lib_reg_mr wx_platform p ad len acc)" for p ad len acc
    by (auto simp: stays_put_def wx_libs wx_reg_def wx_outstanding tables_def split: prod.splits if_splits)
  then show ?thesis
    by (simp add: starts_contract_def)
      (simp add: counts_def stays_put_def wx_libs wx_notify wx_outstanding tables_def wx_in_place optional_range_value)
qed

lemma wx_regions: "reg_contract wx_platform wx_live"
proof -
  have "rx_live (Suc k) = insert (of_nat (Suc k)) (rx_live k)" "of_nat (Suc k) \<notin> rx_live k" if "k < 100" for k
    using that by (auto simp: rx_live_def le_Suc_eq rx_small simp del: of_nat_Suc)
  then show ?thesis
    unfolding reg_contract_def
    by (auto simp: wx_libs wx_reg_def wx_live_def optional_range_value simp del: of_nat_Suc split: prod.splits if_splits)
qed

lemma wx_accepts: "accepts wx_platform wx_device wx_live"
proof -
  have "takes wx_platform wx_device wx_live"
    by (auto simp: takes_def wx_in_place wx_verbs(2) split: prod.splits)
  moreover have "dev_leaves wx_device wx_live" by (simp add: dev_leaves_def wx_device_def)
  moreover have "leaves wx_device wx_live (ibv_poll_cq wx_platform q n wc)" "leaves wx_device wx_live (ibv_post_send wx_platform q wr bad)"
    "leaves wx_device wx_live (ibv_post_recv wx_platform q wr bad)" "leaves wx_device wx_live (ibv_req_notify_cq wx_platform q fl)"
    for q n wc wr bad fl
    by (auto simp: leaves_def wx_in_place wx_verbs wx_notify regs_def wx_live_def tables_def split: prod.splits if_splits)
  moreover have "leaves wx_device wx_live (lib_get_cm_event wx_platform ch)" "leaves wx_device wx_live (lib_ack_cm_event wx_platform e)"
    "leaves wx_device wx_live (lib_resolve_route wx_platform i ms)" "leaves wx_device wx_live (lib_get_cq_event wx_platform ch)"
    "leaves wx_device wx_live (lib_ack_cq_events wx_platform q n)" "leaves wx_device wx_live (lib_malloc wx_platform sz)"
    "leaves wx_device wx_live (lib_connect wx_platform i par)" for ch e i ms q n sz par
    by (auto simp: leaves_def wx_libs regs_def wx_live_def tables_def split: prod.splits)
  ultimately show ?thesis by (simp add: accepts_def)
qed

text \<open>
  The other threads as in \<open>Client_Start_Example\<close>; a message with a length above \<open>rdma_size\<close> does not
  arrive.
\<close>

definition wx_env :: "wx_world client \<Rightarrow> fatal + wx_world client" where
  "wx_env s =
     (case if cstate s = INIT \<or> cstate s \<noteq> CONNECTED \<and> cq_pc s \<noteq> Cq_none then client_cm_thread wx_platform s
           else if cstate s = CONNECTED \<and> (cq_pc s \<noteq> Cq_poll \<or> 0 < pendingReads s \<or> \<not> GET_CLASS_ADDR s)
           then client_cq_thread wx_platform s else None of
        Some (Inr t) \<Rightarrow> Inr (if modest t then t else s)
      | _ \<Rightarrow> Inr s)"

lemma wx_env_moves:
  "wx_env s = Inr t \<Longrightarrow> t = s \<or> modest t \<and> (client_cm_thread wx_platform s = Some (Inr t) \<or> client_cq_thread wx_platform s = Some (Inr t))"
  by (auto simp: wx_env_def split: if_splits option.splits sum.splits)

lemma wx_runs_beside: "runs_beside (client_env_step wx_platform (dev_step wx_device)) wx_env"
  unfolding runs_beside_def
  using wx_env_moves by (metis client_env_step.cm client_env_step.cq r_into_rtranclp rtranclp.rtrancl_refl)

definition wx_client :: "wx_world client" where
  "wx_client = (undefined :: wx_world client)\<lparr>cq_pc := Cq_none, cstate := INIT, pendingReads := 0,
     GET_RDMA_ADDR := False, GET_CLASS_ADDR := False, recv_buf_addr := 0x1000, send_buf_addr := 0x1010,
     rdma_buf := 0x2000, rdma_size := 1000, start_buf := 0x2400, start_size := 1000,
     recv_sgl_addr := 0x3000, send_sgl_addr := 0x3010, rdma_sgl_addr := 0x3020,
     sq_wr_addr := 0x3100, rdma_sq_wr_addr := 0x3180,
     sketch_info := (undefined :: sketch_rdma_info)\<lparr>sk_data_size := 1000, sk_data_buf := 0x5000, sketch_seg := 0x3300\<rparr>,
     mach := (undefined :: wx_world machine)\<lparr>world := (0, 0, 0, 0), addrinfo_at := \<lambda>_. (2, 0x5000)\<rparr>\<rparr>"

lemma client_session_typed_witness:
  "client_session wx_platform wx_env wx_client \<noteq> Some (Inl Post_send_error)"
proof (rule client_session_typed [THEN conjunct1, OF wx_reads wx_starts wx_regions wx_accepts wx_runs_beside])
  show "\<forall>s. wx_env s \<noteq> Inl Post_send_error"
    by (simp add: wx_env_def split: option.split sum.split)
  show "\<forall>s t. wx_env s = Inr t \<longrightarrow> modest s \<longrightarrow> modest t"
    using wx_env_moves by blast
  show "laid_out 1000 wx_client" by (simp add: laid_out_def wx_client_def)
qed (simp_all add: wx_client_def wx_outstanding)

end
