(* ===== verification/Spec2Isabelle.thy ===== *)
theory Spec2Isabelle
  imports Common_Tools Verbs_Laws Common_Cm Reads_Example Sends_Example Regions_Example Copies_Example
    Session_Example Lifecycle_Example Ibinfo Dataflow_Example Transmission_Example Client_Start_Example Server_Start_Example
    Connection_Example Well_Formed_Example
begin

text \<open>
  The repository holds a client and a server that exchange the addresses of their buffers over an
  RDMA connection and then copy data with one-sided READs, a program that prints the device of an
  address, a few C helpers, and the two library headers that they are compiled against.  This
  development models all of it that is written in C and C++.

  \<^bold>\<open>The program.\<close>  The server (src/simplest_server.cpp) registers six buffers, listens, and after the
  connection and the client's message sends three messages: the address, key and size of its plain
  buffer, of the buffer with an \<open>RdmaTest\<close> object and its array, and of a sketch of numbers; the
  immediate values 1122, 1123 and 1124 say which is which.  The client (src/simplest_client.cpp)
  registers seven buffers, connects, sends its own address, and \<open>main\<close> then calls \<open>rdma_read\<close>,
  \<open>read_class\<close> and \<open>ow_read\<close>, which post READs from the three advertised addresses.  In each process a
  main thread, a connection thread (\<open>cm_thread\<close>) and a completion thread (\<open>cq_thread\<close>) share the
  members of one object without locks: the main thread waits in empty loops for flags and for the
  counter \<open>pendingReads\<close>, which the completion thread changes.

  \<^bold>\<open>Theories that model code.\<close>
  \<^item> Prelude: machine integers, C enumerations and flag sets (locales \<open>c_enum\<close> and \<open>c_flags\<close>), and
    statements: a statement maps a state to the next one, to an error that ends the process
    (\<open>Some (Inl e)\<close>), or to \<^const>\<open>None\<close> when it never ends; \<open>await\<close> is the empty loop, a partial
    function, and \<open>thread env\<close> lets \<open>env\<close>, the other threads, run before every statement and in every
    turn of a wait.
  \<^item> Memory: bytes at 64-bit addresses, little-endian words, byte orders; the locale \<open>byte_store\<close> has
    the laws of reading after writing and is interpreted on the functions \<open>read_bytes\<close> and
    \<open>write_bytes\<close>.
  \<^item> Verbs_Base, Verbs_Device, Verbs_Memory, Verbs_Queue, Verbs_Flow, Verbs_Context: the enumerations
    and structures of src/include/verbs.h; Rdma_Cma those of src/include/rdma_cma.h.
  \<^item> Machine: one process: memory, a typed heap for each structure, \<open>errno\<close>, and the type of a
    platform, which holds the functions of the C library, libibverbs and librdmacm that the program
    calls and the code behind the function pointers of a provider.
  \<^item> Verbs_Ops: the inline functions of src/include/verbs.h, which call through \<open>context->ops\<close>,
    \<open>verbs_context\<close>, \<open>ibv_cq_ex\<close> and \<open>ibv_qp_ex\<close>.
  \<^item> Common_Tools and Common_Cm: src/common.c and src/include/common.h.
  \<^item> Data_Struct: src/DataStruct.h and src/DataStruct.cpp, an object as 32 bytes.
  \<^item> Rdma_Utils: src/include/rdma-utils.h and the code that both programs repeat.
  \<^item> Client and Server: every member function and \<open>main\<close> of the two programs.
  \<^item> Ibinfo: src/get_ibinfo.cpp.

  \<^bold>\<open>Theories that prove.\<close>
  \<^item> Common_Tools, Common_Cm, Data_Struct and Verbs_Laws: the helpers, the poll loop, the constructor,
    the availability of extended verbs, the fallback of \<open>ibv_query_device_ex\<close>, keys and flow labels.
  \<^item> Threads: rules for statements beside other threads: invariants of the other threads, statements
    that keep a relation (locale \<open>frame\<close>), statements that come to an end (\<open>halts\<close>, \<open>runs\<close>).
  \<^item> Reads: what \<open>pendingReads\<close> and \<open>RDMA_READ_COMPLETE\<close> say of the device: the three functions of the
    client return only after their READs have completed, and they do return.
  \<^item> Copies: the memory that they leave is that of copies from the advertised addresses; a READ per
    element is one bulk copy.
  \<^item> Sends: the messages of the server, in order and with their contents, and that the shared send
    buffer is not overwritten too early; Sends_End: that the waits for their completions end.
  \<^item> Simulation: labelled steps, and the locale \<open>simulation\<close> of concrete steps that implement an abstract
    transition function.
  \<^item> Session: the client's knowledge as a map from buffers to advertisements: its completion thread
    simulates the abstract update (locale \<open>simulation\<close>, interpreted on the client's threads), and the
    two processes together transmit what the server offers.
  \<^item> Connection: the state of the connection on both sides as a state machine on the events of the
    connection manager, which the threads implement (two more interpretations of \<open>simulation\<close>); what a
    second request does to the server.
  \<^item> Dataflow and Transmission: what the server has put into its buffers is what the client's functions
    give; Dataflow for the two functions of the server alone, Transmission for the end of its \<open>start\<close> in
    every interleaving, as byte ranges that the main thread keeps (\<open>keeping\<close>).
  \<^item> Regions: both processes register their buffers and build entries inside the regions whose keys
    they carry; for the plain buffer only if the peer's length is not larger than the own buffer.
  \<^item> Lifecycle: the start-up: address resolution, the wait for the route, failures.
  \<^item> Starts, Client_Start and Server_Start: the composition with the start-up: that \<open>start\<close> establishes what
    the theories Reads and Sends rely on, in every interleaving with the connection thread.  The locale
    \<open>start_frame\<close> has the laws of a relation that address resolution and registration keep; each
    process has two of them, before and after its queue pair.  The whole of the client's \<open>main\<close> up to
    its last loop keeps its READs in account, and the whole of the server's \<open>start\<close> sends the three
    messages.
  \<^item> Well_Formed: requests whose entries lie in registered regions: the whole of the client's \<open>main\<close> up to
    its last loop posts no others, so that a device that accepts these never makes it exit; \<open>typed\<close> is
    the invariant, \<open>sound\<close> a triple that also excludes an error.
  \<^item> Ibinfo: the resources that the device printer gives back or leaves behind.
  \<^item> The theories whose names end in Example hold concrete platforms and devices, and apply the
    properties to them.  Platform_Example is the platform on which every call succeeds.

  \<^bold>\<open>What is assumed of other code.\<close>  Nothing is assumed of a platform except by a named predicate
  in a statement.  \<open>reads_contract\<close> and \<open>sends_contract\<close>: a posted request is outstanding until its
  completion is polled, completions are those of posted requests, and no other call touches the
  requests or private memory.  \<open>transfers\<close>: the bytes of a successful READ are in its scatter list when
  its completion is taken; \<open>reliable\<close>: all completions are successful (the program never looks at the
  status).  \<open>reg_contract\<close>: a registered region has the address and length asked for.  \<open>accounts\<close>: each
  call of the device printer acquires or gives back its resource.  \<open>writes_device_attr\<close>: the classic
  device query writes its own structure only.  \<open>starts_contract\<close> and \<open>server_starts_contract\<close>: the calls of
  the start-up neither post nor send anything, a successful \<open>rdma_create_qp\<close> leaves the provider's
  operations in place, and no later call moves them.  \<open>posts_keep_local\<close> and \<open>posts_keep_memory\<close>: posting
  a send does not write the caller's data.  \<open>accepts\<close>: a well-formed request is accepted while no READ is
  outstanding, and no call of the threads changes the registered regions or the caller's entries and
  requests; \<open>modest\<close>: the peer does not advertise more than \<open>rdma_size\<close> bytes.  \<open>private_range\<close>: memory that neither the device nor the peer
  writes, by \<open>dev_private\<close>.  Each of these has an instance in the example theories.

  \<^bold>\<open>Concurrency.\<close>  \<open>client_env_step\<close> and \<open>server_env_step\<close> are the steps of the other threads and of the
  device; the properties hold for every \<open>env\<close> that takes any number of these steps
  (\<open>runs_beside\<close>).  The completion thread is a state machine with a program counter: wait, poll,
  handle a completion, decrement.  A statement of the main thread is atomic and memory is
  sequentially consistent; the program's members are plain variables, so that a compiler may assume
  more.  Termination is proved for an \<open>env\<close> that makes progress with the outstanding READ.

  \<^bold>\<open>Bounds.\<close>  Integers have the width of the source; \<open>pendingReads\<close> and the \<open>int\<close> loop counters are
  mathematical integers, which they do not leave: there is at most one outstanding READ and a sketch
  has 1000 elements.  No definition uses fuel: loops that may not end are partial functions.

  \<^bold>\<open>Not modelled.\<close>  Terminal output; the \<open>sleep\<close> calls, since any number of steps may happen between
  two statements anyway; the macros for static linking of providers in src/include/verbs.h, which
  define no behaviour; what the compiler may do with the data races; the build description
  (src/CMakeLists.txt, src/push.sh) and the trees that CMake has generated (src/cmake-build-debug,
  src/cmake-build-rdma88, src/cmake-build-rdma89), whose C files only identify a compiler.
\<close>

end
